(* ===== verification/CP_Prelude.thy ===== *)
theory CP_Prelude
  imports Main "HOL-Library.State_Monad"
begin

text \<open>
  What every component of the control plane shares: Go error values and how they are
  inspected, the state-and-result computations the request paths are written in with the
  logic of triples over them, and row updates of an SQL table. The named collections \<open>io_rules\<close> and \<open>table_simps\<close> carry the
  component proofs.
\<close>

named_theorems io_rules \<open>triples of the operations\<close>
named_theorems table_simps \<open>row updates, counts and look-ups in tables\<close>

section \<open>Go error values\<close>

text \<open>
  \<open>Sentinel\<close> is a package-level error variable, compared by identity; \<open>PgError\<close> carries
  the SQLSTATE of a \<open>pgconn.PgError\<close>; \<open>APIError\<close> and \<open>TaskError\<close> are the two error
  structs of the Proxmox client; \<open>GoErr\<close> is any other error value with its text; \<open>Wrap\<close>
  is \<open>fmt.Errorf("text: %w", err)\<close>.
\<close>

datatype go_error =
    Sentinel string
  | PgError string
  | APIError int string "(string \<times> string) list"
  | TaskError string string string
  | GoErr string
  | Wrap string go_error

type_synonym 'a res = "go_error + 'a"

text \<open>\<open>errors.Is\<close> against a sentinel: the chain of wrapped errors is followed.\<close>

fun errors_is :: "go_error \<Rightarrow> go_error \<Rightarrow> bool" where
  "errors_is (Wrap m e) t = errors_is e t"
| "errors_is e t = (e = t)"

text \<open>\<open>errors.As\<close> into a \<open>pgconn.PgError\<close>, with the code read off it.\<close>

fun pg_code :: "go_error \<Rightarrow> string option" where
  "pg_code (Wrap m e) = pg_code e"
| "pg_code (PgError c) = Some c"
| "pg_code e = None"

abbreviation ErrNoRows :: go_error where
  "ErrNoRows \<equiv> Sentinel ''pgx.ErrNoRows''"

abbreviation unique_violation :: go_error where
  "unique_violation \<equiv> PgError ''23505''"

abbreviation foreign_key_violation :: go_error where
  "foreign_key_violation \<equiv> PgError ''23503''"

abbreviation check_violation :: go_error where
  "check_violation \<equiv> PgError ''23514''"

abbreviation out_of_range :: go_error where
  "out_of_range \<equiv> PgError ''22003''"

text \<open>\<open>if err != nil { return ..., fmt.Errorf("msg: %w", err) }\<close>.\<close>

definition wrap_err :: "string \<Rightarrow> 'a res \<Rightarrow> 'a res" where
  "wrap_err m r = (case r of Inl e \<Rightarrow> Inl (Wrap m e) | Inr x \<Rightarrow> Inr x)"

lemma wrap_err_simps [simp]:
  "wrap_err m (Inl e) = Inl (Wrap m e)" "wrap_err m (Inr x) = Inr x"
  by (simp_all add: wrap_err_def)

lemma wrap_err_Inr [simp]: "wrap_err m r = Inr x \<longleftrightarrow> r = Inr x"
  by (cases r) auto

section \<open>A logic for sequential programs\<close>

text \<open>
  Every operation of the model is a computation \<open>('w, 'a res) state\<close>. \<open>triple I R m V\<close> says: from
  a state that satisfies \<open>I\<close>, running \<open>m\<close> moves along \<open>R\<close> and returns a value that satisfies \<open>V\<close>.
  When \<open>R\<close> is reflexive and transitive and keeps \<open>I\<close>, the triples are closed under the control
  structures the handlers use; \<open>t_control\<close> collects the rules that need no intermediate
  assertion. Reachability in a transition system, invariants
  (\<open>I w \<longrightarrow> I w'\<close>) and frame conditions (\<open>f w = f w'\<close>) are the relations the components
  interpret this with.
\<close>

definition triple ::
  "('w \<Rightarrow> bool) \<Rightarrow> ('w \<Rightarrow> 'w \<Rightarrow> bool) \<Rightarrow> ('w, 'a) state \<Rightarrow> ('a \<Rightarrow> bool) \<Rightarrow> bool" where
  "triple I R m V \<longleftrightarrow> (\<forall>w. I w \<longrightarrow> R w (snd (run_state m w)) \<and> V (fst (run_state m w)))"

lemma tripleI:
  "(\<And>w. I w \<Longrightarrow> R w (snd (run_state m w)) \<and> V (fst (run_state m w))) \<Longrightarrow> triple I R m V"
  by (simp add: triple_def)

lemma triple_run: "triple I R m V \<Longrightarrow> I w \<Longrightarrow> R w (snd (run_state m w))"
  by (simp add: triple_def)

lemma triple_val: "triple I R m V \<Longrightarrow> I w \<Longrightarrow> V (fst (run_state m w))"
  by (simp add: triple_def)

lemma triple_weaken: "triple I R m V \<Longrightarrow> (\<And>x. V x \<Longrightarrow> W x) \<Longrightarrow> triple I R m W"
  by (auto simp: triple_def)

locale effect_logic =
  fixes I :: "'w \<Rightarrow> bool"
    and R :: "'w \<Rightarrow> 'w \<Rightarrow> bool"
  assumes R_refl: "R s s"
    and R_trans: "R s t \<Longrightarrow> R t u \<Longrightarrow> R s u"
    and I_stable: "R s t \<Longrightarrow> I s \<Longrightarrow> I t"
begin

lemma t_return: "V x \<Longrightarrow> triple I R (State_Monad.return x) V"
  by (simp add: triple_def R_refl)

lemma t_bind:
  assumes "triple I R m U" and "\<And>x. U x \<Longrightarrow> triple I R (f x) V"
  shows "triple I R (State_Monad.bind m f) V"
proof (rule tripleI)
  fix w
  assume w: "I w"
  obtain a w1 where m: "run_state m w = (a, w1)" by fastforce
  with assms(1) w have "R w w1" "U a" by (auto simp: triple_def dest: spec [of _ w])
  with w assms(2) have "R w1 (snd (run_state (f a) w1)) \<and> V (fst (run_state (f a) w1))"
    by (auto simp: triple_def intro: I_stable)
  with m \<open>R w w1\<close> show "R w (snd (run_state (State_Monad.bind m f) w))
      \<and> V (fst (run_state (State_Monad.bind m f) w))"
    by (auto intro: R_trans)
qed

lemma t_get: "triple I R State_Monad.get I"
  by (simp add: triple_def R_refl)

lemma t_if:
  "\<lbrakk>b \<Longrightarrow> triple I R m V; \<not> b \<Longrightarrow> triple I R n V\<rbrakk> \<Longrightarrow> triple I R (if b then m else n) V"
  by simp

lemma t_sum:
  "\<lbrakk>\<And>e. r = Inl e \<Longrightarrow> triple I R (f e) V; \<And>x. r = Inr x \<Longrightarrow> triple I R (g x) V\<rbrakk>
   \<Longrightarrow> triple I R (case r of Inl e \<Rightarrow> f e | Inr x \<Rightarrow> g x) V"
  by (cases r) auto

lemma t_option:
  "\<lbrakk>r = None \<Longrightarrow> triple I R m V; \<And>x. r = Some x \<Longrightarrow> triple I R (g x) V\<rbrakk>
   \<Longrightarrow> triple I R (case r of None \<Rightarrow> m | Some x \<Rightarrow> g x) V"
  by (cases r) auto

lemma t_list:
  "\<lbrakk>r = [] \<Longrightarrow> triple I R m V; \<And>x xs. r = x # xs \<Longrightarrow> triple I R (g x xs) V\<rbrakk>
   \<Longrightarrow> triple I R (case r of [] \<Rightarrow> m | x # xs \<Rightarrow> g x xs) V"
  by (cases r) auto

lemma t_prod:
  "(\<And>x y. p = (x, y) \<Longrightarrow> triple I R (g x y) V) \<Longrightarrow> triple I R (case p of (x, y) \<Rightarrow> g x y) V"
  by (cases p) auto

lemma t_let: "triple I R (f x) V \<Longrightarrow> triple I R (let y = x in f y) V"
  by simp

lemma t_seq:
  "\<lbrakk>triple I R m (\<lambda>_. True); \<And>x. triple I R (f x) V\<rbrakk> \<Longrightarrow> triple I R (State_Monad.bind m f) V"
  by (rule t_bind)

lemmas t_control = t_return t_seq t_if t_sum t_option t_list t_prod t_let

end

text \<open>
  Compensation: an attempt either succeeds, having moved along \<open>R\<close> only, or it has run a
  compensation \<open>F\<close> last, in a state reached along \<open>R\<close>. \<open>S\<close> recognises the values of success.
\<close>

definition attempt ::
  "('w \<Rightarrow> 'w \<Rightarrow> bool) \<Rightarrow> ('w \<Rightarrow> 'w \<Rightarrow> bool) \<Rightarrow> ('a \<Rightarrow> bool) \<Rightarrow> ('w, 'a) state \<Rightarrow> bool" where
  "attempt R F S m \<longleftrightarrow> (\<forall>w. if S (fst (run_state m w)) then R w (snd (run_state m w))
                             else (\<exists>w1. R w w1 \<and> F w1 (snd (run_state m w))))"

context effect_logic
begin

lemma a_return: "S x \<Longrightarrow> attempt R F S (State_Monad.return x)"
  by (simp add: attempt_def R_refl)

lemma a_fail: "(\<And>w. \<not> S (fst (run_state m w)) \<and> F w (snd (run_state m w))) \<Longrightarrow> attempt R F S m"
  unfolding attempt_def using R_refl by (metis (full_types))

lemma a_bind:
  assumes "triple (\<lambda>_. True) R m (\<lambda>_. True)" "\<And>x. attempt R F S (f x)"
  shows "attempt R F S (State_Monad.bind m f)"
  unfolding attempt_def
proof
  fix w
  obtain a w1 where m: "run_state m w = (a, w1)" by fastforce
  with assms(1) have "R w w1" by (auto simp: triple_def dest: spec [of _ w])
  with assms(2) [of a] m show "if S (fst (run_state (State_Monad.bind m f) w))
      then R w (snd (run_state (State_Monad.bind m f) w))
      else \<exists>w1. R w w1 \<and> F w1 (snd (run_state (State_Monad.bind m f) w))"
    unfolding attempt_def by (auto dest!: spec [of _ w1] intro: R_trans split: if_splits)
qed

lemma a_if: "\<lbrakk>b \<Longrightarrow> attempt R F S m; \<not> b \<Longrightarrow> attempt R F S n\<rbrakk> \<Longrightarrow> attempt R F S (if b then m else n)"
  by simp

lemma a_sum:
  "\<lbrakk>\<And>e. attempt R F S (f e); \<And>x. attempt R F S (g x)\<rbrakk>
   \<Longrightarrow> attempt R F S (case r of Inl e \<Rightarrow> f e | Inr x \<Rightarrow> g x)"
  by (cases r) auto

lemma a_option:
  "\<lbrakk>attempt R F S m; \<And>x. attempt R F S (g x)\<rbrakk>
   \<Longrightarrow> attempt R F S (case r of None \<Rightarrow> m | Some x \<Rightarrow> g x)"
  by (cases r) auto

lemma a_let: "(\<And>y. y = x \<Longrightarrow> attempt R F S (f y)) \<Longrightarrow> attempt R F S (let y = x in f y)"
  by simp

lemma a_then:
  assumes "attempt R F (\<lambda>x. x \<noteq> None) m" "\<not> S y" "\<And>x. attempt R F S (f x)"
  shows "attempt R F S (State_Monad.bind m (\<lambda>r. case r of None \<Rightarrow> State_Monad.return y | Some x \<Rightarrow> f x))"
  unfolding attempt_def
proof
  fix w
  let ?m = "State_Monad.bind m (\<lambda>r. case r of None \<Rightarrow> State_Monad.return y | Some x \<Rightarrow> f x)"
  obtain r w1 where r: "run_state m w = (r, w1)" by fastforce
  show "if S (fst (run_state ?m w)) then R w (snd (run_state ?m w))
      else \<exists>w0. R w w0 \<and> F w0 (snd (run_state ?m w))"
  proof (cases r)
    case None
    with assms(1,2) r show ?thesis unfolding attempt_def by (auto dest!: spec [of _ w])
  next
    case (Some x)
    with assms(1) r have "R w w1" unfolding attempt_def by (auto dest!: spec [of _ w])
    with assms(3) [of x] r Some show ?thesis
      unfolding attempt_def by (auto dest!: spec [of _ w1] intro: R_trans split: if_splits)
  qed
qed

lemmas a_control = a_return a_bind a_if a_sum a_option a_let

end

section \<open>Tables\<close>

text \<open>
  A table is the list of its rows. \<open>UPDATE t SET f WHERE P\<close> maps the rows that satisfy \<open>P\<close>
  and reports how many there were; \<open>SELECT ... WHERE P\<close> filters.
\<close>

definition update_where :: "('r \<Rightarrow> bool) \<Rightarrow> ('r \<Rightarrow> 'r) \<Rightarrow> 'r list \<Rightarrow> 'r list" where
  "update_where P f rs = map (\<lambda>r. if P r then f r else r) rs"

definition count_where :: "('r \<Rightarrow> bool) \<Rightarrow> 'r list \<Rightarrow> nat" where
  "count_where P rs = length (filter P rs)"

definition select_one :: "('r \<Rightarrow> bool) \<Rightarrow> 'r list \<Rightarrow> 'r option" where
  "select_one P rs = find P rs"

lemma length_update_where [simp]: "length (update_where P f rs) = length rs"
  by (simp add: update_where_def)

lemma set_update_where:
  "set (update_where P f rs) = (\<lambda>r. if P r then f r else r) ` set rs"
  by (simp add: update_where_def)

lemma map_update_where [table_simps]:
  "(\<And>r. P r \<Longrightarrow> k (f r) = k r) \<Longrightarrow> map k (update_where P f rs) = map k rs"
  by (auto simp: update_where_def)

lemma count_where_zero [table_simps]: "count_where P rs = 0 \<longleftrightarrow> (\<forall>r\<in>set rs. \<not> P r)"
  by (auto simp: count_where_def filter_empty_conv)

lemma update_where_none [table_simps]:
  "(\<And>r. r \<in> set rs \<Longrightarrow> \<not> P r) \<Longrightarrow> update_where P f rs = rs"
  by (auto simp: update_where_def intro: map_idI)

lemma select_one_Some: "select_one P rs = Some r \<Longrightarrow> r \<in> set rs \<and> P r"
  by (auto simp: select_one_def find_Some_iff)

lemma select_one_None [table_simps]: "select_one P rs = None \<longleftrightarrow> (\<forall>r\<in>set rs. \<not> P r)"
  by (auto simp: select_one_def find_None_iff)

text \<open>Without \<open>ORDER BY\<close>, \<open>LIMIT 1\<close> may return any of the rows that match: \<open>n\<close> says which.\<close>

definition select_any :: "nat \<Rightarrow> ('r \<Rightarrow> bool) \<Rightarrow> 'r list \<Rightarrow> 'r option" where
  "select_any n P rs = (let found = filter P rs in if found = [] then None else Some (found ! (n mod length found)))"

lemma select_any_None [table_simps]: "select_any n P rs = None \<longleftrightarrow> (\<forall>r\<in>set rs. \<not> P r)"
  by (simp add: select_any_def Let_def filter_empty_conv)

lemma select_any_Some:
  assumes "select_any n P rs = Some r"
  shows "r \<in> set rs \<and> P r"
proof -
  have ne: "filter P rs \<noteq> []" and r: "r = filter P rs ! (n mod length (filter P rs))"
    using assms by (auto simp: select_any_def Let_def split: if_splits)
  from ne have "n mod length (filter P rs) < length (filter P rs)" by (intro mod_less_divisor) simp
  then have "r \<in> set (filter P rs)" unfolding r by (rule nth_mem)
  then show ?thesis by simp
qed

lemma select_any_only:
  assumes "r \<in> set rs" "P r" "\<And>s. s \<in> set rs \<Longrightarrow> P s \<Longrightarrow> s = r"
  shows "select_any n P rs = Some r"
proof (cases "select_any n P rs")
  case None
  with assms(1,2) show ?thesis by (auto simp: select_any_None)
next
  case (Some s)
  with select_any_Some [OF this] assms(3) show ?thesis by auto
qed

lemma select_one_key:
  assumes "distinct (map k rs)" "r \<in> set rs"
  shows "select_one (\<lambda>s. k s = k r) rs = Some r"
  using assms
proof (induction rs)
  case (Cons a rs)
  show ?case
  proof (cases "k a = k r")
    case True
    with Cons.prems have "a = r" by (auto simp: image_iff)
    then show ?thesis by (simp add: select_one_def)
  next
    case False
    with Cons show ?thesis by (auto simp: select_one_def)
  qed
qed simp

lemma select_one_update_where:
  assumes "\<And>r. P r \<Longrightarrow> Q (f r) = Q r"
  shows "select_one Q (update_where P f rs)
           = map_option (\<lambda>r. if P r then f r else r) (select_one Q rs)"
  using assms by (induction rs) (auto simp: select_one_def update_where_def)

lemma count_where_update_where:
  assumes "\<And>r. P r \<Longrightarrow> Q (f r) = Q r"
  shows "count_where Q (update_where P f rs) = count_where Q rs"
  using assms by (induction rs) (auto simp: count_where_def update_where_def)

text \<open>\<open>ORDER BY key DESC\<close>: rows with equal keys keep their table order.\<close>

definition order_desc :: "('r \<Rightarrow> int) \<Rightarrow> 'r list \<Rightarrow> 'r list" where
  "order_desc k rs = sort_key (\<lambda>r. - k r) rs"

lemma set_order_desc [simp]: "set (order_desc k rs) = set rs"
  by (simp add: order_desc_def)

lemma length_order_desc [simp]: "length (order_desc k rs) = length rs"
  by (simp add: order_desc_def)

lemma order_desc_sorted:
  "sorted_wrt (\<lambda>a b. k b \<le> k a) (order_desc k rs)"
proof -
  have "sorted (map (\<lambda>r. - k r) (order_desc k rs))"
    by (simp add: order_desc_def)
  then show ?thesis by (simp add: sorted_map)
qed

lemma order_desc_hd:
  assumes "order_desc k rs = r # rest" "s \<in> set rs"
  shows "k s \<le> k r"
proof -
  from assms have "s \<in> set (r # rest)" by (metis set_order_desc)
  moreover from order_desc_sorted [of k rs] assms(1) have "\<forall>x\<in>set rest. k x \<le> k r" by simp
  ultimately show ?thesis by auto
qed

text \<open>\<open>ORDER BY\<close> with an order on the rows: a stable insertion sort.\<close>

fun insert_by :: "('r \<Rightarrow> 'r \<Rightarrow> bool) \<Rightarrow> 'r \<Rightarrow> 'r list \<Rightarrow> 'r list" where
  "insert_by le x [] = [x]"
| "insert_by le x (y # ys) = (if le x y then x # y # ys else y # insert_by le x ys)"

definition order_by :: "('r \<Rightarrow> 'r \<Rightarrow> bool) \<Rightarrow> 'r list \<Rightarrow> 'r list" where
  "order_by le rs = foldr (insert_by le) rs []"

lemma set_insert_by [simp]: "set (insert_by le x ys) = insert x (set ys)"
  by (induction ys) auto

lemma set_order_by [simp]: "set (order_by le rs) = set rs"
  by (induction rs) (auto simp: order_by_def)

lemma length_insert_by [simp]: "length (insert_by le x ys) = Suc (length ys)"
  by (induction ys) auto

lemma length_order_by [simp]: "length (order_by le rs) = length rs"
  by (induction rs) (auto simp: order_by_def)

lemma sorted_insert_by:
  assumes "\<And>a b. le a b \<or> le b a" "\<And>a b c. le a b \<Longrightarrow> le b c \<Longrightarrow> le a c" "sorted_wrt le ys"
  shows "sorted_wrt le (insert_by le x ys)"
  using assms(3)
proof (induction ys)
  case (Cons y ys)
  then show ?case using assms(1,2) by auto
qed simp

lemma sorted_order_by:
  assumes "\<And>a b. le a b \<or> le b a" "\<And>a b c. le a b \<Longrightarrow> le b c \<Longrightarrow> le a c"
  shows "sorted_wrt le (order_by le rs)"
  by (induction rs) (auto simp: order_by_def intro!: sorted_insert_by assms(1) dest: assms(2))

text \<open>\<open>LIMIT\<close> and \<open>OFFSET\<close> with the total of the unlimited query (\<open>COUNT(*) OVER()\<close>), which
  is only seen on a returned row: an empty page reports a total of 0.\<close>

definition page :: "int \<Rightarrow> int \<Rightarrow> 'r list \<Rightarrow> 'r list \<times> nat" where
  "page limit offset rs =
     (let items = take (nat limit) (drop (nat offset) rs)
      in (items, if items = [] then 0 else length rs))"

lemma page_bound: "page l off rs = (items, tot) \<Longrightarrow> length items \<le> nat l \<and> length items \<le> length rs"
  by (auto simp: page_def Let_def)

lemma page_total: "page l off rs = (items, tot) \<Longrightarrow> items \<noteq> [] \<Longrightarrow> tot = length rs"
  by (auto simp: page_def Let_def)

end
