(* ===== verification/CP_Text.thy ===== *)
theory CP_Text
  imports CP_Prelude
begin

text \<open>
  Text as the Go code handles it: strings are byte strings (\<^typ>\<open>char list\<close>). Regular
  expressions with a derivative matcher and its language, decimal printing (\<open>%d\<close>) with the
  parser that inverts it, and the helpers of package \<open>strings\<close> that the sources use.
\<close>

section \<open>Characters and decimal numbers\<close>

abbreviation code :: "char \<Rightarrow> nat" where
  "code c \<equiv> of_char c"

definition is_digit :: "char \<Rightarrow> bool" where
  "is_digit c \<longleftrightarrow> 48 \<le> code c \<and> code c \<le> 57"

definition is_lower :: "char \<Rightarrow> bool" where
  "is_lower c \<longleftrightarrow> 97 \<le> code c \<and> code c \<le> 122"

definition is_upper :: "char \<Rightarrow> bool" where
  "is_upper c \<longleftrightarrow> 65 \<le> code c \<and> code c \<le> 90"

definition digit_char :: "nat \<Rightarrow> char" where
  "digit_char d = char_of (48 + d)"

definition digit_val :: "char \<Rightarrow> nat" where
  "digit_val c = code c - 48"

fun string_of_nat :: "nat \<Rightarrow> string" where
  "string_of_nat n =
     (if n < 10 then [digit_char n] else string_of_nat (n div 10) @ [digit_char (n mod 10)])"

declare string_of_nat.simps [simp del]

definition string_of_int :: "int \<Rightarrow> string" where
  "string_of_int i = (if i < 0 then ''-'' @ string_of_nat (nat (- i)) else string_of_nat (nat i))"

definition digits_val :: "string \<Rightarrow> nat" where
  "digits_val s = foldl (\<lambda>n c. 10 * n + digit_val c) 0 s"

lemma code_digit_char [simp]: "d < 10 \<Longrightarrow> code (digit_char d) = 48 + d"
  by (simp add: digit_char_def of_char_of)

lemma is_digit_digit_char [simp]: "d < 10 \<Longrightarrow> is_digit (digit_char d)"
  by (simp add: is_digit_def)

lemma digit_val_digit_char [simp]: "d < 10 \<Longrightarrow> digit_val (digit_char d) = d"
  by (simp add: digit_val_def)

lemma digits_val_snoc [simp]: "digits_val (s @ [c]) = 10 * digits_val s + digit_val c"
  by (simp add: digits_val_def)

lemma digits_val_Nil [simp]: "digits_val [] = 0"
  by (simp add: digits_val_def)

lemma digits_val_single [simp]: "digits_val [c] = digit_val c"
  by (simp add: digits_val_def)

lemma digits_val_string_of_nat [simp]: "digits_val (string_of_nat n) = n"
proof (induction n rule: string_of_nat.induct)
  case (1 n)
  then show ?case by (cases "n < 10") (simp_all add: string_of_nat.simps [of n])
qed

lemma string_of_nat_digits: "\<forall>c\<in>set (string_of_nat n). is_digit c"
proof (induction n rule: string_of_nat.induct)
  case (1 n)
  then show ?case by (cases "n < 10") (simp_all add: string_of_nat.simps [of n])
qed

lemma string_of_nat_nonempty [simp]: "string_of_nat n \<noteq> []"
  by (subst string_of_nat.simps) simp

lemma string_of_nat_hd:
  "0 < n \<Longrightarrow> hd (string_of_nat n) \<noteq> CHR ''0''"
proof (induction n rule: string_of_nat.induct)
  case (1 n)
  show ?case
  proof (cases "n < 10")
    case True
    have "digit_char n \<noteq> CHR ''0''"
    proof
      assume "digit_char n = CHR ''0''"
      then have "code (digit_char n) = code CHR ''0''" by simp
      with True 1(2) show False by simp
    qed
    with True show ?thesis by (simp add: string_of_nat.simps [of n])
  next
    case False
    with 1 show ?thesis by (simp add: string_of_nat.simps [of n])
  qed
qed

lemma string_of_nat_no_leading_zero:
  "1 < length (string_of_nat n) \<Longrightarrow> hd (string_of_nat n) \<noteq> CHR ''0''"
  using string_of_nat_hd [of n] by (cases "n = 0") (simp_all add: string_of_nat.simps [of 0])

lemma string_of_nat_inj [simp]: "string_of_nat a = string_of_nat b \<longleftrightarrow> a = b"
  by (metis digits_val_string_of_nat)

lemma string_of_nat_no_sep:
  "\<not> is_digit c \<Longrightarrow> c \<notin> set (string_of_nat n)"
  using string_of_nat_digits by blast

section \<open>Splitting and joining\<close>

text \<open>\<open>strings.Split(s, sep)\<close> for a one-byte separator: never empty.\<close>

fun split_on :: "char \<Rightarrow> string \<Rightarrow> string list" where
  "split_on c [] = [[]]"
| "split_on c (x # xs) =
     (if x = c then [] # split_on c xs
      else (case split_on c xs of [] \<Rightarrow> [[x]] | y # ys \<Rightarrow> (x # y) # ys))"

lemma split_on_nonempty [simp]: "split_on c s \<noteq> []"
  by (induction s) (auto split: list.splits)

lemma split_on_no_sep: "c \<notin> set s \<Longrightarrow> split_on c s = [s]"
  by (induction s) auto

lemma split_on_append:
  "c \<notin> set s \<Longrightarrow> split_on c (s @ c # t) = s # split_on c t"
  by (induction s) auto

lemma split_on_no_sep_parts: "p \<in> set (split_on c s) \<Longrightarrow> c \<notin> set p"
proof (induction s arbitrary: p)
  case (Cons x xs)
  show ?case
  proof (cases "x = c")
    case True
    with Cons show ?thesis by auto
  next
    case False
    obtain y ys where "split_on c xs = y # ys" using split_on_nonempty by (meson list.exhaust)
    with False Cons show ?thesis by auto
  qed
qed simp

text \<open>\<open>strings.LastIndexByte\<close> as a split: the text before and after the last separator.\<close>

definition split_last :: "char \<Rightarrow> string \<Rightarrow> (string \<times> string) option" where
  "split_last c s =
     (if c \<in> set s
      then Some (rev (tl (dropWhile (\<lambda>x. x \<noteq> c) (rev s))), rev (takeWhile (\<lambda>x. x \<noteq> c) (rev s)))
      else None)"

lemma split_last_append:
  assumes "c \<notin> set t"
  shows "split_last c (s @ c # t) = Some (s, t)"
proof -
  have d: "dropWhile (\<lambda>x. x \<noteq> c) (rev t @ c # rev s) = c # rev s"
    using assms by (subst dropWhile_append2) auto
  have k: "takeWhile (\<lambda>x. x \<noteq> c) (rev t @ c # rev s) = rev t"
    using assms by (subst takeWhile_append2) auto
  show ?thesis by (simp add: split_last_def d k)
qed

text \<open>\<open>strings.Contains\<close>, and \<open>strings.ToLower\<close> on ASCII.\<close>

fun str_contains :: "string \<Rightarrow> string \<Rightarrow> bool" where
  "str_contains [] sub = (sub = [])"
| "str_contains (c # s) sub = (take (length sub) (c # s) = sub \<or> str_contains s sub)"

definition char_lower :: "char \<Rightarrow> char" where
  "char_lower c = (if is_upper c then char_of (code c + 32) else c)"

definition to_lower :: "string \<Rightarrow> string" where
  "to_lower s = map char_lower s"

lemma str_contains_Nil [simp]: "str_contains s []"
  by (cases s) simp_all

lemma str_contains_iff: "str_contains s sub \<longleftrightarrow> (\<exists>a b. s = a @ sub @ b)"
proof (induction s)
  case (Cons c s)
  have "take (length sub) (c # s) = sub \<longleftrightarrow> (\<exists>b. c # s = sub @ b)"
    by (metis append_eq_conv_conj append_take_drop_id)
  with Cons show ?case by (auto simp: Cons_eq_append_conv)
qed auto

lemma to_lower_idem [simp]: "to_lower (to_lower s) = to_lower s"
  by (auto simp: to_lower_def char_lower_def is_upper_def)

text \<open>\<open>strings.TrimSpace\<close> on the ASCII white space.\<close>

definition is_space :: "char \<Rightarrow> bool" where
  "is_space c \<longleftrightarrow> c = CHR '' '' \<or> (9 \<le> code c \<and> code c \<le> 13)"

definition trim_right :: "string \<Rightarrow> string" where
  "trim_right s = rev (dropWhile is_space (rev s))"

definition trim_space :: "string \<Rightarrow> string" where
  "trim_space s = trim_right (dropWhile is_space s)"

definition has_prefix :: "string \<Rightarrow> string \<Rightarrow> bool" where
  "has_prefix s p \<longleftrightarrow> take (length p) s = p"

definition trim_prefix :: "string \<Rightarrow> string \<Rightarrow> string" where
  "trim_prefix s p = (if has_prefix s p then drop (length p) s else s)"

section \<open>Regular expressions\<close>

datatype rx = Zero | One | Cls "char \<Rightarrow> bool" | Alt rx rx | Seq rx rx | Star rx

fun nullable :: "rx \<Rightarrow> bool" where
  "nullable Zero = False"
| "nullable One = True"
| "nullable (Cls p) = False"
| "nullable (Alt r s) = (nullable r \<or> nullable s)"
| "nullable (Seq r s) = (nullable r \<and> nullable s)"
| "nullable (Star r) = True"

fun deriv :: "char \<Rightarrow> rx \<Rightarrow> rx" where
  "deriv c Zero = Zero"
| "deriv c One = Zero"
| "deriv c (Cls p) = (if p c then One else Zero)"
| "deriv c (Alt r s) = Alt (deriv c r) (deriv c s)"
| "deriv c (Seq r s) =
     (if nullable r then Alt (Seq (deriv c r) s) (deriv c s) else Seq (deriv c r) s)"
| "deriv c (Star r) = Seq (deriv c r) (Star r)"

fun matches :: "rx \<Rightarrow> string \<Rightarrow> bool" where
  "matches r [] = nullable r"
| "matches r (c # s) = matches (deriv c r) s"

text \<open>One or more: \<open>r+\<close>.\<close>

definition Plus1 :: "rx \<Rightarrow> rx" where
  "Plus1 r = Seq r (Star r)"

inductive in_lang :: "rx \<Rightarrow> string \<Rightarrow> bool" where
  L_One: "in_lang One []"
| L_Cls: "p c \<Longrightarrow> in_lang (Cls p) [c]"
| L_Alt1: "in_lang r s \<Longrightarrow> in_lang (Alt r r') s"
| L_Alt2: "in_lang r' s \<Longrightarrow> in_lang (Alt r r') s"
| L_Seq: "in_lang r s \<Longrightarrow> in_lang r' t \<Longrightarrow> in_lang (Seq r r') (s @ t)"
| L_StarNil: "in_lang (Star r) []"
| L_StarApp: "in_lang r s \<Longrightarrow> in_lang (Star r) t \<Longrightarrow> in_lang (Star r) (s @ t)"

inductive_simps in_lang_Zero [simp]: "in_lang Zero s"
inductive_simps in_lang_One [simp]: "in_lang One s"
inductive_simps in_lang_Cls [simp]: "in_lang (Cls p) s"
inductive_simps in_lang_Alt [simp]: "in_lang (Alt r r') s"
inductive_simps in_lang_Seq: "in_lang (Seq r r') s"
inductive_cases in_lang_StarE: "in_lang (Star r) s"

lemma nullable_iff: "nullable r \<longleftrightarrow> in_lang r []"
  by (induction r) (auto simp: in_lang_Seq intro: in_lang.intros)

lemma in_lang_Star_Cons:
  assumes "in_lang (Star r) (c # s)"
  shows "\<exists>u v. s = u @ v \<and> in_lang r (c # u) \<and> in_lang (Star r) v"
proof -
  have "in_lang q x \<Longrightarrow> q = Star r \<Longrightarrow> x = c # s
          \<Longrightarrow> \<exists>u v. s = u @ v \<and> in_lang r (c # u) \<and> in_lang (Star r) v" for q x
    by (induction q x rule: in_lang.induct) (auto simp: append_eq_Cons_conv)
  with assms show ?thesis by blast
qed

lemma in_lang_Seq_Cons:
  "in_lang (Seq r r') (c # s) \<longleftrightarrow>
     (in_lang r [] \<and> in_lang r' (c # s)) \<or> (\<exists>u v. s = u @ v \<and> in_lang r (c # u) \<and> in_lang r' v)"
  unfolding in_lang_Seq Cons_eq_append_conv by blast

lemma in_lang_Seq_Nil: "in_lang (Seq r r') [] \<longleftrightarrow> in_lang r [] \<and> in_lang r' []"
  by (simp add: in_lang_Seq)

lemma in_lang_deriv: "in_lang (deriv c r) s \<longleftrightarrow> in_lang r (c # s)"
proof (induction r arbitrary: s)
  case (Seq r1 r2)
  show ?case
    by (cases "nullable r1") (auto simp: in_lang_Seq_Cons in_lang_Seq [of "deriv c r1" r2 s] Seq nullable_iff)
next
  case (Star r)
  show ?case
  proof
    assume "in_lang (deriv c (Star r)) s"
    then obtain u v where "s = u @ v" "in_lang r (c # u)" "in_lang (Star r) v"
      by (auto simp: in_lang_Seq Star)
    then show "in_lang (Star r) (c # s)"
      using L_StarApp [of r "c # u" v] by simp
  next
    assume "in_lang (Star r) (c # s)"
    then show "in_lang (deriv c (Star r)) s"
      by (auto simp: in_lang_Seq Star dest: in_lang_Star_Cons)
  qed
qed auto

lemma matches_iff: "matches r s \<longleftrightarrow> in_lang r s"
  by (induction s arbitrary: r) (auto simp: nullable_iff in_lang_deriv)

lemma in_lang_Star_Cls: "in_lang (Star (Cls p)) s \<longleftrightarrow> (\<forall>c\<in>set s. p c)"
proof (induction s)
  case (Cons c s)
  show ?case
  proof
    assume "in_lang (Star (Cls p)) (c # s)"
    then show "\<forall>x\<in>set (c # s). p x" using Cons by (auto dest!: in_lang_Star_Cons)
  next
    assume "\<forall>x\<in>set (c # s). p x"
    then show "in_lang (Star (Cls p)) (c # s)"
      using Cons L_StarApp [of "Cls p" "[c]" s] by auto
  qed
qed (auto intro: in_lang.intros)

lemma matches_Plus1_Cls: "matches (Plus1 (Cls p)) s \<longleftrightarrow> s \<noteq> [] \<and> (\<forall>c\<in>set s. p c)"
  by (cases s)
    (auto simp: matches_iff Plus1_def in_lang_Seq_Cons in_lang_Seq_Nil in_lang_Star_Cls)

text \<open>An identifier pattern: one end character, any inner characters, one end character.\<close>

lemma in_lang_Star_end:
  "in_lang (Seq (Star (Cls i)) (Cls e)) s \<longleftrightarrow> (\<exists>m b. s = m @ [b] \<and> e b \<and> (\<forall>c\<in>set m. i c))"
  unfolding in_lang_Seq in_lang_Star_Cls in_lang_Cls by blast

lemma matches_ends:
  "matches (Seq (Cls e) (Seq (Star (Cls i)) (Cls e))) s \<longleftrightarrow>
     (\<exists>a m b. s = a # m @ [b] \<and> e a \<and> e b \<and> (\<forall>c\<in>set m. i c))"
  by (cases s) (auto simp: matches_iff in_lang_Seq_Cons in_lang_Seq_Nil in_lang_Star_end)

end
