(* ===== verification/CP_Netip.thy ===== *)
theory CP_Netip
  imports CP_Text "HOL-Library.Word"
begin

unbundle bit_operations_syntax

text \<open>
  The part of Go's \<open>strconv\<close> and \<open>net/netip\<close> that the sources use: \<open>Atoi\<close>, IPv4 addresses
  as 32-bit words with their text form, prefixes, and \<open>ParsePrefix\<close>. Whether a text with a
  colon is a zone-free IPv6 address is a parameter (\<open>valid6\<close>): every caller rejects such
  addresses, so only the choice between two errors depends on it.
\<close>

section \<open>strconv.Atoi\<close>

definition atoi :: "string \<Rightarrow> int option" where
  "atoi s =
     (let neg = (s \<noteq> [] \<and> hd s = CHR ''-'');
          ds = (if s \<noteq> [] \<and> (hd s = CHR ''-'' \<or> hd s = CHR ''+'') then tl s else s);
          v = (if neg then - int (digits_val ds) else int (digits_val ds))
      in if ds = [] \<or> (\<exists>c\<in>set ds. \<not> is_digit c) \<or> v < - (2 ^ 63) \<or> 2 ^ 63 \<le> v
         then None else Some v)"

lemma atoi_string_of_nat: "int n < 2 ^ 63 \<Longrightarrow> atoi (string_of_nat n) = Some (int n)"
proof -
  assume n: "int n < 2 ^ 63"
  have "hd (string_of_nat n) \<in> set (string_of_nat n)" by simp
  then have "is_digit (hd (string_of_nat n))" using string_of_nat_digits by blast
  then have "hd (string_of_nat n) \<noteq> CHR ''-''" "hd (string_of_nat n) \<noteq> CHR ''+''"
    by (auto simp: is_digit_def)
  with n string_of_nat_digits [of n] show ?thesis by (auto simp: atoi_def Let_def)
qed

section \<open>IPv4 addresses\<close>

type_synonym ipv4 = "32 word"

text \<open>\<open>Addr.As4\<close> and \<open>AddrFrom4\<close>: the four bytes, most significant first.\<close>

definition as4 :: "ipv4 \<Rightarrow> 8 word list" where
  "as4 a = map (\<lambda>k. ucast (drop_bit k a)) [24, 16, 8, 0]"

definition addr_from4 :: "8 word list \<Rightarrow> ipv4" where
  "addr_from4 bs =
     push_bit 24 (ucast (bs ! 0)) OR push_bit 16 (ucast (bs ! 1))
       OR push_bit 8 (ucast (bs ! 2)) OR ucast (bs ! 3)"

text \<open>\<open>Addr.Next\<close>: the zero \<open>Addr\<close> (not valid, \<open>None\<close>) after 255.255.255.255.\<close>

definition addr_next :: "ipv4 \<Rightarrow> ipv4 option" where
  "addr_next a = (if a + 1 = 0 then None else Some (a + 1))"

definition addr_string :: "ipv4 \<Rightarrow> string" where
  "addr_string a =
     (case map (\<lambda>b. string_of_nat (unat b)) (as4 a) of
        [w, x, y, z] \<Rightarrow> w @ ''.'' @ x @ ''.'' @ y @ ''.'' @ z | _ \<Rightarrow> [])"

definition parse_octet :: "string \<Rightarrow> nat option" where
  "parse_octet s =
     (if s = [] \<or> (\<exists>c\<in>set s. \<not> is_digit c) \<or> (1 < length s \<and> hd s = CHR ''0'') \<or> 255 < digits_val s
      then None else Some (digits_val s))"

definition parse_addr4 :: "string \<Rightarrow> ipv4 option" where
  "parse_addr4 s =
     (case map parse_octet (split_on CHR ''.'' s) of
        [Some w, Some x, Some y, Some z] \<Rightarrow> Some (addr_from4 (map of_nat [w, x, y, z]))
      | _ \<Rightarrow> None)"

lemma bit_addr_from4:
  assumes "length bs = 4"
  shows "bit (addr_from4 bs) n \<longleftrightarrow> n < 32 \<and> bit (bs ! (3 - n div 8)) (n mod 8)"
proof -
  have small: "\<not> bit (b :: 8 word) k" if "8 \<le> k" for b k
    using that bit_imp_le_length [of b k] by force
  have div: "n < 8 \<Longrightarrow> n div 8 = 0 \<and> n mod 8 = n"
    "8 \<le> n \<Longrightarrow> n < 16 \<Longrightarrow> n div 8 = 1 \<and> n mod 8 = n - 8"
    "16 \<le> n \<Longrightarrow> n < 24 \<Longrightarrow> n div 8 = 2 \<and> n mod 8 = n - 16"
    "24 \<le> n \<Longrightarrow> n < 32 \<Longrightarrow> n div 8 = 3 \<and> n mod 8 = n - 24"
    by presburger+
  consider "n < 8" | "8 \<le> n" "n < 16" | "16 \<le> n" "n < 24" | "24 \<le> n" "n < 32" | "32 \<le> n"
    by linarith
  then show ?thesis
  proof cases
    case 1
    then show ?thesis by (auto simp: addr_from4_def bit_simps div(1) small)
  next
    case 2
    then show ?thesis by (auto simp: addr_from4_def bit_simps div(2) small)
  next
    case 3
    then show ?thesis by (auto simp: addr_from4_def bit_simps div(3) small)
  next
    case 4
    then show ?thesis by (auto simp: addr_from4_def bit_simps div(4) small)
  next
    case 5
    then show ?thesis by (auto simp: addr_from4_def bit_simps)
  qed
qed

lemma as4_nth: "i < 4 \<Longrightarrow> as4 a ! i = ucast (drop_bit (8 * (3 - i)) a)"
  by (auto simp: as4_def less_Suc_eq numeral_eq_Suc)

lemma addr_from4_as4 [simp]: "addr_from4 (as4 a) = a"
proof (rule bit_eqI)
  fix n
  assume n: "possible_bit TYPE(32 word) n"
  then have n32: "n < 32" by simp
  have len: "length (as4 a) = 4" by (simp add: as4_def)
  have "n div 8 < 4" using n32 by presburger
  then have "as4 a ! (3 - n div 8) = ucast (drop_bit (8 * (n div 8)) a)"
    by (subst as4_nth) auto
  then have "bit (as4 a ! (3 - n div 8)) (n mod 8) = bit a (8 * (n div 8) + n mod 8)"
    by (simp add: bit_simps)
  then show "bit (addr_from4 (as4 a)) n = bit a n"
    using n32 by (simp add: bit_addr_from4 [OF len])
qed

lemma as4_list: "as4 a = [as4 a ! 0, as4 a ! 1, as4 a ! 2, as4 a ! 3]"
  by (simp add: as4_def)

lemma parse_octet_string_of_nat [simp]:
  "n \<le> 255 \<Longrightarrow> parse_octet (string_of_nat n) = Some n"
  using string_of_nat_digits [of n] string_of_nat_no_leading_zero [of n]
  by (auto simp: parse_octet_def)

lemma unat_byte_le: "unat (b :: 8 word) \<le> 255"
  using unsigned_less [of b, where ?'a = nat] by simp

lemma split_dotted:
  "split_on CHR ''.'' (string_of_nat w @ ''.'' @ string_of_nat x @ ''.'' @ string_of_nat y
      @ ''.'' @ string_of_nat z)
   = [string_of_nat w, string_of_nat x, string_of_nat y, string_of_nat z]"
proof -
  have dot: "CHR ''.'' \<notin> set (string_of_nat n)" for n
    by (rule string_of_nat_no_sep) (simp add: is_digit_def)
  show ?thesis by (simp add: split_on_append split_on_no_sep dot)
qed

theorem parse_addr_string [simp]: "parse_addr4 (addr_string a) = Some a"
proof -
  let ?b = "\<lambda>i. unat (as4 a ! i)"
  have str: "addr_string a = string_of_nat (?b 0) @ ''.'' @ string_of_nat (?b 1) @ ''.''
      @ string_of_nat (?b 2) @ ''.'' @ string_of_nat (?b 3)"
    by (simp add: addr_string_def as4_def)
  have "parse_addr4 (addr_string a) = Some (addr_from4 (map of_nat [?b 0, ?b 1, ?b 2, ?b 3]))"
    unfolding parse_addr4_def str split_dotted by (simp add: unat_byte_le)
  also have "map of_nat [?b 0, ?b 1, ?b 2, ?b 3] = as4 a"
    by (subst (5) as4_list) simp
  finally show ?thesis by simp
qed

lemma addr_string_inj [simp]: "addr_string a = addr_string b \<longleftrightarrow> a = b"
  by (metis option.inject parse_addr_string)

section \<open>Prefixes\<close>

datatype addr = Addr4 ipv4 | Addr6 string

record prefix =
  p_addr :: addr
  p_bits :: nat

definition parse_addr :: "(string \<Rightarrow> bool) \<Rightarrow> string \<Rightarrow> addr option" where
  "parse_addr valid6 s =
     (case find (\<lambda>c. c = CHR ''.'' \<or> c = CHR '':'' \<or> c = CHR ''%'') s of
        None \<Rightarrow> None
      | Some c \<Rightarrow>
          if c = CHR ''.'' then map_option Addr4 (parse_addr4 s)
          else if c = CHR '':'' \<and> valid6 s then Some (Addr6 s)
          else None)"

definition ParsePrefix :: "(string \<Rightarrow> bool) \<Rightarrow> string \<Rightarrow> prefix option" where
  "ParsePrefix valid6 s =
     (case split_last CHR ''/'' s of
        None \<Rightarrow> None
      | Some (ipText, bitsStr) \<Rightarrow>
          (case parse_addr valid6 ipText of
             None \<Rightarrow> None
           | Some ip \<Rightarrow>
               if 1 < length bitsStr \<and> \<not> (is_digit (hd bitsStr) \<and> hd bitsStr \<noteq> CHR ''0'') then None
               else (case atoi bitsStr of
                       None \<Rightarrow> None
                     | Some n \<Rightarrow>
                         let maxBits = (case ip of Addr4 _ \<Rightarrow> 32 | Addr6 _ \<Rightarrow> 128)
                         in if n < 0 \<or> maxBits < n then None
                            else Some \<lparr>p_addr = ip, p_bits = nat n\<rparr>)))"

text \<open>\<open>Prefix.Masked().Addr()\<close> for an IPv4 prefix: the host bits are cleared.\<close>

definition masked :: "ipv4 \<Rightarrow> nat \<Rightarrow> ipv4" where
  "masked a bits = a AND NOT (mask (32 - bits))"

definition prefix_string :: "ipv4 \<Rightarrow> nat \<Rightarrow> string" where
  "prefix_string a bits = addr_string a @ ''/'' @ string_of_nat bits"

lemma ParsePrefix_bits_le:
  "ParsePrefix v s = Some p \<Longrightarrow> p_addr p = Addr4 a \<Longrightarrow> p_bits p \<le> 32"
  by (auto simp: ParsePrefix_def Let_def split: option.splits prod.splits if_splits)

lemma find_dot_addr_string:
  "find (\<lambda>c. c = CHR ''.'' \<or> c = CHR '':'' \<or> c = CHR ''%'') (addr_string a) = Some CHR ''.''"
proof -
  let ?P = "\<lambda>c. c = CHR ''.'' \<or> c = CHR '':'' \<or> c = CHR ''%''"
  have nodigit: "\<forall>c\<in>set (string_of_nat n). \<not> ?P c" for n
    using string_of_nat_digits [of n] by (auto simp: is_digit_def)
  have skip: "\<forall>c\<in>set xs. \<not> P c \<Longrightarrow> P y \<Longrightarrow> find P (xs @ y # ys) = Some y"
    for P and xs ys :: string and y by (induction xs) auto
  obtain b rest where "addr_string a = string_of_nat b @ CHR ''.'' # rest"
    by (simp add: addr_string_def as4_def)
  with skip [of "string_of_nat b" ?P "CHR ''.''" rest] nodigit show ?thesis by simp
qed

theorem ParsePrefix_prefix_string:
  assumes "bits \<le> 32"
  shows "ParsePrefix v (prefix_string a bits) = Some \<lparr>p_addr = Addr4 a, p_bits = bits\<rparr>"
proof -
  have slash: "CHR ''/'' \<notin> set (string_of_nat bits)"
    by (rule string_of_nat_no_sep) (simp add: is_digit_def)
  have "split_last CHR ''/'' (prefix_string a bits) = Some (addr_string a, string_of_nat bits)"
    unfolding prefix_string_def using split_last_append [OF slash] by simp
  moreover have "parse_addr v (addr_string a) = Some (Addr4 a)"
    by (simp add: parse_addr_def find_dot_addr_string)
  moreover have "is_digit (hd (string_of_nat bits))"
    using string_of_nat_digits [of bits] by simp
  moreover have "atoi (string_of_nat bits) = Some (int bits)"
    using assms by (intro atoi_string_of_nat) simp
  ultimately show ?thesis
    using assms string_of_nat_no_leading_zero [of bits] by (simp add: ParsePrefix_def Let_def)
qed

end
