(* ===== verification/CP_Ipalloc.thy ===== *)
theory CP_Ipalloc
  imports CP_Netip
begin

unbundle bit_operations_syntax

text \<open>
  Package \<open>ipalloc\<close> (\<open>src/internal/ipalloc/ipalloc.go\<close>): the pure part, \<open>Next\<close> and \<open>lastAddr\<close>.
  The transaction around it (\<open>Allocate\<close>) is in the schema theory, next to the database.
  The set \<open>used\<close> is the map of taken addresses, by their text.
\<close>

section \<open>lastAddr\<close>

text \<open>\<open>bytes[3-i/8] |= 1 << (i % 8)\<close> for \<open>i\<close> from 0 below \<open>hostBits\<close>.\<close>

definition set_host_bit :: "nat \<Rightarrow> 8 word list \<Rightarrow> 8 word list" where
  "set_host_bit i bs = bs[3 - i div 8 := bs ! (3 - i div 8) OR push_bit (i mod 8) 1]"

definition lastAddr :: "ipv4 \<Rightarrow> nat \<Rightarrow> ipv4" where
  "lastAddr a bits = addr_from4 (fold set_host_bit [0..<32 - bits] (as4 a))"

lemma length_set_host_bit [simp]: "length (set_host_bit i bs) = length bs"
  by (simp add: set_host_bit_def)

lemma length_fold_set_host_bit [simp]: "length (fold set_host_bit is bs) = length bs"
  by (induction "is" arbitrary: bs) auto

lemma addr_from4_set_host_bit:
  assumes "length bs = 4" "i < 32"
  shows "addr_from4 (set_host_bit i bs) = addr_from4 bs OR push_bit i 1"
proof (rule bit_eqI)
  fix n
  assume "possible_bit TYPE(32 word) n"
  then have n: "n < 32" by simp
  have q: "3 - n div 8 < 4" "3 - i div 8 < 4" by auto
  have same: "3 - n div 8 = 3 - i div 8 \<longleftrightarrow> n div 8 = i div 8"
    using n assms(2) by auto
  have eq: "n = i \<longleftrightarrow> n div 8 = i div 8 \<and> n mod 8 = i mod 8"
    by (metis div_mod_decomp)
  have bits: "bit (push_bit (i mod 8) (1 :: 8 word)) (n mod 8) \<longleftrightarrow> n mod 8 = i mod 8"
    by (auto simp: bit_simps)
  have "bit (addr_from4 (set_host_bit i bs)) n
      \<longleftrightarrow> bit (set_host_bit i bs ! (3 - n div 8)) (n mod 8)"
    using assms(1) n by (simp add: bit_addr_from4)
  also have "\<dots> \<longleftrightarrow> bit (bs ! (3 - n div 8)) (n mod 8) \<or> n = i"
    using assms(1) q same eq bits by (auto simp: set_host_bit_def nth_list_update bit_or_iff)
  also have "\<dots> \<longleftrightarrow> bit (addr_from4 bs OR push_bit i 1) n"
    using assms n by (auto simp: bit_addr_from4 bit_or_iff bit_simps)
  finally show "bit (addr_from4 (set_host_bit i bs)) n = bit (addr_from4 bs OR push_bit i 1) n" .
qed

text \<open>The byte loop computes the broadcast address: every host bit set.\<close>

lemma addr_from4_host_bits:
  "h \<le> 32 \<Longrightarrow> addr_from4 (fold set_host_bit [0..<h] (as4 a)) = a OR mask h"
proof (induction h)
  case (Suc h)
  have "addr_from4 (fold set_host_bit [0..<Suc h] (as4 a))
      = addr_from4 (fold set_host_bit [0..<h] (as4 a)) OR push_bit h 1"
    using Suc.prems by (simp add: addr_from4_set_host_bit as4_def)
  also have "\<dots> = a OR (mask h OR push_bit h 1)"
    using Suc by (simp add: or.assoc)
  also have "mask h OR push_bit h 1 = (mask (Suc h) :: ipv4)"
    by (rule bit_eqI) (auto simp: bit_simps less_Suc_eq)
  finally show ?case .
qed simp

lemma lastAddr_eq: "lastAddr a bits = a OR mask (32 - bits)"
  by (simp add: lastAddr_def addr_from4_host_bits)

section \<open>Next\<close>

definition ErrNoIPs :: "string \<Rightarrow> go_error" where
  "ErrNoIPs cidr = GoErr (''no available IPs in '' @ cidr)"

lemma addr_next_less:
  "c < (b :: ipv4) \<Longrightarrow> addr_next c = Some (c + 1) \<and> unat (c + 1) = Suc (unat c)"
proof -
  assume "c < b"
  then have "unat c < unat b" by (simp add: word_less_nat_alt)
  moreover have "unat b < 2 ^ 32" using unsigned_less [of b, where ?'a = nat] by simp
  ultimately have u: "unat (c + 1) = Suc (unat c)" by (simp add: unat_word_ariths)
  then have "c + 1 \<noteq> 0" by (metis nat.distinct(1) unat_0)
  with u show ?thesis by (simp add: addr_next_def)
qed

lemma addr_succ_le: "c < (b :: ipv4) \<Longrightarrow> c + 1 \<le> j \<longleftrightarrow> c < j"
  using addr_next_less [of c b] by (auto simp: word_le_nat_alt word_less_nat_alt)

lemma addr_succ_measure: "c < (b :: ipv4) \<Longrightarrow> unat b - unat (c + 1) < unat b - unat c"
  using addr_next_less [of c b] by (auto simp: word_less_nat_alt)

text \<open>The loop of \<open>Next\<close>: the candidate is \<open>None\<close> once it is the zero \<open>Addr\<close>.\<close>

function next_free :: "ipv4 option \<Rightarrow> ipv4 \<Rightarrow> string set \<Rightarrow> string option" where
  "next_free None broadcast used = None"
| "next_free (Some c) broadcast used =
     (if c < broadcast
      then if addr_string c \<notin> used then Some (addr_string c)
           else next_free (addr_next c) broadcast used
      else None)"
  by pat_completeness auto

termination
proof (relation "measure (\<lambda>(c, b, u). case c of None \<Rightarrow> 0 | Some a \<Rightarrow> Suc (2 ^ 32 - unat a))")
  fix c b :: ipv4 and u :: "string set"
  assume "c < b"
  then have "addr_next c = Some (c + 1)" "unat (c + 1) = Suc (unat c)" "unat c < 2 ^ 32"
    using addr_next_less [of c b] unsigned_less [of c, where ?'a = nat] by simp_all
  then show "((addr_next c, b, u), (Some c, b, u))
      \<in> measure (\<lambda>(c, b, u). case c of None \<Rightarrow> 0 | Some a \<Rightarrow> Suc (2 ^ 32 - unat a))"
    by simp
qed simp

declare next_free.simps(2) [simp del]

definition ErrParseCidr :: "string \<Rightarrow> go_error" where
  "ErrParseCidr cidr = Wrap (''parse cidr '' @ cidr) (GoErr ''netip.ParsePrefix'')"

definition ErrNotIPv4 :: "string \<Rightarrow> go_error" where
  "ErrNotIPv4 cidr = GoErr (''cidr '' @ cidr @ '' is not IPv4'')"

definition Next :: "(string \<Rightarrow> bool) \<Rightarrow> string \<Rightarrow> string set \<Rightarrow> string res" where
  "Next valid6 cidr used =
     (case ParsePrefix valid6 cidr of
        None \<Rightarrow> Inl (ErrParseCidr cidr)
      | Some p \<Rightarrow>
          (case p_addr p of
             Addr6 _ \<Rightarrow> Inl (ErrNotIPv4 cidr)
           | Addr4 a \<Rightarrow>
               let network = masked a (p_bits p);
                   broadcast = lastAddr network (p_bits p);
                   candidate = Option.bind (addr_next network) addr_next
               in (case next_free candidate broadcast used of
                     Some s \<Rightarrow> Inr s
                   | None \<Rightarrow> Inl (ErrNoIPs cidr))))"

section \<open>Correctness of the search\<close>

lemma next_free_step:
  "c < b \<Longrightarrow> addr_string c \<in> used \<Longrightarrow> next_free (Some c) b used = next_free (Some (c + 1)) b used"
  using addr_next_less [of c b] by (subst next_free.simps(2)) simp

lemma next_free_Some:
  "next_free (Some c) b used = Some s \<longleftrightarrow>
     (\<exists>ip. s = addr_string ip \<and> c \<le> ip \<and> ip < b \<and> s \<notin> used
           \<and> (\<forall>j. c \<le> j \<longrightarrow> j < ip \<longrightarrow> addr_string j \<in> used))"
proof (induction "unat b - unat c" arbitrary: c rule: less_induct)
  case less
  show ?case
  proof (cases "c < b \<and> addr_string c \<in> used")
    case True
    have "next_free (Some c) b used = Some s \<longleftrightarrow>
        (\<exists>ip. s = addr_string ip \<and> c < ip \<and> ip < b \<and> s \<notin> used
           \<and> (\<forall>j. c < j \<longrightarrow> j < ip \<longrightarrow> addr_string j \<in> used))"
      using True by (simp add: next_free_step less addr_succ_measure addr_succ_le [of c b])
    also have "\<dots> \<longleftrightarrow> (\<exists>ip. s = addr_string ip \<and> c \<le> ip \<and> ip < b \<and> s \<notin> used
           \<and> (\<forall>j. c \<le> j \<longrightarrow> j < ip \<longrightarrow> addr_string j \<in> used))"
      using True by (metis order.order_iff_strict)
    finally show ?thesis .
  next
    case False
    then consider "\<not> c < b" | "c < b" "addr_string c \<notin> used" by blast
    then show ?thesis
    proof cases
      case 1
      then show ?thesis by (subst next_free.simps(2)) (auto intro: order.strict_trans1)
    next
      case 2
      then show ?thesis by (subst next_free.simps(2)) (auto dest: le_imp_less_or_eq)
    qed
  qed
qed

lemma next_free_None:
  "next_free (Some c) b used = None \<longleftrightarrow> (\<forall>ip. c \<le> ip \<longrightarrow> ip < b \<longrightarrow> addr_string ip \<in> used)"
proof (induction "unat b - unat c" arbitrary: c rule: less_induct)
  case less
  show ?case
  proof (cases "c < b \<and> addr_string c \<in> used")
    case True
    have "next_free (Some c) b used = None \<longleftrightarrow> (\<forall>ip. c < ip \<longrightarrow> ip < b \<longrightarrow> addr_string ip \<in> used)"
      using True by (simp add: next_free_step less addr_succ_measure addr_succ_le [of c b])
    also have "\<dots> \<longleftrightarrow> (\<forall>ip. c \<le> ip \<longrightarrow> ip < b \<longrightarrow> addr_string ip \<in> used)"
      using True by (metis order.order_iff_strict)
    finally show ?thesis .
  next
    case False
    then show ?thesis by (subst next_free.simps(2)) auto
  qed
qed

text \<open>The candidates of a subnet: above the network and gateway addresses, below the broadcast.\<close>

definition host_addr :: "ipv4 \<Rightarrow> nat \<Rightarrow> ipv4 \<Rightarrow> bool" where
  "host_addr a bits ip \<longleftrightarrow>
     unat (masked a bits) + 1 < unat ip \<and> unat ip < unat (a OR mask (32 - bits))"

lemma masked_or_mask: "masked a bits OR mask (32 - bits) = a OR mask (32 - bits)"
  by (rule bit_eqI) (auto simp: masked_def bit_simps)

lemma masked_drop: "masked a bits = push_bit (32 - bits) (drop_bit (32 - bits) a)"
  by (rule bit_eqI) (auto simp: masked_def bit_simps)

lemma drop_bit_mono: "a \<le> b \<Longrightarrow> drop_bit n a \<le> drop_bit n (b :: ipv4)"
  unfolding word_le_nat_alt unat_drop_bit_eq drop_bit_nat_def by (rule div_le_mono)

text \<open>Every address between the network and the broadcast address is in the subnet.\<close>

lemma masked_between:
  assumes "masked a bits \<le> ip" "ip \<le> a OR mask (32 - bits)"
  shows "masked ip bits = masked a bits"
proof -
  let ?h = "32 - bits"
  have "drop_bit ?h (masked a bits) = drop_bit ?h a"
    by (rule bit_eqI) (auto simp: masked_def bit_simps dest: bit_imp_le_length)
  moreover have "drop_bit ?h (a OR mask ?h) = drop_bit ?h a"
    by (rule bit_eqI) (auto simp: bit_simps)
  ultimately have "drop_bit ?h ip = drop_bit ?h a"
    using drop_bit_mono [OF assms(1), of ?h] drop_bit_mono [OF assms(2), of ?h] by simp
  then show ?thesis by (simp add: masked_drop)
qed

lemma host_addr_in_subnet: "host_addr a bits ip \<Longrightarrow> masked ip bits = masked a bits"
  by (rule masked_between) (auto simp: host_addr_def word_le_nat_alt)

lemma first_candidate:
  "Option.bind (addr_next n) addr_next = Some c \<longleftrightarrow> unat c = unat n + 2"
  "Option.bind (addr_next n) addr_next = None \<longleftrightarrow> 2 ^ 32 \<le> unat n + 2"
proof -
  have suc: "addr_next m = (if unat m + 1 < 2 ^ 32 then Some (m + 1) else None)
      \<and> (unat m + 1 < 2 ^ 32 \<longrightarrow> unat (m + 1) = unat m + 1)" for m :: ipv4
  proof (cases "unat m + 1 < 2 ^ 32")
    case True
    then have "unat (m + 1) = unat m + 1" by (simp add: unat_word_ariths)
    with True show ?thesis by (metis add_is_0 addr_next_def one_neq_zero unat_0)
  next
    case False
    moreover have "unat m < 2 ^ 32" using unsigned_less [of m, where ?'a = nat] by simp
    ultimately have "unat m + 1 = 2 ^ 32" by simp
    then have "unat (m + 1) = 0" by (simp add: unat_word_ariths)
    with False show ?thesis by (simp add: addr_next_def unat_eq_0)
  qed
  show "Option.bind (addr_next n) addr_next = None \<longleftrightarrow> 2 ^ 32 \<le> unat n + 2"
    using suc [of n] suc [of "n + 1"] by auto
  have "unat c < 2 ^ 32" using unsigned_less [of c, where ?'a = nat] by simp
  then show "Option.bind (addr_next n) addr_next = Some c \<longleftrightarrow> unat c = unat n + 2"
    using suc [of n] suc [of "n + 1"] by (auto simp: word_unat_eq_iff)
qed

lemma search_Some:
  "next_free (Option.bind (addr_next (masked a bits)) addr_next) (lastAddr (masked a bits) bits) used
     = Some s \<longleftrightarrow>
   (\<exists>ip. s = addr_string ip \<and> host_addr a bits ip \<and> s \<notin> used
         \<and> (\<forall>j. host_addr a bits j \<longrightarrow> j < ip \<longrightarrow> addr_string j \<in> used))"
proof (cases "Option.bind (addr_next (masked a bits)) addr_next")
  case None
  then have "\<not> host_addr a bits ip" for ip
    using first_candidate(2) [of "masked a bits"] unsigned_less [of ip, where ?'a = nat]
    by (auto simp: host_addr_def)
  with None show ?thesis by simp
next
  case (Some c)
  then have c: "unat c = unat (masked a bits) + 2" by (simp add: first_candidate)
  have "host_addr a bits ip \<longleftrightarrow> c \<le> ip \<and> ip < a OR mask (32 - bits)" for ip
    using c by (auto simp: host_addr_def word_le_nat_alt word_less_nat_alt)
  with Some show ?thesis
    by (auto simp: next_free_Some lastAddr_eq masked_or_mask)
qed

lemma search_None:
  "next_free (Option.bind (addr_next (masked a bits)) addr_next) (lastAddr (masked a bits) bits) used
     = None \<longleftrightarrow> (\<forall>ip. host_addr a bits ip \<longrightarrow> addr_string ip \<in> used)"
proof (cases "Option.bind (addr_next (masked a bits)) addr_next")
  case None
  then have "\<not> host_addr a bits ip" for ip
    using first_candidate(2) [of "masked a bits"] unsigned_less [of ip, where ?'a = nat]
    by (auto simp: host_addr_def)
  with None show ?thesis by simp
next
  case (Some c)
  then have c: "unat c = unat (masked a bits) + 2" by (simp add: first_candidate)
  have "host_addr a bits ip \<longleftrightarrow> c \<le> ip \<and> ip < a OR mask (32 - bits)" for ip
    using c by (auto simp: host_addr_def word_le_nat_alt word_less_nat_alt)
  with Some show ?thesis
    by (auto simp: next_free_None lastAddr_eq masked_or_mask)
qed

lemma Next_IPv4:
  assumes "ParsePrefix v cidr = Some p" "p_addr p = Addr4 a"
  shows "Next v cidr used =
    (case next_free (Option.bind (addr_next (masked a (p_bits p))) addr_next)
            (lastAddr (masked a (p_bits p)) (p_bits p)) used of
       Some s \<Rightarrow> Inr s | None \<Rightarrow> Inl (ErrNoIPs cidr))"
  using assms by (simp add: Next_def Let_def)

lemma Next_InrE:
  assumes "Next v cidr used = Inr s"
  obtains p a ip where "ParsePrefix v cidr = Some p" "p_addr p = Addr4 a" "s = addr_string ip"
    "host_addr a (p_bits p) ip" "s \<notin> used"
    "\<And>j. host_addr a (p_bits p) j \<Longrightarrow> j < ip \<Longrightarrow> addr_string j \<in> used"
proof -
  from assms obtain p a where pa: "ParsePrefix v cidr = Some p" "p_addr p = Addr4 a"
    by (auto simp: Next_def split: option.splits addr.splits)
  with assms have "next_free (Option.bind (addr_next (masked a (p_bits p))) addr_next)
      (lastAddr (masked a (p_bits p)) (p_bits p)) used = Some s"
    by (simp add: Next_IPv4 split: option.splits)
  with pa show thesis using that unfolding search_Some by blast
qed

section \<open>Properties\<close>

text \<open>
C25: The address \<open>Next\<close> picks belongs to the subnet, is neither its network nor its gateway nor its
  broadcast address, is not in use, and every host address below it is in use.
\<close>

theorem Next_first_free:
  assumes "Next v cidr used = Inr s"
  shows "\<exists>p a ip. ParsePrefix v cidr = Some p \<and> p_addr p = Addr4 a \<and> s = addr_string ip
     \<and> masked ip (p_bits p) = masked a (p_bits p)
     \<and> unat (masked a (p_bits p)) + 1 < unat ip \<and> ip < lastAddr (masked a (p_bits p)) (p_bits p)
     \<and> s \<notin> used \<and> (\<forall>j. host_addr a (p_bits p) j \<longrightarrow> j < ip \<longrightarrow> addr_string j \<in> used)"
proof -
  from assms obtain p a ip where "ParsePrefix v cidr = Some p" "p_addr p = Addr4 a" "s = addr_string ip"
    "host_addr a (p_bits p) ip" "s \<notin> used" "\<forall>j. host_addr a (p_bits p) j \<longrightarrow> j < ip \<longrightarrow> addr_string j \<in> used"
    by (metis Next_InrE)
  moreover from this(4) have "masked ip (p_bits p) = masked a (p_bits p)"
      "unat (masked a (p_bits p)) + 1 < unat ip" "ip < lastAddr (masked a (p_bits p)) (p_bits p)"
    by (simp_all add: host_addr_in_subnet lastAddr_eq masked_or_mask word_less_nat_alt)
      (simp_all add: host_addr_def)
  ultimately show ?thesis by blast
qed

lemma sample_Next: "Next (\<lambda>_. False) ''10.10.10.0/24'' {''10.10.10.2''} = Inr ''10.10.10.3''"
  by code_simp

theorem Next_first_free_witness:
  "\<exists>p a ip. ParsePrefix (\<lambda>_. False) ''10.10.10.0/24'' = Some p \<and> p_addr p = Addr4 a
     \<and> ''10.10.10.3'' = addr_string ip \<and> masked ip (p_bits p) = masked a (p_bits p)"
  using Next_first_free [OF sample_Next] by blast

text \<open>
The search is complete: on an IPv4 subnet \<open>Next\<close> fails exactly when every host address is in use,
  and it fails with \<open>ErrNoIPs\<close>.
\<close>

theorem Next_complete:
  assumes "ParsePrefix v cidr = Some p" "p_addr p = Addr4 a"
  shows "Next v cidr used = Inl (ErrNoIPs cidr) \<longleftrightarrow> (\<forall>ip. host_addr a (p_bits p) ip \<longrightarrow> addr_string ip \<in> used)"
  unfolding Next_IPv4 [OF assms] using search_None [of a "p_bits p" used]
  by (auto split: option.splits)

theorem Next_complete_witness:
  "Next (\<lambda>_. False) ''10.0.0.0/31'' {} = Inl (ErrNoIPs ''10.0.0.0/31'')"
proof -
  have p: "ParsePrefix (\<lambda>_. False) ''10.0.0.0/31'' = Some \<lparr>p_addr = Addr4 0x0A000000, p_bits = 31\<rparr>"
    by code_simp
  have none: "\<not> host_addr 0x0A000000 31 ip" for ip
    by (simp add: host_addr_def masked_def mask_eq_exp_minus_1)
  show ?thesis by (subst Next_complete [OF p]) (use none in auto)
qed

text \<open>
  \<open>lastAddr\<close>, which sets the host bits of the four bytes one at a time, computes the address with
  all of them set.
\<close>

theorem lastAddr_sets_host_bits: "lastAddr a bits = a OR mask (32 - bits)"
  by (rule lastAddr_eq)

end
