(* ===== verification/CP_Schema.thy ===== *)
theory CP_Schema
  imports CP_Ipalloc
begin

text \<open>
  The state of the control plane: the PostgreSQL tables of \<open>src/internal/database/migrations\<close>,
  the in-memory state of the provisioner, the login limiter, the poller and the passkey challenges, and the record of calls made to
  the systems outside it.

  \<^item> \<open>db\<close> is the database; a statement is a function \<open>db \<Rightarrow> 'a res \<times> db\<close> that leaves the tables
    as they were when it raises an error.
  \<^item> \<open>externals\<close> collects what is not under \<open>src/\<close>: the fate of every database statement
    (\<open>Rejected\<close> before it takes effect, or \<open>ReplyLost\<close> after it did: a broken connection or an
    expired context), the values drawn by \<open>gen_random_uuid()\<close>, the answers of Proxmox, Caddy,
    SSH hosts and HTTP health endpoints as a function of the calls made so far (with the time
    an answer takes and whether the context is over by then), the collation of the database (\<open>text_le\<close>), and the
    third-party parsers and cryptography.
  \<^item> Every theorem quantifies over \<open>externals\<close>, so it holds for every behaviour of those systems.
\<close>

section \<open>Rows\<close>

record node =
  nd_id :: string
  nd_name :: string
  nd_tailscale_ip :: string
  nd_proxmox_url :: string
  nd_api_token_encrypted :: string
  nd_total_ram_mb :: int
  nd_allocated_ram_mb :: int
  nd_status :: string
  nd_created_at :: int
  nd_updated_at :: int

record project =
  pr_id :: string
  pr_name :: string
  pr_template_id :: int
  pr_ports :: "int list"
  pr_stripe_price_id :: "string option"
  pr_health_path :: string
  pr_ram_mb :: int
  pr_network_cidr :: string
  pr_gateway :: string
  pr_created_at :: int
  pr_updated_at :: int

text \<open>The values the constraint \<open>chk_tenants_status\<close> admits.\<close>

datatype tenant_status = Provisioning | Active | Suspended | Deleting | Errored | Deleted

fun status_name :: "tenant_status \<Rightarrow> string" where
  "status_name Provisioning = ''provisioning''"
| "status_name Active = ''active''"
| "status_name Suspended = ''suspended''"
| "status_name Deleting = ''deleting''"
| "status_name Errored = ''error''"
| "status_name Deleted = ''deleted''"

lemma status_name_inj [simp]: "status_name a = status_name b \<longleftrightarrow> a = b"
  by (cases a; cases b) simp_all

record tenant =
  tn_id :: string
  tn_name :: string
  tn_project_id :: string
  tn_node_id :: string
  tn_lxc_id :: "int option"
  tn_lxc_ip :: "string option"
  tn_subdomain :: string
  tn_status :: tenant_status
  tn_error_message :: "string option"
  tn_owner_id :: "string option"
  tn_stripe_subscription_id :: "string option"
  tn_stripe_customer_id :: "string option"
  tn_tier :: string
  tn_dashboard_token :: "string option"
  tn_health_status :: string
  tn_health_checked_at :: "int option"
  tn_created_at :: int
  tn_updated_at :: int

record station =
  st_id :: string
  st_name :: string
  st_slug :: string
  st_genre :: string
  st_description :: string
  st_artwork_url :: string
  st_stream_url :: string
  st_owner_id :: "string option"
  st_tenant_id :: "string option"
  st_is_public :: bool
  st_is_online :: bool
  st_created_at :: int
  st_updated_at :: int

record audit_entry =
  au_id :: string
  au_action :: string
  au_entity_type :: string
  au_entity_id :: string
  au_details :: "(string \<times> string) list option"
  au_created_at :: int

record user =
  ur_id :: string
  ur_email :: string
  ur_password_hash :: string
  ur_display_name :: string
  ur_created_at :: int
  ur_updated_at :: int

record refresh_token =
  rt_user_id :: string
  rt_token_hash :: string
  rt_expires_at :: int
  rt_revoked_at :: "int option"

record revoked_token =
  rv_jti :: string
  rv_user_id :: string
  rv_expires_at :: int

record peer =
  pe_id :: string
  pe_name :: string
  pe_public_key :: string
  pe_psk_encrypted :: "string option"
  pe_wg_ip :: string
  pe_allowed_ips :: string
  pe_endpoint :: "string option"
  pe_type :: string
  pe_tenant_id :: "string option"
  pe_enabled :: bool
  pe_created_at :: int
  pe_updated_at :: int

text \<open>A passkey of the administrators, as the WebAuthn library has it, and its row.\<close>

record wa_credential =
  wc_id :: string
  wc_public_key :: string
  wc_attestation :: string
  wc_transports :: "string list"
  wc_aaguid :: string
  wc_sign_count :: int

record credential_row =
  cw_id :: string
  cw_credential :: wa_credential
  cw_created_at :: int

record db =
  nodes :: "node list"
  projects :: "project list"
  tenants :: "tenant list"
  stations :: "station list"
  audit_log :: "audit_entry list"
  users :: "user list"
  refresh_tokens :: "refresh_token list"
  revoked_tokens :: "revoked_token list"
  peers :: "peer list"
  credentials :: "credential_row list"
  uuid_ctr :: nat
  db_now :: int

abbreviation user_ids :: "db \<Rightarrow> string list" where
  "user_ids d \<equiv> map ur_id (users d)"

section \<open>The world outside\<close>

text \<open>A Proxmox client is its base URL and API token.\<close>

type_synonym px_client = "string \<times> string"

datatype ext_call =
    GetNextID px_client
  | CloneContainer px_client int int string bool
  | StartContainer px_client int
  | StopContainer px_client int
  | DeleteContainer px_client int bool
  | ConfigureNetwork px_client int string
  | ConfigureMountPoints px_client int "(string \<times> string) list"
  | TaskWait ext_call
  | AddRoute string string
  | RemoveRoute string
  | SshExec string string
  | HttpGet string
  | RandRead nat
  | BcryptHash string
  | NewUUID
  | WgPrivateKey
  | WgPresharedKey
  | WgCommand "string list" string
  | DashboardStatus string
  | WaChallenge string
  | StripeCheckout string string string string "(string \<times> string) list"
  | StripePortal string string

text \<open>The claims of an access token; \<open>None\<close> where the claim is absent or not of the expected type.\<close>

record jwt_claims =
  jc_sub :: "string option"
  jc_email :: "string option"
  jc_jti :: "string option"
  jc_exp :: "int option"
  jc_iat :: "int option"

text \<open>What \<open>/api/status\<close> of a tenant's dashboard says. The BPM is carried along as the text of the JSON number.\<close>

record dashboard_status =
  da_title :: string
  da_listeners :: int
  da_mode :: string
  da_bpm :: string

text \<open>An entry of the login limiter.\<close>

record limitEntry =
  li_failures :: nat
  li_last_fail :: int

datatype db_fate = Replied | Rejected go_error | ReplyLost go_error

record externals =
  db_fate :: "nat \<Rightarrow> db_fate"
  gen_uuid :: "nat \<Rightarrow> string"
  ext_reply :: "ext_call list \<Rightarrow> go_error option"
  ext_int :: "ext_call list \<Rightarrow> int"
  ext_text :: "ext_call list \<Rightarrow> string"
  ext_dur :: "ext_call list \<Rightarrow> nat"
  ctx_done :: "ext_call list \<Rightarrow> bool"
  valid6 :: "string \<Rightarrow> bool"
  uuid_parses :: "string \<Rightarrow> bool"
  url_parse :: "string \<Rightarrow> (string \<times> string \<times> string) option"
  hmac_sha256 :: "string \<Rightarrow> string \<Rightarrow> string"
  gcm_open :: "string \<Rightarrow> string \<Rightarrow> string \<Rightarrow> string option"
  gcm_seal :: "string \<Rightarrow> string \<Rightarrow> string \<Rightarrow> string"
  sha256 :: "string \<Rightarrow> string"
  bcrypt_ok :: "string \<Rightarrow> string \<Rightarrow> bool"
  jwt_hmac :: "string \<Rightarrow> bool"
  jwt_sign :: "string \<Rightarrow> jwt_claims \<Rightarrow> string res"
  jwt_verify :: "string \<Rightarrow> int \<Rightarrow> string \<Rightarrow> jwt_claims option"
  text_le :: "string \<Rightarrow> string \<Rightarrow> bool"
  mail_parse :: "string \<Rightarrow> string option"
  lim_order :: "(string \<times> limitEntry) list \<Rightarrow> (string \<times> limitEntry) list"
  wg_public :: "string \<Rightarrow> string"
  ext_dash :: "ext_call list \<Rightarrow> dashboard_status option"
  row_choice :: "nat \<Rightarrow> nat"

record provision_job =
  job_tenant :: string
  job_node :: string
  job_project :: string
  job_subdomain :: string
  job_ram_mb :: int

record station_status =
  ss_is_online :: bool
  ss_listeners :: int
  ss_now_playing :: string
  ss_bpm :: string
  ss_fetched_at :: int

text \<open>A challenge between the two halves of a passkey registration or login: the library's session data and when it ends.\<close>

record challenge =
  ch_data :: string
  ch_expires :: int
  ch_flow :: string

text \<open>The login limiter is the map of its entries in the order a loop visits them; \<open>w_status\<close> is the
  poller's cache, \<open>w_challenges\<close> the open challenges by their token.\<close>

record world =
  w_db :: db
  w_db_calls :: nat
  w_trace :: "ext_call list"
  w_jobs :: "provision_job list"
  w_clients :: "string \<rightharpoonup> px_client"
  w_limiter :: "(string \<times> limitEntry) list"
  w_status :: "string \<rightharpoonup> station_status"
  w_challenges :: "string \<rightharpoonup> challenge"

type_synonym 'a cp = "(world, 'a) state"
type_synonym 'a stmt = "db \<Rightarrow> 'a res \<times> db"

section \<open>Statements\<close>

definition db_call :: "externals \<Rightarrow> 'a stmt \<Rightarrow> 'a res cp" where
  "db_call E s = State (\<lambda>w.
     let (r, d) = s (w_db w); w1 = w\<lparr>w_db_calls := Suc (w_db_calls w)\<rparr>
     in case db_fate E (w_db_calls w) of
          Replied \<Rightarrow> (r, w1\<lparr>w_db := d\<rparr>)
        | Rejected e \<Rightarrow> (Inl e, w1)
        | ReplyLost e \<Rightarrow> (Inl e, w1\<lparr>w_db := d\<rparr>))"

text \<open>A statement that only reads.\<close>

definition query :: "(db \<Rightarrow> 'a) \<Rightarrow> 'a stmt" where
  "query f d = (Inr (f d), d)"

text \<open>A statement that leaves the row open; \<open>row_choice\<close> is what the server takes at each call.\<close>

definition choose_row :: "externals \<Rightarrow> (nat \<Rightarrow> 'a stmt) \<Rightarrow> 'a res cp" where
  "choose_row E s = State (\<lambda>w. run_state (db_call E (s (row_choice E (w_db_calls w)))) w)"

lemma choose_row_triple [io_rules]: "(\<And>n. triple I R (db_call E (s n)) V) \<Longrightarrow> triple I R (choose_row E s) V"
  by (auto simp: triple_def choose_row_def)

lemma run_choose_row: "run_state (choose_row E s) w = run_state (db_call E (s (row_choice E (w_db_calls w)))) w"
  by (simp add: choose_row_def)

text \<open>\<open>INTEGER\<close> arithmetic raises 22003 outside 32 bits.\<close>

definition int4 :: "int \<Rightarrow> int res" where
  "int4 i = (if - (2 ^ 31) \<le> i \<and> i < 2 ^ 31 then Inr i else Inl out_of_range)"

definition ext :: "externals \<Rightarrow> ext_call \<Rightarrow> unit res cp" where
  "ext E c = State (\<lambda>w.
     let tr = c # w_trace w
     in (case ext_reply E tr of None \<Rightarrow> Inr () | Some e \<Rightarrow> Inl e, w\<lparr>w_trace := tr\<rparr>))"

definition ext_val :: "externals \<Rightarrow> (ext_call list \<Rightarrow> 'a) \<Rightarrow> ext_call \<Rightarrow> 'a res cp" where
  "ext_val E v c = State (\<lambda>w.
     let tr = c # w_trace w
     in (case ext_reply E tr of None \<Rightarrow> Inr (v tr) | Some e \<Rightarrow> Inl e, w\<lparr>w_trace := tr\<rparr>))"

text \<open>The statement's effect on the tables happens or does not, whatever is reported.\<close>

lemma db_call_db:
  "w_db (snd (run_state (db_call E s) w)) = w_db w
   \<or> w_db (snd (run_state (db_call E s) w)) = snd (s (w_db w))"
  by (auto simp: db_call_def Let_def split: prod.splits db_fate.splits)

lemma db_call_Inr:
  assumes "run_state (db_call E s) w = (Inr x, w')"
  shows "fst (s (w_db w)) = Inr x \<and> w_db w' = snd (s (w_db w))"
  using assms by (auto simp: db_call_def Let_def split: prod.splits db_fate.splits)

lemma db_call_Replied:
  "db_fate E (w_db_calls w) = Replied \<Longrightarrow>
   run_state (db_call E s) w
     = (fst (s (w_db w)), w\<lparr>w_db_calls := Suc (w_db_calls w), w_db := snd (s (w_db w))\<rparr>)"
  by (simp add: db_call_def Let_def split: prod.splits)

lemma db_call_frame [simp]:
  "w_trace (snd (run_state (db_call E s) w)) = w_trace w"
  "w_jobs (snd (run_state (db_call E s) w)) = w_jobs w"
  "w_clients (snd (run_state (db_call E s) w)) = w_clients w"
  "w_limiter (snd (run_state (db_call E s) w)) = w_limiter w"
  "w_status (snd (run_state (db_call E s) w)) = w_status w"
  "w_challenges (snd (run_state (db_call E s) w)) = w_challenges w"
  "w_db_calls (snd (run_state (db_call E s) w)) = Suc (w_db_calls w)"
  by (auto simp: db_call_def Let_def split: prod.splits db_fate.splits)

lemma ext_frame [simp]:
  "w_db (snd (run_state (ext E c) w)) = w_db w"
  "w_jobs (snd (run_state (ext E c) w)) = w_jobs w"
  "w_clients (snd (run_state (ext E c) w)) = w_clients w"
  "w_limiter (snd (run_state (ext E c) w)) = w_limiter w"
  "w_status (snd (run_state (ext E c) w)) = w_status w"
  "w_challenges (snd (run_state (ext E c) w)) = w_challenges w"
  "w_trace (snd (run_state (ext E c) w)) = c # w_trace w"
  "w_db_calls (snd (run_state (ext E c) w)) = w_db_calls w"
  by (simp_all add: ext_def Let_def)

lemma ext_val_frame [simp]:
  "w_db (snd (run_state (ext_val E v c) w)) = w_db w"
  "w_jobs (snd (run_state (ext_val E v c) w)) = w_jobs w"
  "w_clients (snd (run_state (ext_val E v c) w)) = w_clients w"
  "w_limiter (snd (run_state (ext_val E v c) w)) = w_limiter w"
  "w_status (snd (run_state (ext_val E v c) w)) = w_status w"
  "w_challenges (snd (run_state (ext_val E v c) w)) = w_challenges w"
  "w_trace (snd (run_state (ext_val E v c) w)) = c # w_trace w"
  "w_db_calls (snd (run_state (ext_val E v c) w)) = w_db_calls w"
  by (simp_all add: ext_val_def Let_def)

text \<open>A database that answers every statement.\<close>

definition reliable :: "externals \<Rightarrow> bool" where
  "reliable E \<longleftrightarrow> (\<forall>n. db_fate E n = Replied)"

lemma reliable_call:
  "reliable E \<Longrightarrow> run_state (db_call E s) w
     = (fst (s (w_db w)), w\<lparr>w_db_calls := Suc (w_db_calls w), w_db := snd (s (w_db w))\<rparr>)"
  by (simp add: reliable_def db_call_Replied)

section \<open>The logic on the tables\<close>

text \<open>
  A relation on the tables that is kept by every single statement is kept by every
  sequential program over them, whatever the fate of each statement.
\<close>

abbreviation on_db :: "(db \<Rightarrow> bool) \<Rightarrow> world \<Rightarrow> bool" where
  "on_db J \<equiv> \<lambda>w. J (w_db w)"

abbreviation rel_db :: "(db \<Rightarrow> db \<Rightarrow> bool) \<Rightarrow> world \<Rightarrow> world \<Rightarrow> bool" where
  "rel_db Q \<equiv> \<lambda>w w'. Q (w_db w) (w_db w')"

locale db_logic =
  fixes J :: "db \<Rightarrow> bool"
    and Q :: "db \<Rightarrow> db \<Rightarrow> bool"
  assumes Q_refl: "Q d d"
    and Q_trans: "Q d e \<Longrightarrow> Q e f \<Longrightarrow> Q d f"
    and J_stable: "Q d e \<Longrightarrow> J d \<Longrightarrow> J e"

sublocale db_logic \<subseteq> effect_logic "on_db J" "rel_db Q"
  by unfold_locales (auto intro: Q_refl Q_trans J_stable)

context db_logic
begin

lemma t_stmt:
  assumes "\<And>d. J d \<Longrightarrow> Q d (snd (s d))" and "\<And>d x. J d \<Longrightarrow> fst (s d) = Inr x \<Longrightarrow> V x"
  shows "triple (on_db J) (rel_db Q) (db_call E s)
           (\<lambda>r. \<forall>x. r = Inr x \<longrightarrow> V x)"
proof (rule tripleI)
  fix w :: world
  assume J: "J (w_db w)"
  then have "Q (w_db w) (w_db (snd (run_state (db_call E s) w)))"
    using db_call_db [of E s w] assms(1) Q_refl by auto
  moreover have "V x" if "fst (run_state (db_call E s) w) = Inr x" for x
  proof -
    from that have "run_state (db_call E s) w = (Inr x, snd (run_state (db_call E s) w))"
      by (metis prod.collapse)
    from db_call_Inr [OF this] J assms(2) show ?thesis by blast
  qed
  ultimately show "Q (w_db w) (w_db (snd (run_state (db_call E s) w)))
      \<and> (\<forall>x. fst (run_state (db_call E s) w) = Inr x \<longrightarrow> V x)" by blast
qed

lemma t_query:
  assumes "\<And>d. J d \<Longrightarrow> V (f d)"
  shows "triple (on_db J) (rel_db Q) (db_call E (query f))
           (\<lambda>r. \<forall>x. r = Inr x \<longrightarrow> V x)"
  by (rule t_stmt) (auto simp: query_def Q_refl assms)

lemma t_ext:
  "triple (on_db J) (rel_db Q) (ext E c) (\<lambda>_. True)"
  by (rule tripleI) (simp add: Q_refl)

lemma t_ext_val:
  "triple (on_db J) (rel_db Q) (ext_val E v c) (\<lambda>_. True)"
  by (rule tripleI) (simp add: Q_refl)

end

section \<open>ipalloc.Allocate\<close>

text \<open>
  The transaction writes nothing: it takes the advisory lock, lists the addresses in use and
  picks one. The lock is released at commit, before the caller stores the address.
\<close>

definition Allocate :: "externals \<Rightarrow> string \<Rightarrow> string list res cp \<Rightarrow> string res cp" where
  "Allocate E cidr listUsed =
     (case ParsePrefix (valid6 E) cidr of
        None \<Rightarrow> State_Monad.return (Inl (ErrParseCidr cidr))
      | Some p \<Rightarrow>
          (case p_addr p of
             Addr6 _ \<Rightarrow> State_Monad.return (Inl (ErrNotIPv4 cidr))
           | Addr4 _ \<Rightarrow> do {
               b \<leftarrow> db_call E (query (\<lambda>_. ()));
               case b of Inl e \<Rightarrow> State_Monad.return (Inl e) | Inr _ \<Rightarrow> do {
               l \<leftarrow> db_call E (query (\<lambda>_. ()));
               case l of Inl e \<Rightarrow> State_Monad.return (Inl (Wrap ''advisory lock'' e)) | Inr _ \<Rightarrow> do {
               u \<leftarrow> listUsed;
               case u of Inl e \<Rightarrow> State_Monad.return (Inl e) | Inr used \<Rightarrow>
               (case Next (valid6 E) cidr (set used) of
                  Inl e \<Rightarrow> State_Monad.return (Inl e)
                | Inr a \<Rightarrow> do {
                    c \<leftarrow> db_call E (query (\<lambda>_. ()));
                    case c of Inl e \<Rightarrow> State_Monad.return (Inl e) | Inr _ \<Rightarrow> State_Monad.return (Inr a) })}}}))"

text \<open>Whatever the database answers, an address comes out of \<open>Allocate\<close> only as the choice
  of \<open>Next\<close> for the list that \<open>listUsed\<close> returned.\<close>

lemma Allocate_Inr:
  assumes "run_state (Allocate E cidr listUsed) w = (Inr a, w')"
    and reads: "\<And>w1 used w2. w_db w1 = w_db w \<Longrightarrow> run_state listUsed w1 = (Inr used, w2)
                  \<Longrightarrow> set used = U \<and> w_db w2 = w_db w"
  shows "Next (valid6 E) cidr U = Inr a \<and> w_db w' = w_db w"
proof -
  obtain p a4 where p: "ParsePrefix (valid6 E) cidr = Some p" "p_addr p = Addr4 a4"
    using assms(1) by (auto simp: Allocate_def split: option.splits addr.splits)
  let ?q = "db_call E (query (\<lambda>_. ()))"
  have same: "w_db v' = w_db v" if "run_state ?q v = (r, v')" for v r v'
    using that db_call_db [of E "query (\<lambda>_. ())" v] by (auto simp: query_def)
  obtain w1 where w1: "run_state ?q w = (Inr (), w1)"
    using assms(1) p by (auto simp: Allocate_def split: prod.splits sum.splits)
  obtain w2 where w2: "run_state ?q w1 = (Inr (), w2)"
    using assms(1) p w1 by (auto simp: Allocate_def split: prod.splits sum.splits)
  have d2: "w_db w2 = w_db w" using same w1 w2 by metis
  obtain used w3 where w3: "run_state listUsed w2 = (Inr used, w3)"
    using assms(1) p w1 w2 by (auto simp: Allocate_def split: prod.splits sum.splits)
  from reads [OF d2 w3] have u: "set used = U" "w_db w3 = w_db w" by auto
  obtain w4 where w4: "run_state ?q w3 = (Inr (), w4)" and
    n: "Next (valid6 E) cidr (set used) = Inr a" and "w' = w4"
    using assms(1) p w1 w2 w3 by (auto simp: Allocate_def split: prod.splits sum.splits)
  with u same show ?thesis by metis
qed

end
