(* ===== verification/CP_Sample.thy ===== *)
theory CP_Sample
  imports CP_Schema
begin

text \<open>
  A small deployment on which the properties are instantiated: one node with 8 GB, one project of
  1536 MB, and one tenant in each status of the life cycle. \<open>sample_E\<close> is an environment in which every
  call succeeds, \<open>sample_down\<close> one in which the database answers and every outside system fails.
\<close>

text \<open>The only tokens of the sample are \<open>alice\<close>'s of the first second, named by their ids; they last 15 minutes.\<close>

definition sample_claims :: "string \<Rightarrow> jwt_claims" where
  "sample_claims t = \<lparr>jc_sub = Some ''alice'', jc_email = Some ''alice@example.com'', jc_jti = Some t, jc_exp = Some 900, jc_iat = Some 0\<rparr>"

definition sample_sign :: "string \<Rightarrow> jwt_claims \<Rightarrow> string res" where
  "sample_sign k c =
     (case jc_jti c of Some t \<Rightarrow> if t \<noteq> [] \<and> c = sample_claims t then Inr t else Inl (GoErr ''sign'') | None \<Rightarrow> Inl (GoErr ''sign''))"

definition sample_verify :: "string \<Rightarrow> int \<Rightarrow> string \<Rightarrow> jwt_claims option" where
  "sample_verify k now t = (if now < 900 then Some (sample_claims t) else None)"

fun sample_text :: "ext_call list \<Rightarrow> string" where
  "sample_text [RandRead n] = replicate n (CHR ''x'')"
| "sample_text (RandRead n # c # rest) = replicate n (CHR ''y'')"
| "sample_text (BcryptHash p # rest) = p"
| "sample_text _ = ''https://pay''"

lemma sample_text_length: "length (sample_text (RandRead n # tr)) = n"
  by (cases tr) simp_all

definition sample_E :: externals where
  "sample_E = \<lparr>db_fate = (\<lambda>_. Replied), gen_uuid = (\<lambda>n. CHR ''u'' # string_of_nat n), ext_reply = (\<lambda>_. None),
     ext_int = (\<lambda>_. 200),
     ext_text = sample_text,
     ext_dur = (\<lambda>_. 0), ctx_done = (\<lambda>_. False), valid6 = (\<lambda>_. False), uuid_parses = (\<lambda>_. True),
     url_parse = (\<lambda>u. Some (''https'', u, u)), hmac_sha256 = (\<lambda>k m. k @ m),
     gcm_open = (\<lambda>k n c. Some c), gcm_seal = (\<lambda>k n p. p), sha256 = (\<lambda>s. s), bcrypt_ok = (\<lambda>h p. h = p),
     jwt_hmac = (\<lambda>_. True), jwt_sign = sample_sign, jwt_verify = sample_verify,
     text_le = (\<lambda>_ _. True), mail_parse = (\<lambda>s. Some s), lim_order = (\<lambda>l. l), wg_public = (\<lambda>k. CHR ''p'' # k), ext_dash = (\<lambda>_. None), row_choice = (\<lambda>_. 0)\<rparr>"

definition sample_down :: externals where
  "sample_down = sample_E\<lparr>ext_reply := (\<lambda>_. Some (GoErr ''down''))\<rparr>"

definition sample_node :: node where
  "sample_node = \<lparr>nd_id = ''n1'', nd_name = ''node-1'', nd_tailscale_ip = ''100.64.0.1'',
     nd_proxmox_url = ''https://10.10.0.2:8006'', nd_api_token_encrypted = ''00'', nd_total_ram_mb = 8192,
     nd_allocated_ram_mb = 6144, nd_status = ''active'', nd_created_at = 1, nd_updated_at = 1\<rparr>"

definition sample_project :: project where
  "sample_project = \<lparr>pr_id = ''p1'', pr_name = ''radio'', pr_template_id = 9000, pr_ports = [8080],
     pr_stripe_price_id = None, pr_health_path = ''/api/health'', pr_ram_mb = 1536,
     pr_network_cidr = ''10.10.10.0/24'', pr_gateway = ''10.10.10.1'', pr_created_at = 1, pr_updated_at = 1\<rparr>"

definition sample_tenant :: "string \<Rightarrow> tenant_status \<Rightarrow> int option \<Rightarrow> string option \<Rightarrow> tenant" where
  "sample_tenant nm st lxc ow = \<lparr>tn_id = nm, tn_name = nm, tn_project_id = ''p1'', tn_node_id = ''n1'',
     tn_lxc_id = lxc, tn_lxc_ip = None, tn_subdomain = nm, tn_status = st, tn_error_message = None,
     tn_owner_id = ow, tn_stripe_subscription_id = None, tn_stripe_customer_id = Some (CHR ''c'' # nm),
     tn_tier = ''pro'', tn_dashboard_token = Some ''key'', tn_health_status = ''unknown'',
     tn_health_checked_at = None, tn_created_at = 1, tn_updated_at = 1\<rparr>"

definition sample_user :: "string \<Rightarrow> user" where
  "sample_user nm = \<lparr>ur_id = nm, ur_email = nm @ ''@example.com'', ur_password_hash = nm @ ''-password'', ur_display_name = nm,
     ur_created_at = 1, ur_updated_at = 1\<rparr>"

definition sample_db :: db where
  "sample_db = \<lparr>nodes = [sample_node], projects = [sample_project],
     tenants = [sample_tenant ''t1'' Active (Some 101) (Some ''alice''), sample_tenant ''t2'' Provisioning None (Some ''bob''),
       sample_tenant ''t3'' Suspended (Some 103) None, sample_tenant ''t4'' Errored None None],
     stations = [], audit_log = [], users = [sample_user ''alice'', sample_user ''bob''],
     refresh_tokens = [], revoked_tokens = [], peers = [], credentials = [], uuid_ctr = 0, db_now = 7\<rparr>"

definition sample_w :: world where
  "sample_w = \<lparr>w_db = sample_db, w_db_calls = 0, w_trace = [], w_jobs = [],
     w_clients = [''n1'' \<mapsto> (''https://10.10.0.2:8006'', ''token'')], w_limiter = [], w_status = Map.empty, w_challenges = Map.empty\<rparr>"

definition sample_job :: provision_job where
  "sample_job = \<lparr>job_tenant = ''t2'', job_node = ''n1'', job_project = ''p1'', job_subdomain = ''t2'', job_ram_mb = 1536\<rparr>"

lemmas sample_data = sample_E_def sample_down_def sample_user_def sample_node_def sample_project_def sample_tenant_def
  sample_db_def sample_w_def sample_job_def

lemma sample_fields:
  "w_db sample_w = sample_db" "job_tenant sample_job = ''t2''" "job_node sample_job = ''n1''"
  "job_ram_mb sample_job = 1536" "tn_status (sample_tenant nm st lxc ow) = st" "tn_lxc_id (sample_tenant nm st lxc ow) = lxc"
  "tn_id (sample_tenant nm st lxc ow) = nm" "tn_node_id (sample_tenant nm st lxc ow) = ''n1''"
  "tn_project_id (sample_tenant nm st lxc ow) = ''p1''" "tn_owner_id (sample_tenant nm st lxc ow) = ow"
  "pr_ram_mb sample_project = 1536" "job_project sample_job = ''p1''" "job_subdomain sample_job = ''t2''"
  "ext_reply sample_down tr = Some (GoErr ''down'')" "ext_reply sample_E tr = None"
  "w_clients sample_w ''n1'' = Some (''https://10.10.0.2:8006'', ''token'')" "uuid_parses sample_E s"
  by (simp_all add: sample_data)

lemma sample_reliable: "reliable sample_E" "reliable sample_down"
  by (simp_all add: reliable_def sample_data)

end
