(* ===== verification/CP_Node.thy ===== *)
theory CP_Node
  imports CP_Sample
begin

text \<open>
  The node store (\<open>src/internal/node/store.go\<close>): compute nodes and their RAM accounting. Each
  method is a statement on the tables and the Go code around it. The interface other
  components rely on for RAM, \<open>LifecycleNodeStore\<close>, is the locale \<open>ram_ledger\<close>.
\<close>

section \<open>Statements\<close>

record create_node_request =
  cn_name :: string
  cn_tailscale_ip :: string
  cn_proxmox_url :: string
  cn_api_token :: string
  cn_total_ram_mb :: int

record update_node_request =
  un_status :: "string option"
  un_total_ram_mb :: "int option"
  un_proxmox_url :: "string option"
  un_api_token :: "string option"

abbreviation ErrInsufficientCapacity :: go_error where
  "ErrInsufficientCapacity \<equiv> Sentinel ''node.ErrInsufficientCapacity''"

abbreviation node_ErrNoUpdate :: go_error where
  "node_ErrNoUpdate \<equiv> Sentinel ''node.ErrNoUpdate''"

abbreviation ErrRAMBelowAllocated :: go_error where
  "ErrRAMBelowAllocated \<equiv> Sentinel ''node.ErrRAMBelowAllocated''"

definition node_row :: "db \<Rightarrow> string \<Rightarrow> node option" where
  "node_row d nid = select_one (\<lambda>n. nd_id n = nid) (nodes d)"

text \<open>The selected columns leave the encrypted token out.\<close>

definition scan_node :: "node \<Rightarrow> node" where
  "scan_node n = n\<lparr>nd_api_token_encrypted := []\<rparr>"

text \<open>\<open>UPDATE nodes ... WHERE id = $1\<close> with the trigger that stamps \<open>updated_at\<close>.\<close>

definition update_node :: "string \<Rightarrow> (node \<Rightarrow> node) \<Rightarrow> db \<Rightarrow> db" where
  "update_node nid f d =
     d\<lparr>nodes := update_where (\<lambda>n. nd_id n = nid) (\<lambda>n. (f n)\<lparr>nd_updated_at := db_now d\<rparr>) (nodes d)\<rparr>"

definition reserve_ram :: "string \<Rightarrow> int \<Rightarrow> nat stmt" where
  "reserve_ram nodeID ramMB d =
     (case int4 ramMB of
        Inl e \<Rightarrow> (Inl e, d)
      | Inr _ \<Rightarrow>
          (case node_row d nodeID of
             None \<Rightarrow> (Inr 0, d)
           | Some n \<Rightarrow>
               (case int4 (nd_total_ram_mb n - nd_allocated_ram_mb n) of
                  Inl e \<Rightarrow> (Inl e, d)
                | Inr free \<Rightarrow>
                    if ramMB \<le> free
                    then (case int4 (nd_allocated_ram_mb n + ramMB) of
                            Inl e \<Rightarrow> (Inl e, d)
                          | Inr a \<Rightarrow> (Inr 1, update_node nodeID (\<lambda>m. m\<lparr>nd_allocated_ram_mb := a\<rparr>) d))
                    else (Inr 0, d))))"

definition release_ram :: "string \<Rightarrow> int \<Rightarrow> nat stmt" where
  "release_ram nodeID ramMB d =
     (case int4 ramMB of
        Inl e \<Rightarrow> (Inl e, d)
      | Inr _ \<Rightarrow>
          (case node_row d nodeID of
             None \<Rightarrow> (Inr 0, d)
           | Some n \<Rightarrow>
               (case int4 (nd_allocated_ram_mb n - ramMB) of
                  Inl e \<Rightarrow> (Inl e, d)
                | Inr a \<Rightarrow>
                    (Inr 1, update_node nodeID (\<lambda>m. m\<lparr>nd_allocated_ram_mb := max a 0\<rparr>) d))))"

section \<open>The store\<close>

definition node_List :: "externals \<Rightarrow> node list res cp" where
  "node_List E = do {
     r \<leftarrow> db_call E (query (\<lambda>d. map scan_node (order_desc nd_created_at (nodes d))));
     State_Monad.return (wrap_err ''query nodes'' r) }"

definition node_ListPaginated :: "externals \<Rightarrow> int \<Rightarrow> int \<Rightarrow> (node list \<times> nat) res cp" where
  "node_ListPaginated E limit offset = do {
     r \<leftarrow> db_call E (query (\<lambda>d. page limit offset (map scan_node (order_desc nd_created_at (nodes d)))));
     State_Monad.return (wrap_err ''query nodes'' r) }"

definition node_GetByID :: "externals \<Rightarrow> string \<Rightarrow> node option res cp" where
  "node_GetByID E nid = do {
     r \<leftarrow> db_call E (query (\<lambda>d. map_option scan_node (node_row d nid)));
     State_Monad.return (wrap_err ''query node'' r) }"

definition insert_node :: "externals \<Rightarrow> create_node_request \<Rightarrow> node stmt" where
  "insert_node E req d =
     (let nid = gen_uuid E (uuid_ctr d);
          n = \<lparr>nd_id = nid, nd_name = cn_name req, nd_tailscale_ip = cn_tailscale_ip req,
               nd_proxmox_url = cn_proxmox_url req, nd_api_token_encrypted = cn_api_token req,
               nd_total_ram_mb = cn_total_ram_mb req, nd_allocated_ram_mb = 0,
               nd_status = ''active'', nd_created_at = db_now d, nd_updated_at = db_now d\<rparr>
      in case int4 (cn_total_ram_mb req) of
           Inl e \<Rightarrow> (Inl e, d)
         | Inr _ \<Rightarrow>
             if \<exists>m\<in>set (nodes d). nd_id m = nid \<or> nd_name m = cn_name req
             then (Inl unique_violation, d\<lparr>uuid_ctr := Suc (uuid_ctr d)\<rparr>)
             else (Inr (scan_node n), d\<lparr>uuid_ctr := Suc (uuid_ctr d), nodes := nodes d @ [n]\<rparr>))"

definition node_Create :: "externals \<Rightarrow> create_node_request \<Rightarrow> node res cp" where
  "node_Create E req = do {
     r \<leftarrow> db_call E (insert_node E req);
     State_Monad.return (wrap_err ''insert node'' r) }"

definition apply_node_update :: "update_node_request \<Rightarrow> node \<Rightarrow> node" where
  "apply_node_update req n =
     n\<lparr>nd_status := case_option (nd_status n) id (un_status req),
       nd_total_ram_mb := case_option (nd_total_ram_mb n) id (un_total_ram_mb req),
       nd_proxmox_url := case_option (nd_proxmox_url n) id (un_proxmox_url req),
       nd_api_token_encrypted := case_option (nd_api_token_encrypted n) id (un_api_token req)\<rparr>"

text \<open>The constraint \<open>chk_nodes_status\<close>.\<close>

definition node_status_ok :: "string \<Rightarrow> bool" where
  "node_status_ok s \<longleftrightarrow> s = ''active'' \<or> s = ''maintenance'' \<or> s = ''offline''"

definition update_node_stmt :: "string \<Rightarrow> update_node_request \<Rightarrow> node stmt" where
  "update_node_stmt nid req d =
     (case (case un_total_ram_mb req of None \<Rightarrow> Inr 0 | Some t \<Rightarrow> int4 t) of
        Inl e \<Rightarrow> (Inl e, d)
      | Inr _ \<Rightarrow>
          (case node_row d nid of
             None \<Rightarrow> (Inl ErrNoRows, d)
           | Some n \<Rightarrow>
               if (case un_total_ram_mb req of None \<Rightarrow> True | Some t \<Rightarrow> nd_allocated_ram_mb n \<le> t)
               then if node_status_ok (nd_status (apply_node_update req n))
                    then let d' = update_node nid (apply_node_update req) d
                         in (case node_row d' nid of
                               None \<Rightarrow> (Inl ErrNoRows, d)
                             | Some n' \<Rightarrow> (Inr (scan_node n'), d'))
                    else (Inl check_violation, d)
               else (Inl ErrNoRows, d)))"

definition node_Update :: "externals \<Rightarrow> string \<Rightarrow> update_node_request \<Rightarrow> node option res cp" where
  "node_Update E nid req =
     (if un_status req = None \<and> un_total_ram_mb req = None \<and> un_proxmox_url req = None
         \<and> un_api_token req = None
      then State_Monad.return (Inl node_ErrNoUpdate)
      else do {
        r \<leftarrow> db_call E (update_node_stmt nid req);
        case r of
          Inr n \<Rightarrow> State_Monad.return (Inr (Some n))
        | Inl e \<Rightarrow>
            if e = ErrNoRows
            then if un_total_ram_mb req \<noteq> None
                 then do {
                   existing \<leftarrow> node_GetByID E nid;
                   (case existing of
                      Inr (Some _) \<Rightarrow> State_Monad.return (Inl ErrRAMBelowAllocated)
                    | _ \<Rightarrow> State_Monad.return (Inr None)) }
                 else State_Monad.return (Inr None)
            else State_Monad.return (Inl (Wrap ''update node'' e)) })"

definition node_CountTenants :: "externals \<Rightarrow> string \<Rightarrow> nat res cp" where
  "node_CountTenants E nodeID = do {
     r \<leftarrow> db_call E (query (\<lambda>d. count_where (\<lambda>t. tn_node_id t = nodeID \<and> tn_status t \<noteq> Deleted) (tenants d)));
     State_Monad.return (wrap_err ''count tenants on node'' r) }"

definition node_GetEncryptedTokenByID :: "externals \<Rightarrow> string \<Rightarrow> string res cp" where
  "node_GetEncryptedTokenByID E nid = do {
     r \<leftarrow> db_call E (query (\<lambda>d. case node_row d nid of None \<Rightarrow> [] | Some n \<Rightarrow> nd_api_token_encrypted n));
     State_Monad.return (wrap_err ''query node token'' r) }"

text \<open>\<open>tenants.node_id REFERENCES nodes(id)\<close> without an \<open>ON DELETE\<close> action: a row of any status
  blocks the deletion.\<close>

definition delete_node :: "string \<Rightarrow> nat stmt" where
  "delete_node nid d =
     (if \<exists>t\<in>set (tenants d). tn_node_id t = nid \<and> node_row d nid \<noteq> None
      then (Inl foreign_key_violation, d)
      else (Inr (count_where (\<lambda>n. nd_id n = nid) (nodes d)),
            d\<lparr>nodes := filter (\<lambda>n. nd_id n \<noteq> nid) (nodes d)\<rparr>))"

definition node_Delete :: "externals \<Rightarrow> string \<Rightarrow> unit res cp" where
  "node_Delete E nid = do {
     r \<leftarrow> db_call E (delete_node nid);
     State_Monad.return (case r of
         Inl e \<Rightarrow> Inl (Wrap ''delete node'' e)
       | Inr n \<Rightarrow> if n = 0 then Inl ErrNoRows else Inr ()) }"

definition free_ram :: "node \<Rightarrow> int" where
  "free_ram n = nd_total_ram_mb n - nd_allocated_ram_mb n"

definition least_loaded :: "int \<Rightarrow> node option stmt" where
  "least_loaded requiredMB d =
     (let actives = filter (\<lambda>n. nd_status n = ''active'') (nodes d)
      in if \<exists>n\<in>set actives. int4 (free_ram n) = Inl out_of_range then (Inl out_of_range, d)
         else (Inr (case order_desc free_ram (filter (\<lambda>n. requiredMB \<le> free_ram n) actives) of
                      [] \<Rightarrow> None | n # _ \<Rightarrow> Some (scan_node n)), d))"

definition node_GetLeastLoaded :: "externals \<Rightarrow> int \<Rightarrow> node option res cp" where
  "node_GetLeastLoaded E requiredMB = do {
     r \<leftarrow> db_call E (least_loaded requiredMB);
     State_Monad.return (wrap_err ''query least loaded node'' r) }"

definition ReserveRAM :: "externals \<Rightarrow> string \<Rightarrow> int \<Rightarrow> unit res cp" where
  "ReserveRAM E nodeID ramMB = do {
     r \<leftarrow> db_call E (reserve_ram nodeID ramMB);
     State_Monad.return (case r of
         Inl e \<Rightarrow> Inl (Wrap ''reserve ram'' e)
       | Inr n \<Rightarrow> if n = 0 then Inl ErrInsufficientCapacity else Inr ()) }"

definition ReleaseRAM :: "externals \<Rightarrow> string \<Rightarrow> int \<Rightarrow> unit res cp" where
  "ReleaseRAM E nodeID ramMB = do {
     r \<leftarrow> db_call E (release_ram nodeID ramMB);
     State_Monad.return (case r of Inl e \<Rightarrow> Inl (Wrap ''release ram'' e) | Inr _ \<Rightarrow> Inr ()) }"

section \<open>The RAM ledger\<close>

text \<open>
  What the lifecycle and the provisioner rely on. \<open>cap s i\<close> is the pair of allocated and
  total RAM of node \<open>i\<close>; the statements report the number of rows they changed.
\<close>

locale ram_ledger =
  fixes ok :: "'s \<Rightarrow> bool"
    and cap :: "'s \<Rightarrow> string \<Rightarrow> (int \<times> int) option"
    and reserve :: "string \<Rightarrow> int \<Rightarrow> 's \<Rightarrow> nat res \<times> 's"
    and release :: "string \<Rightarrow> int \<Rightarrow> 's \<Rightarrow> nat res \<times> 's"
  assumes cap_bounds: "ok s \<Longrightarrow> cap s i = Some (a, t) \<Longrightarrow> 0 \<le> a \<and> a \<le> t \<and> t < 2 ^ 31"
    and reserve_fits: "\<lbrakk>ok s; 0 \<le> r; cap s i = Some (a, t); a + r \<le> t\<rbrakk>
      \<Longrightarrow> \<exists>s'. reserve i r s = (Inr 1, s') \<and> cap s' = (cap s)(i := Some (a + r, t))"
    and reserve_full: "\<lbrakk>ok s; 0 \<le> r; r < 2 ^ 31; cap s i = Some (a, t); t < a + r\<rbrakk>
      \<Longrightarrow> reserve i r s = (Inr 0, s)"
    and release_law: "\<lbrakk>ok s; 0 \<le> r; r < 2 ^ 31; cap s i = Some (a, t)\<rbrakk>
      \<Longrightarrow> \<exists>s'. release i r s = (Inr 1, s') \<and> cap s' = (cap s)(i := Some (max (a - r) 0, t))"
    and ok_reserve: "ok s \<Longrightarrow> 0 \<le> r \<Longrightarrow> ok (snd (reserve i r s))"
    and ok_release: "ok s \<Longrightarrow> 0 \<le> r \<Longrightarrow> ok (snd (release i r s))"
begin

text \<open>A release undoes the reservation it belongs to.\<close>

lemma reserve_release:
  assumes "ok s" "0 \<le> r" "cap s i = Some (a, t)" "a + r \<le> t"
  shows "cap (snd (release i r (snd (reserve i r s)))) = cap s"
proof -
  from assms obtain s1 where s1: "reserve i r s = (Inr 1, s1)"
      "cap s1 = (cap s)(i := Some (a + r, t))"
    using reserve_fits by blast
  have "0 \<le> a" "t < 2 ^ 31" using cap_bounds assms by blast+
  then have "r < 2 ^ 31" using assms by linarith
  moreover have "ok s1" using ok_reserve [OF assms(1,2), of i] s1 by simp
  ultimately obtain s2 where s2: "release i r s1 = (Inr 1, s2)"
      "cap s2 = (cap s1)(i := Some (max (a + r - r) 0, t))"
    using release_law [of s1 r i "a + r" t] s1 assms by auto
  with s1 \<open>0 \<le> a\<close> assms show ?thesis by (auto simp: fun_eq_iff)
qed

text \<open>
  A release that belongs to no reservation takes away RAM another tenant holds: the books show
  less than what is in use.
\<close>

lemma second_release:
  assumes "ok s" "0 \<le> r" "cap s i = Some (a, t)" "r \<le> a" "a + r \<le> t"
  shows "cap (snd (release i r (snd (release i r (snd (reserve i r s)))))) i = Some (a - r, t)"
proof -
  from assms have c: "cap (snd (release i r (snd (reserve i r s)))) i = Some (a, t)"
    by (simp add: reserve_release)
  have "ok (snd (release i r (snd (reserve i r s))))"
    using assms by (intro ok_release ok_reserve)
  moreover have "r < 2 ^ 31" using cap_bounds [OF assms(1,3)] assms by linarith
  ultimately obtain s' where
    "release i r (snd (release i r (snd (reserve i r s)))) = (Inr 1, s')"
    "cap s' = (cap (snd (release i r (snd (reserve i r s)))))(i := Some (max (a - r) 0, t))"
    using release_law [OF _ assms(2) _ c] by blast
  with assms(4) show ?thesis by simp
qed

end

section \<open>Correctness of the statements\<close>

definition node_ok :: "node \<Rightarrow> bool" where
  "node_ok n \<longleftrightarrow> 0 \<le> nd_allocated_ram_mb n \<and> nd_allocated_ram_mb n \<le> nd_total_ram_mb n
                \<and> nd_total_ram_mb n < 2 ^ 31"

definition nodes_ok :: "db \<Rightarrow> bool" where
  "nodes_ok d \<longleftrightarrow> distinct (map nd_id (nodes d)) \<and> (\<forall>n\<in>set (nodes d). node_ok n)"

definition node_cap :: "db \<Rightarrow> string \<Rightarrow> (int \<times> int) option" where
  "node_cap d nid = map_option (\<lambda>n. (nd_allocated_ram_mb n, nd_total_ram_mb n)) (node_row d nid)"

lemma node_row_update_node:
  assumes "\<And>n. nd_id (f n) = nd_id n"
  shows "node_row (update_node nid f d) j =
    (if j = nid then map_option (\<lambda>n. (f n)\<lparr>nd_updated_at := db_now d\<rparr>) (node_row d nid)
     else node_row d j)"
proof -
  have "node_row (update_node nid f d) j
      = map_option (\<lambda>n. if nd_id n = nid then (f n)\<lparr>nd_updated_at := db_now d\<rparr> else n) (node_row d j)"
    unfolding node_row_def update_node_def
    by (simp add: select_one_update_where assms)
  also have "\<dots> = (if j = nid then map_option (\<lambda>n. (f n)\<lparr>nd_updated_at := db_now d\<rparr>) (node_row d nid)
     else node_row d j)"
    by (auto simp: node_row_def dest: select_one_Some split: option.splits
        intro!: option.map_cong option.map_ident_strong)
  finally show ?thesis .
qed

lemma update_node_frame [simp]:
  "tenants (update_node nid f d) = tenants d"
  "projects (update_node nid f d) = projects d"
  "stations (update_node nid f d) = stations d"
  "audit_log (update_node nid f d) = audit_log d"
  "uuid_ctr (update_node nid f d) = uuid_ctr d"
  "db_now (update_node nid f d) = db_now d"
  by (simp_all add: update_node_def)

lemma node_row_ok: "nodes_ok d \<Longrightarrow> node_row d nid = Some n \<Longrightarrow> node_ok n \<and> nd_id n = nid"
  by (auto simp: nodes_ok_def node_row_def dest: select_one_Some)

lemma nodes_ok_update_node:
  assumes "nodes_ok d" "\<And>n. nd_id (f n) = nd_id n"
    and "\<And>n. node_row d nid = Some n \<Longrightarrow> node_ok (f n)"
  shows "nodes_ok (update_node nid f d)"
proof -
  have keep: "node_ok ((f n)\<lparr>nd_updated_at := db_now d\<rparr>)" if "n \<in> set (nodes d)" "nd_id n = nid" for n
  proof -
    from assms(1) that have "node_row d nid = Some n"
      unfolding nodes_ok_def node_row_def using select_one_key [of nd_id "nodes d" n] by simp
    with assms(3) show ?thesis by (auto simp: node_ok_def)
  qed
  have "map nd_id (nodes (update_node nid f d)) = map nd_id (nodes d)"
    by (simp add: update_node_def map_update_where assms(2))
  moreover have "\<forall>n\<in>set (nodes (update_node nid f d)). node_ok n"
    using assms(1) keep by (auto simp: update_node_def set_update_where nodes_ok_def)
  ultimately show ?thesis using assms(1) by (simp add: nodes_ok_def)
qed

lemma int4_Inr [simp]: "int4 i = Inr j \<longleftrightarrow> j = i \<and> - (2 ^ 31) \<le> i \<and> i < 2 ^ 31"
  by (auto simp: int4_def)

lemma int4_Inl: "int4 i = Inl e \<Longrightarrow> i < - (2 ^ 31) \<or> 2 ^ 31 \<le> i"
  by (auto simp: int4_def split: if_splits)

lemma nodes_ok_reserve_ram: "nodes_ok d \<Longrightarrow> 0 \<le> r \<Longrightarrow> nodes_ok (snd (reserve_ram nid r d))"
  using node_row_ok [of d nid]
  by (auto simp: reserve_ram_def node_ok_def split: sum.splits option.splits intro!: nodes_ok_update_node)

lemma nodes_ok_release_ram: "nodes_ok d \<Longrightarrow> 0 \<le> r \<Longrightarrow> nodes_ok (snd (release_ram nid r d))"
  using node_row_ok [of d nid]
  by (auto simp: release_ram_def node_ok_def split: sum.splits option.splits intro!: nodes_ok_update_node)

lemma node_cap_update:
  assumes "node_row d nid = Some n" "\<And>n. nd_id (f n) = nd_id n"
  shows "node_cap (update_node nid f d)
      = (node_cap d)(nid \<mapsto> (nd_allocated_ram_mb (f n), nd_total_ram_mb (f n)))"
  using assms by (auto simp: node_cap_def node_row_update_node fun_eq_iff)

interpretation ledger: ram_ledger nodes_ok node_cap reserve_ram release_ram
proof unfold_locales
  fix s nid a t
  assume "nodes_ok s" "node_cap s nid = Some (a, t)"
  then show "0 \<le> a \<and> a \<le> t \<and> t < 2 ^ 31"
    by (auto simp: node_cap_def dest!: node_row_ok simp: node_ok_def)
next
  fix s nid and r a t :: int
  assume A: "nodes_ok s" "0 \<le> r" "node_cap s nid = Some (a, t)" "a + r \<le> t"
  then obtain n where n: "node_row s nid = Some n" "a = nd_allocated_ram_mb n" "t = nd_total_ram_mb n"
    by (auto simp: node_cap_def)
  with A node_row_ok [of s nid n] have "0 \<le> a" "a \<le> t" "t < 2 ^ 31" by (auto simp: node_ok_def)
  then have "reserve_ram nid r s = (Inr 1, update_node nid (\<lambda>m. m\<lparr>nd_allocated_ram_mb := a + r\<rparr>) s)"
    using A n by (simp add: reserve_ram_def int4_def)
  with n show "\<exists>s'. reserve_ram nid r s = (Inr 1, s') \<and> node_cap s' = (node_cap s)(nid \<mapsto> (a + r, t))"
    by (auto simp: node_cap_update)
next
  fix s nid and r a t :: int
  assume A: "nodes_ok s" "0 \<le> r" "r < 2 ^ 31" "node_cap s nid = Some (a, t)" "t < a + r"
  then obtain n where n: "node_row s nid = Some n" "a = nd_allocated_ram_mb n" "t = nd_total_ram_mb n"
    by (auto simp: node_cap_def)
  with A node_row_ok [of s nid n] show "reserve_ram nid r s = (Inr 0, s)"
    by (auto simp: reserve_ram_def int4_def node_ok_def)
next
  fix s nid and r a t :: int
  assume A: "nodes_ok s" "0 \<le> r" "r < 2 ^ 31" "node_cap s nid = Some (a, t)"
  then obtain n where n: "node_row s nid = Some n" "a = nd_allocated_ram_mb n" "t = nd_total_ram_mb n"
    by (auto simp: node_cap_def)
  with A node_row_ok [of s nid n] have "0 \<le> a" "a < 2 ^ 31" by (auto simp: node_ok_def)
  then have "release_ram nid r s
      = (Inr 1, update_node nid (\<lambda>m. m\<lparr>nd_allocated_ram_mb := max (a - r) 0\<rparr>) s)"
    using A n by (simp add: release_ram_def int4_def)
  with n show "\<exists>s'. release_ram nid r s = (Inr 1, s') \<and> node_cap s' = (node_cap s)(nid \<mapsto> (max (a - r) 0, t))"
    by (auto simp: node_cap_update)
qed (auto intro: nodes_ok_reserve_ram nodes_ok_release_ram)

lemma node_stmts_frame [simp]:
  "tenants (snd (reserve_ram nid r d)) = tenants d" "projects (snd (reserve_ram nid r d)) = projects d"
  "stations (snd (reserve_ram nid r d)) = stations d"
  "tenants (snd (release_ram nid r d)) = tenants d" "projects (snd (release_ram nid r d)) = projects d"
  "stations (snd (release_ram nid r d)) = stations d"
  "tenants (snd (insert_node E req d)) = tenants d" "projects (snd (insert_node E req d)) = projects d"
  "stations (snd (insert_node E req d)) = stations d"
  "tenants (snd (update_node_stmt nid ureq d)) = tenants d"
  "projects (snd (update_node_stmt nid ureq d)) = projects d"
  "stations (snd (update_node_stmt nid ureq d)) = stations d"
  "tenants (snd (delete_node nid d)) = tenants d" "projects (snd (delete_node nid d)) = projects d"
  "stations (snd (delete_node nid d)) = stations d"
  by (auto simp: reserve_ram_def release_ram_def insert_node_def update_node_stmt_def delete_node_def
      Let_def split: sum.split option.split)

lemma node_ids_update_node:
  "(\<And>n. nd_id (f n) = nd_id n) \<Longrightarrow> map nd_id (nodes (update_node nid f d)) = map nd_id (nodes d)"
  by (simp add: update_node_def map_update_where)

lemma apply_node_update_id [simp]: "nd_id (apply_node_update req n) = nd_id n"
  by (simp add: apply_node_update_def)

lemma node_ids_keep [simp]:
  "map nd_id (nodes (snd (reserve_ram nid r d))) = map nd_id (nodes d)"
  "map nd_id (nodes (snd (release_ram nid r d))) = map nd_id (nodes d)"
  "map nd_id (nodes (snd (update_node_stmt nid ureq d))) = map nd_id (nodes d)"
  by (auto simp: reserve_ram_def release_ram_def update_node_stmt_def Let_def node_ids_update_node
      split: sum.split option.split)

lemma nodes_ok_insert: "nodes_ok d \<Longrightarrow> 0 \<le> cn_total_ram_mb req \<Longrightarrow> nodes_ok (snd (insert_node E req d))"
  by (auto simp: insert_node_def nodes_ok_def node_ok_def Let_def split: sum.split)

lemma nodes_ok_delete: "nodes_ok d \<Longrightarrow> nodes_ok (snd (delete_node nid d))"
  by (auto simp: delete_node_def nodes_ok_def distinct_map_filter)

lemma nodes_ok_update_stmt:
  assumes "nodes_ok d"
  shows "nodes_ok (snd (update_node_stmt nid req d))"
proof -
  have "nodes_ok (update_node nid (apply_node_update req) d)"
    if "node_row d nid = Some n"
      "case un_total_ram_mb req of None \<Rightarrow> True | Some t \<Rightarrow> nd_allocated_ram_mb n \<le> t \<and> t < 2 ^ 31" for n
  proof (rule nodes_ok_update_node [OF assms])
    fix m
    assume "node_row d nid = Some m"
    with that node_row_ok [OF assms that(1)] show "node_ok (apply_node_update req m)"
      by (auto simp: node_ok_def apply_node_update_def split: option.splits)
  qed simp
  with assms show ?thesis
    by (auto simp: update_node_stmt_def Let_def split: sum.splits option.splits)
qed

text \<open>The automatic choice of a node: active, large enough, and none has more room.\<close>

lemma least_loaded_Some:
  assumes "fst (least_loaded req d) = Inr (Some n)"
  obtains m where "m \<in> set (nodes d)" "n = scan_node m" "nd_status m = ''active''" "req \<le> free_ram m"
    "\<And>k. \<lbrakk>k \<in> set (nodes d); nd_status k = ''active''; req \<le> free_ram k\<rbrakk> \<Longrightarrow> free_ram k \<le> free_ram m"
proof -
  let ?c = "filter (\<lambda>n. req \<le> free_ram n) (filter (\<lambda>n. nd_status n = ''active'') (nodes d))"
  from assms obtain m rest where m: "order_desc free_ram ?c = m # rest" "n = scan_node m"
    by (auto simp: least_loaded_def Let_def split: if_splits list.splits)
  then have "m \<in> set ?c" by (metis list.set_intros(1) set_order_desc)
  moreover have "\<And>k. k \<in> set ?c \<Longrightarrow> free_ram k \<le> free_ram m" using order_desc_hd [OF m(1)] by blast
  ultimately show thesis using that m(2) by auto
qed

lemma least_loaded_None:
  assumes "fst (least_loaded req d) = Inr None" "k \<in> set (nodes d)" "nd_status k = ''active''"
  shows "free_ram k < req"
proof (rule ccontr)
  let ?c = "filter (\<lambda>n. req \<le> free_ram n) (filter (\<lambda>n. nd_status n = ''active'') (nodes d))"
  assume "\<not> free_ram k < req"
  with assms(2,3) have "k \<in> set ?c" by auto
  moreover from assms(1) have "order_desc free_ram ?c = []"
    by (auto simp: least_loaded_def Let_def split: if_splits list.splits)
  then have "k \<notin> set ?c" by (metis empty_iff set_empty set_order_desc)
  ultimately show False by (rule notE [rotated])
qed

section \<open>Properties\<close>

text \<open>
A reservation is granted exactly when the node has the room. Granted, the books carry the amount
  and nothing else changes in them; refused, the tables are untouched. Two reservations can never
  overcommit a node.
\<close>

theorem reserve_exact:
  assumes "nodes_ok d" "node_cap d nid = Some (a, tot)" "0 \<le> r" "r < 2 ^ 31"
  shows "if a + r \<le> tot
         then \<exists>d'. reserve_ram nid r d = (Inr 1, d') \<and> node_cap d' = (node_cap d)(nid \<mapsto> (a + r, tot)) \<and> nodes_ok d'
         else reserve_ram nid r d = (Inr 0, d)"
  using ledger.reserve_fits [OF assms(1,3,2)] ledger.reserve_full [OF assms(1,3,4,2)]
    ledger.ok_reserve [OF assms(1,3), of nid] by force

lemma sample_nodes: "nodes_ok sample_db" "node_cap sample_db ''n1'' = Some (6144, 8192)"
  by (simp_all add: nodes_ok_def node_ok_def node_cap_def node_row_def select_one_def sample_data)

theorem reserve_exact_witness:
  "(\<exists>d'. reserve_ram ''n1'' 2048 sample_db = (Inr 1, d') \<and> node_cap d' ''n1'' = Some (8192, 8192))
   \<and> reserve_ram ''n1'' 2049 sample_db = (Inr 0, sample_db)"
  using reserve_exact [OF sample_nodes, of 2048] reserve_exact [OF sample_nodes, of 2049] by auto

text \<open>
  Releasing what was reserved restores the books of every node.
\<close>

theorem release_undoes_reserve:
  assumes "nodes_ok d" "node_cap d nid = Some (a, tot)" "0 \<le> r" "a + r \<le> tot"
  shows "node_cap (snd (release_ram nid r (snd (reserve_ram nid r d)))) = node_cap d"
  by (rule ledger.reserve_release [OF assms(1,3,2,4)])

theorem release_undoes_reserve_witness:
  "node_cap (snd (release_ram ''n1'' 1536 (snd (reserve_ram ''n1'' 1536 sample_db)))) = node_cap sample_db"
  by (rule release_undoes_reserve [OF sample_nodes]) simp_all

end
