(* ===== verification/CP_Project.thy ===== *)
theory CP_Project
  imports CP_Sample
begin

text \<open>
  The project store (\<open>src/internal/project/store.go\<close>): the LXC templates tenants are made of.
\<close>

record create_project_request =
  cp_name :: string
  cp_template_id :: int
  cp_ports :: "int list option"
  cp_stripe_price_id :: "string option"
  cp_health_path :: string
  cp_ram_mb :: int
  cp_network_cidr :: string
  cp_gateway :: string

record update_project_request =
  up_name :: "string option"
  up_template_id :: "int option"
  up_ports :: "int list option"
  up_stripe_price_id :: "string option"
  up_health_path :: "string option"
  up_ram_mb :: "int option"
  up_network_cidr :: "string option"
  up_gateway :: "string option"

abbreviation project_ErrNoUpdate :: go_error where
  "project_ErrNoUpdate \<equiv> Sentinel ''project.ErrNoUpdate''"

definition project_row :: "db \<Rightarrow> string \<Rightarrow> project option" where
  "project_row d pid = select_one (\<lambda>p. pr_id p = pid) (projects d)"

definition project_List :: "externals \<Rightarrow> project list res cp" where
  "project_List E = do {
     r \<leftarrow> db_call E (query (\<lambda>d. order_desc pr_created_at (projects d)));
     State_Monad.return (wrap_err ''query projects'' r) }"

definition project_ListPaginated :: "externals \<Rightarrow> int \<Rightarrow> int \<Rightarrow> (project list \<times> nat) res cp" where
  "project_ListPaginated E limit offset = do {
     r \<leftarrow> db_call E (query (\<lambda>d. page limit offset (order_desc pr_created_at (projects d))));
     State_Monad.return (wrap_err ''query projects'' r) }"

definition project_GetByID :: "externals \<Rightarrow> string \<Rightarrow> project option res cp" where
  "project_GetByID E pid = do {
     r \<leftarrow> db_call E (query (\<lambda>d. project_row d pid));
     State_Monad.return (wrap_err ''query project'' r) }"

text \<open>\<open>ORDER BY created_at ASC LIMIT 1\<close>.\<close>

definition project_GetDefault :: "externals \<Rightarrow> project option res cp" where
  "project_GetDefault E = do {
     r \<leftarrow> db_call E (query (\<lambda>d. case sort_key pr_created_at (projects d) of [] \<Rightarrow> None | p # _ \<Rightarrow> Some p));
     State_Monad.return (wrap_err ''query default project'' r) }"

text \<open>The defaults \<open>Create\<close> fills in before the insert.\<close>

definition with_defaults :: "create_project_request \<Rightarrow> create_project_request" where
  "with_defaults req =
     req\<lparr>cp_ports := (case cp_ports req of None \<Rightarrow> Some [] | Some ps \<Rightarrow> Some ps),
         cp_health_path := (if cp_health_path req = [] then ''/api/health'' else cp_health_path req),
         cp_ram_mb := (if cp_ram_mb req = 0 then 1536 else cp_ram_mb req),
         cp_network_cidr := (if cp_network_cidr req = [] then ''10.10.10.0/24'' else cp_network_cidr req),
         cp_gateway := (if cp_gateway req = [] then ''10.10.10.1'' else cp_gateway req)\<rparr>"

definition int4s :: "int list \<Rightarrow> unit res" where
  "int4s is = (if \<exists>i\<in>set is. i < - (2 ^ 31) \<or> 2 ^ 31 \<le> i then Inl out_of_range else Inr ())"

definition insert_project :: "externals \<Rightarrow> create_project_request \<Rightarrow> project stmt" where
  "insert_project E req d =
     (let pid = gen_uuid E (uuid_ctr d);
          p = \<lparr>pr_id = pid, pr_name = cp_name req, pr_template_id = cp_template_id req,
               pr_ports = case_option [] id (cp_ports req), pr_stripe_price_id = cp_stripe_price_id req,
               pr_health_path = cp_health_path req, pr_ram_mb = cp_ram_mb req,
               pr_network_cidr = cp_network_cidr req, pr_gateway = cp_gateway req,
               pr_created_at = db_now d, pr_updated_at = db_now d\<rparr>
      in case int4s (pr_template_id p # pr_ram_mb p # pr_ports p) of
           Inl e \<Rightarrow> (Inl e, d)
         | Inr _ \<Rightarrow>
             if \<exists>q\<in>set (projects d). pr_id q = pid \<or> pr_name q = cp_name req
             then (Inl unique_violation, d\<lparr>uuid_ctr := Suc (uuid_ctr d)\<rparr>)
             else (Inr p, d\<lparr>uuid_ctr := Suc (uuid_ctr d), projects := projects d @ [p]\<rparr>))"

definition project_Create :: "externals \<Rightarrow> create_project_request \<Rightarrow> project res cp" where
  "project_Create E req = do {
     r \<leftarrow> db_call E (insert_project E (with_defaults req));
     State_Monad.return (wrap_err ''insert project'' r) }"

definition apply_project_update :: "update_project_request \<Rightarrow> project \<Rightarrow> project" where
  "apply_project_update req p =
     p\<lparr>pr_name := case_option (pr_name p) id (up_name req),
       pr_template_id := case_option (pr_template_id p) id (up_template_id req),
       pr_ports := case_option (pr_ports p) id (up_ports req),
       pr_stripe_price_id := (case up_stripe_price_id req of None \<Rightarrow> pr_stripe_price_id p | Some x \<Rightarrow> Some x),
       pr_health_path := case_option (pr_health_path p) id (up_health_path req),
       pr_ram_mb := case_option (pr_ram_mb p) id (up_ram_mb req),
       pr_network_cidr := case_option (pr_network_cidr p) id (up_network_cidr req),
       pr_gateway := case_option (pr_gateway p) id (up_gateway req)\<rparr>"

definition update_project_stmt :: "string \<Rightarrow> update_project_request \<Rightarrow> project stmt" where
  "update_project_stmt pid req d =
     (case int4s (case_option [] (\<lambda>i. [i]) (up_template_id req) @ case_option [] (\<lambda>i. [i]) (up_ram_mb req)
                    @ case_option [] id (up_ports req)) of
        Inl e \<Rightarrow> (Inl e, d)
      | Inr _ \<Rightarrow>
          (case project_row d pid of
             None \<Rightarrow> (Inl ErrNoRows, d)
           | Some p \<Rightarrow>
               let p' = (apply_project_update req p)\<lparr>pr_updated_at := db_now d\<rparr>
               in if \<exists>q\<in>set (projects d). pr_id q \<noteq> pid \<and> pr_name q = pr_name p'
                  then (Inl unique_violation, d)
                  else (Inr p', d\<lparr>projects := update_where (\<lambda>q. pr_id q = pid) (\<lambda>_. p') (projects d)\<rparr>)))"

definition project_Update :: "externals \<Rightarrow> string \<Rightarrow> update_project_request \<Rightarrow> project option res cp" where
  "project_Update E pid req =
     (if up_name req = None \<and> up_template_id req = None \<and> up_ports req = None
         \<and> up_stripe_price_id req = None \<and> up_health_path req = None \<and> up_ram_mb req = None
         \<and> up_network_cidr req = None \<and> up_gateway req = None
      then State_Monad.return (Inl project_ErrNoUpdate)
      else do {
        r \<leftarrow> db_call E (update_project_stmt pid req);
        State_Monad.return (case r of
            Inr p \<Rightarrow> Inr (Some p)
          | Inl e \<Rightarrow> if e = ErrNoRows then Inr None else Inl (Wrap ''update project'' e)) })"

text \<open>\<open>tenants.project_id REFERENCES projects(id)\<close>, again without an \<open>ON DELETE\<close> action.\<close>

definition delete_project :: "string \<Rightarrow> nat stmt" where
  "delete_project pid d =
     (if \<exists>t\<in>set (tenants d). tn_project_id t = pid \<and> project_row d pid \<noteq> None
      then (Inl foreign_key_violation, d)
      else (Inr (count_where (\<lambda>p. pr_id p = pid) (projects d)),
            d\<lparr>projects := filter (\<lambda>p. pr_id p \<noteq> pid) (projects d)\<rparr>))"

definition project_Delete :: "externals \<Rightarrow> string \<Rightarrow> unit res cp" where
  "project_Delete E pid = do {
     r \<leftarrow> db_call E (delete_project pid);
     State_Monad.return (case r of
         Inl e \<Rightarrow> Inl (Wrap ''delete project'' e)
       | Inr n \<Rightarrow> if n = 0 then Inl ErrNoRows else Inr ()) }"

definition project_CountTenants :: "externals \<Rightarrow> string \<Rightarrow> nat res cp" where
  "project_CountTenants E pid = do {
     r \<leftarrow> db_call E (query (\<lambda>d. count_where (\<lambda>t. tn_project_id t = pid \<and> tn_status t \<noteq> Deleted) (tenants d)));
     State_Monad.return (wrap_err ''count tenants for project'' r) }"

section \<open>What the store keeps\<close>

text \<open>Every project asks for a non-negative amount of RAM. The store does not enforce it; the
  requests that keep it are the ones that name a non-negative amount or none.\<close>

definition projects_ok :: "db \<Rightarrow> bool" where
  "projects_ok d \<longleftrightarrow> distinct (map pr_id (projects d)) \<and> (\<forall>p\<in>set (projects d). 0 \<le> pr_ram_mb p)"

lemma project_row_ok: "projects_ok d \<Longrightarrow> project_row d pid = Some p \<Longrightarrow> 0 \<le> pr_ram_mb p \<and> pr_id p = pid"
  by (auto simp: projects_ok_def project_row_def dest: select_one_Some)

lemma projects_ok_insert:
  "projects_ok d \<Longrightarrow> 0 \<le> cp_ram_mb req \<Longrightarrow> projects_ok (snd (insert_project E req d))"
  by (auto simp: insert_project_def projects_ok_def Let_def split: sum.splits)

lemma projects_ok_update:
  assumes "projects_ok d" "\<And>r. up_ram_mb req = Some r \<Longrightarrow> 0 \<le> r"
  shows "projects_ok (snd (update_project_stmt pid req d))"
proof -
  have ram: "0 \<le> pr_ram_mb (apply_project_update req p)" if "0 \<le> pr_ram_mb p" for p
    using that assms(2) by (auto simp: apply_project_update_def split: option.splits)
  have pid: "pr_id (apply_project_update req p) = pr_id p" for p
    by (simp add: apply_project_update_def)
  have upd: "projects_ok (d\<lparr>projects := update_where (\<lambda>q. pr_id q = pid) (\<lambda>_. p') (projects d)\<rparr>)"
    if "pr_id p' = pid" "0 \<le> pr_ram_mb p'" for p'
  proof -
    have "map pr_id (update_where (\<lambda>q. pr_id q = pid) (\<lambda>_. p') (projects d)) = map pr_id (projects d)"
      by (rule map_update_where) (simp add: that)
    with assms(1) that show ?thesis by (auto simp: projects_ok_def set_update_where)
  qed
  show ?thesis
    using assms(1) project_row_ok [OF assms(1), of pid]
    by (auto simp: update_project_stmt_def Let_def pid ram split: sum.splits option.split intro!: upd)
qed

lemma projects_ok_delete: "projects_ok d \<Longrightarrow> projects_ok (snd (delete_project pid d))"
  by (auto simp: delete_project_def projects_ok_def distinct_map_filter)

lemma with_defaults_ram: "0 \<le> cp_ram_mb req \<Longrightarrow> 0 < cp_ram_mb (with_defaults req)"
  by (auto simp: with_defaults_def)

lemma apply_project_update_id [simp]: "pr_id (apply_project_update req p) = pr_id p"
  by (simp add: apply_project_update_def)

lemma project_ids_update [simp]:
  "map pr_id (projects (snd (update_project_stmt pid req d))) = map pr_id (projects d)"
  by (auto simp: update_project_stmt_def Let_def project_row_def dest!: select_one_Some
      split: sum.split option.split intro!: map_update_where)

lemma project_stmts_frame [simp]:
  "stations (snd (insert_project E req d)) = stations d"
  "stations (snd (update_project_stmt pid req' d)) = stations d"
  "stations (snd (delete_project pid d)) = stations d"
  "nodes (snd (insert_project E req d)) = nodes d"
  "tenants (snd (insert_project E req d)) = tenants d"
  "nodes (snd (update_project_stmt pid req' d)) = nodes d"
  "tenants (snd (update_project_stmt pid req' d)) = tenants d"
  "nodes (snd (delete_project pid d)) = nodes d"
  "tenants (snd (delete_project pid d)) = tenants d"
  by (auto simp: insert_project_def update_project_stmt_def delete_project_def Let_def
      split: sum.splits option.splits)

end
