(* ===== verification/CP_Tenant_Store.thy ===== *)
theory CP_Tenant_Store
  imports CP_Sample
begin

text \<open>
  The tenant store (\<open>src/internal/tenant/store.go\<close>, \<open>tenant_pollable.go\<close>). Status changes are
  compare-and-swap updates: \<open>UPDATE ... WHERE id = $1 AND status = ...\<close>, and no row changed is
  \<open>ErrStateConflict\<close>.
\<close>

section \<open>Statements\<close>

abbreviation ErrStateConflict :: go_error where
  "ErrStateConflict \<equiv> Sentinel ''tenant.ErrStateConflict''"

abbreviation tenant_ErrNoUpdate :: go_error where
  "tenant_ErrNoUpdate \<equiv> Sentinel ''tenant.ErrNoUpdate''"

record create_tenant_request =
  ct_name :: string
  ct_project_id :: string
  ct_node_id :: string
  ct_subdomain :: string

record update_tenant_request =
  ut_name :: "string option"
  ut_stripe_subscription_id :: "string option"
  ut_stripe_customer_id :: "string option"

definition tenant_row :: "db \<Rightarrow> string \<Rightarrow> tenant option" where
  "tenant_row d tid = select_one (\<lambda>t. tn_id t = tid) (tenants d)"

text \<open>\<open>UPDATE tenants SET f WHERE P\<close> with the trigger that stamps \<open>updated_at\<close>; the result is
  the number of rows affected.\<close>

definition update_tenants :: "(tenant \<Rightarrow> bool) \<Rightarrow> (tenant \<Rightarrow> tenant) \<Rightarrow> nat stmt" where
  "update_tenants P f d =
     (Inr (count_where P (tenants d)),
      d\<lparr>tenants := update_where P (\<lambda>t. (f t)\<lparr>tn_updated_at := db_now d\<rparr>) (tenants d)\<rparr>)"

text \<open>\<open>Exec\<close> followed by the check of \<open>RowsAffected\<close>.\<close>

definition exec_rows :: "externals \<Rightarrow> string \<Rightarrow> go_error \<Rightarrow> nat stmt \<Rightarrow> unit res cp" where
  "exec_rows E msg none s = do {
     r \<leftarrow> db_call E s;
     State_Monad.return (case r of
         Inl e \<Rightarrow> Inl (Wrap msg e)
       | Inr n \<Rightarrow> if n = 0 then Inl none else Inr ()) }"

text \<open>The compare-and-swap: rows of tenant \<open>tid\<close> whose status is one of \<open>from\<close>.\<close>

definition cas :: "string \<Rightarrow> tenant_status list \<Rightarrow> tenant \<Rightarrow> bool" where
  "cas tid from t \<longleftrightarrow> tn_id t = tid \<and> tn_status t \<in> set from"

section \<open>Reading\<close>

definition tenant_List :: "externals \<Rightarrow> tenant list res cp" where
  "tenant_List E = do {
     r \<leftarrow> db_call E (query (\<lambda>d. order_desc tn_created_at (tenants d)));
     State_Monad.return (wrap_err ''query tenants'' r) }"

text \<open>An empty filter is left out of the \<open>WHERE\<close> clause. The two id filters are \<open>UUID\<close> columns,
  so a text that is no UUID is an error.\<close>

definition tenant_ListPaginated ::
  "externals \<Rightarrow> int \<Rightarrow> int \<Rightarrow> string \<Rightarrow> string \<Rightarrow> string \<Rightarrow> (tenant list \<times> nat) res cp" where
  "tenant_ListPaginated E limit offset status nodeID projectID = do {
     r \<leftarrow> db_call E (\<lambda>d.
            if (nodeID \<noteq> [] \<and> \<not> uuid_parses E nodeID) \<or> (projectID \<noteq> [] \<and> \<not> uuid_parses E projectID)
            then (Inl (PgError ''22P02''), d)
            else (Inr (page limit offset (order_desc tn_created_at
                    (filter (\<lambda>t. (status = [] \<or> status_name (tn_status t) = status)
                               \<and> (nodeID = [] \<or> tn_node_id t = nodeID)
                               \<and> (projectID = [] \<or> tn_project_id t = projectID)) (tenants d)))), d));
     State_Monad.return (wrap_err ''query tenants'' r) }"

definition tenant_GetByID :: "externals \<Rightarrow> string \<Rightarrow> tenant option res cp" where
  "tenant_GetByID E tid = do {
     r \<leftarrow> db_call E (query (\<lambda>d. tenant_row d tid));
     State_Monad.return (wrap_err ''query tenant'' r) }"

definition tenant_Count :: "externals \<Rightarrow> nat res cp" where
  "tenant_Count E = do {
     r \<leftarrow> db_call E (query (\<lambda>d. length (tenants d)));
     State_Monad.return (wrap_err ''count tenants'' r) }"

definition owned :: "string \<Rightarrow> tenant \<Rightarrow> bool" where
  "owned ownerID t \<longleftrightarrow> tn_owner_id t = Some ownerID \<and> tn_status t \<noteq> Deleted"

definition CountByOwnerID :: "externals \<Rightarrow> string \<Rightarrow> nat res cp" where
  "CountByOwnerID E ownerID = do {
     r \<leftarrow> db_call E (query (\<lambda>d. count_where (owned ownerID) (tenants d)));
     State_Monad.return (wrap_err ''count tenants by owner'' r) }"

definition ListByOwnerID :: "externals \<Rightarrow> string \<Rightarrow> tenant list res cp" where
  "ListByOwnerID E ownerID = do {
     r \<leftarrow> db_call E (query (\<lambda>d. order_desc tn_created_at (filter (owned ownerID) (tenants d))));
     State_Monad.return (wrap_err ''query tenants by owner'' r) }"

record active_with_ip =
  aw_id :: string
  aw_subdomain :: string
  aw_lxc_ip :: string

definition has_ip :: "tenant \<Rightarrow> bool" where
  "has_ip t \<longleftrightarrow> tn_lxc_ip t \<noteq> None \<and> tn_lxc_ip t \<noteq> Some []"

definition listActiveWithIP :: "externals \<Rightarrow> active_with_ip list res cp" where
  "listActiveWithIP E = do {
     r \<leftarrow> db_call E (query (\<lambda>d.
            map (\<lambda>t. \<lparr>aw_id = tn_id t, aw_subdomain = tn_subdomain t,
                      aw_lxc_ip = case_option [] id (tn_lxc_ip t)\<rparr>)
              (filter (\<lambda>t. tn_status t = Active \<and> has_ip t) (tenants d))));
     State_Monad.return (wrap_err ''query active tenants with ip'' r) }"

definition toActiveTenants :: "active_with_ip list \<Rightarrow> (string \<times> string) list" where
  "toActiveTenants rows = map (\<lambda>r. (aw_subdomain r, aw_lxc_ip r)) rows"

definition ListActiveWithIP :: "externals \<Rightarrow> (string \<times> string) list res cp" where
  "ListActiveWithIP E = do {
     r \<leftarrow> listActiveWithIP E;
     State_Monad.return (case r of Inl e \<Rightarrow> Inl e | Inr rows \<Rightarrow> Inr (toActiveTenants rows)) }"

definition toPollableTenants :: "active_with_ip list \<Rightarrow> (string \<times> string) list" where
  "toPollableTenants rows = map (\<lambda>r. (aw_id r, aw_lxc_ip r)) rows"

definition ListPollable :: "externals \<Rightarrow> (string \<times> string) list res cp" where
  "ListPollable E = do {
     r \<leftarrow> listActiveWithIP E;
     State_Monad.return (case r of
         Inl e \<Rightarrow> Inl (Wrap ''list pollable tenants'' e)
       | Inr rows \<Rightarrow> Inr (toPollableTenants rows)) }"

text \<open>The addresses no other tenant may be given: those of every tenant that is not deleted.\<close>

definition used_ips :: "db \<Rightarrow> string list" where
  "used_ips d = map (\<lambda>t. case_option [] id (tn_lxc_ip t))
                  (filter (\<lambda>t. has_ip t \<and> tn_status t \<noteq> Deleted) (tenants d))"

definition list_used_ips :: "externals \<Rightarrow> string list res cp" where
  "list_used_ips E = do {
     r \<leftarrow> db_call E (query used_ips);
     State_Monad.return (wrap_err ''query used ips'' r) }"

definition GetNextAvailableIP :: "externals \<Rightarrow> string \<Rightarrow> string res cp" where
  "GetNextAvailableIP E cidr = Allocate E cidr (list_used_ips E)"

record billing_tenant =
  bt_id :: string
  bt_name :: string
  bt_tier :: string
  bt_stripe_customer_id :: "string option"
  bt_stripe_subscription_id :: "string option"
  bt_owner_id :: "string option"

definition billing_view :: "tenant \<Rightarrow> billing_tenant" where
  "billing_view t = \<lparr>bt_id = tn_id t, bt_name = tn_name t, bt_tier = tn_tier t,
     bt_stripe_customer_id = tn_stripe_customer_id t,
     bt_stripe_subscription_id = tn_stripe_subscription_id t, bt_owner_id = tn_owner_id t\<rparr>"

text \<open>Nothing makes the customer unique, and the statement has no order.\<close>

definition GetByStripeCustomerID :: "externals \<Rightarrow> string \<Rightarrow> billing_tenant option res cp" where
  "GetByStripeCustomerID E customerID = do {
     r \<leftarrow> choose_row E (\<lambda>n. query (\<lambda>d. map_option billing_view
            (select_any n (\<lambda>t. tn_stripe_customer_id t = Some customerID \<and> tn_status t \<noteq> Deleted) (tenants d))));
     State_Monad.return (wrap_err ''query tenant by stripe customer'' r) }"

text \<open>The owner comes from the metadata of a Stripe session here, so it may be no UUID at all.\<close>

definition GetBillingByOwnerID :: "externals \<Rightarrow> string \<Rightarrow> billing_tenant list res cp" where
  "GetBillingByOwnerID E ownerID = do {
     r \<leftarrow> db_call E (\<lambda>d.
            if \<not> uuid_parses E ownerID then (Inl (PgError ''22P02''), d)
            else (Inr (map billing_view (order_desc tn_created_at (filter (owned ownerID) (tenants d)))), d));
     State_Monad.return (wrap_err ''query billing tenants by owner'' r) }"

section \<open>Writing\<close>

text \<open>
  \<open>INSERT INTO tenants\<close>: the primary key, the two partial unique indexes over the tenants that
  are not deleted, and the foreign keys.
\<close>

definition insert_tenant :: "externals \<Rightarrow> create_tenant_request \<Rightarrow> string option \<Rightarrow> tenant stmt" where
  "insert_tenant E req owner d =
     (let tid = gen_uuid E (uuid_ctr d);
          d1 = d\<lparr>uuid_ctr := Suc (uuid_ctr d)\<rparr>;
          t = \<lparr>tn_id = tid, tn_name = ct_name req, tn_project_id = ct_project_id req,
               tn_node_id = ct_node_id req, tn_lxc_id = None, tn_lxc_ip = None,
               tn_subdomain = ct_subdomain req, tn_status = Provisioning, tn_error_message = None,
               tn_owner_id = owner, tn_stripe_subscription_id = None, tn_stripe_customer_id = None,
               tn_tier = ''free'', tn_dashboard_token = None, tn_health_status = ''unknown'',
               tn_health_checked_at = None, tn_created_at = db_now d, tn_updated_at = db_now d\<rparr>
      in if \<exists>u\<in>set (tenants d). tn_id u = tid
              \<or> (tn_status u \<noteq> Deleted \<and> (tn_name u = ct_name req \<or> tn_subdomain u = ct_subdomain req))
         then (Inl unique_violation, d1)
         else if \<not> (\<exists>p\<in>set (projects d). pr_id p = ct_project_id req)
              \<or> \<not> (\<exists>n\<in>set (nodes d). nd_id n = ct_node_id req)
              \<or> (case owner of None \<Rightarrow> False | Some u \<Rightarrow> u \<notin> set (user_ids d))
         then (Inl foreign_key_violation, d1)
         else (Inr t, d1\<lparr>tenants := tenants d @ [t]\<rparr>))"

definition tenant_Create :: "externals \<Rightarrow> create_tenant_request \<Rightarrow> tenant res cp" where
  "tenant_Create E req = do {
     r \<leftarrow> db_call E (insert_tenant E req None);
     State_Monad.return (wrap_err ''insert tenant'' r) }"

definition CreateWithOwner :: "externals \<Rightarrow> create_tenant_request \<Rightarrow> string \<Rightarrow> tenant res cp" where
  "CreateWithOwner E req ownerID = do {
     r \<leftarrow> db_call E (insert_tenant E req (Some ownerID));
     State_Monad.return (wrap_err ''insert tenant'' r) }"

definition apply_tenant_update :: "update_tenant_request \<Rightarrow> tenant \<Rightarrow> tenant" where
  "apply_tenant_update req t =
     t\<lparr>tn_name := case_option (tn_name t) id (ut_name req),
       tn_stripe_subscription_id := (case ut_stripe_subscription_id req of
           None \<Rightarrow> tn_stripe_subscription_id t | Some x \<Rightarrow> Some x),
       tn_stripe_customer_id := (case ut_stripe_customer_id req of
           None \<Rightarrow> tn_stripe_customer_id t | Some x \<Rightarrow> Some x)\<rparr>"

definition update_tenant_stmt :: "string \<Rightarrow> update_tenant_request \<Rightarrow> tenant stmt" where
  "update_tenant_stmt tid req d =
     (case tenant_row d tid of
        None \<Rightarrow> (Inl ErrNoRows, d)
      | Some t \<Rightarrow>
          let t' = apply_tenant_update req t
          in if tn_status t \<noteq> Deleted
                \<and> (\<exists>u\<in>set (tenants d). tn_id u \<noteq> tid \<and> tn_status u \<noteq> Deleted \<and> tn_name u = tn_name t')
             then (Inl unique_violation, d)
             else (Inr (t'\<lparr>tn_updated_at := db_now d\<rparr>),
                   snd (update_tenants (\<lambda>u. tn_id u = tid) (apply_tenant_update req) d)))"

definition tenant_Update :: "externals \<Rightarrow> string \<Rightarrow> update_tenant_request \<Rightarrow> tenant option res cp" where
  "tenant_Update E tid req =
     (if ut_name req = None \<and> ut_stripe_subscription_id req = None \<and> ut_stripe_customer_id req = None
      then State_Monad.return (Inl tenant_ErrNoUpdate)
      else do {
        r \<leftarrow> db_call E (update_tenant_stmt tid req);
        State_Monad.return (case r of
            Inr t \<Rightarrow> Inr (Some t)
          | Inl e \<Rightarrow> if e = ErrNoRows then Inr None else Inl (Wrap ''update tenant'' e)) })"

definition SetSuspended :: "externals \<Rightarrow> string \<Rightarrow> unit res cp" where
  "SetSuspended E tid =
     exec_rows E ''set tenant suspended'' ErrStateConflict
       (update_tenants (cas tid [Active])
         (\<lambda>t. t\<lparr>tn_status := Suspended\<rparr>))"

definition SetResumed :: "externals \<Rightarrow> string \<Rightarrow> unit res cp" where
  "SetResumed E tid =
     exec_rows E ''set tenant resumed'' ErrStateConflict
       (update_tenants (cas tid [Suspended])
         (\<lambda>t. t\<lparr>tn_status := Active\<rparr>))"

text \<open>\<open>lxc_id\<close> is an \<open>INTEGER\<close> column.\<close>

definition set_active_stmt :: "string \<Rightarrow> int \<Rightarrow> nat stmt" where
  "set_active_stmt tid lxcID d =
     (case int4 lxcID of
        Inl e \<Rightarrow> (Inl e, d)
      | Inr _ \<Rightarrow> update_tenants (cas tid [Provisioning])
          (\<lambda>t. t\<lparr>tn_status := Active, tn_lxc_id := Some lxcID, tn_error_message := None\<rparr>) d)"

definition SetActive :: "externals \<Rightarrow> string \<Rightarrow> int \<Rightarrow> unit res cp" where
  "SetActive E tid lxcID =
     exec_rows E ''set tenant active'' ErrStateConflict (set_active_stmt tid lxcID)"

definition SetError :: "externals \<Rightarrow> string \<Rightarrow> string \<Rightarrow> unit res cp" where
  "SetError E tid errMsg =
     exec_rows E ''set tenant error'' ErrStateConflict
       (update_tenants (cas tid [Provisioning, Deleting])
         (\<lambda>t. t\<lparr>tn_status := Errored, tn_error_message := Some errMsg\<rparr>))"

definition SetDeleting :: "externals \<Rightarrow> string \<Rightarrow> unit res cp" where
  "SetDeleting E tid =
     exec_rows E ''set tenant deleting'' ErrStateConflict
       (update_tenants (cas tid [Active, Errored, Suspended])
         (\<lambda>t. t\<lparr>tn_status := Deleting\<rparr>))"

definition SetDeleted :: "externals \<Rightarrow> string \<Rightarrow> unit res cp" where
  "SetDeleted E tid =
     exec_rows E ''set tenant deleted'' ErrStateConflict
       (update_tenants (cas tid [Deleting])
         (\<lambda>t. t\<lparr>tn_status := Deleted\<rparr>))"

definition SetLXCIP :: "externals \<Rightarrow> string \<Rightarrow> string \<Rightarrow> unit res cp" where
  "SetLXCIP E tid ip =
     exec_rows E ''set tenant lxc_ip'' ErrNoRows
       (update_tenants (\<lambda>t. tn_id t = tid)
         (\<lambda>t. t\<lparr>tn_lxc_ip := Some ip\<rparr>))"

definition SetHealthStatus :: "externals \<Rightarrow> string \<Rightarrow> string \<Rightarrow> unit res cp" where
  "SetHealthStatus E tid status = do {
     r \<leftarrow> db_call E (\<lambda>d. update_tenants (\<lambda>t. tn_id t = tid)
            (\<lambda>t. t\<lparr>tn_health_status := status, tn_health_checked_at := Some (db_now d)\<rparr>) d);
     State_Monad.return (case r of Inl e \<Rightarrow> Inl (Wrap ''set health status'' e) | Inr _ \<Rightarrow> Inr ()) }"

definition SetDashboardToken :: "externals \<Rightarrow> string \<Rightarrow> string \<Rightarrow> unit res cp" where
  "SetDashboardToken E tid token =
     exec_rows E ''set dashboard token'' ErrNoRows
       (update_tenants (\<lambda>t. tn_id t = tid)
         (\<lambda>t. t\<lparr>tn_dashboard_token := Some token\<rparr>))"

definition UpdateBilling :: "externals \<Rightarrow> string \<Rightarrow> string \<Rightarrow> string \<Rightarrow> string \<Rightarrow> unit res cp" where
  "UpdateBilling E tid customerID subscriptionID tier =
     exec_rows E ''update billing'' ErrNoRows
       (update_tenants (\<lambda>t. tn_id t = tid)
         (\<lambda>t. t\<lparr>tn_stripe_customer_id := Some customerID,
               tn_stripe_subscription_id := Some subscriptionID, tn_tier := tier\<rparr>))"

end
