(* ===== verification/CP_Station_Store.thy ===== *)
theory CP_Station_Store
  imports CP_Sample
begin

text \<open>
  The station store (\<open>src/internal/station/store.go\<close>) without the public search, and the
  creator that provisioning calls (\<open>src/internal/station/creator.go\<close>).
\<close>

record create_station_request =
  cs_name :: string
  cs_slug :: string
  cs_genre :: string
  cs_description :: string
  cs_artwork_url :: string
  cs_stream_url :: string
  cs_owner_id :: "string option"
  cs_tenant_id :: "string option"
  cs_is_public :: bool

record update_station_request =
  us_name :: "string option"
  us_slug :: "string option"
  us_genre :: "string option"
  us_description :: "string option"
  us_artwork_url :: "string option"
  us_stream_url :: "string option"
  us_is_public :: "bool option"
  us_is_online :: "bool option"

abbreviation station_ErrNoUpdate :: go_error where
  "station_ErrNoUpdate \<equiv> Sentinel ''station.ErrNoUpdate''"

definition station_GetBySlug :: "externals \<Rightarrow> string \<Rightarrow> station option res cp" where
  "station_GetBySlug E slug = do {
     r \<leftarrow> db_call E (query (\<lambda>d. select_one (\<lambda>s. st_slug s = slug) (stations d)));
     State_Monad.return (wrap_err ''query station by slug'' r) }"

definition station_GetByID :: "externals \<Rightarrow> string \<Rightarrow> station option res cp" where
  "station_GetByID E sid = do {
     r \<leftarrow> db_call E (query (\<lambda>d. select_one (\<lambda>s. st_id s = sid) (stations d)));
     State_Monad.return (wrap_err ''query station'' r) }"

definition station_GetByTenantID :: "externals \<Rightarrow> string \<Rightarrow> station option res cp" where
  "station_GetByTenantID E tid = do {
     r \<leftarrow> choose_row E (\<lambda>n. query (\<lambda>d. select_any n (\<lambda>s. st_tenant_id s = Some tid) (stations d)));
     State_Monad.return (wrap_err ''query station by tenant'' r) }"

definition insert_station :: "externals \<Rightarrow> create_station_request \<Rightarrow> station stmt" where
  "insert_station E req d =
     (let sid = gen_uuid E (uuid_ctr d);
          d1 = d\<lparr>uuid_ctr := Suc (uuid_ctr d)\<rparr>;
          s = \<lparr>st_id = sid, st_name = cs_name req, st_slug = cs_slug req, st_genre = cs_genre req,
               st_description = cs_description req, st_artwork_url = cs_artwork_url req,
               st_stream_url = cs_stream_url req, st_owner_id = cs_owner_id req,
               st_tenant_id = cs_tenant_id req, st_is_public = cs_is_public req,
               st_is_online = False, st_created_at = db_now d, st_updated_at = db_now d\<rparr>
      in if \<exists>u\<in>set (stations d). st_id u = sid \<or> st_slug u = cs_slug req
         then (Inl unique_violation, d1)
         else if (case cs_tenant_id req of None \<Rightarrow> False | Some t \<Rightarrow> \<forall>r\<in>set (tenants d). tn_id r \<noteq> t)
              \<or> (case cs_owner_id req of None \<Rightarrow> False | Some u \<Rightarrow> u \<notin> set (user_ids d))
         then (Inl foreign_key_violation, d1)
         else (Inr s, d1\<lparr>stations := stations d @ [s]\<rparr>))"

definition station_Create :: "externals \<Rightarrow> create_station_request \<Rightarrow> station res cp" where
  "station_Create E req = do {
     r \<leftarrow> db_call E (insert_station E req);
     State_Monad.return (wrap_err ''insert station'' r) }"

definition apply_station_update :: "update_station_request \<Rightarrow> station \<Rightarrow> station" where
  "apply_station_update req s =
     s\<lparr>st_name := case_option (st_name s) id (us_name req),
       st_slug := case_option (st_slug s) id (us_slug req),
       st_genre := case_option (st_genre s) id (us_genre req),
       st_description := case_option (st_description s) id (us_description req),
       st_artwork_url := case_option (st_artwork_url s) id (us_artwork_url req),
       st_stream_url := case_option (st_stream_url s) id (us_stream_url req),
       st_is_public := case_option (st_is_public s) id (us_is_public req),
       st_is_online := case_option (st_is_online s) id (us_is_online req)\<rparr>"

definition update_station_stmt :: "string \<Rightarrow> update_station_request \<Rightarrow> station stmt" where
  "update_station_stmt sid req d =
     (case select_one (\<lambda>s. st_id s = sid) (stations d) of
        None \<Rightarrow> (Inl ErrNoRows, d)
      | Some s \<Rightarrow>
          let s' = (apply_station_update req s)\<lparr>st_updated_at := db_now d\<rparr>
          in if \<exists>u\<in>set (stations d). st_id u \<noteq> sid \<and> st_slug u = st_slug s'
             then (Inl unique_violation, d)
             else (Inr s', d\<lparr>stations := update_where (\<lambda>u. st_id u = sid) (\<lambda>_. s') (stations d)\<rparr>))"

definition station_Update :: "externals \<Rightarrow> string \<Rightarrow> update_station_request \<Rightarrow> station option res cp" where
  "station_Update E sid req =
     (if us_name req = None \<and> us_slug req = None \<and> us_genre req = None \<and> us_description req = None
         \<and> us_artwork_url req = None \<and> us_stream_url req = None \<and> us_is_public req = None
         \<and> us_is_online req = None
      then State_Monad.return (Inl station_ErrNoUpdate)
      else do {
        r \<leftarrow> db_call E (update_station_stmt sid req);
        State_Monad.return (case r of
            Inr s \<Rightarrow> Inr (Some s)
          | Inl e \<Rightarrow> if e = ErrNoRows then Inr None else Inl (Wrap ''update station'' e)) })"

definition set_online_stmt :: "string \<Rightarrow> bool \<Rightarrow> nat stmt" where
  "set_online_stmt tid online d =
     (Inr (count_where (\<lambda>s. st_tenant_id s = Some tid) (stations d)),
      d\<lparr>stations := update_where (\<lambda>s. st_tenant_id s = Some tid)
                      (\<lambda>s. s\<lparr>st_is_online := online, st_updated_at := db_now d\<rparr>) (stations d)\<rparr>)"

definition station_SetOnline :: "externals \<Rightarrow> string \<Rightarrow> bool \<Rightarrow> unit res cp" where
  "station_SetOnline E tid online = do {
     r \<leftarrow> db_call E (set_online_stmt tid online);
     State_Monad.return (case r of Inl e \<Rightarrow> Inl (Wrap ''set station online'' e) | Inr _ \<Rightarrow> Inr ()) }"

definition station_CountByTenantID :: "externals \<Rightarrow> string \<Rightarrow> nat res cp" where
  "station_CountByTenantID E tid = do {
     r \<leftarrow> db_call E (query (\<lambda>d. count_where (\<lambda>s. st_tenant_id s = Some tid) (stations d)));
     State_Monad.return (wrap_err ''count stations by tenant'' r) }"

definition delete_station :: "string \<Rightarrow> nat stmt" where
  "delete_station sid d =
     (Inr (count_where (\<lambda>s. st_id s = sid) (stations d)),
      d\<lparr>stations := filter (\<lambda>s. st_id s \<noteq> sid) (stations d)\<rparr>)"

definition station_Delete :: "externals \<Rightarrow> string \<Rightarrow> unit res cp" where
  "station_Delete E sid = do {
     r \<leftarrow> db_call E (delete_station sid);
     State_Monad.return (case r of
         Inl e \<Rightarrow> Inl (Wrap ''delete station'' e)
       | Inr n \<Rightarrow> if n = 0 then Inl ErrNoRows else Inr ()) }"

section \<open>The creator\<close>

text \<open>Idempotent: a station that already exists for the tenant is left alone.\<close>

definition AutoCreateStation ::
  "externals \<Rightarrow> string \<Rightarrow> string \<Rightarrow> string \<Rightarrow> string \<Rightarrow> string \<Rightarrow> unit res cp" where
  "AutoCreateStation E tid name subdomain ownerID caddyDomain = do {
     existing \<leftarrow> station_GetByTenantID E tid;
     case existing of
       Inl e \<Rightarrow> State_Monad.return (Inl (Wrap ''check existing station'' e))
     | Inr (Some _) \<Rightarrow> State_Monad.return (Inr ())
     | Inr None \<Rightarrow> do {
         r \<leftarrow> station_Create E
                \<lparr>cs_name = name, cs_slug = subdomain, cs_genre = [], cs_description = [],
                 cs_artwork_url = [], cs_stream_url = ''https://'' @ subdomain @ ''.'' @ caddyDomain,
                 cs_owner_id = (if ownerID = [] then None else Some ownerID),
                 cs_tenant_id = Some tid, cs_is_public = True\<rparr>;
         State_Monad.return (case r of Inl e \<Rightarrow> Inl (Wrap ''create station'' e) | Inr _ \<Rightarrow> Inr ()) } }"

section \<open>What the store keeps\<close>

definition stations_ok :: "db \<Rightarrow> bool" where
  "stations_ok d \<longleftrightarrow> distinct (map st_id (stations d))
     \<and> (\<forall>s\<in>set (stations d). \<forall>u\<in>set (stations d). st_id s \<noteq> st_id u \<longrightarrow> st_slug s \<noteq> st_slug u)"

lemma station_stmts_frame [simp]:
  "nodes (snd (insert_station E req d)) = nodes d"
  "projects (snd (insert_station E req d)) = projects d"
  "tenants (snd (insert_station E req d)) = tenants d"
  "nodes (snd (update_station_stmt sid ureq d)) = nodes d"
  "projects (snd (update_station_stmt sid ureq d)) = projects d"
  "tenants (snd (update_station_stmt sid ureq d)) = tenants d"
  "nodes (snd (set_online_stmt tid b d)) = nodes d"
  "projects (snd (set_online_stmt tid b d)) = projects d"
  "tenants (snd (set_online_stmt tid b d)) = tenants d"
  "nodes (snd (delete_station sid d)) = nodes d"
  "projects (snd (delete_station sid d)) = projects d"
  "tenants (snd (delete_station sid d)) = tenants d"
  by (auto simp: insert_station_def update_station_stmt_def set_online_stmt_def delete_station_def
      Let_def split: option.split)

lemma stations_ok_insert: "stations_ok d \<Longrightarrow> stations_ok (snd (insert_station E req d))"
  by (auto simp: insert_station_def stations_ok_def Let_def)

lemma stations_ok_update:
  assumes "stations_ok d"
  shows "stations_ok (snd (update_station_stmt sid req d))"
proof (cases "select_one (\<lambda>s. st_id s = sid) (stations d)")
  case None
  with assms show ?thesis by (simp add: update_station_stmt_def)
next
  case (Some s)
  let ?s = "(apply_station_update req s)\<lparr>st_updated_at := db_now d\<rparr>"
  have sid: "st_id ?s = sid"
    using select_one_Some [OF Some] by (simp add: apply_station_update_def)
  have "map st_id (update_where (\<lambda>u. st_id u = sid) (\<lambda>_. ?s) (stations d)) = map st_id (stations d)"
    by (rule map_update_where) (use sid in simp)
  with assms Some sid show ?thesis
    by (auto simp: update_station_stmt_def Let_def stations_ok_def set_update_where)
qed

lemma stations_ok_online: "stations_ok d \<Longrightarrow> stations_ok (snd (set_online_stmt tid b d))"
proof -
  assume "stations_ok d"
  moreover have "map st_id (update_where (\<lambda>s. st_tenant_id s = Some tid)
      (\<lambda>s. s\<lparr>st_is_online := b, st_updated_at := db_now d\<rparr>) (stations d)) = map st_id (stations d)"
    by (rule map_update_where) simp
  ultimately show ?thesis
    by (auto simp: set_online_stmt_def stations_ok_def set_update_where)
qed

lemma stations_ok_delete: "stations_ok d \<Longrightarrow> stations_ok (snd (delete_station sid d))"
  by (auto simp: delete_station_def stations_ok_def distinct_map_filter)

end
