(* ===== verification/CP_Audit.thy ===== *)
theory CP_Audit
  imports CP_Sample
begin

text \<open>
  The audit log (\<open>src/internal/audit/store.go\<close>): \<open>Log\<close> is fire-and-forget, a failed insert is
  only logged. Details are the \<open>map[string]string\<close> the callers pass, or \<open>nil\<close>.
\<close>

definition insert_audit ::
  "externals \<Rightarrow> string \<Rightarrow> string \<Rightarrow> string \<Rightarrow> (string \<times> string) list option \<Rightarrow> unit stmt" where
  "insert_audit E action entityType entityID details d =
     (let aid = gen_uuid E (uuid_ctr d);
          a = \<lparr>au_id = aid, au_action = action, au_entity_type = entityType, au_entity_id = entityID,
               au_details = details, au_created_at = db_now d\<rparr>
      in if \<exists>b\<in>set (audit_log d). au_id b = aid
         then (Inl unique_violation, d\<lparr>uuid_ctr := Suc (uuid_ctr d)\<rparr>)
         else (Inr (), d\<lparr>uuid_ctr := Suc (uuid_ctr d), audit_log := audit_log d @ [a]\<rparr>))"

definition audit_Log ::
  "externals \<Rightarrow> string \<Rightarrow> string \<Rightarrow> string \<Rightarrow> (string \<times> string) list option \<Rightarrow> unit cp" where
  "audit_Log E action entityType entityID details = do {
     _ \<leftarrow> db_call E (insert_audit E action entityType entityID details);
     State_Monad.return () }"

text \<open>\<open>List\<close>: an empty filter matches everything.\<close>

definition audit_List ::
  "externals \<Rightarrow> int \<Rightarrow> int \<Rightarrow> string \<Rightarrow> string \<Rightarrow> (audit_entry list \<times> nat) res cp" where
  "audit_List E limit offset entityType action = do {
     r \<leftarrow> db_call E (query (\<lambda>d. page limit offset (order_desc au_created_at
            (filter (\<lambda>a. (entityType = [] \<or> au_entity_type a = entityType)
                       \<and> (action = [] \<or> au_action a = action)) (audit_log d)))));
     State_Monad.return (wrap_err ''query audit_log'' r) }"

definition audit_ListByEntity ::
  "externals \<Rightarrow> string \<Rightarrow> string \<Rightarrow> int \<Rightarrow> audit_entry list res cp" where
  "audit_ListByEntity E entityType entityID limit = do {
     r \<leftarrow> db_call E (query (\<lambda>d. take (nat limit) (order_desc au_created_at
            (filter (\<lambda>a. au_entity_type a = entityType \<and> au_entity_id a = entityID) (audit_log d)))));
     State_Monad.return (wrap_err ''query audit_log by entity'' r) }"

lemma insert_audit_frame [simp]:
  "nodes (snd (insert_audit E a t i x d)) = nodes d"
  "projects (snd (insert_audit E a t i x d)) = projects d"
  "tenants (snd (insert_audit E a t i x d)) = tenants d"
  "stations (snd (insert_audit E a t i x d)) = stations d"
  by (simp_all add: insert_audit_def Let_def)

text \<open>The log is only ever appended to.\<close>

lemma insert_audit_appends: "\<exists>new. audit_log (snd (insert_audit E a t i x d)) = audit_log d @ new"
  by (simp add: insert_audit_def Let_def)

end
