(* ===== verification/CP_Steps.thy ===== *)
theory CP_Steps
  imports CP_Node CP_Project CP_Tenant_Store CP_Station_Store CP_Audit
begin

text \<open>
  The database as a transition system. \<open>cp_step\<close> has one rule per kind of statement the control
  plane issues on nodes, projects, tenants and stations, and one for the statements on the other tables (users, tokens,
  peers); \<open>sys_step\<close> adds the clock of the database; its reflexive and transitive closure is every interleaving of the
  statements of any number of requests and provisioning jobs. Invariants are proved here once, by rule
  induction; the components show that each of their operations only takes such steps.
\<close>

section \<open>The tenant life cycle\<close>

inductive status_step :: "tenant_status \<Rightarrow> tenant_status \<Rightarrow> bool" where
  "status_step Provisioning Active"
| "status_step Provisioning Errored"
| "status_step Active Suspended"
| "status_step Suspended Active"
| "status_step Active Deleting"
| "status_step Errored Deleting"
| "status_step Suspended Deleting"
| "status_step Deleting Errored"
| "status_step Deleting Deleted"

code_pred status_step .

inductive_simps from_deleted [simp]: "status_step Deleted s"
inductive_simps to_provisioning [simp]: "status_step s Provisioning"
inductive_simps to_deleted: "status_step s Deleted"
inductive_simps to_active: "status_step s Active"

text \<open>What one statement may do to a tenant row: the identity, the placement, the subdomain and the
  owner are fixed, the status moves along the life cycle or stays.\<close>

definition row_step :: "tenant \<Rightarrow> tenant \<Rightarrow> bool" where
  "row_step t t' \<longleftrightarrow> tn_id t' = tn_id t \<and> tn_project_id t' = tn_project_id t
     \<and> tn_node_id t' = tn_node_id t \<and> tn_subdomain t' = tn_subdomain t
     \<and> tn_owner_id t' = tn_owner_id t \<and> tn_created_at t' = tn_created_at t
     \<and> (tn_status t' = tn_status t \<or> status_step (tn_status t) (tn_status t'))"

text \<open>
  What one statement may do to the sessions: a revoked access token stays listed and a refresh token stays as it is, or
  becomes revoked, for as long as the token could still be used; the hashes of the refresh tokens stay unique.
\<close>

definition refresh_kept :: "refresh_token \<Rightarrow> refresh_token \<Rightarrow> bool" where
  "refresh_kept t t' \<longleftrightarrow> rt_token_hash t' = rt_token_hash t \<and> rt_user_id t' = rt_user_id t
     \<and> rt_expires_at t' = rt_expires_at t \<and> (rt_revoked_at t \<noteq> None \<longrightarrow> rt_revoked_at t' = rt_revoked_at t)"

definition sessions_kept :: "db \<Rightarrow> db \<Rightarrow> bool" where
  "sessions_kept d d' \<longleftrightarrow> db_now d' = db_now d
     \<and> (\<forall>v\<in>set (revoked_tokens d). db_now d \<le> rv_expires_at v \<longrightarrow> v \<in> set (revoked_tokens d'))
     \<and> (\<forall>t\<in>set (refresh_tokens d). db_now d \<le> rt_expires_at t \<longrightarrow> (\<exists>t'\<in>set (refresh_tokens d'). refresh_kept t t'))
     \<and> (distinct (map rt_token_hash (refresh_tokens d)) \<longrightarrow> distinct (map rt_token_hash (refresh_tokens d')))"

section \<open>Steps\<close>

inductive cp_step :: "externals \<Rightarrow> db \<Rightarrow> db \<Rightarrow> bool" for E where
  S_reserve: "0 \<le> r \<Longrightarrow> cp_step E d (snd (reserve_ram nid r d))"
| S_release: "0 \<le> r \<Longrightarrow> cp_step E d (snd (release_ram nid r d))"
| S_node_insert: "0 \<le> cn_total_ram_mb nreq \<Longrightarrow> cp_step E d (snd (insert_node E nreq d))"
| S_node_update: "cp_step E d (snd (update_node_stmt nid ureq d))"
| S_node_delete: "cp_step E d (snd (delete_node nid d))"
| S_project_insert: "0 \<le> cp_ram_mb preq \<Longrightarrow> cp_step E d (snd (insert_project E preq d))"
| S_project_update: "(\<And>r. up_ram_mb pureq = Some r \<Longrightarrow> 0 \<le> r)
    \<Longrightarrow> cp_step E d (snd (update_project_stmt pid pureq d))"
| S_project_delete: "cp_step E d (snd (delete_project pid d))"
| S_tenant_insert: "cp_step E d (snd (insert_tenant E treq owner d))"
| S_tenant_update: "cp_step E d (snd (update_tenant_stmt tid tureq d))"
| S_tenant_move: "(\<And>t. P t \<Longrightarrow> row_step t (f t) \<and> tn_name (f t) = tn_name t)
    \<Longrightarrow> cp_step E d (snd (update_tenants P f d))"
| S_station_insert: "cp_step E d (snd (insert_station E sreq d))"
| S_station_update: "cp_step E d (snd (update_station_stmt sid sureq d))"
| S_station_online: "cp_step E d (snd (set_online_stmt tid online d))"
| S_station_delete: "cp_step E d (snd (delete_station sid d))"
| S_audit: "cp_step E d (snd (insert_audit E a ety eid x d))"
| S_other: "nodes d' = nodes d \<Longrightarrow> projects d' = projects d \<Longrightarrow> tenants d' = tenants d \<Longrightarrow> stations d' = stations d
    \<Longrightarrow> sessions_kept d d' \<Longrightarrow> cp_step E d d'"

abbreviation cp_steps :: "externals \<Rightarrow> db \<Rightarrow> db \<Rightarrow> bool" where
  "cp_steps E \<equiv> (cp_step E)\<^sup>*\<^sup>*"

text \<open>The system between two statements: other statements, or the clock of the database.\<close>

inductive sys_step :: "externals \<Rightarrow> db \<Rightarrow> db \<Rightarrow> bool" for E where
  Stmt: "cp_step E d d' \<Longrightarrow> sys_step E d d'"
| Tick: "sys_step E d (d\<lparr>db_now := now\<rparr>)"

abbreviation sys_steps :: "externals \<Rightarrow> db \<Rightarrow> db \<Rightarrow> bool" where
  "sys_steps E \<equiv> (sys_step E)\<^sup>*\<^sup>*"

lemma cp_sys_steps: "cp_steps E d d' \<Longrightarrow> sys_steps E d d'"
  by (induction rule: rtranclp_induct) (auto intro: Stmt rtranclp.rtrancl_into_rtrancl)

section \<open>Invariants\<close>

definition live :: "tenant \<Rightarrow> bool" where
  "live t \<longleftrightarrow> tn_status t \<noteq> Deleted"

definition tenants_ok :: "db \<Rightarrow> bool" where
  "tenants_ok d \<longleftrightarrow> distinct (map tn_id (tenants d))
     \<and> (\<forall>t\<in>set (tenants d). \<forall>u\<in>set (tenants d). tn_id t \<noteq> tn_id u \<longrightarrow> live t \<longrightarrow> live u
          \<longrightarrow> tn_name t \<noteq> tn_name u \<and> tn_subdomain t \<noteq> tn_subdomain u)"

definition refs_ok :: "db \<Rightarrow> bool" where
  "refs_ok d \<longleftrightarrow> (\<forall>t\<in>set (tenants d).
     tn_node_id t \<in> set (map nd_id (nodes d)) \<and> tn_project_id t \<in> set (map pr_id (projects d)))"

definition db_inv :: "db \<Rightarrow> bool" where
  "db_inv d \<longleftrightarrow> nodes_ok d \<and> projects_ok d \<and> tenants_ok d \<and> refs_ok d \<and> stations_ok d"

lemma update_tenants_frame [simp]:
  "nodes (snd (update_tenants P f d)) = nodes d"
  "projects (snd (update_tenants P f d)) = projects d"
  "stations (snd (update_tenants P f d)) = stations d"
  by (simp_all add: update_tenants_def)

lemma tenant_stmts_frame [simp]:
  "nodes (snd (insert_tenant E req ow d)) = nodes d"
  "projects (snd (insert_tenant E req ow d)) = projects d"
  "stations (snd (insert_tenant E req ow d)) = stations d"
  "nodes (snd (update_tenant_stmt tid ureq d)) = nodes d"
  "projects (snd (update_tenant_stmt tid ureq d)) = projects d"
  "stations (snd (update_tenant_stmt tid ureq d)) = stations d"
  by (auto simp: insert_tenant_def update_tenant_stmt_def Let_def split: option.split)

lemma tenants_update_tenants:
  "tenants (snd (update_tenants P f d))
     = update_where P (\<lambda>t. (f t)\<lparr>tn_updated_at := db_now d\<rparr>) (tenants d)"
  by (simp add: update_tenants_def)

lemma row_step_stamp [simp]: "row_step t (u\<lparr>tn_updated_at := n\<rparr>) \<longleftrightarrow> row_step t u"
  by (simp add: row_step_def)

lemma row_step_refl [simp]: "row_step t t"
  by (simp add: row_step_def)

lemma row_step_live: "row_step t t' \<Longrightarrow> live t' \<Longrightarrow> live t"
  by (auto simp: row_step_def live_def)

lemma apply_tenant_update_row [simp]: "row_step t (apply_tenant_update req t)"
  by (simp add: row_step_def apply_tenant_update_def)

text \<open>An update that maps rows along \<open>row_step\<close> is described by the function on single rows.\<close>

lemma update_tenants_rows:
  assumes "\<And>t. P t \<Longrightarrow> row_step t (f t)"
  obtains g where "\<And>t. row_step t (g t)" "tenants (snd (update_tenants P f d)) = map g (tenants d)"
    "\<And>t. \<not> P t \<Longrightarrow> g t = t" "\<And>t. P t \<Longrightarrow> g t = (f t)\<lparr>tn_updated_at := db_now d\<rparr>"
proof (rule that [of "\<lambda>t. if P t then (f t)\<lparr>tn_updated_at := db_now d\<rparr> else t"])
  show "row_step t (if P t then (f t)\<lparr>tn_updated_at := db_now d\<rparr> else t)" for t
    using assms by simp
qed (simp_all add: tenants_update_tenants update_where_def)

lemma refs_ok_map:
  "refs_ok d \<Longrightarrow> (\<And>t. row_step t (g t)) \<Longrightarrow> nodes d' = nodes d \<Longrightarrow> projects d' = projects d
   \<Longrightarrow> tenants d' = map g (tenants d) \<Longrightarrow> refs_ok d'"
  by (auto simp: refs_ok_def row_step_def)

lemma tenants_ok_map:
  assumes "tenants_ok d" "\<And>t. row_step t (g t)" "tenants d' = map g (tenants d)"
    and "\<And>t u. \<lbrakk>t \<in> set (tenants d); u \<in> set (tenants d); tn_id t \<noteq> tn_id u; live t; live u; live (g t);
              live (g u)\<rbrakk> \<Longrightarrow> tn_name (g t) \<noteq> tn_name (g u)"
  shows "tenants_ok d'"
proof -
  have ids: "map tn_id (map g (tenants d)) = map tn_id (tenants d)"
    using assms(2) by (auto simp: row_step_def)
  have "tn_name (g t) \<noteq> tn_name (g u) \<and> tn_subdomain (g t) \<noteq> tn_subdomain (g u)"
    if "t \<in> set (tenants d)" "u \<in> set (tenants d)" "tn_id (g t) \<noteq> tn_id (g u)" "live (g t)" "live (g u)"
    for t u
  proof -
    from assms(2) have e: "tn_id (g t) = tn_id t" "tn_id (g u) = tn_id u"
        "tn_subdomain (g t) = tn_subdomain t" "tn_subdomain (g u) = tn_subdomain u"
      by (auto simp: row_step_def)
    have l: "live t" "live u" using row_step_live assms(2) that(4,5) by blast+
    from that e l assms(1) have "tn_subdomain t \<noteq> tn_subdomain u"
      unfolding tenants_ok_def by metis
    moreover from that e l have "tn_name (g t) \<noteq> tn_name (g u)" by (intro assms(4)) simp_all
    ultimately show ?thesis by (simp add: e)
  qed
  moreover have "distinct (map tn_id (map g (tenants d)))"
    using assms(1) unfolding ids tenants_ok_def by blast
  ultimately show ?thesis unfolding tenants_ok_def assms(3) by auto
qed

lemma tenants_ok_insert: "tenants_ok d \<Longrightarrow> tenants_ok (snd (insert_tenant E req ow d))"
  by (auto simp: insert_tenant_def tenants_ok_def Let_def live_def)

lemma refs_ok_insert: "refs_ok d \<Longrightarrow> refs_ok (snd (insert_tenant E req ow d))"
  by (auto simp: insert_tenant_def refs_ok_def Let_def image_iff) metis+

lemma tenant_row_in: "tenant_row d tid = Some t \<Longrightarrow> t \<in> set (tenants d) \<and> tn_id t = tid"
  by (auto simp: tenant_row_def dest: select_one_Some)

lemma tenant_row_key: "tenants_ok d \<Longrightarrow> t \<in> set (tenants d) \<Longrightarrow> tenant_row d (tn_id t) = Some t"
  unfolding tenants_ok_def tenant_row_def by (rule select_one_key) auto

lemma tenants_ok_update_stmt:
  assumes "tenants_ok d"
  shows "tenants_ok (snd (update_tenant_stmt tid req d))"
proof (cases "tenant_row d tid")
  case None
  with assms show ?thesis by (simp add: update_tenant_stmt_def)
next
  case (Some t0)
  obtain g where g: "\<And>t. row_step t (g t)"
      "tenants (snd (update_tenants (\<lambda>u. tn_id u = tid) (apply_tenant_update req) d)) = map g (tenants d)"
      "\<And>t. tn_id t \<noteq> tid \<Longrightarrow> g t = t"
      "\<And>t. tn_id t = tid \<Longrightarrow> g t = (apply_tenant_update req t)\<lparr>tn_updated_at := db_now d\<rparr>"
    by (rule update_tenants_rows [of "\<lambda>u. tn_id u = tid" "apply_tenant_update req" d]) auto
  have only: "t = t0" if "t \<in> set (tenants d)" "tn_id t = tid" for t
    using tenant_row_key [OF assms that(1)] that(2) Some by simp
  show ?thesis
  proof (cases "snd (update_tenant_stmt tid req d) = d")
    case True
    with assms show ?thesis by simp
  next
    case False
    with Some have d': "snd (update_tenant_stmt tid req d)
        = snd (update_tenants (\<lambda>u. tn_id u = tid) (apply_tenant_update req) d)"
      and free: "tn_status t0 \<noteq> Deleted \<Longrightarrow> u \<in> set (tenants d) \<Longrightarrow> tn_id u \<noteq> tid \<Longrightarrow> live u
          \<Longrightarrow> tn_name u \<noteq> tn_name (apply_tenant_update req t0)" for u
      by (auto simp: update_tenant_stmt_def Let_def live_def split: if_splits)
    show ?thesis unfolding d'
    proof (rule tenants_ok_map [OF assms g(1) g(2)])
      fix t u
      assume A: "t \<in> set (tenants d)" "u \<in> set (tenants d)" "tn_id t \<noteq> tn_id u" "live t" "live u"
      consider "tn_id t = tid" "tn_id u \<noteq> tid" | "tn_id u = tid" "tn_id t \<noteq> tid"
        | "tn_id t \<noteq> tid" "tn_id u \<noteq> tid" using A by auto
      then show "tn_name (g t) \<noteq> tn_name (g u)"
      proof cases
        case 1
        with A only have "t = t0" by blast
        with 1 A free [of u] show ?thesis by (simp add: g live_def)
      next
        case 2
        with A only have "u = t0" by blast
        with 2 A free [of t] show ?thesis by (simp add: g live_def)
      next
        case 3
        with A assms show ?thesis unfolding tenants_ok_def by (simp add: g)
      qed
    qed
  qed
qed

lemma update_tenant_stmt_rows:
  obtains g where "\<And>t. row_step t (g t)" "tenants (snd (update_tenant_stmt tid req d)) = map g (tenants d)"
proof (cases "snd (update_tenant_stmt tid req d) = d")
  case True
  then show thesis using that [of id] by simp
next
  case False
  then have d': "snd (update_tenant_stmt tid req d)
      = snd (update_tenants (\<lambda>u. tn_id u = tid) (apply_tenant_update req) d)"
    by (auto simp: update_tenant_stmt_def Let_def split: option.splits if_splits)
  show thesis
    by (rule update_tenants_rows [of "\<lambda>u. tn_id u = tid" "apply_tenant_update req" d])
      (use that d' in auto)
qed


lemma refs_ok_shrink:
  assumes "refs_ok d" "tenants d' = tenants d"
    and "\<And>t. t \<in> set (tenants d) \<Longrightarrow> tn_node_id t \<in> set (map nd_id (nodes d)) \<Longrightarrow> tn_node_id t \<in> set (map nd_id (nodes d'))"
    and "\<And>t. t \<in> set (tenants d) \<Longrightarrow> tn_project_id t \<in> set (map pr_id (projects d)) \<Longrightarrow> tn_project_id t \<in> set (map pr_id (projects d'))"
  shows "refs_ok d'"
  unfolding refs_ok_def assms(2)
proof (intro ballI conjI)
  fix t
  assume "t \<in> set (tenants d)"
  with assms(1) show "tn_node_id t \<in> set (map nd_id (nodes d'))"
      "tn_project_id t \<in> set (map pr_id (projects d'))"
    unfolding refs_ok_def by (blast intro: assms(3,4))+
qed

lemma refs_ok_delete_node: "refs_ok d \<Longrightarrow> refs_ok (snd (delete_node nid d))"
  by (erule refs_ok_shrink) (auto simp: delete_node_def node_row_def select_one_None)

lemma refs_ok_delete_project: "refs_ok d \<Longrightarrow> refs_ok (snd (delete_project pid d))"
  by (erule refs_ok_shrink) (auto simp: delete_project_def project_row_def select_one_None)

lemma refs_ok_insert_node: "refs_ok d \<Longrightarrow> refs_ok (snd (insert_node E req d))"
  by (erule refs_ok_shrink) (auto simp: insert_node_def Let_def split: sum.split)

lemma refs_ok_insert_project: "refs_ok d \<Longrightarrow> refs_ok (snd (insert_project E req d))"
  by (erule refs_ok_shrink) (auto simp: insert_project_def Let_def split: sum.split)

text \<open>Each part of the invariant only looks at its tables, so the statements on other tables are
  discharged by their frame lemmas.\<close>

lemma nodes_ok_step: "cp_step E d d' \<Longrightarrow> nodes_ok d \<Longrightarrow> nodes_ok d'"
  by (induction rule: cp_step.induct)
    (simp_all add: nodes_ok_reserve_ram nodes_ok_release_ram nodes_ok_insert nodes_ok_update_stmt
      nodes_ok_delete, simp_all add: nodes_ok_def)

lemma projects_ok_step: "cp_step E d d' \<Longrightarrow> projects_ok d \<Longrightarrow> projects_ok d'"
  by (induction rule: cp_step.induct)
    (simp_all add: projects_ok_insert projects_ok_update projects_ok_delete, simp_all add: projects_ok_def)

lemma stations_ok_step: "cp_step E d d' \<Longrightarrow> stations_ok d \<Longrightarrow> stations_ok d'"
  by (induction rule: cp_step.induct)
    (simp_all add: stations_ok_insert stations_ok_update stations_ok_online stations_ok_delete,
     simp_all add: stations_ok_def)

lemma tenants_ok_move:
  assumes "tenants_ok d" "\<And>t. P t \<Longrightarrow> row_step t (f t) \<and> tn_name (f t) = tn_name t"
  shows "tenants_ok (snd (update_tenants P f d))"
proof -
  obtain g where g: "\<And>t. row_step t (g t)" "tenants (snd (update_tenants P f d)) = map g (tenants d)"
      "\<And>t. \<not> P t \<Longrightarrow> g t = t" "\<And>t. P t \<Longrightarrow> g t = (f t)\<lparr>tn_updated_at := db_now d\<rparr>"
    by (rule update_tenants_rows [of P f d]) (use assms in auto)
  then have "tn_name (g t) = tn_name t" for t using assms(2) by (cases "P t") auto
  with assms(1) show ?thesis
    by (intro tenants_ok_map [OF assms(1) g(1,2)]) (auto simp: tenants_ok_def)
qed

lemma tenants_ok_step: "cp_step E d d' \<Longrightarrow> tenants_ok d \<Longrightarrow> tenants_ok d'"
  by (induction rule: cp_step.induct)
    (simp_all add: tenants_ok_insert tenants_ok_update_stmt tenants_ok_move, simp_all add: tenants_ok_def)

lemma refs_ok_rows:
  assumes "refs_ok d" "\<And>t. P t \<Longrightarrow> row_step t (f t)"
  shows "refs_ok (snd (update_tenants P f d))"
proof -
  obtain g where g: "\<And>t. row_step t (g t)" "tenants (snd (update_tenants P f d)) = map g (tenants d)"
    by (rule update_tenants_rows [of P f d]) (use assms in auto)
  show ?thesis by (rule refs_ok_map [OF assms(1) g(1) _ _ g(2)]) simp_all
qed

lemma refs_ok_update_stmt: "refs_ok d \<Longrightarrow> refs_ok (snd (update_tenant_stmt tid req d))"
proof -
  assume d: "refs_ok d"
  obtain g where g: "\<And>t. row_step t (g t)" "tenants (snd (update_tenant_stmt tid req d)) = map g (tenants d)"
    by (rule update_tenant_stmt_rows [of tid req d]) auto
  show ?thesis by (rule refs_ok_map [OF d g(1) _ _ g(2)]) simp_all
qed

lemma refs_ok_step: "cp_step E d d' \<Longrightarrow> refs_ok d \<Longrightarrow> refs_ok d'"
  by (induction rule: cp_step.induct)
    (simp_all add: refs_ok_insert refs_ok_rows refs_ok_update_stmt refs_ok_delete_node
      refs_ok_delete_project refs_ok_insert_node refs_ok_insert_project,
     simp_all add: refs_ok_def flip: set_map)

lemma db_inv_step: "cp_step E d d' \<Longrightarrow> db_inv d \<Longrightarrow> db_inv d'"
  unfolding db_inv_def
  using nodes_ok_step projects_ok_step tenants_ok_step refs_ok_step stations_ok_step by blast

lemma db_inv_tick [simp]: "db_inv (d\<lparr>db_now := now\<rparr>) \<longleftrightarrow> db_inv d"
  by (simp add: db_inv_def nodes_ok_def projects_ok_def tenants_ok_def refs_ok_def stations_ok_def)

lemma db_inv_sys_steps: "sys_steps E d d' \<Longrightarrow> db_inv d \<Longrightarrow> db_inv d'"
  by (induction rule: rtranclp_induct) (auto elim!: sys_step.cases intro: db_inv_step)

lemma db_inv_steps: "cp_steps E d d' \<Longrightarrow> db_inv d \<Longrightarrow> db_inv d'"
  by (rule db_inv_sys_steps [OF cp_sys_steps])

lemma projects_ok_steps: "cp_steps E d d' \<Longrightarrow> projects_ok d \<Longrightarrow> projects_ok d'"
  by (induction rule: rtranclp_induct) (auto intro: projects_ok_step)

section \<open>The history of a tenant\<close>

text \<open>What any number of statements may have done to a row.\<close>

definition evolved :: "tenant \<Rightarrow> tenant \<Rightarrow> bool" where
  "evolved t t' \<longleftrightarrow> tn_id t' = tn_id t \<and> tn_project_id t' = tn_project_id t
     \<and> tn_node_id t' = tn_node_id t \<and> tn_subdomain t' = tn_subdomain t
     \<and> tn_owner_id t' = tn_owner_id t \<and> status_step\<^sup>*\<^sup>* (tn_status t) (tn_status t')"

lemma evolved_refl [simp]: "evolved t t"
  by (simp add: evolved_def)

lemma evolved_row_step: "evolved t t' \<Longrightarrow> row_step t' t'' \<Longrightarrow> evolved t t''"
  by (auto simp: evolved_def row_step_def intro: rtranclp.rtrancl_into_rtrancl)

lemma rows_step:
  assumes "cp_step E d d'" "t \<in> set (tenants d)"
  shows "\<exists>t'\<in>set (tenants d'). row_step t t'"
  using assms
proof (induction rule: cp_step.induct)
  case (S_tenant_insert d treq owner)
  then have "t \<in> set (tenants (snd (insert_tenant E treq owner d)))"
    by (simp add: insert_tenant_def Let_def)
  then show ?case using row_step_refl by blast
next
  case (S_tenant_update d tid tureq)
  obtain g where "\<And>t. row_step t (g t)" "tenants (snd (update_tenant_stmt tid tureq d)) = map g (tenants d)"
    by (rule update_tenant_stmt_rows [of tid tureq d]) auto
  with S_tenant_update show ?case by auto
next
  case (S_tenant_move P f d)
  obtain g where "\<And>t. row_step t (g t)" "tenants (snd (update_tenants P f d)) = map g (tenants d)"
    by (rule update_tenants_rows [of P f d]) (use S_tenant_move in auto)
  with S_tenant_move(2) show ?case by auto
qed (auto intro: row_step_refl)

lemma rows_sys_step: "sys_step E d d' \<Longrightarrow> t \<in> set (tenants d) \<Longrightarrow> \<exists>t'\<in>set (tenants d'). row_step t t'"
  by (auto elim!: sys_step.cases intro: rows_step bexI [of _ t])

lemma rows_sys_steps:
  assumes "sys_steps E d d'" "t \<in> set (tenants d)"
  shows "\<exists>t'\<in>set (tenants d'). evolved t t'"
  using assms
proof (induction rule: rtranclp_induct)
  case (step e f)
  then obtain t1 where "t1 \<in> set (tenants e)" "evolved t t1" by blast
  moreover from this rows_sys_step [OF step(2)] obtain t2 where "t2 \<in> set (tenants f)" "row_step t1 t2" by blast
  ultimately show ?case using evolved_row_step by blast
qed (auto intro: bexI [of _ t])

lemma rows_steps: "cp_steps E d d' \<Longrightarrow> t \<in> set (tenants d) \<Longrightarrow> \<exists>t'\<in>set (tenants d'). evolved t t'"
  by (rule rows_sys_steps [OF cp_sys_steps])

lemma deleted_steps: "status_step\<^sup>*\<^sup>* s s' \<Longrightarrow> s = Deleted \<Longrightarrow> s' = Deleted"
  by (induction rule: rtranclp_induct) auto

section \<open>The history of a session\<close>

lemma refresh_kept_refl [simp]: "refresh_kept t t"
  by (simp add: refresh_kept_def)

lemma refresh_kept_trans: "refresh_kept t t' \<Longrightarrow> refresh_kept t' t'' \<Longrightarrow> refresh_kept t t''"
  by (auto simp: refresh_kept_def)

lemma sessions_kept_refl [simp]: "sessions_kept d d"
  unfolding sessions_kept_def using refresh_kept_refl by blast

lemma sessions_kept_frame:
  "db_now d' = db_now d \<Longrightarrow> revoked_tokens d' = revoked_tokens d \<Longrightarrow> refresh_tokens d' = refresh_tokens d \<Longrightarrow> sessions_kept d d'"
  using sessions_kept_refl [of d] unfolding sessions_kept_def by metis

lemma sessions_kept_trans:
  assumes "sessions_kept d e" "sessions_kept e f"
  shows "sessions_kept d f"
proof -
  have "\<exists>t'\<in>set (refresh_tokens f). refresh_kept t t'" if t: "t \<in> set (refresh_tokens d)" "db_now d \<le> rt_expires_at t" for t
  proof -
    obtain t1 where t1: "t1 \<in> set (refresh_tokens e)" "refresh_kept t t1"
      using t assms(1) unfolding sessions_kept_def by blast
    then have "db_now e \<le> rt_expires_at t1" using t assms(1) by (simp add: sessions_kept_def refresh_kept_def)
    with t1(1) obtain t2 where "t2 \<in> set (refresh_tokens f)" "refresh_kept t1 t2"
      using assms(2) unfolding sessions_kept_def by blast
    with t1 show ?thesis using refresh_kept_trans by blast
  qed
  with assms show ?thesis unfolding sessions_kept_def by metis
qed

text \<open>The statements on the other tables leave the sessions alone.\<close>

abbreviation session_tables :: "db \<Rightarrow> int \<times> revoked_token list \<times> refresh_token list" where
  "session_tables d \<equiv> (db_now d, revoked_tokens d, refresh_tokens d)"

lemma session_frames:
  "session_tables (snd (reserve_ram nid r d)) = session_tables d" "session_tables (snd (release_ram nid r d)) = session_tables d"
  "session_tables (snd (insert_node E nreq d)) = session_tables d" "session_tables (snd (update_node_stmt nid ureq d)) = session_tables d"
  "session_tables (snd (delete_node nid d)) = session_tables d" "session_tables (snd (insert_project E preq d)) = session_tables d"
  "session_tables (snd (update_project_stmt pid pureq d)) = session_tables d" "session_tables (snd (delete_project pid d)) = session_tables d"
  "session_tables (snd (insert_tenant E treq ow d)) = session_tables d" "session_tables (snd (update_tenant_stmt tid tureq d)) = session_tables d"
  "session_tables (snd (update_tenants P f d)) = session_tables d" "session_tables (snd (insert_station E sreq d)) = session_tables d"
  "session_tables (snd (update_station_stmt sid sureq d)) = session_tables d" "session_tables (snd (set_online_stmt tid onl d)) = session_tables d"
  "session_tables (snd (delete_station sid d)) = session_tables d" "session_tables (snd (insert_audit E a ety eid x d)) = session_tables d"
  by (auto simp: reserve_ram_def release_ram_def insert_node_def update_node_stmt_def delete_node_def update_node_def
      insert_project_def update_project_stmt_def delete_project_def insert_tenant_def update_tenant_stmt_def update_tenants_def
      insert_station_def update_station_stmt_def set_online_stmt_def delete_station_def insert_audit_def Let_def
      split: sum.split option.split)

lemma sessions_step: "cp_step E d d' \<Longrightarrow> sessions_kept d d'"
proof (induction rule: cp_step.induct)
  case (S_other d' d)
  then show ?case by simp
qed (rule sessions_kept_frame; use session_frames in simp)+

lemma sessions_steps: "cp_steps E d d' \<Longrightarrow> sessions_kept d d'"
  by (induction rule: rtranclp_induct) (auto intro: sessions_step sessions_kept_trans)

text \<open>Steps during which the clock of the database does not pass \<open>T\<close>: what expires after \<open>T\<close> is still there.\<close>

abbreviation steps_until :: "externals \<Rightarrow> int \<Rightarrow> db \<Rightarrow> db \<Rightarrow> bool" where
  "steps_until E T \<equiv> (\<lambda>d d'. sys_step E d d' \<and> db_now d' \<le> T)\<^sup>*\<^sup>*"

lemma sessions_kept_tick: "sessions_kept d d' \<or> (\<exists>now. d' = d\<lparr>db_now := now\<rparr>)" if "sys_step E d d'"
  using that by (auto elim!: sys_step.cases dest: sessions_step)

lemma revoked_until:
  assumes "steps_until E T d d'" "db_now d \<le> T" "v \<in> set (revoked_tokens d)" "T \<le> rv_expires_at v"
  shows "v \<in> set (revoked_tokens d')"
proof -
  have "db_now d' \<le> T \<and> v \<in> set (revoked_tokens d')" using assms(1)
  proof (induction rule: rtranclp_induct)
    case (step e f)
    then show ?case using sessions_kept_tick [of E e f] assms(4) by (auto simp: sessions_kept_def)
  qed (use assms in simp)
  then show ?thesis by simp
qed

lemma refresh_until:
  assumes "steps_until E T d d'" "db_now d \<le> T" "distinct (map rt_token_hash (refresh_tokens d))"
    and "t \<in> set (refresh_tokens d)" "T \<le> rt_expires_at t"
  shows "\<exists>t'. t' \<in> set (refresh_tokens d') \<and> refresh_kept t t' \<and> distinct (map rt_token_hash (refresh_tokens d'))"
proof -
  have "db_now d' \<le> T \<and> distinct (map rt_token_hash (refresh_tokens d')) \<and> (\<exists>t'\<in>set (refresh_tokens d'). refresh_kept t t')"
    using assms(1)
  proof (induction rule: rtranclp_induct)
    case (step e f)
    then obtain t1 where t1: "t1 \<in> set (refresh_tokens e)" "refresh_kept t t1" by blast
    then have "db_now e \<le> rt_expires_at t1" using step assms(5) by (simp add: refresh_kept_def)
    from step sessions_kept_tick [of E e f] consider "sessions_kept e f" | now where "f = e\<lparr>db_now := now\<rparr>" by blast
    then show ?case
    proof cases
      case 1
      then obtain t2 where "t2 \<in> set (refresh_tokens f)" "refresh_kept t1 t2"
        using t1 \<open>db_now e \<le> rt_expires_at t1\<close> unfolding sessions_kept_def by blast
      with 1 step t1 show ?thesis using refresh_kept_trans unfolding sessions_kept_def by blast
    qed (use step in auto)
  next
    case base
    then show ?case using assms refresh_kept_refl by blast
  qed
  then show ?thesis by blast
qed

section \<open>Programs over the store\<close>

interpretation steps: db_logic projects_ok "cp_steps E" for E
  by unfold_locales (auto intro: projects_ok_steps)

abbreviation cp_triple :: "externals \<Rightarrow> 'a cp \<Rightarrow> ('a \<Rightarrow> bool) \<Rightarrow> bool" where
  "cp_triple E m V \<equiv> triple (on_db projects_ok) (rel_db (cp_steps E)) m V"

lemma cp_write: "(\<And>d. projects_ok d \<Longrightarrow> cp_step E d (snd (s d))) \<Longrightarrow> cp_triple E (db_call E s) (\<lambda>_. True)"
  by (rule triple_weaken [OF steps.t_stmt [where V = "\<lambda>_. True"]]) auto

lemma cp_read: "(\<And>d. snd (s d) = d) \<Longrightarrow> cp_triple E (db_call E s) (\<lambda>_. True)"
  by (rule triple_weaken [OF steps.t_stmt [where V = "\<lambda>_. True"]]) auto

lemma cp_query: "cp_triple E (db_call E (query f)) (\<lambda>_. True)"
  by (rule cp_read) (simp add: query_def)

lemmas cp_ext = steps.t_ext and cp_ext_val = steps.t_ext_val

lemma cp_exec_rows:
  "(\<And>d. projects_ok d \<Longrightarrow> cp_step E d (snd (s d))) \<Longrightarrow> cp_triple E (exec_rows E m e s) (\<lambda>_. True)"
  unfolding exec_rows_def by (intro steps.t_control cp_write TrueI)

lemma cp_move:
  "(\<And>t. P t \<Longrightarrow> row_step t (f t) \<and> tn_name (f t) = tn_name t)
   \<Longrightarrow> cp_triple E (exec_rows E m e (update_tenants P f)) (\<lambda>_. True)"
  by (rule cp_exec_rows) (rule S_tenant_move)

subsection \<open>The tenant store\<close>

lemmas cas_moves = row_step_def cas_def status_step.simps

lemma SetSuspended_steps [io_rules]: "cp_triple E (SetSuspended E tid) (\<lambda>_. True)"
  unfolding SetSuspended_def by (rule cp_move) (auto simp: cas_moves)

lemma SetResumed_steps [io_rules]: "cp_triple E (SetResumed E tid) (\<lambda>_. True)"
  unfolding SetResumed_def by (rule cp_move) (auto simp: cas_moves)

lemma SetError_steps [io_rules]: "cp_triple E (SetError E tid m) (\<lambda>_. True)"
  unfolding SetError_def by (rule cp_move) (auto simp: cas_moves)

lemma SetDeleting_steps [io_rules]: "cp_triple E (SetDeleting E tid) (\<lambda>_. True)"
  unfolding SetDeleting_def by (rule cp_move) (auto simp: cas_moves)

lemma SetDeleted_steps [io_rules]: "cp_triple E (SetDeleted E tid) (\<lambda>_. True)"
  unfolding SetDeleted_def by (rule cp_move) (auto simp: cas_moves)

lemma SetLXCIP_steps [io_rules]: "cp_triple E (SetLXCIP E tid addr) (\<lambda>_. True)"
  unfolding SetLXCIP_def by (rule cp_move) (simp add: row_step_def)

lemma SetDashboardToken_steps [io_rules]: "cp_triple E (SetDashboardToken E tid tok) (\<lambda>_. True)"
  unfolding SetDashboardToken_def by (rule cp_move) (simp add: row_step_def)

lemma UpdateBilling_steps [io_rules]: "cp_triple E (UpdateBilling E tid c s tier) (\<lambda>_. True)"
  unfolding UpdateBilling_def by (rule cp_move) (simp add: row_step_def)

lemma cp_step_refl: "cp_step E d d"
  by (rule S_other) simp_all

lemma SetActive_steps [io_rules]: "cp_triple E (SetActive E tid l) (\<lambda>_. True)"
  unfolding SetActive_def set_active_stmt_def
  by (rule cp_exec_rows)
    (auto simp: cas_moves split: sum.split intro!: S_tenant_move cp_step_refl)

lemma SetHealthStatus_steps [io_rules]: "cp_triple E (SetHealthStatus E tid s) (\<lambda>_. True)"
  unfolding SetHealthStatus_def
  by (intro steps.t_control cp_write TrueI S_tenant_move) (simp add: row_step_def)

lemma tenant_inserts_steps [io_rules]:
  "cp_triple E (tenant_Create E req) (\<lambda>_. True)"
  "cp_triple E (CreateWithOwner E req ow) (\<lambda>_. True)"
  "cp_triple E (tenant_Update E tid ureq) (\<lambda>_. True)"
  unfolding tenant_Create_def CreateWithOwner_def tenant_Update_def
  by (intro steps.t_control cp_write TrueI S_tenant_insert S_tenant_update)+

lemma list_used_ips_steps [io_rules]: "cp_triple E (list_used_ips E) (\<lambda>_. True)"
  unfolding list_used_ips_def by (intro steps.t_control cp_query TrueI)

lemma Addr_case_triple:
  "(\<And>x. a = Addr4 x \<Longrightarrow> triple J Q (f x) V) \<Longrightarrow> (\<And>x. a = Addr6 x \<Longrightarrow> triple J Q (g x) V)
   \<Longrightarrow> triple J Q (case a of Addr4 x \<Rightarrow> f x | Addr6 x \<Rightarrow> g x) V"
  by (cases a) auto

lemma GetNextAvailableIP_steps [io_rules]: "cp_triple E (GetNextAvailableIP E cidr) (\<lambda>_. True)"
  unfolding GetNextAvailableIP_def Allocate_def
  by (intro steps.t_control Addr_case_triple io_rules cp_query TrueI)

lemma listActiveWithIP_steps [io_rules]: "cp_triple E (listActiveWithIP E) (\<lambda>_. True)"
  unfolding listActiveWithIP_def by (intro steps.t_control cp_query TrueI)

lemma tenant_reads_steps [io_rules]:
  "cp_triple E (tenant_List E) (\<lambda>_. True)"
  "cp_triple E (tenant_GetByID E tid) (\<lambda>_. True)"
  "cp_triple E (tenant_Count E) (\<lambda>_. True)"
  "cp_triple E (CountByOwnerID E ow) (\<lambda>_. True)"
  "cp_triple E (ListByOwnerID E ow) (\<lambda>_. True)"
  "cp_triple E (ListActiveWithIP E) (\<lambda>_. True)"
  "cp_triple E (ListPollable E) (\<lambda>_. True)"
  "cp_triple E (GetByStripeCustomerID E cust) (\<lambda>_. True)"
  "cp_triple E (GetBillingByOwnerID E ow) (\<lambda>_. True)"
  "cp_triple E (tenant_ListPaginated E l off st nid pid) (\<lambda>_. True)"
  unfolding tenant_List_def tenant_GetByID_def tenant_Count_def CountByOwnerID_def ListByOwnerID_def
    ListActiveWithIP_def ListPollable_def GetByStripeCustomerID_def GetBillingByOwnerID_def
    tenant_ListPaginated_def
  by (rule steps.t_control io_rules cp_query cp_read TrueI | simp)+

subsection \<open>Nodes, projects, stations, audit\<close>

text \<open>The one value the programs depend on: the RAM a project asks for is never negative.\<close>

definition ram_nonneg :: "project option res \<Rightarrow> bool" where
  "ram_nonneg r \<longleftrightarrow> (\<forall>p. r = Inr (Some p) \<longrightarrow> 0 \<le> pr_ram_mb p)"

lemma project_row_nonneg:
  assumes "\<And>d p. f d = Some p \<Longrightarrow> p \<in> set (projects d)"
  shows "cp_triple E (db_call E (query f)) ram_nonneg"
proof (rule triple_weaken)
  show "cp_triple E (db_call E (query f)) (\<lambda>r. \<forall>x. r = Inr x \<longrightarrow> (\<forall>p. x = Some p \<longrightarrow> 0 \<le> pr_ram_mb p))"
    by (rule steps.t_query) (use assms in \<open>auto simp: projects_ok_def\<close>)
qed (simp add: ram_nonneg_def)

lemma project_GetByID_steps: "cp_triple E (project_GetByID E pid) ram_nonneg"
  unfolding project_GetByID_def
  by (intro steps.t_bind [where U = ram_nonneg] project_row_nonneg steps.t_return)
    (auto simp: project_row_def ram_nonneg_def dest: select_one_Some)

lemma project_GetDefault_steps: "cp_triple E (project_GetDefault E) ram_nonneg"
  unfolding project_GetDefault_def
  by (intro steps.t_bind [where U = ram_nonneg] project_row_nonneg steps.t_return)
    (auto simp: ram_nonneg_def split: list.splits dest: arg_cong [where f = set])

lemma bind_project:
  "(\<And>x. ram_nonneg x \<Longrightarrow> cp_triple E (f x) V) \<Longrightarrow> cp_triple E (State_Monad.bind (project_GetByID E pid) f) V"
  "(\<And>x. ram_nonneg x \<Longrightarrow> cp_triple E (f x) V) \<Longrightarrow> cp_triple E (State_Monad.bind (project_GetDefault E) f) V"
  by (rule steps.t_bind [OF project_GetByID_steps], assumption)
    (rule steps.t_bind [OF project_GetDefault_steps], assumption)

lemma project_gets_steps [io_rules]:
  "cp_triple E (project_GetByID E pid) (\<lambda>_. True)" "cp_triple E (project_GetDefault E) (\<lambda>_. True)"
  by (rule triple_weaken [OF project_GetByID_steps] triple_weaken [OF project_GetDefault_steps], rule TrueI)+

text \<open>The rules in the order they are tried.\<close>

lemmas cp_rules = bind_project steps.t_control TrueI

lemma ReserveRAM_steps [io_rules]: "0 \<le> r \<Longrightarrow> cp_triple E (ReserveRAM E nid r) (\<lambda>_. True)"
  unfolding ReserveRAM_def by (intro steps.t_control cp_write S_reserve TrueI)

lemma ReleaseRAM_steps [io_rules]: "0 \<le> r \<Longrightarrow> cp_triple E (ReleaseRAM E nid r) (\<lambda>_. True)"
  unfolding ReleaseRAM_def by (intro steps.t_control cp_write S_release TrueI)

lemma node_reads_steps [io_rules]:
  "cp_triple E (node_List E) (\<lambda>_. True)"
  "cp_triple E (node_ListPaginated E l off) (\<lambda>_. True)"
  "cp_triple E (node_GetByID E nid) (\<lambda>_. True)"
  "cp_triple E (node_CountTenants E nid) (\<lambda>_. True)"
  "cp_triple E (node_GetEncryptedTokenByID E nid) (\<lambda>_. True)"
  "cp_triple E (node_GetLeastLoaded E r) (\<lambda>_. True)"
  unfolding node_List_def node_ListPaginated_def node_GetByID_def node_CountTenants_def
    node_GetEncryptedTokenByID_def node_GetLeastLoaded_def
  by (rule steps.t_control cp_query cp_read TrueI | simp add: least_loaded_def Let_def)+

lemma node_Create_steps [io_rules]:
  "0 \<le> cn_total_ram_mb req \<Longrightarrow> cp_triple E (node_Create E req) (\<lambda>_. True)"
  unfolding node_Create_def by (intro steps.t_control cp_write S_node_insert TrueI)

lemma node_writes_steps [io_rules]:
  "cp_triple E (node_Update E nid ureq) (\<lambda>_. True)"
  "cp_triple E (node_Delete E nid) (\<lambda>_. True)"
  unfolding node_Update_def node_Delete_def
  by (intro steps.t_control io_rules cp_write S_node_update S_node_delete TrueI)+

lemma project_reads_steps [io_rules]:
  "cp_triple E (project_List E) (\<lambda>_. True)"
  "cp_triple E (project_ListPaginated E l off) (\<lambda>_. True)"
  "cp_triple E (project_CountTenants E pid) (\<lambda>_. True)"
  unfolding project_List_def project_ListPaginated_def project_CountTenants_def
  by (intro steps.t_control cp_query TrueI)+

lemma project_Create_steps [io_rules]:
  "0 \<le> cp_ram_mb req \<Longrightarrow> cp_triple E (project_Create E req) (\<lambda>_. True)"
  unfolding project_Create_def
  by (intro steps.t_control cp_write S_project_insert TrueI) (auto dest: with_defaults_ram)

lemma project_Update_steps [io_rules]:
  "(\<And>r. up_ram_mb req = Some r \<Longrightarrow> 0 \<le> r) \<Longrightarrow> cp_triple E (project_Update E pid req) (\<lambda>_. True)"
  unfolding project_Update_def by (intro steps.t_control cp_write S_project_update TrueI)

lemma project_Delete_steps [io_rules]: "cp_triple E (project_Delete E pid) (\<lambda>_. True)"
  unfolding project_Delete_def by (intro steps.t_control cp_write S_project_delete TrueI)

lemma station_reads_steps [io_rules]:
  "cp_triple E (station_GetBySlug E slug) (\<lambda>_. True)"
  "cp_triple E (station_GetByID E sid) (\<lambda>_. True)"
  "cp_triple E (station_GetByTenantID E tid) (\<lambda>_. True)"
  "cp_triple E (station_CountByTenantID E tid) (\<lambda>_. True)"
  unfolding station_GetBySlug_def station_GetByID_def station_GetByTenantID_def station_CountByTenantID_def
  by (intro steps.t_control choose_row_triple cp_query TrueI)+

lemma station_writes_steps [io_rules]:
  "cp_triple E (station_Create E sreq) (\<lambda>_. True)"
  "cp_triple E (station_Update E sid ureq) (\<lambda>_. True)"
  "cp_triple E (station_SetOnline E tid b) (\<lambda>_. True)"
  "cp_triple E (station_Delete E sid) (\<lambda>_. True)"
  unfolding station_Create_def station_Update_def station_SetOnline_def station_Delete_def
  by (intro steps.t_control cp_write TrueI S_station_insert S_station_update S_station_online
      S_station_delete)+

lemma AutoCreateStation_steps [io_rules]: "cp_triple E (AutoCreateStation E tid n s ow dm) (\<lambda>_. True)"
  unfolding AutoCreateStation_def by (intro steps.t_control io_rules TrueI)

lemma audit_steps [io_rules]:
  "cp_triple E (audit_Log E a ety eid x) (\<lambda>_. True)"
  "cp_triple E (audit_List E l off ety a) (\<lambda>_. True)"
  "cp_triple E (audit_ListByEntity E ety eid l) (\<lambda>_. True)"
  unfolding audit_Log_def audit_List_def audit_ListByEntity_def
  by (intro steps.t_control cp_write cp_query S_audit TrueI)+

section \<open>Over a database that answers\<close>

lemma exec_rows_reliable:
  "reliable E \<Longrightarrow> run_state (exec_rows E msg none s) w
     = ((case fst (s (w_db w)) of Inl e \<Rightarrow> Inl (Wrap msg e) | Inr n \<Rightarrow> if n = 0 then Inl none else Inr ()),
        w\<lparr>w_db_calls := Suc (w_db_calls w), w_db := snd (s (w_db w))\<rparr>)"
  by (simp add: exec_rows_def reliable_call)

lemma tenant_row_update:
  assumes "tenant_row d tid = Some t" "P t" "\<And>u. tn_id (f u) = tn_id u"
  shows "tenant_row (snd (update_tenants P f d)) tid = Some ((f t)\<lparr>tn_updated_at := db_now d\<rparr>)"
  using assms unfolding tenant_row_def
  by (simp add: tenants_update_tenants select_one_update_where)

text \<open>A compare-and-swap on a row that has one of the expected statuses takes effect.\<close>

lemma cas_success:
  assumes "reliable E" "tenant_row (w_db w) tid = Some t" "tn_status t \<in> set from" "\<And>u. tn_id (f u) = tn_id u"
  shows "run_state (exec_rows E m e (update_tenants (cas tid from) f)) w
     = (Inr (), w\<lparr>w_db_calls := Suc (w_db_calls w), w_db := snd (update_tenants (cas tid from) f (w_db w))\<rparr>)"
    and "tenant_row (snd (update_tenants (cas tid from) f (w_db w))) tid
     = Some ((f t)\<lparr>tn_updated_at := db_now (w_db w)\<rparr>)"
proof -
  have t: "t \<in> set (tenants (w_db w))" "cas tid from t"
    using assms(2,3) by (auto dest: tenant_row_in simp: cas_def)
  then have "count_where (cas tid from) (tenants (w_db w)) \<noteq> 0" by (auto simp: count_where_zero)
  then show "run_state (exec_rows E m e (update_tenants (cas tid from) f)) w
     = (Inr (), w\<lparr>w_db_calls := Suc (w_db_calls w), w_db := snd (update_tenants (cas tid from) f (w_db w))\<rparr>)"
    by (simp add: exec_rows_reliable [OF assms(1)] update_tenants_def)
  show "tenant_row (snd (update_tenants (cas tid from) f (w_db w))) tid
     = Some ((f t)\<lparr>tn_updated_at := db_now (w_db w)\<rparr>)"
    using assms t(2) by (intro tenant_row_update)
qed

text \<open>On any other status it reports the conflict and changes nothing.\<close>

lemma cas_conflict:
  assumes "reliable E" "tenants_ok (w_db w)" "tenant_row (w_db w) tid = Some t" "tn_status t \<notin> set from"
  shows "run_state (exec_rows E m e (update_tenants (cas tid from) f)) w
     = (Inl e, w\<lparr>w_db_calls := Suc (w_db_calls w)\<rparr>)"
proof -
  have none: "\<not> cas tid from u" if "u \<in> set (tenants (w_db w))" for u
    using tenant_row_key [OF assms(2) that] assms(3,4) by (auto simp: cas_def)
  then have "snd (update_tenants (cas tid from) f (w_db w)) = w_db w"
    by (simp add: update_tenants_def update_where_none)
  with none show ?thesis
    by (simp add: exec_rows_reliable [OF assms(1)]) (simp add: update_tenants_def count_where_def)
qed

section \<open>The sample deployment\<close>

lemma sample_rows:
  "tenant_row sample_db ''t1'' = Some (sample_tenant ''t1'' Active (Some 101) (Some ''alice''))"
  "tenant_row sample_db ''t2'' = Some (sample_tenant ''t2'' Provisioning None (Some ''bob''))"
  "tenant_row sample_db ''t3'' = Some (sample_tenant ''t3'' Suspended (Some 103) None)"
  "tenant_row sample_db ''t4'' = Some (sample_tenant ''t4'' Errored None None)"
  "node_cap sample_db ''n1'' = Some (6144, 8192)"
  "project_row sample_db ''p1'' = Some sample_project" "node_row sample_db ''n1'' = Some sample_node"
  by (simp_all add: tenant_row_def node_cap_def node_row_def project_row_def select_one_def sample_data)

lemma sample_inv: "db_inv sample_db" "nodes_ok sample_db" "projects_ok sample_db" "tenants_ok sample_db"
proof -
  show n: "nodes_ok sample_db" "projects_ok sample_db"
    by (simp_all add: nodes_ok_def node_ok_def projects_ok_def sample_data)
  show t: "tenants_ok sample_db"
    by (simp add: tenants_ok_def live_def sample_data)
  show "db_inv sample_db"
    unfolding db_inv_def using n t by (simp add: refs_ok_def stations_ok_def sample_data)
qed

lemmas sample_simps = sample_rows sample_inv sample_reliable sample_fields

end
