(* ===== verification/CP_Sshexec.thy ===== *)
theory CP_Sshexec
  imports CP_Sample
begin

text \<open>
  Remote commands (\<open>src/internal/sshexec/client.go\<close>): quoting of values that go into a shell
  line, and the two ways a command is run. The connection itself is the external call
  \<open>SshExec\<close>. \<open>sh_words\<close> is the specification the quoting is measured against: how a POSIX shell
  splits a line of literal words.
\<close>

section \<open>The client\<close>

record ssh_client =
  ssh_user :: string
  ssh_port :: string

text \<open>\<open>NewClient\<close> fails when the key cannot be read or parsed; otherwise the defaults are set.\<close>

definition NewClient :: "(string \<Rightarrow> go_error option) \<Rightarrow> (string \<Rightarrow> go_error option) \<Rightarrow> string \<Rightarrow> ssh_client res" where
  "NewClient read_file parse_key keyPath =
     (case read_file keyPath of
        Some e \<Rightarrow> Inl (Wrap ''read ssh key'' e)
      | None \<Rightarrow>
          (case parse_key keyPath of
             Some e \<Rightarrow> Inl (Wrap (''parse ssh key '' @ keyPath) e)
           | None \<Rightarrow> Inr \<lparr>ssh_user = ''root'', ssh_port = ''22''\<rparr>))"

definition WithUser :: "string \<Rightarrow> ssh_client \<Rightarrow> ssh_client" where
  "WithUser user c = (if user \<noteq> [] then c\<lparr>ssh_user := user\<rparr> else c)"

definition WithPort :: "string \<Rightarrow> ssh_client \<Rightarrow> ssh_client" where
  "WithPort port c = (if port \<noteq> [] then c\<lparr>ssh_port := port\<rparr> else c)"

section \<open>Quoting\<close>

abbreviation squote :: char where
  "squote \<equiv> CHR 0x27"

abbreviation backslash :: char where
  "backslash \<equiv> CHR 0x5C"

fun shellEscape :: "string \<Rightarrow> string" where
  "shellEscape [] = []"
| "shellEscape (c # s) =
     (if c = squote then [squote, backslash, squote, squote] @ shellEscape s else c # shellEscape s)"

definition shell_safe_char :: "char \<Rightarrow> bool" where
  "shell_safe_char c \<longleftrightarrow> is_upper c \<or> is_lower c \<or> is_digit c \<or> c \<in> set ''_@%+=:,./-''"

definition shellSafe :: rx where
  "shellSafe = Plus1 (Cls shell_safe_char)"

definition Quote :: "string \<Rightarrow> string" where
  "Quote s = (if matches shellSafe s then s else squote # shellEscape s @ [squote])"

section \<open>Running commands\<close>

definition ExecInContainer :: "externals \<Rightarrow> string \<Rightarrow> int \<Rightarrow> string \<Rightarrow> unit res cp" where
  "ExecInContainer E sshHost vmid command = do {
     r \<leftarrow> ext E (SshExec sshHost
            (''pct exec '' @ string_of_int vmid @ '' -- bash -c '' @ [squote] @ shellEscape command @ [squote]));
     State_Monad.return (wrap_err ''pct exec'' r) }"

definition ExecOnHost :: "externals \<Rightarrow> string \<Rightarrow> string \<Rightarrow> unit res cp" where
  "ExecOnHost E sshHost command = ext E (SshExec sshHost command)"

text \<open>\<open>url_parse\<close> is \<open>url.Parse\<close> with the scheme, \<open>Host\<close> and \<open>Hostname()\<close> of its result; \<open>None\<close> is
  a parse error.\<close>

definition ExtractHost :: "externals \<Rightarrow> string \<Rightarrow> string res" where
  "ExtractHost E rawURL =
     (let u = (if str_contains rawURL ''://'' then rawURL else ''https://'' @ rawURL)
      in case url_parse E u of
           None \<Rightarrow> Inl (Wrap ''parse url'' (GoErr u))
         | Some (_, _, host) \<Rightarrow> if host = [] then Inl (GoErr (''empty host in url: '' @ u)) else Inr host)"

section \<open>How a shell reads a line of words\<close>

text \<open>
  Blanks separate words, a single quote starts a literal stretch up to the next one, a
  backslash takes the next character literally, and the characters of \<open>shellSafe\<close> stand for
  themselves. A line with anything else unquoted (an operator, an expansion, a redirection)
  is not a list of literal words: \<open>None\<close>.
\<close>

fun sh_words :: "string option \<Rightarrow> string \<Rightarrow> string list option"
  and sh_quoted :: "string \<Rightarrow> string \<Rightarrow> string list option" where
  "sh_words w [] = Some (case w of None \<Rightarrow> [] | Some x \<Rightarrow> [x])"
| "sh_words w (c # s) =
     (if c = CHR '' '' then map_option (\<lambda>ws. (case w of None \<Rightarrow> [] | Some x \<Rightarrow> [x]) @ ws) (sh_words None s)
      else if c = squote then sh_quoted (case_option [] id w) s
      else if c = backslash
      then (case s of [] \<Rightarrow> None | x # s' \<Rightarrow> if x = CHR 0x0A then None else sh_words (Some (case_option [] id w @ [x])) s')
      else if shell_safe_char c then sh_words (Some (case_option [] id w @ [c])) s
      else None)"
| "sh_quoted w [] = None"
| "sh_quoted w (c # s) = (if c = squote then sh_words (Some w) s else sh_quoted (w @ [c]) s)"

lemma shellSafe_iff: "matches shellSafe s \<longleftrightarrow> s \<noteq> [] \<and> (\<forall>c\<in>set s. shell_safe_char c)"
  by (simp add: shellSafe_def matches_Plus1_Cls)

lemma safe_not_special:
  "shell_safe_char c \<Longrightarrow> c \<noteq> CHR '' '' \<and> c \<noteq> squote \<and> c \<noteq> backslash"
  by (auto simp: shell_safe_char_def is_upper_def is_lower_def is_digit_def)

lemma sh_words_safe:
  "\<forall>c\<in>set s. shell_safe_char c \<Longrightarrow> s \<noteq> [] \<or> w \<noteq> None \<Longrightarrow>
   sh_words w (s @ r) = sh_words (Some (case_option [] id w @ s)) r"
proof (induction s arbitrary: w)
  case Nil
  then show ?case by auto
next
  case (Cons c s)
  then have "c \<noteq> CHR '' ''" "c \<noteq> squote" "c \<noteq> backslash" using safe_not_special by auto
  with Cons show ?case by simp
qed

text \<open>Inside quotes, an escaped text reads back as itself and the closing quote ends it.\<close>

lemma sh_quoted_shellEscape: "sh_quoted w (shellEscape s @ squote # r) = sh_words (Some (w @ s)) r"
  by (induction s arbitrary: w) auto

lemma sh_words_Quote: "sh_words None (Quote s @ r) = sh_words (Some s) r"
proof (cases "matches shellSafe s")
  case True
  then show ?thesis using sh_words_safe [of s None r] by (simp add: Quote_def shellSafe_iff)
next
  case False
  then show ?thesis by (simp add: Quote_def sh_quoted_shellEscape)
qed

fun join_args :: "string list \<Rightarrow> string" where
  "join_args [] = []"
| "join_args [a] = Quote a"
| "join_args (a # as) = Quote a @ '' '' @ join_args as"

lemma sh_words_join_args: "sh_words None (join_args as) = Some as"
proof (induction as rule: join_args.induct)
  case (2 a)
  show ?case using sh_words_Quote [of a "[]"] by simp
next
  case (3 a b as)
  then show ?case by (simp add: sh_words_Quote)
qed simp

lemma string_of_nat_safe: "\<forall>c\<in>set (string_of_nat n). shell_safe_char c"
  using string_of_nat_digits by (auto simp: shell_safe_char_def)

lemma string_of_int_safe: "string_of_int i \<noteq> [] \<and> (\<forall>c\<in>set (string_of_int i). shell_safe_char c)"
  using string_of_nat_safe by (auto simp: string_of_int_def shell_safe_char_def)

text \<open>The line \<open>ExecInContainer\<close> sends is \<open>pct exec\<close> with the command as one word.\<close>

lemma pct_exec_words:
  "sh_words None (''pct exec '' @ string_of_int vmid @ '' -- bash -c '' @ [squote] @ shellEscape command @ [squote])
   = Some [''pct'', ''exec'', string_of_int vmid, ''--'', ''bash'', ''-c'', command]"
proof -
  have word: "sh_words None (w @ CHR '' '' # r) = map_option ((#) w) (sh_words None r)"
    if "w \<noteq> []" "\<forall>c\<in>set w. shell_safe_char c" for w r
    using sh_words_safe [OF that(2), of None "CHR '' '' # r"] that(1) by (cases "sh_words None r") simp_all
  have lit: "sh_words None (''pct'' @ CHR '' '' # r) = map_option ((#) ''pct'') (sh_words None r)"
    "sh_words None (''exec'' @ CHR '' '' # r) = map_option ((#) ''exec'') (sh_words None r)"
    "sh_words None (''--'' @ CHR '' '' # r) = map_option ((#) ''--'') (sh_words None r)"
    "sh_words None (''bash'' @ CHR '' '' # r) = map_option ((#) ''bash'') (sh_words None r)"
    "sh_words None (''-c'' @ CHR '' '' # r) = map_option ((#) ''-c'') (sh_words None r)"
    "sh_words None (string_of_int vmid @ CHR '' '' # r) = map_option ((#) (string_of_int vmid)) (sh_words None r)"
    for r
    by (rule word; use string_of_int_safe in \<open>simp add: shell_safe_char_def is_lower_def\<close>)+
  have cmd: "sh_words None (squote # shellEscape command @ [squote]) = Some [command]"
    by (simp add: sh_quoted_shellEscape)
  have line: "''pct exec '' @ string_of_int vmid @ '' -- bash -c '' @ [squote] @ shellEscape command @ [squote]
      = ''pct'' @ CHR '' '' # ''exec'' @ CHR '' '' # string_of_int vmid @ CHR '' '' # ''--'' @ CHR '' ''
        # ''bash'' @ CHR '' '' # ''-c'' @ CHR '' '' # squote # shellEscape command @ [squote]"
    by simp
  show ?thesis unfolding line lit cmd by simp
qed

section \<open>Properties\<close>

text \<open>
C33: A shell line built from quoted values is read back as exactly those values, one word each: no
  value can end its word, start a second command or trigger an expansion.
\<close>

theorem quoted_line_round_trip: "sh_words None (join_args args) = Some args"
  by (rule sh_words_join_args)

text \<open>
\<open>ExecInContainer\<close> makes one call, and the line it sends is \<open>pct exec\<close> of the given container
  with the whole command as the single argument of \<open>bash -c\<close>.
\<close>

theorem ExecInContainer_one_argument:
  "\<exists>line. w_trace (snd (run_state (ExecInContainer E host vmid command) w)) = SshExec host line # w_trace w
     \<and> sh_words None line = Some [''pct'', ''exec'', string_of_int vmid, ''--'', ''bash'', ''-c'', command]"
proof -
  have "w_trace (snd (run_state (ExecInContainer E host vmid command) w)) = SshExec host
      (''pct exec '' @ string_of_int vmid @ '' -- bash -c '' @ [squote] @ shellEscape command @ [squote]) # w_trace w"
    unfolding ExecInContainer_def by (simp add: split_def)
  then show ?thesis using pct_exec_words by blast
qed

end
