(* ===== verification/CP_Crypto.thy ===== *)
theory CP_Crypto
  imports CP_Sample
begin

text \<open>
  Encryption of the API tokens at rest (\<open>src/internal/crypto/crypto.go\<close>). A byte is a character.
  AES-GCM is not part of the sources: \<open>gcm_seal\<close> and \<open>gcm_open\<close> of \<open>externals\<close> stand for it, with the
  law \<open>gcm_law\<close> that opening a sealed text with the same key and nonce gives the text back;
  \<open>rand_law\<close> is what \<open>io.ReadFull(rand.Reader, buf)\<close> promises about the length.
\<close>

section \<open>encoding/hex\<close>

definition hex_digit :: "nat \<Rightarrow> char" where
  "hex_digit n = (if n < 10 then char_of (48 + n) else char_of (87 + n))"

definition hex_val :: "char \<Rightarrow> nat option" where
  "hex_val c =
     (if is_digit c then Some (code c - 48)
      else if 97 \<le> code c \<and> code c \<le> 102 then Some (code c - 87)
      else if 65 \<le> code c \<and> code c \<le> 70 then Some (code c - 55)
      else None)"

fun hex_encode :: "string \<Rightarrow> string" where
  "hex_encode [] = []"
| "hex_encode (c # s) = hex_digit (code c div 16) # hex_digit (code c mod 16) # hex_encode s"

fun hex_decode :: "string \<Rightarrow> string option" where
  "hex_decode [] = Some []"
| "hex_decode [c] = None"
| "hex_decode (a # b # s) =
     (case (hex_val a, hex_val b, hex_decode s) of
        (Some x, Some y, Some r) \<Rightarrow> Some (char_of (16 * x + y) # r)
      | _ \<Rightarrow> None)"

text \<open>The digits read off the bits of a byte, for evaluation.\<close>

fun nibble :: "bool \<Rightarrow> bool \<Rightarrow> bool \<Rightarrow> bool \<Rightarrow> char" where
  "nibble False False False False = CHR ''0''" | "nibble False False False True = CHR ''1''"
| "nibble False False True False = CHR ''2''" | "nibble False False True True = CHR ''3''"
| "nibble False True False False = CHR ''4''" | "nibble False True False True = CHR ''5''"
| "nibble False True True False = CHR ''6''" | "nibble False True True True = CHR ''7''"
| "nibble True False False False = CHR ''8''" | "nibble True False False True = CHR ''9''"
| "nibble True False True False = CHR ''a''" | "nibble True False True True = CHR ''b''"
| "nibble True True False False = CHR ''c''" | "nibble True True False True = CHR ''d''"
| "nibble True True True False = CHR ''e''" | "nibble True True True True = CHR ''f''"

lemma hex_digit_nibble: "hex_digit (of_bool b0 + 2 * of_bool b1 + 4 * of_bool b2 + 8 * of_bool b3) = nibble b3 b2 b1 b0"
  by (cases b0; cases b1; cases b2; cases b3) (simp_all add: hex_digit_def char_of_def bit_0)

lemma hex_encode_code [code]:
  "hex_encode [] = []"
  "hex_encode (Char b0 b1 b2 b3 b4 b5 b6 b7 # s) = nibble b7 b6 b5 b4 # nibble b3 b2 b1 b0 # hex_encode s"
proof -
  let ?c = "Char b0 b1 b2 b3 b4 b5 b6 b7"
  let ?lo = "of_bool b0 + 2 * of_bool b1 + 4 * of_bool b2 + 8 * of_bool b3 :: nat"
  let ?hi = "of_bool b4 + 2 * of_bool b5 + 4 * of_bool b6 + 8 * of_bool b7 :: nat"
  have lo: "?lo < 16" by (cases b0; cases b1; cases b2; cases b3) simp_all
  have "code ?c = 16 * ?hi + ?lo" by (simp add: of_char_def horner_sum_foldr)
  then have "code ?c div 16 = ?hi" "code ?c mod 16 = ?lo" using lo by simp_all
  then show "hex_encode (?c # s) = nibble b7 b6 b5 b4 # nibble b3 b2 b1 b0 # hex_encode s"
    by (simp add: hex_digit_nibble)
qed simp

lemma hex_val_digit: "n < 16 \<Longrightarrow> hex_val (hex_digit n) = Some n"
  by (auto simp: hex_val_def hex_digit_def is_digit_def)

lemma hex_decode_encode [simp]: "hex_decode (hex_encode s) = Some s"
proof (induction s)
  case (Cons c s)
  have "code c div 16 < 16" using nat_of_char_less_256 [of c] by linarith
  then show ?case using Cons by (simp add: hex_val_digit)
qed simp

section \<open>Encrypt and Decrypt\<close>

definition gcm_key :: "string \<Rightarrow> string res" where
  "gcm_key hexKey =
     (case hex_decode hexKey of
        None \<Rightarrow> Inl (Wrap ''decode key'' (GoErr ''encoding/hex''))
      | Some key \<Rightarrow>
          if length key \<noteq> 32 then Inl (GoErr (''key must be 32 bytes, got '' @ string_of_nat (length key)))
          else Inr key)"

definition Encrypt :: "externals \<Rightarrow> string \<Rightarrow> string \<Rightarrow> string res cp" where
  "Encrypt E plaintext hexKey =
     (case gcm_key hexKey of
        Inl e \<Rightarrow> State_Monad.return (Inl e)
      | Inr key \<Rightarrow> do {
          r \<leftarrow> ext_val E (ext_text E) (RandRead 12);
          State_Monad.return (case r of
              Inl e \<Rightarrow> Inl (Wrap ''generate nonce'' e)
            | Inr nonce \<Rightarrow> Inr (hex_encode (nonce @ gcm_seal E key nonce plaintext))) })"

definition Decrypt :: "externals \<Rightarrow> string \<Rightarrow> string \<Rightarrow> string res" where
  "Decrypt E hexCiphertext hexKey =
     (case gcm_key hexKey of
        Inl e \<Rightarrow> Inl e
      | Inr key \<Rightarrow>
          (case hex_decode hexCiphertext of
             None \<Rightarrow> Inl (Wrap ''decode ciphertext'' (GoErr ''encoding/hex''))
           | Some ct \<Rightarrow>
               if length ct < 12 then Inl (GoErr ''ciphertext too short'')
               else (case gcm_open E key (take 12 ct) (drop 12 ct) of
                       None \<Rightarrow> Inl (Wrap ''decrypt'' (GoErr ''cipher: message authentication failed''))
                     | Some p \<Rightarrow> Inr p)))"

definition gcm_law :: "externals \<Rightarrow> bool" where
  "gcm_law E \<longleftrightarrow> (\<forall>k n p. gcm_open E k n (gcm_seal E k n p) = Some p)"

definition rand_law :: "externals \<Rightarrow> bool" where
  "rand_law E \<longleftrightarrow> (\<forall>n tr. length (ext_text E (RandRead n # tr)) = n)"

lemma Encrypt_InrE:
  assumes "fst (run_state (Encrypt E p k) w) = Inr c"
  obtains key where "gcm_key k = Inr key"
    "c = hex_encode (ext_text E (RandRead 12 # w_trace w) @ gcm_seal E key (ext_text E (RandRead 12 # w_trace w)) p)"
  using assms
  by (auto simp: Encrypt_def ext_val_def Let_def split: sum.splits option.splits)

lemma Decrypt_Encrypt:
  assumes "gcm_law E" "rand_law E" "fst (run_state (Encrypt E p k) w) = Inr c"
  shows "Decrypt E c k = Inr p"
  using assms
  by (elim Encrypt_InrE) (auto simp: Decrypt_def gcm_law_def rand_law_def)

section \<open>Properties\<close>

text \<open>
Whatever \<open>Encrypt\<close> produced, \<open>Decrypt\<close> with the same key gives the plaintext back, given that
  AES-GCM opens what it sealed and the random source fills its buffer.
\<close>

theorem decrypt_after_encrypt:
  assumes "gcm_law E" "rand_law E" "fst (run_state (Encrypt E plaintext hexKey) w) = Inr ciphertext"
  shows "Decrypt E ciphertext hexKey = Inr plaintext"
  using assms by (rule Decrypt_Encrypt)

lemma sample_laws: "gcm_law sample_E" "rand_law sample_E"
  by (simp_all add: gcm_law_def rand_law_def sample_data sample_text_length)

theorem decrypt_after_encrypt_witness:
  "\<exists>c. fst (run_state (Encrypt sample_E ''secret'' (replicate 64 (CHR ''0''))) sample_w) = Inr c
     \<and> Decrypt sample_E c (replicate 64 (CHR ''0'')) = Inr ''secret''"
proof -
  have "gcm_key (replicate 64 (CHR ''0'')) = Inr (replicate 32 (CHR 0x00))" by code_simp
  then obtain c where c: "fst (run_state (Encrypt sample_E ''secret'' (replicate 64 (CHR ''0''))) sample_w) = Inr c"
    by (simp add: Encrypt_def ext_val_def sample_fields Let_def)
  with decrypt_after_encrypt [OF sample_laws c] show ?thesis by blast
qed

end
