(* ===== verification/CP_Provisioner.thy ===== *)
theory CP_Provisioner
  imports CP_Steps CP_Sshexec CP_Crypto
begin

text \<open>
  The provisioner (\<open>src/internal/provisioner/provisioner.go\<close>): it drives Proxmox, SSH, Caddy and the
  health endpoint to make, stop, start and remove the container of a tenant, and keeps the
  tenant's status and the node's RAM in step with it. \<open>doProvision\<close> is written as the sequence of
  its phases; a phase that gave up has already recorded the error and returns \<open>None\<close>.
\<close>

section \<open>Proxmox errors\<close>

fun strings_join :: "string \<Rightarrow> string list \<Rightarrow> string" where
  "strings_join sep [] = []"
| "strings_join sep [p] = p"
| "strings_join sep (p # q # ps) = p @ sep @ strings_join sep (q # ps)"

text \<open>\<open>APIError.Error\<close>; the list is the order in which the loop visits the map of field errors.\<close>

definition api_error_text :: "string \<Rightarrow> (string \<times> string) list \<Rightarrow> string" where
  "api_error_text status errs =
     (if errs \<noteq> []
      then ''proxmox api '' @ status @ '': '' @
           strings_join ''; '' (map (\<lambda>(k, v). k @ '': '' @ v) errs)
      else ''proxmox api '' @ status)"

definition task_error_text :: "string \<Rightarrow> string \<Rightarrow> string \<Rightarrow> string" where
  "task_error_text upid exitStatus typ =
     ''proxmox task '' @ upid @ '' failed: '' @ exitStatus @ '' (type: '' @ typ @ '')''"

text \<open>\<open>err.Error()\<close>; a sentinel or database error stands for its own text.\<close>

fun error_text :: "go_error \<Rightarrow> string" where
  "error_text (Sentinel s) = s"
| "error_text (PgError c) = ''(SQLSTATE '' @ c @ '')''"
| "error_text (APIError sc status errs) = api_error_text status errs"
| "error_text (TaskError upid es ty) = task_error_text upid es ty"
| "error_text (GoErr s) = s"
| "error_text (Wrap m e) = m @ '': '' @ error_text e"

definition containsNotFoundPattern :: "string \<Rightarrow> bool" where
  "containsNotFoundPattern msg \<longleftrightarrow>
     str_contains (to_lower msg) ''does not exist'' \<or> str_contains (to_lower msg) ''no such container''"

text \<open>\<open>errors.As\<close> finds the innermost error of the chain here, the only one that is not a \<open>Wrap\<close>.\<close>

fun unwrap_all :: "go_error \<Rightarrow> go_error" where
  "unwrap_all (Wrap m e) = unwrap_all e"
| "unwrap_all e = e"

definition IsContainerNotFound :: "go_error \<Rightarrow> bool" where
  "IsContainerNotFound err =
     (case unwrap_all err of
        APIError c s errs \<Rightarrow> containsNotFoundPattern (api_error_text s errs)
      | TaskError u x t \<Rightarrow> containsNotFoundPattern (task_error_text u x t)
      | _ \<Rightarrow> containsNotFoundPattern (error_text err))"

section \<open>Configuration\<close>

record provisioner_cfg =
  pc_encryption_key :: string
  pc_caddy :: bool
  pc_station_creator :: bool
  pc_caddy_domain :: string
  pc_ssh :: bool
  pc_repo_url :: string
  pc_repo_branch :: string
  pc_lxc_bridge :: string
  pc_mount_root :: string
  pc_app_dir :: string

text \<open>Times are in milliseconds.\<close>

definition healthTimeout :: nat where
  "healthTimeout = 60000"

definition healthInterval :: nat where
  "healthInterval = 5000"

definition maxConcurrentJobs :: nat where
  "maxConcurrentJobs = 10"

definition New :: "string \<Rightarrow> provisioner_cfg" where
  "New encryptionKey =
     \<lparr>pc_encryption_key = encryptionKey, pc_caddy = False, pc_station_creator = False,
      pc_caddy_domain = [], pc_ssh = False, pc_repo_url = [], pc_repo_branch = [],
      pc_lxc_bridge = ''vmbr0'', pc_mount_root = ''/mnt/tenants'', pc_app_dir = ''/root/freeRadio''\<rparr>"

definition WithCaddyClient :: "provisioner_cfg \<Rightarrow> provisioner_cfg" where
  "WithCaddyClient cfg = cfg\<lparr>pc_caddy := True\<rparr>"

definition WithStationCreator :: "string \<Rightarrow> provisioner_cfg \<Rightarrow> provisioner_cfg" where
  "WithStationCreator caddyDomain cfg = cfg\<lparr>pc_station_creator := True, pc_caddy_domain := caddyDomain\<rparr>"

definition WithSSHClient :: "provisioner_cfg \<Rightarrow> provisioner_cfg" where
  "WithSSHClient cfg = cfg\<lparr>pc_ssh := True\<rparr>"

definition WithTopology :: "string \<Rightarrow> string \<Rightarrow> string \<Rightarrow> provisioner_cfg \<Rightarrow> provisioner_cfg" where
  "WithTopology bridge mountRoot appDir cfg =
     cfg\<lparr>pc_lxc_bridge := (if bridge \<noteq> [] then bridge else pc_lxc_bridge cfg),
         pc_mount_root := (if mountRoot \<noteq> [] then mountRoot else pc_mount_root cfg),
         pc_app_dir := (if appDir \<noteq> [] then appDir else pc_app_dir cfg)\<rparr>"

definition AutoDeployEnabled :: "provisioner_cfg \<Rightarrow> bool" where
  "AutoDeployEnabled cfg \<longleftrightarrow> pc_repo_url cfg \<noteq> []"

definition WithFreeRadioRepo :: "string \<Rightarrow> string \<Rightarrow> provisioner_cfg \<Rightarrow> provisioner_cfg" where
  "WithFreeRadioRepo u branch cfg = cfg\<lparr>pc_repo_url := u, pc_repo_branch := branch\<rparr>"

section \<open>The client cache\<close>

definition cached_client :: "string \<Rightarrow> px_client option cp" where
  "cached_client nodeID = State (\<lambda>w. (w_clients w nodeID, w))"

definition store_client :: "string \<Rightarrow> px_client \<Rightarrow> unit cp" where
  "store_client nodeID c = State (\<lambda>w. ((), w\<lparr>w_clients := (w_clients w)(nodeID \<mapsto> c)\<rparr>))"

definition InvalidateClient :: "string \<Rightarrow> unit cp" where
  "InvalidateClient nodeID = State (\<lambda>w. ((), w\<lparr>w_clients := (w_clients w)(nodeID := None)\<rparr>))"

definition getClient :: "externals \<Rightarrow> provisioner_cfg \<Rightarrow> string \<Rightarrow> px_client res cp" where
  "getClient E cfg nodeID = do {
     c \<leftarrow> cached_client nodeID;
     case c of
       Some cl \<Rightarrow> State_Monad.return (Inr cl)
     | None \<Rightarrow> do {
         r \<leftarrow> node_GetByID E nodeID;
         case r of
           Inl e \<Rightarrow> State_Monad.return (Inl (Wrap ''get node'' e))
         | Inr None \<Rightarrow> State_Monad.return (Inl (GoErr (''node '' @ nodeID @ '' not found'')))
         | Inr (Some n) \<Rightarrow> do {
             t \<leftarrow> node_GetEncryptedTokenByID E nodeID;
             case t of
               Inl e \<Rightarrow> State_Monad.return (Inl (Wrap ''get encrypted token'' e))
             | Inr encToken \<Rightarrow>
                 if encToken = []
                 then State_Monad.return (Inl (GoErr (''node '' @ nodeID @ '' has no api token'')))
                 else (case Decrypt E encToken (pc_encryption_key cfg) of
                     Inl e \<Rightarrow> State_Monad.return (Inl (Wrap ''decrypt token'' e))
                   | Inr token \<Rightarrow> do {
                       _ \<leftarrow> store_client nodeID (nd_proxmox_url n, token);
                       State_Monad.return (Inr (nd_proxmox_url n, token)) }) } } }"

section \<open>Giving up\<close>

definition setError :: "externals \<Rightarrow> string \<Rightarrow> string \<Rightarrow> int \<Rightarrow> string \<Rightarrow> unit cp" where
  "setError E tenantID nodeID ramMB errMsg = do {
     _ \<leftarrow> SetError E tenantID errMsg;
     if 0 < ramMB then do { _ \<leftarrow> ReleaseRAM E nodeID ramMB; State_Monad.return () }
     else State_Monad.return () }"

definition cleanupAndError ::
  "externals \<Rightarrow> px_client \<Rightarrow> string \<Rightarrow> string \<Rightarrow> int \<Rightarrow> int \<Rightarrow> string \<Rightarrow> unit cp" where
  "cleanupAndError E client tenantID nodeID ramMB lxcID errMsg = do {
     d \<leftarrow> ext E (DeleteContainer client lxcID True);
     _ \<leftarrow> (case d of
            Inl _ \<Rightarrow> State_Monad.return (Inr ())
          | Inr _ \<Rightarrow> ext E (TaskWait (DeleteContainer client lxcID True)));
     setError E tenantID nodeID ramMB errMsg }"

definition give_up :: "externals \<Rightarrow> provision_job \<Rightarrow> string \<Rightarrow> 'a option cp" where
  "give_up E j errMsg = do {
     _ \<leftarrow> setError E (job_tenant j) (job_node j) (job_ram_mb j) errMsg;
     State_Monad.return None }"

definition clean_up :: "externals \<Rightarrow> px_client \<Rightarrow> provision_job \<Rightarrow> int \<Rightarrow> string \<Rightarrow> 'a option cp" where
  "clean_up E client j newID errMsg = do {
     _ \<leftarrow> cleanupAndError E client (job_tenant j) (job_node j) (job_ram_mb j) newID errMsg;
     State_Monad.return None }"

section \<open>Tokens and commands\<close>

definition generateToken :: "externals \<Rightarrow> string res cp" where
  "generateToken E = do {
     r \<leftarrow> ext_val E (ext_text E) (RandRead 32);
     State_Monad.return (case r of Inl e \<Rightarrow> Inl (Wrap ''crypto/rand'' e) | Inr b \<Rightarrow> Inr (hex_encode b)) }"

record deploySecrets =
  ds_stream_keys :: string
  ds_icecast_source :: string
  ds_icecast_admin :: string
  ds_icecast_listen :: string
  ds_icecast_relay :: string

fun generate_tokens :: "externals \<Rightarrow> nat \<Rightarrow> string list res cp" where
  "generate_tokens E 0 = State_Monad.return (Inr [])"
| "generate_tokens E (Suc n) = do {
     r \<leftarrow> generateToken E;
     case r of
       Inl e \<Rightarrow> State_Monad.return (Inl e)
     | Inr t \<Rightarrow> do {
         rs \<leftarrow> generate_tokens E n;
         State_Monad.return (case rs of Inl e \<Rightarrow> Inl e | Inr ts \<Rightarrow> Inr (t # ts)) } }"

definition generateDeploySecrets :: "externals \<Rightarrow> deploySecrets res cp" where
  "generateDeploySecrets E = do {
     r \<leftarrow> generate_tokens E 5;
     State_Monad.return (case r of
         Inl e \<Rightarrow> Inl e
       | Inr ts \<Rightarrow> Inr \<lparr>ds_stream_keys = ts ! 0, ds_icecast_source = ts ! 1, ds_icecast_admin = ts ! 2,
                        ds_icecast_listen = ts ! 3, ds_icecast_relay = ts ! 4\<rparr>) }"

text \<open>The mask length of \<open>NetworkCIDR\<close>: the text after the first slash, \<open>24\<close> without one.\<close>

definition prefix_len :: "string \<Rightarrow> string" where
  "prefix_len cidr = (case dropWhile (\<lambda>c. c \<noteq> CHR ''/'') cidr of [] \<Rightarrow> ''24'' | _ # s \<Rightarrow> s)"

definition net0_value :: "provisioner_cfg \<Rightarrow> project \<Rightarrow> string \<Rightarrow> string" where
  "net0_value cfg proj lxcIP =
     ''name=eth0,bridge='' @ pc_lxc_bridge cfg @ '',ip='' @ lxcIP @ ''/'' @ prefix_len (pr_network_cidr proj)
     @ '',gw='' @ pr_gateway proj @ '',firewall=1,type=veth''"

definition mkdir_cmd :: "provisioner_cfg \<Rightarrow> int \<Rightarrow> string" where
  "mkdir_cmd cfg newID =
     (let base = Quote (pc_mount_root cfg) @ ''/'' @ string_of_int newID
      in ''mkdir -p '' @ base @ ''/visuals '' @ base @ ''/music && chmod 777 '' @ base @ ''/visuals '' @ base @ ''/music'')"

definition pct_set_cmd :: "provisioner_cfg \<Rightarrow> int \<Rightarrow> string" where
  "pct_set_cmd cfg newID =
     (let n = string_of_int newID; m = Quote (pc_mount_root cfg); a = Quote (pc_app_dir cfg)
      in ''pct set '' @ n @ '' -mp0 '' @ m @ ''/'' @ n @ ''/visuals,mp='' @ a @ ''/content/visuals -mp1 ''
         @ m @ ''/'' @ n @ ''/music,mp='' @ a @ ''/content/music'')"

definition api_mounts :: "provisioner_cfg \<Rightarrow> int \<Rightarrow> (string \<times> string) list" where
  "api_mounts cfg newID =
     (let base = pc_mount_root cfg @ ''/'' @ string_of_int newID
      in [(''mp0'', base @ ''/visuals,mp='' @ pc_app_dir cfg @ ''/content/visuals''),
          (''mp1'', base @ ''/music,mp='' @ pc_app_dir cfg @ ''/content/music'')])"

definition token_cmd :: "provisioner_cfg \<Rightarrow> string \<Rightarrow> string" where
  "token_cmd cfg dashToken =
     (let a = Quote (pc_app_dir cfg); q = [squote]
      in ''sed -i '' @ q @ ''/^DASHBOARD_TOKEN=/d'' @ q @ '' '' @ a @ ''/.env && echo '' @ q @ ''DASHBOARD_TOKEN=''
         @ dashToken @ q @ '' >> '' @ a @ ''/.env'')"

definition fetch_cmd :: "provisioner_cfg \<Rightarrow> string \<Rightarrow> string" where
  "fetch_cmd cfg branch =
     (let a = Quote (pc_app_dir cfg); u = Quote (pc_repo_url cfg); b = Quote branch
      in ''mkdir -p '' @ a @ '' && cd '' @ a @ '' && git init -q && (git remote add origin '' @ u
         @ '' 2>/dev/null || git remote set-url origin '' @ u @ '') && git fetch --depth 1 origin '' @ b
         @ '' && git checkout -f -B '' @ b @ '' FETCH_HEAD'')"

definition env_content :: "string \<Rightarrow> string \<Rightarrow> deploySecrets \<Rightarrow> string" where
  "env_content tenantID dashboardToken s =
     (let nl = [CHR 0x0A]
      in ''TENANT_ID='' @ tenantID @ nl @ ''DASHBOARD_TOKEN='' @ dashboardToken @ nl
         @ ''STREAM_KEYS_SECRET='' @ ds_stream_keys s @ nl
         @ ''ICECAST_SOURCE_PASSWORD='' @ ds_icecast_source s @ nl
         @ ''ICECAST_ADMIN_PASSWORD='' @ ds_icecast_admin s @ nl
         @ ''ICECAST_PASSWORD='' @ ds_icecast_listen s @ nl
         @ ''ICECAST_RELAY_PASSWORD='' @ ds_icecast_relay s @ nl
         @ ''S3_ENABLED=false'' @ nl @ ''NODE_ENV=production'' @ nl)"

definition write_env_cmd :: "provisioner_cfg \<Rightarrow> string \<Rightarrow> string" where
  "write_env_cmd cfg content =
     ''cat > '' @ Quote (pc_app_dir cfg) @ ''/.env << '' @ [squote] @ ''ENVEOF'' @ [squote, CHR 0x0A] @ content @ ''ENVEOF''"

fun run_in_container :: "externals \<Rightarrow> string \<Rightarrow> int \<Rightarrow> (string \<times> string) list \<Rightarrow> unit res cp" where
  "run_in_container E sshHost lxcID [] = State_Monad.return (Inr ())"
| "run_in_container E sshHost lxcID ((what, cmd) # cmds) = do {
     r \<leftarrow> ExecInContainer E sshHost lxcID cmd;
     case r of
       Inl e \<Rightarrow> State_Monad.return (Inl (Wrap what e))
     | Inr _ \<Rightarrow> run_in_container E sshHost lxcID cmds }"

text \<open>The secrets are drawn between the second and the third command.\<close>

definition deployFreeRadio ::
  "externals \<Rightarrow> provisioner_cfg \<Rightarrow> string \<Rightarrow> int \<Rightarrow> string \<Rightarrow> string \<Rightarrow> unit res cp" where
  "deployFreeRadio E cfg sshHost lxcID tenantID dashboardToken =
     (let branch = (if pc_repo_branch cfg = [] then ''dev'' else pc_repo_branch cfg);
          app = Quote (pc_app_dir cfg)
      in do {
       r \<leftarrow> run_in_container E sshHost lxcID
              [(''install docker'', ''which docker || (curl -fsSL https://get.docker.com | sh)''),
               (''fetch repo'', fetch_cmd cfg branch)];
       case r of
         Inl e \<Rightarrow> State_Monad.return (Inl e)
       | Inr _ \<Rightarrow> do {
           s \<leftarrow> generateDeploySecrets E;
           case s of
             Inl e \<Rightarrow> State_Monad.return (Inl (Wrap ''generate deploy secrets'' e))
           | Inr secrets \<Rightarrow> run_in_container E sshHost lxcID
               [(''write .env'', write_env_cmd cfg (env_content tenantID dashboardToken secrets)),
                (''bootstrap certs'', ''cd '' @ app @ '' && chmod +x scripts/bootstrap-certs.sh && scripts/bootstrap-certs.sh''),
                (''docker compose up'', ''cd '' @ app @ '' && docker compose up -d''),
                (''health check'', ''for i in $(seq 1 12); do curl -fsS http://127.0.0.1/api/health && exit 0; sleep 5; done; exit 1'')] } })"

section \<open>Health\<close>

text \<open>One poll and the pause after it take \<open>healthInterval\<close> and however long the answer took; \<open>ctx_done\<close>
  ends the wait early.\<close>

function poll_health :: "externals \<Rightarrow> string \<Rightarrow> nat \<Rightarrow> ext_call list \<Rightarrow> bool \<times> ext_call list" where
  "poll_health E u remaining tr =
     (if remaining = 0 then (False, tr)
      else let tr' = HttpGet u # tr
           in if ext_reply E tr' = None \<and> ext_int E tr' = 200 then (True, tr')
              else if ctx_done E tr' then (False, tr')
              else poll_health E u (remaining - (healthInterval + ext_dur E tr')) tr')"
  by pat_completeness auto
termination
  by (relation "measure (\<lambda>(E, u, remaining, tr). remaining)") (auto simp: healthInterval_def)

definition waitForHealth :: "externals \<Rightarrow> string \<Rightarrow> bool cp" where
  "waitForHealth E u = State (\<lambda>w.
     let (ok, tr) = poll_health E u healthTimeout (w_trace w) in (ok, w\<lparr>w_trace := tr\<rparr>))"

section \<open>The phases of doProvision\<close>

definition provision_lookup ::
  "externals \<Rightarrow> provisioner_cfg \<Rightarrow> provision_job \<Rightarrow> (project \<times> node \<times> px_client) option cp" where
  "provision_lookup E cfg j = do {
     rp \<leftarrow> project_GetByID E (job_project j);
     case rp of
       Inl _ \<Rightarrow> give_up E j ''provisioning failed: project lookup error''
     | Inr None \<Rightarrow> give_up E j ''provisioning failed: project not found''
     | Inr (Some proj) \<Rightarrow> do {
         rn \<leftarrow> node_GetByID E (job_node j);
         case rn of
           Inl _ \<Rightarrow> give_up E j ''provisioning failed: node lookup error''
         | Inr None \<Rightarrow> give_up E j ''provisioning failed: node not found''
         | Inr (Some nodeInfo) \<Rightarrow> do {
             rc \<leftarrow> getClient E cfg (job_node j);
             case rc of
               Inl _ \<Rightarrow> give_up E j ''provisioning failed: node connection error''
             | Inr client \<Rightarrow> State_Monad.return (Some (proj, nodeInfo, client)) } } }"

definition provision_clone :: "externals \<Rightarrow> px_client \<Rightarrow> project \<Rightarrow> provision_job \<Rightarrow> int option cp" where
  "provision_clone E client proj j = do {
     ri \<leftarrow> ext_val E (ext_int E) (GetNextID client);
     case ri of
       Inl _ \<Rightarrow> give_up E j ''provisioning failed: could not allocate container ID''
     | Inr newID \<Rightarrow> do {
         let clone = CloneContainer client (pr_template_id proj) newID (job_subdomain j) True;
         c \<leftarrow> ext E clone;
         case c of
           Inl _ \<Rightarrow> give_up E j ''provisioning failed: clone error''
         | Inr _ \<Rightarrow> do {
             w \<leftarrow> ext E (TaskWait clone);
             case w of
               Inl _ \<Rightarrow> give_up E j ''provisioning failed: clone did not complete''
             | Inr _ \<Rightarrow> State_Monad.return (Some newID) } } }"

text \<open>The value is \<open>lxcIP\<close>, empty when the project has no network.\<close>

definition provision_network ::
  "externals \<Rightarrow> provisioner_cfg \<Rightarrow> px_client \<Rightarrow> project \<Rightarrow> provision_job \<Rightarrow> int \<Rightarrow> string option cp" where
  "provision_network E cfg client proj j newID =
     (if pr_network_cidr proj = [] then State_Monad.return (Some [])
      else do {
        ra \<leftarrow> GetNextAvailableIP E (pr_network_cidr proj);
        case ra of
          Inl _ \<Rightarrow> clean_up E client j newID ''provisioning failed: IP allocation error''
        | Inr lxcIP \<Rightarrow> do {
            rn \<leftarrow> ext E (ConfigureNetwork client newID (net0_value cfg proj lxcIP));
            case rn of
              Inl _ \<Rightarrow> clean_up E client j newID ''provisioning failed: network config error''
            | Inr _ \<Rightarrow> do {
                _ \<leftarrow> SetLXCIP E (job_tenant j) lxcIP;
                State_Monad.return (Some lxcIP) } } })"

definition provision_mounts ::
  "externals \<Rightarrow> provisioner_cfg \<Rightarrow> px_client \<Rightarrow> node \<Rightarrow> provision_job \<Rightarrow> int \<Rightarrow> unit option cp" where
  "provision_mounts E cfg client nodeInfo j newID =
     (let failed = clean_up E client j newID ''provisioning failed: mount point config error''
      in if pc_ssh cfg
         then (case ExtractHost E (nd_proxmox_url nodeInfo) of
             Inl _ \<Rightarrow> failed
           | Inr sshHost \<Rightarrow> do {
               m \<leftarrow> ExecOnHost E sshHost (mkdir_cmd cfg newID);
               case m of
                 Inl _ \<Rightarrow> failed
               | Inr _ \<Rightarrow> do {
                   p \<leftarrow> ExecOnHost E sshHost (pct_set_cmd cfg newID);
                   case p of
                     Inl _ \<Rightarrow> failed
                   | Inr _ \<Rightarrow> State_Monad.return (Some ()) } })
         else do {
           m \<leftarrow> ext E (ConfigureMountPoints client newID (api_mounts cfg newID));
           case m of
             Inl _ \<Rightarrow> failed
           | Inr _ \<Rightarrow> State_Monad.return (Some ()) })"

definition provision_start :: "externals \<Rightarrow> px_client \<Rightarrow> provision_job \<Rightarrow> int \<Rightarrow> unit option cp" where
  "provision_start E client j newID = do {
     s \<leftarrow> ext E (StartContainer client newID);
     case s of
       Inl _ \<Rightarrow> clean_up E client j newID ''provisioning failed: start error''
     | Inr _ \<Rightarrow> do {
         w \<leftarrow> ext E (TaskWait (StartContainer client newID));
         case w of
           Inl _ \<Rightarrow> clean_up E client j newID ''provisioning failed: start did not complete''
         | Inr _ \<Rightarrow> State_Monad.return (Some ()) } }"

text \<open>The dashboard token, written into the container and the database as far as that works. The
  value is the token, empty when none could be drawn.\<close>

definition provision_token ::
  "externals \<Rightarrow> provisioner_cfg \<Rightarrow> node \<Rightarrow> provision_job \<Rightarrow> int \<Rightarrow> string cp" where
  "provision_token E cfg nodeInfo j newID = do {
     rt \<leftarrow> generateToken E;
     let dashToken = (case rt of Inl _ \<Rightarrow> [] | Inr t \<Rightarrow> t);
     _ \<leftarrow> (if pc_ssh cfg \<and> dashToken \<noteq> [] \<and> \<not> AutoDeployEnabled cfg
          then (case ExtractHost E (nd_proxmox_url nodeInfo) of
              Inl e \<Rightarrow> State_Monad.return (Inl e)
            | Inr sshHost \<Rightarrow> ExecInContainer E sshHost newID (token_cmd cfg dashToken))
          else State_Monad.return (Inr ()));
     _ \<leftarrow> (if dashToken \<noteq> [] then SetDashboardToken E (job_tenant j) dashToken
          else State_Monad.return (Inr ()));
     State_Monad.return dashToken }"

definition provision_activate ::
  "externals \<Rightarrow> provisioner_cfg \<Rightarrow> px_client \<Rightarrow> node \<Rightarrow> provision_job \<Rightarrow> int \<Rightarrow> string option cp" where
  "provision_activate E cfg client nodeInfo j newID = do {
     dashToken \<leftarrow> provision_token E cfg nodeInfo j newID;
     a \<leftarrow> SetActive E (job_tenant j) newID;
     case a of
       Inl _ \<Rightarrow> clean_up E client j newID ''provisioning failed: could not update status''
     | Inr _ \<Rightarrow> State_Monad.return (Some dashToken) }"

text \<open>What follows is best effort: nothing of it changes the outcome.\<close>

definition provision_deploy ::
  "externals \<Rightarrow> provisioner_cfg \<Rightarrow> node \<Rightarrow> provision_job \<Rightarrow> int \<Rightarrow> string \<Rightarrow> unit res cp" where
  "provision_deploy E cfg nodeInfo j newID dashToken =
     (if pc_ssh cfg \<and> AutoDeployEnabled cfg
      then (case ExtractHost E (nd_proxmox_url nodeInfo) of
          Inl e \<Rightarrow> State_Monad.return (Inl e)
        | Inr sshHost \<Rightarrow> deployFreeRadio E cfg sshHost newID (job_tenant j) dashToken)
      else State_Monad.return (Inr ()))"

definition provision_station :: "externals \<Rightarrow> provisioner_cfg \<Rightarrow> provision_job \<Rightarrow> unit res cp" where
  "provision_station E cfg j =
     (if pc_station_creator cfg
      then do {
        r \<leftarrow> tenant_GetByID E (job_tenant j);
        case r of
          Inl e \<Rightarrow> State_Monad.return (Inl e)
        | Inr None \<Rightarrow> State_Monad.return (Inr ())
        | Inr (Some t) \<Rightarrow> AutoCreateStation E (job_tenant j) (tn_name t) (job_subdomain j)
                           (case_option [] id (tn_owner_id t)) (pc_caddy_domain cfg) }
      else State_Monad.return (Inr ()))"

definition provision_route :: "externals \<Rightarrow> provisioner_cfg \<Rightarrow> provision_job \<Rightarrow> string \<Rightarrow> unit res cp" where
  "provision_route E cfg j lxcIP =
     (if pc_caddy cfg \<and> lxcIP \<noteq> [] then ext E (AddRoute (job_subdomain j) lxcIP)
      else State_Monad.return (Inr ()))"

definition provision_health :: "externals \<Rightarrow> project \<Rightarrow> provision_job \<Rightarrow> string \<Rightarrow> unit res cp" where
  "provision_health E proj j lxcIP =
     (case pr_ports proj of
        [] \<Rightarrow> State_Monad.return (Inr ())
      | port # _ \<Rightarrow>
          if lxcIP \<noteq> [] \<and> pr_health_path proj \<noteq> []
          then do {
            healthy \<leftarrow> waitForHealth E (''http://'' @ lxcIP @ '':'' @ string_of_int port @ pr_health_path proj);
            SetHealthStatus E (job_tenant j) (if healthy then ''healthy'' else ''unhealthy'') }
          else State_Monad.return (Inr ()))"

text \<open>From the cloned container to the active tenant.\<close>

definition provision_build ::
  "externals \<Rightarrow> provisioner_cfg \<Rightarrow> px_client \<Rightarrow> project \<Rightarrow> node \<Rightarrow> provision_job \<Rightarrow> int
   \<Rightarrow> (string \<times> string) option cp" where
  "provision_build E cfg client proj nodeInfo j newID = do {
     n \<leftarrow> provision_network E cfg client proj j newID;
     case n of None \<Rightarrow> State_Monad.return None | Some lxcIP \<Rightarrow> do {
     m \<leftarrow> provision_mounts E cfg client nodeInfo j newID;
     case m of None \<Rightarrow> State_Monad.return None | Some _ \<Rightarrow> do {
     s \<leftarrow> provision_start E client j newID;
     case s of None \<Rightarrow> State_Monad.return None | Some _ \<Rightarrow> do {
     a \<leftarrow> provision_activate E cfg client nodeInfo j newID;
     case a of None \<Rightarrow> State_Monad.return None | Some dashToken \<Rightarrow>
     State_Monad.return (Some (lxcIP, dashToken)) }}}}"

text \<open>The value tells whether the tenant was made active; the Go function returns nothing.\<close>

definition doProvision :: "externals \<Rightarrow> provisioner_cfg \<Rightarrow> provision_job \<Rightarrow> bool cp" where
  "doProvision E cfg j = do {
     l \<leftarrow> provision_lookup E cfg j;
     case l of None \<Rightarrow> State_Monad.return False | Some (proj, nodeInfo, client) \<Rightarrow> do {
     c \<leftarrow> provision_clone E client proj j;
     case c of None \<Rightarrow> State_Monad.return False | Some newID \<Rightarrow> do {
     b \<leftarrow> provision_build E cfg client proj nodeInfo j newID;
     case b of None \<Rightarrow> State_Monad.return False | Some (lxcIP, dashToken) \<Rightarrow> do {
     _ \<leftarrow> provision_deploy E cfg nodeInfo j newID dashToken;
     _ \<leftarrow> provision_station E cfg j;
     _ \<leftarrow> provision_route E cfg j lxcIP;
     _ \<leftarrow> provision_health E proj j lxcIP;
     State_Monad.return True }}}}"

text \<open>\<open>Provision\<close> starts a goroutine: the job joins those in flight, \<open>run_job\<close> is its body.\<close>

definition Provision :: "string \<Rightarrow> string \<Rightarrow> string \<Rightarrow> string \<Rightarrow> int \<Rightarrow> unit cp" where
  "Provision tenantID nodeID projectID subdomain ramMB = State (\<lambda>w.
     ((), w\<lparr>w_jobs := w_jobs w @ [\<lparr>job_tenant = tenantID, job_node = nodeID, job_project = projectID,
                                 job_subdomain = subdomain, job_ram_mb = ramMB\<rparr>]\<rparr>))"

definition run_job :: "externals \<Rightarrow> provisioner_cfg \<Rightarrow> nat \<Rightarrow> bool cp" where
  "run_job E cfg i = do {
     js \<leftarrow> State (\<lambda>w. (w_jobs w, w));
     if i < length js
     then do {
       ok \<leftarrow> doProvision E cfg (js ! i);
       _ \<leftarrow> State (\<lambda>w. ((), w\<lparr>w_jobs := take i (w_jobs w) @ drop (Suc i) (w_jobs w)\<rparr>));
       State_Monad.return ok }
     else State_Monad.return False }"

section \<open>Removing, stopping and starting\<close>

definition stop_and_wait :: "externals \<Rightarrow> px_client \<Rightarrow> int \<Rightarrow> unit res cp" where
  "stop_and_wait E client lxcID = do {
     r \<leftarrow> ext E (StopContainer client lxcID);
     case r of
       Inl e \<Rightarrow> State_Monad.return (Inl (Wrap ''stop container'' e))
     | Inr _ \<Rightarrow> do {
         w \<leftarrow> ext E (TaskWait (StopContainer client lxcID));
         State_Monad.return (wrap_err ''stop task failed'' w) } }"

text \<open>\<open>Inl\<close> carries the message for the tenant and the error for the caller.\<close>

definition delete_container ::
  "externals \<Rightarrow> px_client \<Rightarrow> int \<Rightarrow> ((string \<times> go_error) + unit) cp" where
  "delete_container E client lxcID = do {
     r \<leftarrow> ext E (DeleteContainer client lxcID True);
     case r of
       Inl e \<Rightarrow> State_Monad.return (if IsContainerNotFound e then Inr ()
                  else Inl (''deprovision failed: container delete error'', Wrap ''delete container'' e))
     | Inr _ \<Rightarrow> do {
         w \<leftarrow> ext E (TaskWait (DeleteContainer client lxcID True));
         State_Monad.return (case w of
             Inr _ \<Rightarrow> Inr ()
           | Inl e \<Rightarrow> if IsContainerNotFound e then Inr ()
               else Inl (''deprovision failed: container delete did not complete'', Wrap ''delete task failed'' e)) } }"

definition Deprovision ::
  "externals \<Rightarrow> provisioner_cfg \<Rightarrow> string \<Rightarrow> string \<Rightarrow> string \<Rightarrow> int \<Rightarrow> int \<Rightarrow> unit res cp" where
  "Deprovision E cfg tenantID nodeID subdomain lxcID ramMB = do {
     d \<leftarrow> SetDeleting E tenantID;
     case d of
       Inl e \<Rightarrow> State_Monad.return (Inl (if errors_is e ErrStateConflict then ErrStateConflict
                                          else Wrap ''set deleting'' e))
     | Inr _ \<Rightarrow> do {
         rc \<leftarrow> getClient E cfg nodeID;
         case rc of
           Inl e \<Rightarrow> do {
             _ \<leftarrow> SetError E tenantID ''deprovision failed: node connection error'';
             State_Monad.return (Inl (Wrap ''get proxmox client'' e)) }
         | Inr client \<Rightarrow> do {
             _ \<leftarrow> stop_and_wait E client lxcID;
             rd \<leftarrow> delete_container E client lxcID;
             case rd of
               Inl f \<Rightarrow> do {
                 _ \<leftarrow> SetError E tenantID (fst f);
                 State_Monad.return (Inl (snd f)) }
             | Inr _ \<Rightarrow> do {
                 _ \<leftarrow> (if 0 < ramMB then ReleaseRAM E nodeID ramMB else State_Monad.return (Inr ()));
                 _ \<leftarrow> (if pc_caddy cfg \<and> subdomain \<noteq> [] then ext E (RemoveRoute subdomain)
                      else State_Monad.return (Inr ()));
                 r \<leftarrow> SetDeleted E tenantID;
                 State_Monad.return (wrap_err ''set deleted'' r) } } } }"

definition provisioner_Suspend ::
  "externals \<Rightarrow> provisioner_cfg \<Rightarrow> string \<Rightarrow> int \<Rightarrow> unit res cp" where
  "provisioner_Suspend E cfg nodeID lxcID = do {
     rc \<leftarrow> getClient E cfg nodeID;
     case rc of
       Inl e \<Rightarrow> State_Monad.return (Inl (Wrap ''get proxmox client'' e))
     | Inr client \<Rightarrow> stop_and_wait E client lxcID }"

definition provisioner_Resume ::
  "externals \<Rightarrow> provisioner_cfg \<Rightarrow> string \<Rightarrow> int \<Rightarrow> unit res cp" where
  "provisioner_Resume E cfg nodeID lxcID = do {
     rc \<leftarrow> getClient E cfg nodeID;
     case rc of
       Inl e \<Rightarrow> State_Monad.return (Inl (Wrap ''get proxmox client'' e))
     | Inr client \<Rightarrow> do {
         r \<leftarrow> ext E (StartContainer client lxcID);
         case r of
           Inl e \<Rightarrow> State_Monad.return (Inl (Wrap ''start container'' e))
         | Inr _ \<Rightarrow> do {
             w \<leftarrow> ext E (TaskWait (StartContainer client lxcID));
             State_Monad.return (wrap_err ''start task failed'' w) } } }"

end
