(* ===== verification/CP_Provision_Steps.thy ===== *)
theory CP_Provision_Steps
  imports CP_Provisioner
begin

text \<open>
  Correctness of the provisioner. First, every operation only takes the steps of \<open>cp_step\<close>, whatever the
  database and the outside systems answer. Then the outcome of \<open>doProvision\<close> over a database that
  answers: the tenant ends active, or it ends in error with its RAM given back and, once the
  container was cloned, with the container's removal requested.
\<close>

section \<open>Only steps of the system\<close>

lemma cp_pure: "(\<And>w. w_db (snd (run_state m w)) = w_db w) \<Longrightarrow> cp_triple E m (\<lambda>_. True)"
  by (simp add: triple_def)

lemma client_steps [io_rules]:
  "cp_triple E (cached_client nid) (\<lambda>_. True)"
  "cp_triple E (store_client nid c) (\<lambda>_. True)"
  "cp_triple E (InvalidateClient nid) (\<lambda>_. True)"
  "cp_triple E (Provision tid nid pid sub ram) (\<lambda>_. True)"
  "cp_triple E (waitForHealth E u) (\<lambda>_. True)"
  by (auto intro!: cp_pure simp: cached_client_def store_client_def InvalidateClient_def Provision_def
      waitForHealth_def split: prod.splits)

lemma getClient_steps [io_rules]: "cp_triple E (getClient E cfg nid) (\<lambda>_. True)"
  unfolding getClient_def by (rule cp_rules io_rules)+

lemma ssh_steps [io_rules]:
  "cp_triple E (ExecInContainer E h v c) (\<lambda>_. True)"
  "cp_triple E (ExecOnHost E h c) (\<lambda>_. True)"
  unfolding ExecInContainer_def ExecOnHost_def by (rule cp_rules cp_ext)+

lemma setError_steps [io_rules]: "cp_triple E (setError E tid nid ram msg) (\<lambda>_. True)"
  unfolding setError_def by (rule cp_rules io_rules | simp)+

lemma cleanupAndError_steps [io_rules]: "cp_triple E (cleanupAndError E c tid nid ram l msg) (\<lambda>_. True)"
  unfolding cleanupAndError_def by (rule cp_rules io_rules cp_ext)+

lemma give_up_steps [io_rules]:
  "cp_triple E (give_up E j msg) (\<lambda>_. True)" "cp_triple E (clean_up E c j l msg) (\<lambda>_. True)"
  unfolding give_up_def clean_up_def by (rule cp_rules io_rules)+

lemma generateToken_steps [io_rules]: "cp_triple E (generateToken E) (\<lambda>_. True)"
  unfolding generateToken_def by (rule cp_rules cp_ext_val)+

lemma generate_tokens_steps [io_rules]: "cp_triple E (generate_tokens E n) (\<lambda>_. True)"
proof (induction n)
  case (Suc n)
  show ?case unfolding generate_tokens.simps by (rule cp_rules io_rules Suc)+
qed (simp, rule cp_rules, rule TrueI)

lemma generateDeploySecrets_steps [io_rules]: "cp_triple E (generateDeploySecrets E) (\<lambda>_. True)"
  unfolding generateDeploySecrets_def by (rule cp_rules io_rules)+

lemma run_in_container_steps [io_rules]: "cp_triple E (run_in_container E h l cmds) (\<lambda>_. True)"
proof (induction cmds)
  case (Cons c cmds)
  show ?case by (cases c) (simp, (rule cp_rules io_rules Cons)+)
qed (simp, rule cp_rules, rule TrueI)

lemma deployFreeRadio_steps [io_rules]: "cp_triple E (deployFreeRadio E cfg h l tid tok) (\<lambda>_. True)"
  unfolding deployFreeRadio_def by (rule cp_rules io_rules)+

lemma provision_token_steps [io_rules]: "cp_triple E (provision_token E cfg n j l) (\<lambda>_. True)"
  unfolding provision_token_def by (rule cp_rules io_rules)+

lemma phases_steps [io_rules]:
  "cp_triple E (provision_lookup E cfg j) (\<lambda>_. True)"
  "cp_triple E (provision_clone E c proj j) (\<lambda>_. True)"
  "cp_triple E (provision_network E cfg c proj j l) (\<lambda>_. True)"
  "cp_triple E (provision_mounts E cfg c n j l) (\<lambda>_. True)"
  "cp_triple E (provision_start E c j l) (\<lambda>_. True)"
  "cp_triple E (provision_activate E cfg c n j l) (\<lambda>_. True)"
  "cp_triple E (provision_deploy E cfg n j l tok) (\<lambda>_. True)"
  "cp_triple E (provision_station E cfg j) (\<lambda>_. True)"
  "cp_triple E (provision_route E cfg j a) (\<lambda>_. True)"
  "cp_triple E (provision_health E proj j a) (\<lambda>_. True)"
  unfolding provision_lookup_def provision_clone_def provision_network_def provision_mounts_def
    provision_start_def provision_activate_def provision_deploy_def provision_station_def
    provision_route_def provision_health_def
  by (rule cp_rules io_rules cp_ext cp_ext_val)+

lemma provision_build_steps [io_rules]: "cp_triple E (provision_build E cfg c proj n j l) (\<lambda>_. True)"
  unfolding provision_build_def by (rule cp_rules io_rules)+

lemma doProvision_steps [io_rules]: "cp_triple E (doProvision E cfg j) (\<lambda>_. True)"
  unfolding doProvision_def by (rule cp_rules io_rules)+

lemma run_job_steps [io_rules]: "cp_triple E (run_job E cfg i) (\<lambda>_. True)"
  unfolding run_job_def by (rule cp_rules io_rules cp_pure | simp)+

lemma container_steps [io_rules]:
  "cp_triple E (stop_and_wait E c l) (\<lambda>_. True)"
  "cp_triple E (delete_container E c l) (\<lambda>_. True)"
  unfolding stop_and_wait_def delete_container_def by (rule cp_rules cp_ext)+

lemma Deprovision_steps [io_rules]: "cp_triple E (Deprovision E cfg tid nid sub l ram) (\<lambda>_. True)"
  unfolding Deprovision_def by (rule cp_rules io_rules cp_ext | simp)+

lemma suspend_resume_steps [io_rules]:
  "cp_triple E (provisioner_Suspend E cfg nid l) (\<lambda>_. True)"
  "cp_triple E (provisioner_Resume E cfg nid l) (\<lambda>_. True)"
  unfolding provisioner_Suspend_def provisioner_Resume_def by (rule cp_rules io_rules cp_ext)+


section \<open>What does not touch statuses and RAM\<close>

definition tn_core :: "tenant \<Rightarrow> string \<times> tenant_status \<times> int option \<times> string \<times> string" where
  "tn_core t = (tn_id t, tn_status t, tn_lxc_id t, tn_node_id t, tn_project_id t)"

lemma tn_core_stamp [simp]: "tn_core (t\<lparr>tn_updated_at := n\<rparr>) = tn_core t"
  by (simp add: tn_core_def)

definition quiet :: "db \<Rightarrow> db \<Rightarrow> bool" where
  "quiet d d' \<longleftrightarrow> nodes d' = nodes d \<and> projects d' = projects d
     \<and> map tn_core (tenants d') = map tn_core (tenants d)"

interpretation quiet: db_logic "\<lambda>_. True" quiet
  by unfold_locales (auto simp: quiet_def)

abbreviation quietly :: "'a cp \<Rightarrow> bool" where
  "quietly m \<equiv> triple (\<lambda>_. True) (rel_db quiet) m (\<lambda>_. True)"

lemma q_write: "(\<And>d. quiet d (snd (s d))) \<Longrightarrow> quietly (db_call E s)"
  by (rule triple_weaken [OF quiet.t_stmt [where V = "\<lambda>_. True"]]) auto

lemma q_query: "quietly (db_call E (query f))"
  by (rule q_write) (simp add: query_def quiet_def)

lemma q_pure: "(\<And>w. w_db (snd (run_state m w)) = w_db w) \<Longrightarrow> quietly m"
  by (simp add: triple_def quiet_def)

lemma quiet_update_tenants:
  "(\<And>t. tn_core (f t) = tn_core t)
   \<Longrightarrow> quiet d (snd (update_tenants P f d))"
  by (simp add: quiet_def tenants_update_tenants map_update_where)

lemma q_move:
  "(\<And>t. tn_core (f t) = tn_core t)
   \<Longrightarrow> quietly (exec_rows E m e (update_tenants P f))"
  unfolding exec_rows_def by (intro quiet.t_control q_write quiet_update_tenants TrueI)

lemmas q_ext = quiet.t_ext and q_ext_val = quiet.t_ext_val

lemma store_quiet:
  "quietly (project_GetByID E pid)"
  "quietly (node_GetByID E nid)"
  "quietly (node_GetEncryptedTokenByID E nid)"
  "quietly (tenant_GetByID E tid)"
  "quietly (list_used_ips E)"
  "quietly (station_GetByTenantID E tid)"
  unfolding project_GetByID_def node_GetByID_def node_GetEncryptedTokenByID_def tenant_GetByID_def
    list_used_ips_def station_GetByTenantID_def
  by (intro quiet.t_control choose_row_triple q_query TrueI)+

lemma GetNextAvailableIP_quiet: "quietly (GetNextAvailableIP E cidr)"
  unfolding GetNextAvailableIP_def Allocate_def
  by (rule quiet.t_control Addr_case_triple store_quiet q_query TrueI)+

lemma set_quiet:
  "quietly (SetLXCIP E tid a)"
  "quietly (SetDashboardToken E tid tok)"
  unfolding SetLXCIP_def SetDashboardToken_def by (rule q_move, simp add: tn_core_def)+

lemma SetHealthStatus_quiet: "quietly (SetHealthStatus E tid s)"
  unfolding SetHealthStatus_def
  by (intro quiet.t_control q_write quiet_update_tenants TrueI) (simp add: tn_core_def)

lemma station_Create_quiet: "quietly (station_Create E req)"
  unfolding station_Create_def by (intro quiet.t_control q_write TrueI) (simp add: quiet_def)

lemma AutoCreateStation_quiet: "quietly (AutoCreateStation E tid n s ow dm)"
  unfolding AutoCreateStation_def by (rule quiet.t_control store_quiet station_Create_quiet TrueI)+

lemma client_quiet:
  "quietly (cached_client nid)" "quietly (store_client nid c)" "quietly (waitForHealth E u)"
  by (auto intro!: q_pure simp: cached_client_def store_client_def waitForHealth_def split: prod.splits)

lemma getClient_quiet: "quietly (getClient E cfg nid)"
  unfolding getClient_def by (rule quiet.t_control store_quiet client_quiet TrueI)+

lemma ssh_quiet: "quietly (ExecInContainer E h v c)" "quietly (ExecOnHost E h c)"
  unfolding ExecInContainer_def ExecOnHost_def by (rule quiet.t_control q_ext TrueI)+

lemma generateToken_quiet: "quietly (generateToken E)"
  unfolding generateToken_def by (rule quiet.t_control q_ext_val TrueI)+

lemma generate_tokens_quiet: "quietly (generate_tokens E n)"
proof (induction n)
  case (Suc n)
  show ?case unfolding generate_tokens.simps by (rule quiet.t_control generateToken_quiet Suc TrueI)+
qed (simp, rule quiet.t_return, rule TrueI)

lemma run_in_container_quiet: "quietly (run_in_container E h l cmds)"
proof (induction cmds)
  case (Cons c cmds)
  show ?case by (cases c) (simp, (rule quiet.t_control ssh_quiet Cons TrueI)+)
qed (simp, rule quiet.t_return, rule TrueI)

lemma deployFreeRadio_quiet: "quietly (deployFreeRadio E cfg h l tid tok)"
  unfolding deployFreeRadio_def generateDeploySecrets_def
  by (rule quiet.t_control run_in_container_quiet generate_tokens_quiet TrueI)+

lemmas quiet_rules = store_quiet GetNextAvailableIP_quiet set_quiet SetHealthStatus_quiet
  AutoCreateStation_quiet client_quiet getClient_quiet ssh_quiet generateToken_quiet
  deployFreeRadio_quiet q_ext q_ext_val

lemma provision_token_quiet: "quietly (provision_token E cfg n j l)"
  unfolding provision_token_def by (rule quiet.t_control quiet_rules TrueI)+

lemma best_effort_quiet:
  "quietly (provision_deploy E cfg n j l tok)"
  "quietly (provision_station E cfg j)"
  "quietly (provision_route E cfg j a)"
  "quietly (provision_health E proj j a)"
  unfolding provision_deploy_def provision_station_def provision_route_def provision_health_def
  by (rule quiet.t_control quiet_rules TrueI)+

section \<open>The outcome of doProvision\<close>

definition err_db :: "string \<Rightarrow> string \<Rightarrow> int \<Rightarrow> string \<Rightarrow> db \<Rightarrow> db" where
  "err_db tid nid ram msg d =
     (let d1 = snd (update_tenants (cas tid [Provisioning, Deleting])
                 (\<lambda>t. t\<lparr>tn_status := Errored, tn_error_message := Some msg\<rparr>) d)
      in if 0 < ram then snd (release_ram nid ram d1) else d1)"

lemma setError_db:
  "reliable E \<Longrightarrow> w_db (snd (run_state (setError E tid nid ram msg) w)) = err_db tid nid ram msg (w_db w)"
  by (simp add: setError_def SetError_def exec_rows_def ReleaseRAM_def reliable_call err_db_def Let_def)

lemma cleanupAndError_db:
  "reliable E \<Longrightarrow> w_db (snd (run_state (cleanupAndError E c tid nid ram l msg) w)) = err_db tid nid ram msg (w_db w)"
  by (auto simp: cleanupAndError_def setError_db ext_def Let_def split: prod.splits sum.splits option.splits)

lemma ext_apart: "run_state (ext E c) w = (r, w') \<Longrightarrow> w' = w\<lparr>w_trace := c # w_trace w\<rparr>"
  by (auto simp: ext_def Let_def)



text \<open>What is left behind when a phase gives up: the error is recorded and the RAM returned.\<close>

definition compensated :: "provision_job \<Rightarrow> world \<Rightarrow> world \<Rightarrow> bool" where
  "compensated j w w' \<longleftrightarrow>
     (\<exists>msg. w_db w' = err_db (job_tenant j) (job_node j) (job_ram_mb j) msg (w_db w))"

abbreviation phase :: "provision_job \<Rightarrow> 'a option cp \<Rightarrow> bool" where
  "phase j m \<equiv> attempt (rel_db quiet) (compensated j) (\<lambda>x. x \<noteq> None) m"

lemma phase_fail:
  assumes "reliable E"
  shows "phase j (give_up E j msg)" "phase j (clean_up E c j l msg)"
  by (auto intro!: quiet.a_fail
      simp: give_up_def clean_up_def compensated_def split_def setError_db [OF assms] cleanupAndError_db [OF assms])

lemma phase_bind: "quietly m \<Longrightarrow> (\<And>x. phase j (f x)) \<Longrightarrow> phase j (State_Monad.bind m f)"
  by (rule quiet.a_bind)

lemma phase_Some: "phase j (State_Monad.return (Some x))"
  by (rule quiet.a_return) simp

lemmas phase_rules = phase_Some phase_bind quiet.a_if quiet.a_sum quiet.a_option quiet.a_let

lemma phases:
  assumes "reliable E"
  shows "phase j (provision_lookup E cfg j)"
    and "phase j (provision_clone E c proj j)"
    and "phase j (provision_network E cfg c proj j l)"
    and "phase j (provision_mounts E cfg c n j l)"
    and "phase j (provision_start E c j l)"
  unfolding provision_lookup_def provision_clone_def provision_network_def provision_mounts_def
    provision_start_def Let_def
  by (rule phase_rules phase_fail [OF assms] quiet_rules)+

lemma phase_cases:
  assumes "phase j m" "run_state m w = (r, w')"
  obtains x where "r = Some x" "quiet (w_db w) (w_db w')"
    | w1 where "r = None" "quiet (w_db w) (w_db w1)" "compensated j w1 w'"
  using assms by (cases r) (auto simp: attempt_def dest!: spec [of _ w] split: if_splits)

definition activated :: "string \<Rightarrow> int \<Rightarrow> db \<Rightarrow> db \<Rightarrow> bool" where
  "activated tid l d d' \<longleftrightarrow> d' = snd (update_tenants (cas tid [Provisioning])
       (\<lambda>t. t\<lparr>tn_status := Active, tn_lxc_id := Some l, tn_error_message := None\<rparr>) d)
     \<and> (\<exists>t\<in>set (tenants d). cas tid [Provisioning] t)"

lemma SetActive_reliable:
  assumes "reliable E" "run_state (SetActive E tid l) w = (r, w')"
  shows "case r of Inl _ \<Rightarrow> w_db w' = w_db w | Inr _ \<Rightarrow> activated tid l (w_db w) (w_db w')"
proof -
  have idle: "snd (update_tenants P f d) = d" if "count_where P (tenants d) = 0" for P f d
    using that by (simp add: update_tenants_def update_where_none count_where_zero)
  show ?thesis
    using assms(2) idle
    by (auto simp: SetActive_def exec_rows_def reliable_call [OF assms(1)] set_active_stmt_def
        activated_def update_tenants_def int4_def count_where_zero split: if_splits sum.splits)
qed

lemma quietly_run: "quietly m \<Longrightarrow> run_state m w = (x, w') \<Longrightarrow> quiet (w_db w) (w_db w')"
  using triple_run [of "\<lambda>_. True" "rel_db quiet" m "\<lambda>_. True" w] by simp

lemma quiet_trans: "quiet d e \<Longrightarrow> quiet e f \<Longrightarrow> quiet d f"
  by (rule quiet.Q_trans)

text \<open>The two ways a run can end, as a relation between the tables before and after.\<close>

definition ended :: "provision_job \<Rightarrow> bool \<Rightarrow> db \<Rightarrow> db \<Rightarrow> bool" where
  "ended j ok d d' \<longleftrightarrow>
     (if ok then \<exists>d1 d2 l. quiet d d1 \<and> activated (job_tenant j) l d1 d2 \<and> quiet d2 d'
      else \<exists>d1 msg. quiet d d1 \<and> d' = err_db (job_tenant j) (job_node j) (job_ram_mb j) msg d1)"

lemma ended_quiet: "quiet d d1 \<Longrightarrow> ended j ok d1 d' \<Longrightarrow> ended j ok d d'"
  unfolding ended_def by (meson quiet_trans)

lemma ended_more: "ended j True d d1 \<Longrightarrow> quiet d1 d' \<Longrightarrow> ended j True d d'"
  unfolding ended_def by (metis quiet_trans)

lemma phase_ended:
  assumes "phase j m" "run_state m w = (r, w')"
  shows "case r of None \<Rightarrow> ended j False (w_db w) (w_db w') | Some _ \<Rightarrow> quiet (w_db w) (w_db w')"
  by (rule phase_cases [OF assms]) (auto simp: ended_def compensated_def)

lemma run_bindE:
  assumes "run_state (State_Monad.bind m f) w = (y, w')"
  obtains x w1 where "run_state m w = (x, w1)" "run_state (f x) w1 = (y, w')"
  using assms by (cases "run_state m w") auto

lemma activate_ended:
  assumes E: "reliable E" and r: "run_state (provision_activate E cfg c n j l) w = (r, w')"
  shows "ended j (r \<noteq> None) (w_db w) (w_db w')"
proof -
  from r obtain tok w1 a w2 where
    1: "run_state (provision_token E cfg n j l) w = (tok, w1)"
    and 2: "run_state (SetActive E (job_tenant j) l) w1 = (a, w2)"
    and 3: "run_state (case a of
       Inl _ \<Rightarrow> clean_up E c j l ''provisioning failed: could not update status''
     | Inr _ \<Rightarrow> State_Monad.return (Some tok)) w2 = (r, w')"
    unfolding provision_activate_def by (elim run_bindE)
  have q: "quiet (w_db w) (w_db w1)" by (rule quietly_run [OF provision_token_quiet 1])
  show ?thesis
  proof (cases a)
    case (Inl e)
    with SetActive_reliable [OF E 2] have "w_db w2 = w_db w1" by simp
    moreover from 3 Inl have
      run: "run_state (clean_up E c j l ''provisioning failed: could not update status'') w2 = (r, w')" by simp
    then have "r = None" by (auto simp: clean_up_def split: prod.splits)
    with phase_ended [OF phase_fail(2) [OF E] run] have "ended j False (w_db w2) (w_db w')" by simp
    ultimately show ?thesis using q \<open>r = None\<close> by (auto intro: ended_quiet)
  next
    case (Inr u)
    with SetActive_reliable [OF E 2] have "activated (job_tenant j) l (w_db w1) (w_db w2)" by simp
    with 3 Inr q show ?thesis unfolding ended_def by (auto intro: quiet.Q_refl)
  qed
qed

text \<open>Runs of phases: a phase that gave up ends the run, the last one decides it.\<close>

definition outcome :: "provision_job \<Rightarrow> ('a \<Rightarrow> bool) \<Rightarrow> 'a cp \<Rightarrow> bool" where
  "outcome j ok m \<longleftrightarrow> (\<forall>w. ended j (ok (fst (run_state m w))) (w_db w) (w_db (snd (run_state m w))))"

lemma o_phase:
  assumes "phase j m" "\<not> ok y" "\<And>x. outcome j ok (f x)"
  shows "outcome j ok (State_Monad.bind m (\<lambda>r. case r of None \<Rightarrow> State_Monad.return y | Some x \<Rightarrow> f x))"
  unfolding outcome_def
proof
  fix w
  obtain r w1 where r: "run_state m w = (r, w1)" by fastforce
  show "ended j (ok (fst (run_state (State_Monad.bind m (\<lambda>r. case r of None \<Rightarrow> State_Monad.return y | Some x \<Rightarrow> f x)) w)))
     (w_db w) (w_db (snd (run_state (State_Monad.bind m (\<lambda>r. case r of None \<Rightarrow> State_Monad.return y | Some x \<Rightarrow> f x)) w)))"
    using phase_ended [OF assms(1) r] r assms(2,3)
    by (cases r) (auto simp: outcome_def intro: ended_quiet)
qed

lemma o_last:
  assumes "outcome j (\<lambda>r. r \<noteq> None) m" "\<not> ok y" "\<And>x. triple (\<lambda>_. True) (rel_db quiet) (f x) ok"
  shows "outcome j ok (State_Monad.bind m (\<lambda>r. case r of None \<Rightarrow> State_Monad.return y | Some x \<Rightarrow> f x))"
  unfolding outcome_def
proof
  fix w
  obtain r w1 where r: "run_state m w = (r, w1)" by fastforce
  with assms(1) have e: "ended j (r \<noteq> None) (w_db w) (w_db w1)"
    unfolding outcome_def by (auto dest!: spec [of _ w])
  show "ended j (ok (fst (run_state (State_Monad.bind m (\<lambda>r. case r of None \<Rightarrow> State_Monad.return y | Some x \<Rightarrow> f x)) w)))
     (w_db w) (w_db (snd (run_state (State_Monad.bind m (\<lambda>r. case r of None \<Rightarrow> State_Monad.return y | Some x \<Rightarrow> f x)) w)))"
  proof (cases r)
    case None
    with r e assms(2) show ?thesis by simp
  next
    case (Some x)
    with assms(3) [of x] have "quiet (w_db w1) (w_db (snd (run_state (f x) w1)))" "ok (fst (run_state (f x) w1))"
      by (auto simp: triple_def dest!: spec [of _ w1])
    with r e Some show ?thesis by (auto intro: ended_more)
  qed
qed

lemma o_prod: "(\<And>a b. outcome j ok (f a b)) \<Longrightarrow> outcome j ok (case p of (a, b) \<Rightarrow> f a b)"
  by (cases p) simp

lemma activate_outcome:
  assumes "reliable E"
  shows "outcome j (\<lambda>r. r \<noteq> None) (provision_activate E cfg c n j l)"
  unfolding outcome_def by (intro allI activate_ended [OF assms]) (rule prod.collapse [symmetric])

lemma build_outcome:
  assumes "reliable E"
  shows "outcome j (\<lambda>r. r \<noteq> None) (provision_build E cfg c proj n j l)"
proof -
  have last: "outcome j (\<lambda>r. r \<noteq> None) (do {
     a \<leftarrow> provision_activate E cfg c n j l;
     case a of None \<Rightarrow> State_Monad.return None | Some t \<Rightarrow> State_Monad.return (Some (lxcIP, t)) })"
    for lxcIP :: string
    by (rule o_last [OF activate_outcome [OF assms]], simp, rule quiet.t_return, simp)
  show ?thesis unfolding provision_build_def
    by (rule last o_phase phases [OF assms] | simp (no_asm))+
qed

lemma doProvision_outcome:
  assumes "reliable E"
  shows "outcome j (\<lambda>ok. ok) (doProvision E cfg j)"
proof -
  have rest: "triple (\<lambda>_. True) (rel_db quiet) (do {
       _ \<leftarrow> provision_deploy E cfg n j l t;
       _ \<leftarrow> provision_station E cfg j;
       _ \<leftarrow> provision_route E cfg j a;
       _ \<leftarrow> provision_health E proj j a;
       State_Monad.return True }) (\<lambda>ok. ok)" for n l t a proj
    by (rule quiet.t_control best_effort_quiet TrueI)+
  have build: "outcome j (\<lambda>ok. ok) (do {
       b \<leftarrow> provision_build E cfg c proj n j l;
       case b of None \<Rightarrow> State_Monad.return False | Some (lxcIP, dashToken) \<Rightarrow> do {
       _ \<leftarrow> provision_deploy E cfg n j l dashToken;
       _ \<leftarrow> provision_station E cfg j;
       _ \<leftarrow> provision_route E cfg j lxcIP;
       _ \<leftarrow> provision_health E proj j lxcIP;
       State_Monad.return True }})" for c proj n l
    by (rule o_last [OF build_outcome [OF assms]], simp, rule quiet.t_prod, rule rest)
  show ?thesis unfolding doProvision_def
    by (rule o_phase phases [OF assms] o_prod build | simp)+
qed

section \<open>What the two ends mean for the tenant and the node\<close>

lemma quiet_row:
  assumes "quiet d d'" "tenant_row d tid = Some t"
  obtains t' where "tenant_row d' tid = Some t'" "tn_core t' = tn_core t"
proof -
  have "\<exists>t'. select_one (\<lambda>t. tn_id t = tid) ts' = Some t' \<and> tn_core t' = tn_core t"
    if "map tn_core ts' = map tn_core ts" "select_one (\<lambda>t. tn_id t = tid) ts = Some t" for ts ts'
    using that
  proof (induction ts arbitrary: ts')
    case (Cons u us)
    then obtain u' us' where "ts' = u' # us'" by (cases ts') auto
    with Cons show ?case by (auto simp: select_one_def tn_core_def split: if_splits)
  qed (simp add: select_one_def)
  with assms that show thesis unfolding quiet_def tenant_row_def by blast
qed

lemma quiet_cap: "quiet d d' \<Longrightarrow> node_cap d' = node_cap d"
  by (auto simp: quiet_def node_cap_def node_row_def)

lemma err_db_row:
  assumes "tenant_row d tid = Some t" "tn_status t = Provisioning \<or> tn_status t = Deleting"
  shows "\<exists>t'. tenant_row (err_db tid nid ram msg d) tid = Some t' \<and> tn_status t' = Errored
          \<and> tn_error_message t' = Some msg"
proof -
  have "tn_id t = tid" using assms(1) by (auto dest: tenant_row_in)
  then have "tenant_row (snd (update_tenants (cas tid [Provisioning, Deleting])
      (\<lambda>t. t\<lparr>tn_status := Errored, tn_error_message := Some msg\<rparr>) d)) tid
    = Some (t\<lparr>tn_status := Errored, tn_error_message := Some msg, tn_updated_at := db_now d\<rparr>)"
    using assms by (subst tenant_row_update) (auto simp: cas_def)
  then show ?thesis
    by (simp add: err_db_def Let_def) (simp add: tenant_row_def)
qed

lemma err_db_cap:
  assumes "nodes_ok d" "0 \<le> ram" "ram < 2 ^ 31" "node_cap d nid = Some (a, tot)"
  shows "node_cap (err_db tid nid ram msg d) = (node_cap d)(nid \<mapsto> (max (a - ram) 0, tot))"
proof -
  let ?d = "snd (update_tenants (cas tid [Provisioning, Deleting])
      (\<lambda>t. t\<lparr>tn_status := Errored, tn_error_message := Some msg\<rparr>) d)"
  have same: "node_cap ?d = node_cap d" "nodes_ok ?d"
    using assms(1) by (auto simp: node_cap_def node_row_def nodes_ok_def)
  show ?thesis
  proof (cases "0 < ram")
    case True
    with ledger.release_law [OF same(2) assms(2,3)] assms(4) same(1) show ?thesis
      by (fastforce simp: err_db_def)
  next
    case False
    with assms same ledger.cap_bounds [OF assms(1,4)] show ?thesis
      by (auto simp: err_db_def fun_eq_iff)
  qed
qed


section \<open>Clean-up\<close>











section \<open>Deprovisioning\<close>

text \<open>Unless \<open>SetDeleting\<close> reports success, nothing outside the database is touched, whatever the
  fate of that statement.\<close>

lemma Deprovision_guard:
  assumes "fst (run_state (SetDeleting E tid) w) = Inl e"
  shows "w_trace (snd (run_state (Deprovision E cfg tid nid sub l ram) w)) = w_trace w"
    and "\<exists>e'. fst (run_state (Deprovision E cfg tid nid sub l ram) w) = Inl e'"
proof -
  have "w_trace (snd (run_state (SetDeleting E tid) w)) = w_trace w"
    by (simp add: SetDeleting_def exec_rows_def split_def)
  with assms show "w_trace (snd (run_state (Deprovision E cfg tid nid sub l ram) w)) = w_trace w"
    and "\<exists>e'. fst (run_state (Deprovision E cfg tid nid sub l ram) w) = Inl e'"
    by (auto simp: Deprovision_def split_def)
qed

lemma container_quiet: "quietly (stop_and_wait E c l)" "quietly (delete_container E c l)"
  unfolding stop_and_wait_def delete_container_def by (rule quiet.t_control q_ext TrueI)+

text \<open>A transition of one tenant that leaves the nodes alone, given the status it starts from.\<close>

lemma transition:
  assumes "reliable E" "tenant_row (w_db w) tid = Some t" "tn_status t \<in> set from"
    and "\<And>u. tn_id (f u) = tn_id u"
    and "run_state (exec_rows E m e (update_tenants (cas tid from) f)) w = (r, w')"
  shows "r = Inr ()" "tenant_row (w_db w') tid = Some ((f t)\<lparr>tn_updated_at := db_now (w_db w)\<rparr>)"
    "nodes (w_db w') = nodes (w_db w)"
  using cas_success(1) [OF assms(1-3), of f m e] cas_success(2) [OF assms(1-3), of f] assms(4,5) by auto

lemma Deprovision_tail:
  assumes E: "reliable E" and row: "tenant_row (w_db w) tid = Some t" "tn_status t = Deleting"
    and ok: "nodes_ok (w_db w)" "node_cap (w_db w) nid = Some (a, tot)" "0 \<le> ram" "ram < 2 ^ 31"
    and run: "run_state (do {
         _ \<leftarrow> (if 0 < ram then ReleaseRAM E nid ram else State_Monad.return (Inr ()));
         _ \<leftarrow> (if pc_caddy cfg \<and> sub \<noteq> [] then ext E (RemoveRoute sub) else State_Monad.return (Inr ()));
         r \<leftarrow> SetDeleted E tid;
         State_Monad.return (wrap_err ''set deleted'' r) }) w = (r, w')"
  shows "r = Inr () \<and> (\<exists>t'. tenant_row (w_db w') tid = Some t' \<and> tn_status t' = Deleted)
      \<and> node_cap (w_db w') = (node_cap (w_db w))(nid \<mapsto> (max (a - ram) 0, tot))"
proof -
  from run obtain x1 w1 x2 w2 x3 w3 where
    1: "run_state (if 0 < ram then ReleaseRAM E nid ram else State_Monad.return (Inr ())) w = (x1, w1)" and
    2: "run_state (if pc_caddy cfg \<and> sub \<noteq> [] then ext E (RemoveRoute sub) else State_Monad.return (Inr ())) w1 = (x2, w2)" and
    3: "run_state (SetDeleted E tid) w2 = (x3, w3)" and
    4: "r = wrap_err ''set deleted'' x3" "w' = w3"
    by (elim run_bindE) auto
  have "tenants (w_db w1) = tenants (w_db w)"
    using 1 by (auto simp: ReleaseRAM_def reliable_call [OF E] split: if_splits)
  moreover have c1: "node_cap (w_db w1) = (node_cap (w_db w))(nid \<mapsto> (max (a - ram) 0, tot))"
  proof (cases "0 < ram")
    case True
    with 1 ledger.release_law [OF ok(1,3,4,2)] show ?thesis by (auto simp: ReleaseRAM_def reliable_call [OF E])
  next
    case False
    with 1 ok ledger.cap_bounds [OF ok(1,2)] show ?thesis by (auto simp: fun_eq_iff)
  qed
  moreover have d2: "w_db w2 = w_db w1" using 2 by (auto split: if_splits dest: ext_apart)
  ultimately have "tenant_row (w_db w2) tid = Some t" using row by (simp add: tenant_row_def)
  note tr = transition [OF E this _ _ 3 [unfolded SetDeleted_def]]
  have "x3 = Inr ()" "tenant_row (w_db w3) tid = Some (t\<lparr>tn_status := Deleted, tn_updated_at := db_now (w_db w2)\<rparr>)"
      "nodes (w_db w3) = nodes (w_db w2)"
    using tr row(2) by simp_all
  moreover from this have "node_cap (w_db w3) = node_cap (w_db w1)"
    by (simp add: node_cap_def node_row_def fun_eq_iff d2)
  ultimately show ?thesis using 4 c1 by simp
qed

lemma to_error:
  assumes "reliable E" "tenant_row (w_db w) tid = Some t" "tn_status t = Deleting"
    and "run_state (SetError E tid msg) w = (r, w')"
  shows "\<exists>t'. tenant_row (w_db w') tid = Some t' \<and> tn_status t' = Errored" "nodes (w_db w') = nodes (w_db w)"
  using transition [OF assms(1,2) _ _ assms(4) [unfolded SetError_def]] assms(3) by simp_all

text \<open>
C4: Over a database that answers, with consistent books, removing a tenant that is active, suspended or in error, from a node that is on
  the books, with an amount of RAM between zero and 2 to the 31, has two ends. It reports
  success, the tenant is deleted and its RAM is returned; or it reports an error, the tenant is in
  the error status, from where the removal can be tried again, and the books are unchanged.
\<close>

theorem Deprovision_outcome:
  assumes E: "reliable E" and row: "tenant_row (w_db w) tid = Some t" "tn_status t \<in> {Active, Errored, Suspended}"
    and ok: "nodes_ok (w_db w)" "node_cap (w_db w) nid = Some (a, tot)" "0 \<le> ram" "ram < 2 ^ 31"
  shows "let (r, w') = run_state (Deprovision E cfg tid nid sub l ram) w; d' = w_db w' in
     \<exists>t'. tenant_row d' tid = Some t'
        \<and> (case r of
             Inr _ \<Rightarrow> tn_status t' = Deleted \<and> node_cap d' = (node_cap (w_db w))(nid \<mapsto> (max (a - ram) 0, tot))
           | Inl _ \<Rightarrow> tn_status t' = Errored \<and> node_cap d' = node_cap (w_db w))"
proof -
  obtain r w' where run: "run_state (Deprovision E cfg tid nid sub l ram) w = (r, w')" by fastforce
  obtain x1 w1 where 1: "run_state (SetDeleting E tid) w = (x1, w1)" by fastforce
  note tr = transition [OF E row(1) _ _ 1 [unfolded SetDeleting_def]]
  have x1: "x1 = Inr ()" and d1: "tenant_row (w_db w1) tid = Some (t\<lparr>tn_status := Deleting, tn_updated_at := db_now (w_db w)\<rparr>)"
      "nodes (w_db w1) = nodes (w_db w)"
    using tr row(2) by auto
  obtain x2 w2 where 2: "run_state (getClient E cfg nid) w1 = (x2, w2)" by fastforce
  have q2: "quiet (w_db w1) (w_db w2)" by (rule quietly_run [OF getClient_quiet 2])
  have cap: "node_cap d = node_cap (w_db w)" "nodes_ok d" if "quiet (w_db w1) d" for d
    using that d1(2) ok(1) by (auto simp: quiet_def node_cap_def node_row_def nodes_ok_def fun_eq_iff)
  have deleting: "\<exists>u. tenant_row d tid = Some u \<and> tn_status u = Deleting" if "quiet (w_db w1) d" for d
    by (rule quiet_row [OF that d1(1)]) (simp add: tn_core_def)
  have fails: ?thesis if q: "quiet (w_db w1) (w_db v)" and s: "run_state (SetError E tid msg) v = (y, w')" and e: "r = Inl e" for v msg y e
  proof -
    obtain u where "tenant_row (w_db v) tid = Some u" "tn_status u = Deleting" using deleting [OF q] by blast
    from to_error [OF E this s] e cap(1) [OF q] show ?thesis
      by (auto simp: run node_cap_def node_row_def fun_eq_iff)
  qed
  show ?thesis
  proof (cases x2)
    case (Inl e)
    with run 1 2 x1 obtain y where
      "run_state (SetError E tid ''deprovision failed: node connection error'') w2 = (y, w')"
      "r = Inl (Wrap ''get proxmox client'' e)"
      by (auto simp: Deprovision_def split: prod.splits)
    then show ?thesis by (rule fails [OF q2])
  next
    case (Inr c)
    obtain x3 w3 where 3: "run_state (stop_and_wait E c l) w2 = (x3, w3)" by fastforce
    obtain x4 w4 where 4: "run_state (delete_container E c l) w3 = (x4, w4)" by fastforce
    have q4: "quiet (w_db w1) (w_db w4)"
      using q2 quietly_run [OF container_quiet(1) 3] quietly_run [OF container_quiet(2) 4] quiet_trans by blast
    show ?thesis
    proof (cases x4)
      case (Inl f)
      with run 1 2 3 4 x1 Inr obtain y where
        "run_state (SetError E tid (fst f)) w4 = (y, w')" "r = Inl (snd f)"
        by (auto simp: Deprovision_def split: prod.splits)
      then show ?thesis by (rule fails [OF q4])
    next
      case (Inr u4)
      obtain u where u: "tenant_row (w_db w4) tid = Some u" "tn_status u = Deleting" using deleting [OF q4] by blast
      have "run_state (do {
         _ \<leftarrow> (if 0 < ram then ReleaseRAM E nid ram else State_Monad.return (Inr ()));
         _ \<leftarrow> (if pc_caddy cfg \<and> sub \<noteq> [] then ext E (RemoveRoute sub) else State_Monad.return (Inr ()));
         r \<leftarrow> SetDeleted E tid;
         State_Monad.return (wrap_err ''set deleted'' r) }) w4 = (r, w')"
        using run 1 2 3 4 x1 \<open>x2 = Inr c\<close> Inr by (simp add: Deprovision_def)
      from Deprovision_tail [OF E u cap(2) [OF q4] _ ok(3,4) this, of a tot] cap(1) [OF q4] ok(2) run
      show ?thesis by auto
    qed
  qed
qed

theorem Deprovision_outcome_witness:
  "\<exists>t'. tenant_row (w_db (snd (run_state (Deprovision sample_E (New []) ''t1'' ''n1'' ''t1'' 101 1536) sample_w))) ''t1'' = Some t'
      \<and> (tn_status t' = Deleted \<or> tn_status t' = Errored)"
proof -
  obtain r w' where run: "run_state (Deprovision sample_E (New []) ''t1'' ''n1'' ''t1'' 101 1536) sample_w = (r, w')"
    by fastforce
  with Deprovision_outcome [of sample_E sample_w "''t1''" "sample_tenant ''t1'' Active (Some 101) (Some ''alice'')"
      "''n1''" 6144 8192 1536 "New []" "''t1''" 101]
  show ?thesis by (cases r) (auto simp: sample_simps Let_def)
qed

section \<open>The result of a provisioning run\<close>

lemma ended_row:
  assumes "ended j ok d d'" "tenant_row d (job_tenant j) = Some t" "tn_status t = Provisioning"
  obtains t' where "tenant_row d' (job_tenant j) = Some t'" "tn_node_id t' = tn_node_id t"
    "tn_project_id t' = tn_project_id t" "projects d' = projects d"
    "if ok then tn_status t' = Active \<and> tn_lxc_id t' \<noteq> None
     else tn_status t' = Errored \<and> tn_lxc_id t' = tn_lxc_id t \<and> tn_error_message t' \<noteq> None"
proof (cases ok)
  case True
  then obtain d1 d2 l where d: "quiet d d1" "activated (job_tenant j) l d1 d2" "quiet d2 d'"
    using assms(1) by (auto simp: ended_def)
  obtain t1 where t1: "tenant_row d1 (job_tenant j) = Some t1" "tn_core t1 = tn_core t"
    using quiet_row [OF d(1) assms(2)] by blast
  have "cas (job_tenant j) [Provisioning] t1"
    using t1 assms(3) by (auto simp: cas_def tn_core_def dest: tenant_row_in)
  then have t2: "tenant_row d2 (job_tenant j) = Some (t1\<lparr>tn_status := Active, tn_lxc_id := Some l,
      tn_error_message := None, tn_updated_at := db_now d1\<rparr>)" and p2: "projects d2 = projects d1"
    using d(2) t1(1) by (auto simp: activated_def tenant_row_update)
  obtain t3 where "tenant_row d' (job_tenant j) = Some t3" "tn_core t3 = tn_core (t1\<lparr>tn_status := Active,
      tn_lxc_id := Some l, tn_error_message := None, tn_updated_at := db_now d1\<rparr>)"
    using quiet_row [OF d(3) t2] by blast
  then show thesis using that [of t3] t1(2) d p2 True by (auto simp: tn_core_def quiet_def)
next
  case False
  then obtain d1 msg where d: "quiet d d1" "d' = err_db (job_tenant j) (job_node j) (job_ram_mb j) msg d1"
    using assms(1) by (auto simp: ended_def)
  obtain t1 where t1: "tenant_row d1 (job_tenant j) = Some t1" "tn_core t1 = tn_core t"
    using quiet_row [OF d(1) assms(2)] by blast
  have "cas (job_tenant j) [Provisioning, Deleting] t1"
    using t1 assms(3) by (auto simp: cas_def tn_core_def dest: tenant_row_in)
  then have "tenant_row d' (job_tenant j) = Some (t1\<lparr>tn_status := Errored, tn_error_message := Some msg,
      tn_updated_at := db_now d1\<rparr>)" and "projects d' = projects d1"
    using t1(1) unfolding d(2) err_db_def Let_def
    by (auto simp: tenant_row_def tenants_update_tenants select_one_update_where cas_def)
  then show thesis using that t1(2) d(1) False by (auto simp: tn_core_def quiet_def)
qed

lemma ended_cap:
  assumes "ended j ok d d'" "nodes_ok d" "node_cap d (job_node j) = Some (a, tot)"
    and "0 \<le> job_ram_mb j" "job_ram_mb j < 2 ^ 31"
  shows "node_cap d' = (if ok then node_cap d
                        else (node_cap d)(job_node j \<mapsto> (max (a - job_ram_mb j) 0, tot)))"
proof (cases ok)
  case True
  with assms(1) show ?thesis
    by (auto simp: ended_def activated_def dest!: quiet_cap) (simp add: node_cap_def node_row_def fun_eq_iff)
next
  case False
  then obtain d1 msg where d: "quiet d d1" "d' = err_db (job_tenant j) (job_node j) (job_ram_mb j) msg d1"
    using assms(1) by (auto simp: ended_def)
  have "nodes_ok d1" using assms(2) d(1) by (simp add: quiet_def nodes_ok_def)
  with assms(3-5) d False quiet_cap [OF d(1)] show ?thesis by (simp add: err_db_cap)
qed

text \<open>
C1: Over a database that answers, \<open>doProvision\<close> never leaves a tenant in between: whatever Proxmox,
  SSH, Caddy and the health endpoint answer, the tenant ends active with a container id and the
  books unchanged, or it ends in the error status with a message and its RAM returned to the node.
\<close>

theorem provision_outcome:
  assumes "reliable E" "nodes_ok (w_db w)"
    and "tenant_row (w_db w) (job_tenant j) = Some t" "tn_status t = Provisioning"
    and "node_cap (w_db w) (job_node j) = Some (a, tot)" "0 \<le> job_ram_mb j" "job_ram_mb j < 2 ^ 31"
  shows "let (ok, w') = run_state (doProvision E cfg j) w; d' = w_db w' in
     \<exists>t'. tenant_row d' (job_tenant j) = Some t'
        \<and> (if ok then tn_status t' = Active \<and> tn_lxc_id t' \<noteq> None \<and> node_cap d' = node_cap (w_db w)
           else tn_status t' = Errored \<and> tn_error_message t' \<noteq> None
              \<and> node_cap d' = (node_cap (w_db w))(job_node j \<mapsto> (max (a - job_ram_mb j) 0, tot)))"
proof -
  obtain ok w' where r: "run_state (doProvision E cfg j) w = (ok, w')" by fastforce
  then have e: "ended j ok (w_db w) (w_db w')"
    using doProvision_outcome [OF assms(1), of j cfg] by (auto simp: outcome_def dest!: spec [of _ w])
  obtain t' where "tenant_row (w_db w') (job_tenant j) = Some t'"
      "if ok then tn_status t' = Active \<and> tn_lxc_id t' \<noteq> None
       else tn_status t' = Errored \<and> tn_lxc_id t' = tn_lxc_id t \<and> tn_error_message t' \<noteq> None"
    by (rule ended_row [OF e assms(3,4)])
  with ended_cap [OF e assms(2,5-7)] r show ?thesis by (auto split: if_splits)
qed

theorem provision_outcome_witness:
  "\<exists>t'. tenant_row (w_db (snd (run_state (doProvision sample_down (New []) sample_job) sample_w))) ''t2'' = Some t'
      \<and> (tn_status t' = Active \<or> tn_status t' = Errored)"
  using provision_outcome [of sample_down sample_w sample_job "sample_tenant ''t2'' Provisioning None (Some ''bob'')"
      6144 8192 "New []"]
  by (auto simp: sample_simps Let_def split: prod.splits if_splits)



end
