(* ===== verification/CP_Provision_Props.thy ===== *)
theory CP_Provision_Props
  imports CP_Provision_Steps
begin

text \<open>
  Further properties of the provisioner: the health poll is bounded, a tenant that is not deletable is not
  touched, and two behaviours at the edges of the database protocol that the code does not exclude.
\<close>

section \<open>The health poll\<close>

declare poll_health.simps [simp del]

abbreviation answers_ok :: "externals \<Rightarrow> ext_call list \<Rightarrow> bool" where
  "answers_ok E tr \<equiv> ext_reply E tr = None \<and> ext_int E tr = 200"

lemma poll_health_trace:
  assumes "poll_health E u remaining tr = (ok, tr')" "0 < remaining"
  shows "\<exists>n. 0 < n \<and> n * healthInterval < remaining + healthInterval \<and> tr' = replicate n (HttpGet u) @ tr
     \<and> ok = answers_ok E tr' \<and> (\<forall>m. 0 < m \<and> m < n \<longrightarrow> \<not> answers_ok E (replicate m (HttpGet u) @ tr))"
  using assms
proof (induction E u remaining tr arbitrary: tr' rule: poll_health.induct)
  case (1 E u remaining tr)
  let ?tr = "HttpGet u # tr" and ?rest = "remaining - (healthInterval + ext_dur E (HttpGet u # tr))"
  have one: "\<exists>n. 0 < n \<and> n * healthInterval < remaining + healthInterval \<and> ?tr = replicate n (HttpGet u) @ tr
     \<and> (\<forall>m. 0 < m \<and> m < n \<longrightarrow> \<not> answers_ok E (replicate m (HttpGet u) @ tr))"
    using "1.prems"(2) by (intro exI [of _ 1]) simp
  consider "answers_ok E ?tr" | "\<not> answers_ok E ?tr" "ctx_done E ?tr \<or> ?rest = 0"
    | "\<not> answers_ok E ?tr" "\<not> ctx_done E ?tr" "0 < ?rest" by blast
  then show ?case
  proof cases
    case 3
    then have "poll_health E u ?rest ?tr = (ok, tr')" using "1.prems" by (subst (asm) poll_health.simps) (auto simp: Let_def split: if_splits)
    from "1.IH" [OF _ refl _ _ this] 3 "1.prems"(2) obtain n where n: "0 < n" "n * healthInterval < ?rest + healthInterval"
      "tr' = replicate n (HttpGet u) @ ?tr" "ok = answers_ok E tr'"
      "\<forall>m. 0 < m \<and> m < n \<longrightarrow> \<not> answers_ok E (replicate m (HttpGet u) @ ?tr)" by auto
    have "\<not> answers_ok E (replicate m (HttpGet u) @ tr)" if "0 < m" "m < Suc n" for m
    proof (cases "m = 1")
      case False
      with that n(5) have "\<not> answers_ok E (replicate (m - 1) (HttpGet u) @ ?tr)" by auto
      moreover have "replicate (m - 1) (HttpGet u) @ ?tr = replicate m (HttpGet u) @ tr"
        using that(1) by (cases m) (simp_all add: replicate_app_Cons_same)
      ultimately show ?thesis by metis
    qed (use 3(1) in simp)
    with n 3 show ?thesis by (intro exI [of _ "Suc n"]) (auto simp: replicate_app_Cons_same)
  next
    case 1
    with "1.prems" one show ?thesis by (subst (asm) poll_health.simps) (auto simp: Let_def)
  next
    case 2
    have "poll_health E u 0 ?tr = (False, ?tr)" by (subst poll_health.simps) simp
    with 2 "1.prems" have "ok = False \<and> tr' = ?tr" by (subst (asm) poll_health.simps) (auto simp: Let_def split: if_splits)
    with 2(1) one show ?thesis by blast
  qed
qed

text \<open>
\<open>waitForHealth\<close> always returns, after at least one and at most twelve requests to the health URL and nothing
  else, and it says healthy exactly when the last request was answered with status 200, having
  stopped at the first such answer.
\<close>

theorem waitForHealth_bounded:
  "\<exists>n ok. 1 \<le> n \<and> n \<le> 12
     \<and> run_state (waitForHealth E u) w = (ok, w\<lparr>w_trace := replicate n (HttpGet u) @ w_trace w\<rparr>)
     \<and> ok = answers_ok E (replicate n (HttpGet u) @ w_trace w)
     \<and> (\<forall>m\<in>{1..<n}. \<not> answers_ok E (replicate m (HttpGet u) @ w_trace w))"
proof -
  obtain ok tr where p: "poll_health E u healthTimeout (w_trace w) = (ok, tr)" by fastforce
  from poll_health_trace [OF p] obtain n where n: "0 < n" "n * healthInterval < healthTimeout + healthInterval"
      "tr = replicate n (HttpGet u) @ w_trace w" "ok = answers_ok E tr"
      "\<forall>m. 0 < m \<and> m < n \<longrightarrow> \<not> answers_ok E (replicate m (HttpGet u) @ w_trace w)"
    by (auto simp: healthTimeout_def)
  then have "1 \<le> n \<and> n \<le> 12" by (simp add: healthTimeout_def healthInterval_def)
  moreover have "run_state (waitForHealth E u) w = (ok, w\<lparr>w_trace := tr\<rparr>)"
    by (simp add: waitForHealth_def p)
  ultimately show ?thesis using n by (intro exI [of _ n] exI [of _ ok]) simp
qed

theorem waitForHealth_bounded_witness:
  "\<exists>n. 1 \<le> n \<and> n \<le> 12 \<and> run_state (waitForHealth sample_down ''http://10.10.10.2:8080/api/health'') sample_w
     = (False, sample_w\<lparr>w_trace := replicate n (HttpGet ''http://10.10.10.2:8080/api/health'') @ w_trace sample_w\<rparr>)"
proof -
  define u where "u = ''http://10.10.10.2:8080/api/health''"
  obtain n ok where "1 \<le> n" "n \<le> 12" "ok = answers_ok sample_down (replicate n (HttpGet u) @ w_trace sample_w)"
    "run_state (waitForHealth sample_down u) sample_w = (ok, sample_w\<lparr>w_trace := replicate n (HttpGet u) @ w_trace sample_w\<rparr>)"
    using waitForHealth_bounded [of sample_down u sample_w] by blast
  moreover from this(3) have "\<not> ok" by (simp add: sample_fields)
  ultimately show ?thesis unfolding u_def by (intro exI [of _ n]) simp
qed

section \<open>Tenants that are not deletable\<close>

text \<open>
  A tenant that is being provisioned, is being deleted or is deleted is not deprovisioned: the caller gets the
  state conflict, no outside system is called and no table changes. Two deletions of one tenant never both reach
  the container.
\<close>

theorem Deprovision_refused:
  assumes "reliable E" "tenants_ok (w_db w)" "tenant_row (w_db w) tid = Some t"
    and "tn_status t \<notin> {Active, Errored, Suspended}"
  shows "run_state (Deprovision E cfg tid nid sub l ram) w
     = (Inl ErrStateConflict, w\<lparr>w_db_calls := Suc (w_db_calls w)\<rparr>)"
proof -
  have "run_state (SetDeleting E tid) w = (Inl ErrStateConflict, w\<lparr>w_db_calls := Suc (w_db_calls w)\<rparr>)"
    unfolding SetDeleting_def using assms by (intro cas_conflict) auto
  then show ?thesis by (simp add: Deprovision_def)
qed

theorem Deprovision_refused_witness:
  "run_state (Deprovision sample_E (New []) ''t2'' ''n1'' ''t2'' 101 1536) sample_w
     = (Inl ErrStateConflict, sample_w\<lparr>w_db_calls := 1\<rparr>)"
  using Deprovision_refused [of sample_E sample_w "''t2''" "sample_tenant ''t2'' Provisioning None (Some ''bob'')"]
  by (simp add: sample_simps) (simp add: sample_w_def)

section \<open>Addresses\<close>

lemma used_ips_read:
  "run_state (list_used_ips E) w1 = (Inr used, w2) \<Longrightarrow> used = used_ips (w_db w1) \<and> w_db w2 = w_db w1"
  by (auto simp: list_used_ips_def db_call_def query_def Let_def wrap_err_def split: db_fate.splits)

lemma GetNextAvailableIP_Inr:
  assumes "run_state (GetNextAvailableIP E cidr) w = (Inr a, w')"
  shows "Next (valid6 E) cidr (set (used_ips (w_db w))) = Inr a \<and> w_db w' = w_db w"
  using assms unfolding GetNextAvailableIP_def by (rule Allocate_Inr) (auto dest!: used_ips_read)

lemma SetLXCIP_row:
  assumes "reliable E" "tenant_row (w_db w) tid = Some t"
  shows "tenant_row (w_db (snd (run_state (SetLXCIP E tid a) w))) tid
       = Some (t\<lparr>tn_lxc_ip := Some a, tn_updated_at := db_now (w_db w)\<rparr>)"
    and "other \<noteq> tid \<Longrightarrow> tenant_row (w_db (snd (run_state (SetLXCIP E tid a) w))) other = tenant_row (w_db w) other"
proof -
  have run: "w_db (snd (run_state (SetLXCIP E tid a) w))
      = snd (update_tenants (\<lambda>t. tn_id t = tid) (\<lambda>t. t\<lparr>tn_lxc_ip := Some a\<rparr>) (w_db w))"
    by (simp add: SetLXCIP_def exec_rows_reliable [OF assms(1)])
  show "tenant_row (w_db (snd (run_state (SetLXCIP E tid a) w))) tid
       = Some (t\<lparr>tn_lxc_ip := Some a, tn_updated_at := db_now (w_db w)\<rparr>)"
    unfolding run using assms(2) by (subst tenant_row_update) (auto dest: tenant_row_in)
  show "tenant_row (w_db (snd (run_state (SetLXCIP E tid a) w))) other = tenant_row (w_db w) other"
    if "other \<noteq> tid"
    unfolding run using that
    by (cases "tenant_row (w_db w) other")
      (auto simp: tenant_row_def tenants_update_tenants select_one_update_where dest: select_one_Some)
qed

text \<open>
The address of a container is chosen in one transaction and stored in another statement, after the call that
  configures the network. Two provisioning jobs whose choices both fall before either store get the same
  address, and both tenants end up with it; the lock inside \<open>Allocate\<close> does not exclude this order.
\<close>

theorem concurrent_jobs_share_an_address:
  assumes "reliable E" "t1 \<noteq> t2" "tenant_row (w_db w) t1 = Some u1" "tenant_row (w_db w) t2 = Some u2"
    and "run_state (GetNextAvailableIP E cidr) w = (Inr a, w1)"
    and "run_state (GetNextAvailableIP E cidr) w1 = (Inr b, w2)"
    and "w3 = snd (run_state (SetLXCIP E t1 a) w2)" and "w4 = snd (run_state (SetLXCIP E t2 b) w3)"
  shows "a = b \<and> map_option tn_lxc_ip (tenant_row (w_db w4) t1) = Some (Some a)
     \<and> map_option tn_lxc_ip (tenant_row (w_db w4) t2) = Some (Some a)"
proof -
  note g1 = GetNextAvailableIP_Inr [OF assms(5)] and g2 = GetNextAvailableIP_Inr [OF assms(6)]
  then have w2: "w_db w2 = w_db w" and ab: "a = b" by auto
  have "tenant_row (w_db w3) t1 = Some (u1\<lparr>tn_lxc_ip := Some a, tn_updated_at := db_now (w_db w2)\<rparr>)"
    and r2: "tenant_row (w_db w3) t2 = Some u2"
    using SetLXCIP_row [of E w2 t1 u1] assms(1-4,7) w2 by auto
  with SetLXCIP_row(1) [OF assms(1) r2, of b] SetLXCIP_row(2) [OF assms(1) r2, of t1 b] assms(2,8) ab
  show ?thesis by simp
qed

lemma sample_allocations:
  "let (r1, w1) = run_state (GetNextAvailableIP sample_E ''10.10.10.0/24'') sample_w
   in r1 = Inr ''10.10.10.2'' \<and> fst (run_state (GetNextAvailableIP sample_E ''10.10.10.0/24'') w1) = Inr ''10.10.10.2''"
  by code_simp

theorem concurrent_jobs_share_an_address_witness:
  "\<exists>w4 :: world. map_option tn_lxc_ip (tenant_row (w_db w4) ''t1'') = Some (Some ''10.10.10.2'')
      \<and> map_option tn_lxc_ip (tenant_row (w_db w4) ''t2'') = Some (Some ''10.10.10.2'')"
proof -
  obtain w1 w2 where "run_state (GetNextAvailableIP sample_E ''10.10.10.0/24'') sample_w = (Inr ''10.10.10.2'', w1)"
    "run_state (GetNextAvailableIP sample_E ''10.10.10.0/24'') w1 = (Inr ''10.10.10.2'', w2)"
    using sample_allocations by (auto simp: Let_def split: prod.splits) (metis prod.collapse)
  then show ?thesis
    using concurrent_jobs_share_an_address [OF sample_reliable(1) _ sample_rows(1,2) [folded sample_fields(1)] _ _ refl refl]
    by (intro exI [of _ "snd (run_state (SetLXCIP sample_E ''t2'' ''10.10.10.2'')
         (snd (run_state (SetLXCIP sample_E ''t1'' ''10.10.10.2'') w2)))"]) fastforce
qed

section \<open>A lost reply\<close>

text \<open>An environment in which every call succeeds, and one statement takes effect while its reply is lost.\<close>

definition lose_reply :: "nat \<Rightarrow> externals" where
  "lose_reply k = sample_E\<lparr>db_fate := (\<lambda>n. if n = k then ReplyLost (GoErr ''connection reset'') else Replied)\<rparr>"

text \<open>
  The statement that makes a tenant active may take effect although its reply is lost. \<open>doProvision\<close> then takes the
  activation for failed: it deletes the container and returns the RAM to the node, while the
  tenant stays active with the id of the deleted container, since \<open>SetError\<close> does not apply to active tenants.
\<close>

theorem lost_activation_reply:
  "let (ok, w') = run_state (doProvision (lose_reply 8) (New []) sample_job) sample_w;
       client = (''https://10.10.0.2:8006'', ''token'')
   in \<not> ok \<and> map_option (\<lambda>t. (tn_status t, tn_lxc_id t)) (tenant_row (w_db w') ''t2'') = Some (Active, Some 200)
     \<and> DeleteContainer client 200 True \<in> set (w_trace w') \<and> ext_reply (lose_reply 8) (w_trace w') = None
     \<and> node_cap (w_db w') ''n1'' = Some (6144 - 1536, 8192)"
  by code_simp

section \<open>The station of a tenant\<close>

text \<open>
  Creating the station of a tenant is idempotent: once it has succeeded there is a station for the tenant, and asking again,
  with whatever name and address and whatever becomes of the statements, changes no table.
\<close>

theorem AutoCreateStation_idempotent:
  assumes "run_state (AutoCreateStation E tid name sub ow domain) w = (Inr (), w1)"
  shows "(\<exists>s\<in>set (stations (w_db w1)). st_tenant_id s = Some tid)
     \<and> w_db (snd (run_state (AutoCreateStation E' tid name' sub' ow' domain') w1)) = w_db w1"
proof -
  have ex: "\<exists>s\<in>set (stations (w_db w1)). st_tenant_id s = Some tid"
    using assms
    by (auto simp: AutoCreateStation_def station_GetByTenantID_def station_Create_def run_choose_row db_call_def query_def Let_def
        wrap_err_def insert_station_def dest!: select_any_Some
        split: db_fate.splits option.splits sum.splits if_splits prod.splits)
  then obtain s where "select_any (row_choice E' (w_db_calls w1)) (\<lambda>s. st_tenant_id s = Some tid) (stations (w_db w1)) = Some s"
    by (cases "select_any (row_choice E' (w_db_calls w1)) (\<lambda>s. st_tenant_id s = Some tid) (stations (w_db w1))")
      (auto simp: select_any_None)
  then have "w_db (snd (run_state (AutoCreateStation E' tid name' sub' ow' domain') w1)) = w_db w1"
    by (simp add: AutoCreateStation_def station_GetByTenantID_def run_choose_row db_call_def query_def Let_def wrap_err_def
        split: db_fate.splits)
  with ex show ?thesis by blast
qed

lemma sample_station: "fst (run_state (AutoCreateStation sample_E ''t1'' ''One'' ''t1'' ''alice'' ''example.com'') sample_w) = Inr ()"
  by code_simp

theorem AutoCreateStation_idempotent_witness:
  "\<exists>w1 :: world. \<exists>s\<in>set (stations (w_db w1)). st_tenant_id s = Some ''t1''"
proof -
  obtain w1 where "run_state (AutoCreateStation sample_E ''t1'' ''One'' ''t1'' ''alice'' ''example.com'') sample_w = (Inr (), w1)"
    using sample_station by (metis prod.collapse)
  from AutoCreateStation_idempotent [OF this] show ?thesis by blast
qed

end
