(* ===== verification/CP_Auth_Store.thy ===== *)
theory CP_Auth_Store
  imports CP_Steps CP_Crypto
begin

text \<open>
  Users (\<open>src/internal/user\<close>) and the tokens of their sessions (\<open>src/internal/auth/token_store.go\<close>): the
  table of refresh tokens, kept as hashes, and the table of revoked access tokens. Times are in
  microseconds, the resolution of the database. Case folding is that of the ASCII letters.
\<close>

section \<open>Users\<close>

definition NormalizeEmail :: "string \<Rightarrow> string" where
  "NormalizeEmail email = to_lower (trim_space email)"

definition user_row :: "db \<Rightarrow> string \<Rightarrow> user option" where
  "user_row d uid = select_one (\<lambda>u. ur_id u = uid) (users d)"

definition user_GetByID :: "externals \<Rightarrow> string \<Rightarrow> user option res cp" where
  "user_GetByID E uid = do {
     r \<leftarrow> db_call E (query (\<lambda>d. user_row d uid));
     State_Monad.return (wrap_err ''query user by id'' r) }"

text \<open>\<open>ORDER BY created_at, email LIMIT 1\<close>: among spellings of one address the oldest account wins.\<close>

definition older :: "externals \<Rightarrow> user \<Rightarrow> user \<Rightarrow> bool" where
  "older E u v \<longleftrightarrow> ur_created_at u < ur_created_at v
     \<or> (ur_created_at u = ur_created_at v \<and> text_le E (ur_email u) (ur_email v))"

definition email_row :: "externals \<Rightarrow> db \<Rightarrow> string \<Rightarrow> user option" where
  "email_row E d email =
     (case order_by (older E) (filter (\<lambda>u. to_lower (ur_email u) = to_lower email) (users d)) of
        [] \<Rightarrow> None | u # _ \<Rightarrow> Some u)"

definition GetByEmail :: "externals \<Rightarrow> string \<Rightarrow> user option res cp" where
  "GetByEmail E email = do {
     r \<leftarrow> db_call E (query (\<lambda>d. email_row E d email));
     State_Monad.return (wrap_err ''query user by email'' r) }"

definition update_password_stmt :: "string \<Rightarrow> string \<Rightarrow> nat stmt" where
  "update_password_stmt uid h d =
     (Inr (count_where (\<lambda>u. ur_id u = uid) (users d)),
      d\<lparr>users := update_where (\<lambda>u. ur_id u = uid)
                   (\<lambda>u. u\<lparr>ur_password_hash := h, ur_updated_at := db_now d\<rparr>) (users d)\<rparr>)"

definition UpdatePassword :: "externals \<Rightarrow> string \<Rightarrow> string \<Rightarrow> unit res cp" where
  "UpdatePassword E uid passwordHash = do {
     r \<leftarrow> db_call E (update_password_stmt uid passwordHash);
     State_Monad.return (case r of Inl e \<Rightarrow> Inl (Wrap ''update password'' e) | Inr _ \<Rightarrow> Inr ()) }"

definition insert_user :: "externals \<Rightarrow> string \<Rightarrow> string \<Rightarrow> string \<Rightarrow> user stmt" where
  "insert_user E email h name d =
     (let uid = gen_uuid E (uuid_ctr d); d1 = d\<lparr>uuid_ctr := Suc (uuid_ctr d)\<rparr>;
          u = \<lparr>ur_id = uid, ur_email = email, ur_password_hash = h, ur_display_name = name,
               ur_created_at = db_now d, ur_updated_at = db_now d\<rparr>
      in if \<exists>v\<in>set (users d). ur_id v = uid \<or> ur_email v = email then (Inl unique_violation, d1)
         else (Inr u, d1\<lparr>users := users d @ [u]\<rparr>))"

definition user_Create :: "externals \<Rightarrow> string \<Rightarrow> string \<Rightarrow> string \<Rightarrow> user res cp" where
  "user_Create E email h name = do {
     r \<leftarrow> db_call E (insert_user E email h name);
     State_Monad.return (wrap_err ''insert user'' r) }"

section \<open>Revoked access tokens\<close>

text \<open>\<open>ON CONFLICT DO NOTHING\<close>: a token that is revoked already stays as it is.\<close>

definition revoke_stmt :: "string \<Rightarrow> string \<Rightarrow> int \<Rightarrow> unit stmt" where
  "revoke_stmt jti uid expiresAt d =
     (if \<exists>v\<in>set (revoked_tokens d). rv_jti v = jti then (Inr (), d)
      else if uid \<notin> set (user_ids d) then (Inl foreign_key_violation, d)
      else (Inr (), d\<lparr>revoked_tokens := revoked_tokens d @ [\<lparr>rv_jti = jti, rv_user_id = uid, rv_expires_at = expiresAt\<rparr>]\<rparr>))"

definition Revoke :: "externals \<Rightarrow> string \<Rightarrow> string \<Rightarrow> int \<Rightarrow> unit res cp" where
  "Revoke E jti uid expiresAt = db_call E (revoke_stmt jti uid expiresAt)"

definition revoked_row :: "db \<Rightarrow> string \<Rightarrow> bool" where
  "revoked_row d jti \<longleftrightarrow> (\<exists>v\<in>set (revoked_tokens d). rv_jti v = jti)"

definition IsRevoked :: "externals \<Rightarrow> string \<Rightarrow> bool res cp" where
  "IsRevoked E jti = db_call E (query (\<lambda>d. revoked_row d jti))"

section \<open>Refresh tokens\<close>

definition GenerateRefreshToken :: "externals \<Rightarrow> string res cp" where
  "GenerateRefreshToken E = do {
     r \<leftarrow> ext_val E (ext_text E) (RandRead 32);
     State_Monad.return (case r of Inl e \<Rightarrow> Inl e | Inr b \<Rightarrow> Inr (hex_encode b)) }"

definition HashToken :: "externals \<Rightarrow> string \<Rightarrow> string" where
  "HashToken E token = hex_encode (sha256 E token)"

definition insert_refresh :: "string \<Rightarrow> string \<Rightarrow> int \<Rightarrow> unit stmt" where
  "insert_refresh uid tokenHash expiresAt d =
     (if \<exists>t\<in>set (refresh_tokens d). rt_token_hash t = tokenHash then (Inl unique_violation, d)
      else if uid \<notin> set (user_ids d) then (Inl foreign_key_violation, d)
      else (Inr (), d\<lparr>refresh_tokens := refresh_tokens d @
              [\<lparr>rt_user_id = uid, rt_token_hash = tokenHash, rt_expires_at = expiresAt, rt_revoked_at = None\<rparr>]\<rparr>))"

definition CreateRefreshToken :: "externals \<Rightarrow> string \<Rightarrow> string \<Rightarrow> int \<Rightarrow> unit res cp" where
  "CreateRefreshToken E uid tokenHash expiresAt = db_call E (insert_refresh uid tokenHash expiresAt)"

definition refresh_valid :: "db \<Rightarrow> refresh_token \<Rightarrow> bool" where
  "refresh_valid d t \<longleftrightarrow> db_now d < rt_expires_at t \<and> rt_revoked_at t = None"

definition validate_refresh :: "string \<Rightarrow> string stmt" where
  "validate_refresh tokenHash d =
     ((case select_one (\<lambda>t. rt_token_hash t = tokenHash \<and> refresh_valid d t) (refresh_tokens d) of
         None \<Rightarrow> Inl ErrNoRows | Some t \<Rightarrow> Inr (rt_user_id t)), d)"

definition ValidateRefreshToken :: "externals \<Rightarrow> string \<Rightarrow> string res cp" where
  "ValidateRefreshToken E tokenHash = db_call E (validate_refresh tokenHash)"

definition revoke_refresh_where :: "(refresh_token \<Rightarrow> bool) \<Rightarrow> unit stmt" where
  "revoke_refresh_where P d =
     (Inr (), d\<lparr>refresh_tokens := update_where (\<lambda>t. P t \<and> rt_revoked_at t = None)
                 (\<lambda>t. t\<lparr>rt_revoked_at := Some (db_now d)\<rparr>) (refresh_tokens d)\<rparr>)"

definition RevokeRefreshToken :: "externals \<Rightarrow> string \<Rightarrow> unit res cp" where
  "RevokeRefreshToken E tokenHash = db_call E (revoke_refresh_where (\<lambda>t. rt_token_hash t = tokenHash))"

definition RevokeAllUserRefreshTokens :: "externals \<Rightarrow> string \<Rightarrow> unit res cp" where
  "RevokeAllUserRefreshTokens E uid = db_call E (revoke_refresh_where (\<lambda>t. rt_user_id t = uid))"

section \<open>Cleaning up\<close>

definition purge_revoked :: "unit stmt" where
  "purge_revoked d = (Inr (), d\<lparr>revoked_tokens := filter (\<lambda>v. \<not> rv_expires_at v < db_now d) (revoked_tokens d)\<rparr>)"

definition purge_refresh :: "unit stmt" where
  "purge_refresh d = (Inr (), d\<lparr>refresh_tokens := filter (\<lambda>t. \<not> rt_expires_at t < db_now d) (refresh_tokens d)\<rparr>)"

definition Cleanup :: "externals \<Rightarrow> unit res cp" where
  "Cleanup E = do {
     r \<leftarrow> db_call E purge_revoked;
     case r of Inl e \<Rightarrow> State_Monad.return (Inl e) | Inr _ \<Rightarrow> db_call E purge_refresh }"

section \<open>Only steps of the system\<close>

text \<open>The statements on users and tokens leave the other tables alone and keep the sessions.\<close>

definition auth_stmt :: "'a stmt \<Rightarrow> bool" where
  "auth_stmt s \<longleftrightarrow> (\<forall>d. nodes (snd (s d)) = nodes d \<and> projects (snd (s d)) = projects d
     \<and> tenants (snd (s d)) = tenants d \<and> stations (snd (s d)) = stations d \<and> sessions_kept d (snd (s d)))"

lemma cp_other: "auth_stmt s \<Longrightarrow> cp_triple E (db_call E s) (\<lambda>_. True)"
  by (rule cp_write) (auto simp: auth_stmt_def intro: S_other)

lemma user_stmts: "auth_stmt (update_password_stmt uid h)" "auth_stmt (insert_user E email h n)" "auth_stmt (validate_refresh th)"
  by (auto simp: auth_stmt_def update_password_stmt_def insert_user_def validate_refresh_def Let_def intro!: sessions_kept_frame)

lemma sessions_keptI:
  assumes "db_now d' = db_now d" "distinct (map rt_token_hash (refresh_tokens d)) \<Longrightarrow> distinct (map rt_token_hash (refresh_tokens d'))"
    "\<And>v. v \<in> set (revoked_tokens d) \<Longrightarrow> db_now d \<le> rv_expires_at v \<Longrightarrow> v \<in> set (revoked_tokens d')"
    "\<And>t. t \<in> set (refresh_tokens d) \<Longrightarrow> db_now d \<le> rt_expires_at t \<Longrightarrow> \<exists>t'\<in>set (refresh_tokens d'). refresh_kept t t'"
  shows "sessions_kept d d'"
  using assms by (simp add: sessions_kept_def)

lemma kept_in: "t \<in> S \<Longrightarrow> \<exists>t'\<in>S. refresh_kept t t'"
  using refresh_kept_refl by blast

lemma revoke_stmts: "auth_stmt (revoke_stmt jti uid x)" "auth_stmt (insert_refresh uid th x)" "auth_stmt (revoke_refresh_where P)"
proof -
  have "sessions_kept d (snd (revoke_stmt jti uid x d))" for d
    by (rule sessions_keptI) (auto simp: revoke_stmt_def intro: kept_in)
  then show "auth_stmt (revoke_stmt jti uid x)" by (auto simp: auth_stmt_def revoke_stmt_def)
  have "sessions_kept d (snd (insert_refresh uid th x d))" for d
    by (rule sessions_keptI) (auto simp: insert_refresh_def intro: kept_in)
  then show "auth_stmt (insert_refresh uid th x)" by (auto simp: auth_stmt_def insert_refresh_def)
  have "sessions_kept d (snd (revoke_refresh_where P d))" for d
  proof (rule sessions_keptI)
    fix t
    let ?f = "\<lambda>t. if P t \<and> rt_revoked_at t = None then t\<lparr>rt_revoked_at := Some (db_now d)\<rparr> else t"
    assume "t \<in> set (refresh_tokens d)"
    then have "?f t \<in> set (refresh_tokens (snd (revoke_refresh_where P d)))"
      by (simp add: revoke_refresh_where_def update_where_def)
    then show "\<exists>t'\<in>set (refresh_tokens (snd (revoke_refresh_where P d))). refresh_kept t t'"
      by (rule bexI [rotated]) (simp add: refresh_kept_def)
  qed (simp_all add: revoke_refresh_where_def map_update_where)
  then show "auth_stmt (revoke_refresh_where P)" by (auto simp: auth_stmt_def revoke_refresh_where_def)
qed

lemma purge_stmts: "auth_stmt purge_revoked" "auth_stmt purge_refresh"
proof -
  have "sessions_kept d (snd (purge_revoked d))" for d
    by (rule sessions_keptI) (auto simp: purge_revoked_def intro: kept_in)
  then show "auth_stmt purge_revoked" by (auto simp: auth_stmt_def purge_revoked_def)
  have "sessions_kept d (snd (purge_refresh d))" for d
    by (rule sessions_keptI) (auto simp: purge_refresh_def intro: kept_in distinct_map_filter)
  then show "auth_stmt purge_refresh" by (auto simp: auth_stmt_def purge_refresh_def)
qed

lemmas auth_stmts = user_stmts revoke_stmts purge_stmts

lemma auth_store_steps [io_rules]:
  "cp_triple E (user_GetByID E uid) (\<lambda>_. True)" "cp_triple E (GetByEmail E email) (\<lambda>_. True)"
  "cp_triple E (UpdatePassword E uid h) (\<lambda>_. True)" "cp_triple E (user_Create E email h n) (\<lambda>_. True)"
  "cp_triple E (Revoke E jti uid x) (\<lambda>_. True)" "cp_triple E (IsRevoked E jti) (\<lambda>_. True)"
  "cp_triple E (GenerateRefreshToken E) (\<lambda>_. True)" "cp_triple E (CreateRefreshToken E uid h x) (\<lambda>_. True)"
  "cp_triple E (ValidateRefreshToken E h) (\<lambda>_. True)" "cp_triple E (RevokeRefreshToken E h) (\<lambda>_. True)"
  "cp_triple E (RevokeAllUserRefreshTokens E uid) (\<lambda>_. True)" "cp_triple E (Cleanup E) (\<lambda>_. True)"
  unfolding user_GetByID_def GetByEmail_def UpdatePassword_def user_Create_def Revoke_def IsRevoked_def
    GenerateRefreshToken_def CreateRefreshToken_def ValidateRefreshToken_def RevokeRefreshToken_def
    RevokeAllUserRefreshTokens_def Cleanup_def
  by (rule cp_rules cp_query cp_ext_val cp_other auth_stmts)+

end
