(* ===== verification/CP_Lifecycle.thy ===== *)
theory CP_Lifecycle
  imports CP_Provision_Steps
begin

text \<open>
  The lifecycle service (\<open>src/internal/tenant/lifecycle.go\<close>): creation and deletion of tenants, shared by
  the user, API and admin entry points. It reserves and releases RAM, inserts the record,
  starts provisioning and drives deprovisioning.
\<close>

section \<open>Failures\<close>

datatype FailureKind = FailureInternal | FailureInvalid | FailureConflict

record LifecycleError =
  le_kind :: FailureKind
  le_message :: string
  le_err :: "go_error option"

definition invalid :: "string \<Rightarrow> LifecycleError" where
  "invalid message = \<lparr>le_kind = FailureInvalid, le_message = message, le_err = None\<rparr>"

definition conflict :: "string \<Rightarrow> go_error option \<Rightarrow> LifecycleError" where
  "conflict message err = \<lparr>le_kind = FailureConflict, le_message = message, le_err = err\<rparr>"

definition internal :: "string \<Rightarrow> go_error option \<Rightarrow> LifecycleError" where
  "internal message err = \<lparr>le_kind = FailureInternal, le_message = message, le_err = err\<rparr>"

section \<open>Subdomains\<close>

definition label_end :: "char \<Rightarrow> bool" where
  "label_end c \<longleftrightarrow> is_lower c \<or> is_digit c"

definition label_inner :: "char \<Rightarrow> bool" where
  "label_inner c \<longleftrightarrow> is_lower c \<or> is_digit c \<or> c = CHR ''-''"

definition subdomainRegexp :: rx where
  "subdomainRegexp = Seq (Cls label_end) (Seq (Star (Cls label_inner)) (Cls label_end))"

definition reservedSubdomains :: "string list" where
  "reservedSubdomains =
     [''www'', ''api'', ''admin'', ''app'', ''mail'', ''smtp'', ''ftp'', ''ns1'', ''ns2'',
      ''cdn'', ''static'', ''assets'', ''media'']"

definition ValidateSubdomain :: "string \<Rightarrow> LifecycleError option" where
  "ValidateSubdomain subdomain =
     (if 63 < length subdomain \<or> \<not> matches subdomainRegexp subdomain
      then Some (invalid ''invalid subdomain: must be lowercase alphanumeric with hyphens, 2-63 chars'')
      else if subdomain \<in> set reservedSubdomains then Some (invalid ''subdomain is reserved'')
      else None)"

section \<open>The service\<close>

record lifecycle_service =
  ls_audit :: bool
  ls_prov :: provisioner_cfg

record CreateParams =
  cr_name :: string
  cr_subdomain :: string
  cr_project :: project
  cr_node :: node
  cr_owner_id :: string

definition deletableStatuses :: "tenant_status \<Rightarrow> bool" where
  "deletableStatuses s \<longleftrightarrow> s = Active \<or> s = Errored \<or> s = Suspended"

text \<open>\<open>audit\<close>: a service without an audit store records nothing; \<open>None\<close> is the untyped nil.\<close>

definition lifecycle_audit ::
  "externals \<Rightarrow> lifecycle_service \<Rightarrow> string \<Rightarrow> string \<Rightarrow> (string \<times> string) list option \<Rightarrow> unit cp" where
  "lifecycle_audit E s action tenantID meta =
     (if \<not> ls_audit s then State_Monad.return () else audit_Log E action ''tenant'' tenantID meta)"

text \<open>The tenant store is owner-capable, so the type assertion of \<open>createRecord\<close> succeeds.\<close>

definition createRecord :: "externals \<Rightarrow> create_tenant_request \<Rightarrow> string \<Rightarrow> tenant res cp" where
  "createRecord E req ownerID =
     (if ownerID = [] then tenant_Create E req else CreateWithOwner E req ownerID)"

definition lifecycle_Create ::
  "externals \<Rightarrow> lifecycle_service \<Rightarrow> CreateParams \<Rightarrow> string \<Rightarrow> (LifecycleError + tenant) cp" where
  "lifecycle_Create E s params actorUserID =
     (case ValidateSubdomain (cr_subdomain params) of
        Some err \<Rightarrow> State_Monad.return (Inl err)
      | None \<Rightarrow> do {
          let nodeID = nd_id (cr_node params);
          let ramMB = pr_ram_mb (cr_project params);
          r \<leftarrow> ReserveRAM E nodeID ramMB;
          case r of
            Inl e \<Rightarrow> State_Monad.return (Inl
                (if errors_is e ErrInsufficientCapacity then conflict ''insufficient capacity on node'' (Some e)
                 else internal ''failed to reserve resources'' (Some e)))
          | Inr _ \<Rightarrow> do {
              t \<leftarrow> createRecord E \<lparr>ct_name = cr_name params, ct_project_id = pr_id (cr_project params),
                     ct_node_id = nodeID, ct_subdomain = cr_subdomain params\<rparr> (cr_owner_id params);
              case t of
                Inl e \<Rightarrow> do {
                  _ \<leftarrow> ReleaseRAM E nodeID ramMB;
                  State_Monad.return (Inl
                    (if pg_code e = Some ''23505'' then conflict ''name or subdomain already exists'' (Some e)
                     else internal ''failed to create tenant'' (Some e))) }
              | Inr tn \<Rightarrow> do {
                  _ \<leftarrow> Provision (tn_id tn) nodeID (pr_id (cr_project params)) (cr_subdomain params) ramMB;
                  _ \<leftarrow> lifecycle_audit E s ''create'' (tn_id tn)
                         (Some ([(''name'', cr_name params), (''subdomain'', cr_subdomain params)]
                                @ (if actorUserID \<noteq> [] then [(''user_id'', actorUserID)] else [])));
                  State_Monad.return (Inr tn) } } })"

text \<open>The part of \<open>Delete\<close> that tears the tenant down.\<close>

definition tear_down ::
  "externals \<Rightarrow> lifecycle_service \<Rightarrow> tenant \<Rightarrow> int \<Rightarrow> (LifecycleError + unit) cp" where
  "tear_down E s t ramMB =
     (case tn_lxc_id t of
        Some lxcID \<Rightarrow> do {
          r \<leftarrow> Deprovision E (ls_prov s) (tn_id t) (tn_node_id t) (tn_subdomain t) lxcID ramMB;
          State_Monad.return (case r of
              Inr _ \<Rightarrow> Inr ()
            | Inl e \<Rightarrow> Inl (if errors_is e ErrStateConflict
                            then conflict ''tenant is already being deleted'' (Some e)
                            else internal ''failed to deprovision tenant'' (Some e))) }
      | None \<Rightarrow> do {
          r \<leftarrow> SetDeleting E (tn_id t);
          case r of
            Inl e \<Rightarrow> State_Monad.return (Inl
                (if errors_is e ErrStateConflict then conflict ''tenant is already being deleted'' (Some e)
                 else internal ''failed to delete tenant'' (Some e)))
          | Inr _ \<Rightarrow> do {
              _ \<leftarrow> (if 0 < ramMB then ReleaseRAM E (tn_node_id t) ramMB else State_Monad.return (Inr ()));
              d \<leftarrow> SetDeleted E (tn_id t);
              State_Monad.return (case d of
                  Inr _ \<Rightarrow> Inr ()
                | Inl e \<Rightarrow> Inl (internal ''failed to delete tenant'' (Some e))) } })"

definition lifecycle_Delete ::
  "externals \<Rightarrow> lifecycle_service \<Rightarrow> tenant \<Rightarrow> string \<Rightarrow> (LifecycleError + tenant option) cp" where
  "lifecycle_Delete E s t actorUserID =
     (if \<not> deletableStatuses (tn_status t)
      then State_Monad.return (Inl (conflict
             (''tenant cannot be deleted in current status: '' @ status_name (tn_status t)) None))
      else do {
        rp \<leftarrow> project_GetByID E (tn_project_id t);
        case rp of
          Inl e \<Rightarrow> State_Monad.return (Inl (internal ''failed to get project'' (Some e)))
        | Inr proj \<Rightarrow> do {
            d \<leftarrow> tear_down E s t (case proj of None \<Rightarrow> 0 | Some p \<Rightarrow> pr_ram_mb p);
            case d of
              Inl err \<Rightarrow> State_Monad.return (Inl err)
            | Inr _ \<Rightarrow> do {
                _ \<leftarrow> lifecycle_audit E s ''delete'' (tn_id t)
                       (if actorUserID \<noteq> [] then Some [(''user_id'', actorUserID)] else None);
                u \<leftarrow> tenant_GetByID E (tn_id t);
                State_Monad.return (case u of
                    Inl e \<Rightarrow> Inl (internal ''failed to get tenant'' (Some e))
                  | Inr updated \<Rightarrow> Inr updated) } } })"

section \<open>Subdomains that pass\<close>

lemma ValidateSubdomain_None:
  "ValidateSubdomain s = None \<longleftrightarrow>
     length s \<le> 63 \<and> s \<notin> set reservedSubdomains
     \<and> (\<exists>a m b. s = a # m @ [b] \<and> label_end a \<and> label_end b \<and> (\<forall>c\<in>set m. label_inner c))"
  by (auto simp: ValidateSubdomain_def subdomainRegexp_def matches_ends)

text \<open>
C37: \<open>ValidateSubdomain\<close> accepts exactly the names of 2 to 63 lower-case letters, digits and hyphens that neither begin nor
  end with a hyphen and are not reserved: in particular no dot, slash, colon, blank or quote reaches a route,
  a host name or a container name.
\<close>

theorem ValidateSubdomain_accepts:
  "ValidateSubdomain s = None \<longleftrightarrow>
     2 \<le> length s \<and> length s \<le> 63 \<and> s \<notin> set reservedSubdomains
     \<and> (\<forall>c\<in>set s. is_lower c \<or> is_digit c \<or> c = CHR ''-'') \<and> hd s \<noteq> CHR ''-'' \<and> last s \<noteq> CHR ''-''"
proof -
  have hyphen: "\<not> is_lower CHR ''-''" "\<not> is_digit CHR ''-''" by (simp_all add: is_lower_def is_digit_def)
  have "(\<exists>a m b. s = a # m @ [b] \<and> label_end a \<and> label_end b \<and> (\<forall>c\<in>set m. label_inner c))
    \<longleftrightarrow> 2 \<le> length s \<and> (\<forall>c\<in>set s. label_inner c) \<and> hd s \<noteq> CHR ''-'' \<and> last s \<noteq> CHR ''-''"
  proof (cases s)
    case (Cons a t)
    then show ?thesis
      using hyphen by (cases t rule: rev_cases) (auto simp: label_end_def label_inner_def)
  qed simp
  then show ?thesis unfolding ValidateSubdomain_None label_inner_def by blast
qed

theorem ValidateSubdomain_accepts_witness: "ValidateSubdomain ''radio-1'' = None"
  unfolding ValidateSubdomain_accepts by (simp add: reservedSubdomains_def is_lower_def is_digit_def)

section \<open>Only steps of the system\<close>

lemma lifecycle_audit_steps [io_rules]: "cp_triple E (lifecycle_audit E s a tid m) (\<lambda>_. True)"
  unfolding lifecycle_audit_def by (rule cp_rules io_rules)+

lemma createRecord_steps [io_rules]: "cp_triple E (createRecord E req ow) (\<lambda>_. True)"
  unfolding createRecord_def by (rule cp_rules io_rules)+

lemma lifecycle_Create_steps [io_rules]:
  "0 \<le> pr_ram_mb (cr_project params) \<Longrightarrow> cp_triple E (lifecycle_Create E s params u) (\<lambda>_. True)"
  unfolding lifecycle_Create_def by (rule cp_rules io_rules | assumption)+

lemma tear_down_steps [io_rules]: "cp_triple E (tear_down E s t ram) (\<lambda>_. True)"
  unfolding tear_down_def by (rule cp_rules io_rules | simp)+

lemma lifecycle_Delete_steps [io_rules]: "cp_triple E (lifecycle_Delete E s t u) (\<lambda>_. True)"
  unfolding lifecycle_Delete_def by (rule cp_rules io_rules)+

section \<open>Creation\<close>

lemma insert_tenant_Inr:
  assumes "insert_tenant E req owner d = (Inr t, d')"
  shows "tenants d' = tenants d @ [t]" "tn_status t = Provisioning" "tn_node_id t = ct_node_id req"
    "tn_project_id t = ct_project_id req" "tn_subdomain t = ct_subdomain req" "tn_owner_id t = owner"
    "tn_lxc_id t = None"
  using assms by (auto simp: insert_tenant_def Let_def split: if_splits)

lemma insert_tenant_Inl:
  "insert_tenant E req owner d = (Inl e, d') \<Longrightarrow> tenants d' = tenants d \<and> nodes d' = nodes d"
  by (auto simp: insert_tenant_def Let_def split: if_splits)

lemma createRecord_reliable:
  assumes "reliable E"
  shows "run_state (createRecord E req ow) w =
    (wrap_err ''insert tenant'' (fst (insert_tenant E req (if ow = [] then None else Some ow) (w_db w))),
     w\<lparr>w_db_calls := Suc (w_db_calls w),
       w_db := snd (insert_tenant E req (if ow = [] then None else Some ow) (w_db w))\<rparr>)"
  using assms by (simp add: createRecord_def tenant_Create_def CreateWithOwner_def reliable_call)

lemma reserve_none: "reserve_ram nid r d = (Inr 0, d') \<Longrightarrow> d' = d"
  by (auto simp: reserve_ram_def split: sum.splits option.splits if_splits)

lemma reserve_Inl: "reserve_ram nid r d = (Inl e, d') \<Longrightarrow> d' = d"
  by (auto simp: reserve_ram_def split: sum.splits option.splits if_splits)

lemma reserve_done:
  assumes "reserve_ram nid r d = (Inr n, d')" "n \<noteq> 0" "nodes_ok d" "0 \<le> r"
  obtains a tot where "node_cap d nid = Some (a, tot)" "a + r \<le> tot" "r < 2 ^ 31"
    "node_cap d' = (node_cap d)(nid \<mapsto> (a + r, tot))"
proof -
  obtain x where x: "node_row d nid = Some x" "r \<le> nd_total_ram_mb x - nd_allocated_ram_mb x" "r < 2 ^ 31"
    using assms(1,2) by (auto simp: reserve_ram_def split: sum.splits option.splits if_splits)
  then have c: "node_cap d nid = Some (nd_allocated_ram_mb x, nd_total_ram_mb x)"
    by (simp add: node_cap_def)
  then obtain d1 where "reserve_ram nid r d = (Inr 1, d1)"
    "node_cap d1 = (node_cap d)(nid \<mapsto> (nd_allocated_ram_mb x + r, nd_total_ram_mb x))"
    using ledger.reserve_fits [OF assms(3,4) c] x(2) by auto
  with assms(1) that [OF c] x(2,3) show thesis by auto
qed

text \<open>The record of the audit log is outside the tables these statements look at.\<close>

lemma lifecycle_audit_frame:
  "reliable E \<Longrightarrow> nodes (w_db (snd (run_state (lifecycle_audit E s a tid m) w))) = nodes (w_db w)"
  "reliable E \<Longrightarrow> tenants (w_db (snd (run_state (lifecycle_audit E s a tid m) w))) = tenants (w_db w)"
  "reliable E \<Longrightarrow> w_jobs (snd (run_state (lifecycle_audit E s a tid m) w)) = w_jobs w"
  by (simp_all add: lifecycle_audit_def audit_Log_def reliable_call)

lemma node_cap_cong: "nodes d' = nodes d \<Longrightarrow> node_cap d' = node_cap d"
  by (simp add: node_cap_def node_row_def fun_eq_iff)

lemma lifecycle_audit_cap:
  "reliable E \<Longrightarrow> node_cap (w_db (snd (run_state (lifecycle_audit E s a tid m) w))) = node_cap (w_db w)"
  by (rule node_cap_cong) (rule lifecycle_audit_frame)

lemma nodes_ok_cong: "nodes d' = nodes d \<Longrightarrow> nodes_ok d' \<longleftrightarrow> nodes_ok d"
  by (simp add: nodes_ok_def)

text \<open>A failed insert gives the reservation back.\<close>

lemma release_after_insert:
  assumes "nodes_ok d" "0 \<le> r" "reserve_ram nid r d = (Inr n, d1)" "n \<noteq> 0" "nodes d2 = nodes d1"
  shows "node_cap (snd (release_ram nid r d2)) = node_cap d"
proof -
  obtain a tot where c: "node_cap d nid = Some (a, tot)" "a + r \<le> tot" "r < 2 ^ 31"
      "node_cap d1 = (node_cap d)(nid \<mapsto> (a + r, tot))"
    by (rule reserve_done [OF assms(3,4,1,2)])
  have "nodes_ok d1" using nodes_ok_reserve_ram [OF assms(1,2), of nid] assms(3) by simp
  then have "nodes_ok d2" using assms(5) nodes_ok_cong by blast
  moreover have "node_cap d2 nid = Some (a + r, tot)" using c(4) node_cap_cong [OF assms(5)] by simp
  ultimately obtain d3 where "release_ram nid r d2 = (Inr 1, d3)"
      "node_cap d3 = (node_cap d2)(nid \<mapsto> (max (a + r - r) 0, tot))"
    using ledger.release_law [OF _ assms(2) c(3)] by blast
  moreover have "0 \<le> a" using ledger.cap_bounds [OF assms(1) c(1)] by simp
  ultimately show ?thesis using c node_cap_cong [OF assms(5)] by (auto simp: fun_eq_iff)
qed

lemma lifecycle_Create_outcome:
  assumes "reliable E" "nodes_ok (w_db w)" "0 \<le> pr_ram_mb (cr_project params)"
  shows "let (r, w') = run_state (lifecycle_Create E s params u) w; d = w_db w; d' = w_db w';
             nid = nd_id (cr_node params); ram = pr_ram_mb (cr_project params) in
     case r of
       Inl _ \<Rightarrow> node_cap d' = node_cap d \<and> tenants d' = tenants d \<and> w_jobs w' = w_jobs w
     | Inr t \<Rightarrow> tenants d' = tenants d @ [t] \<and> tn_status t = Provisioning \<and> tn_node_id t = nid
         \<and> tn_owner_id t = (if cr_owner_id params = [] then None else Some (cr_owner_id params))
         \<and> (\<exists>a tot. node_cap d nid = Some (a, tot) \<and> a + ram \<le> tot
                 \<and> node_cap d' = (node_cap d)(nid \<mapsto> (a + ram, tot)))
         \<and> w_jobs w' = w_jobs w @ [\<lparr>job_tenant = tn_id t, job_node = nid, job_project = pr_id (cr_project params),
                                   job_subdomain = cr_subdomain params, job_ram_mb = ram\<rparr>]"
proof (cases "ValidateSubdomain (cr_subdomain params)")
  case (Some err)
  then show ?thesis by (simp add: lifecycle_Create_def)
next
  case None
  let ?nid = "nd_id (cr_node params)" and ?ram = "pr_ram_mb (cr_project params)"
  let ?req = "\<lparr>ct_name = cr_name params, ct_project_id = pr_id (cr_project params),
     ct_node_id = ?nid, ct_subdomain = cr_subdomain params\<rparr>"
  let ?ow = "if cr_owner_id params = [] then None else Some (cr_owner_id params)"
  obtain r d1 where res: "reserve_ram ?nid ?ram (w_db w) = (r, d1)" by fastforce
  note unfold = lifecycle_Create_def None ReserveRAM_def ReleaseRAM_def reliable_call [OF assms(1)]
    createRecord_reliable [OF assms(1)] res Provision_def Let_def
  consider (no) e where "r = Inl e" | (full) "r = Inr 0" | (fits) n where "r = Inr n" "n \<noteq> 0"
    by (cases r) auto
  then show ?thesis
  proof cases
    case no
    then have "d1 = w_db w" using reserve_Inl res by blast
    with no show ?thesis by (simp add: unfold)
  next
    case full
    then have "d1 = w_db w" using reserve_none res by blast
    with full show ?thesis by (simp add: unfold)
  next
    case fits
    obtain i d2 where ins: "insert_tenant E ?req ?ow d1 = (i, d2)" by fastforce
    have tn1: "tenants d1 = tenants (w_db w)" using node_stmts_frame(1) [of ?nid ?ram "w_db w"] res by simp
    have nd2: "nodes d2 = nodes d1" using tenant_stmts_frame(1) [of E ?req ?ow d1] ins by simp
    show ?thesis
    proof (cases i)
      case (Inl e)
      with ins fits res tn1 insert_tenant_Inl [of E ?req ?ow d1 e d2]
        release_after_insert [OF assms(2,3) _ _ nd2] show ?thesis
        by (auto simp: unfold Let_def split: prod.splits)
    next
      case (Inr t)
      obtain a tot where c: "node_cap (w_db w) ?nid = Some (a, tot)" "a + ?ram \<le> tot"
          "node_cap d1 = (node_cap (w_db w))(?nid \<mapsto> (a + ?ram, tot))"
        using reserve_done [OF _ fits(2) assms(2,3)] res fits(1) by metis
      from Inr ins fits res tn1 insert_tenant_Inr [of E ?req ?ow d1 t d2] c node_cap_cong [OF nd2]
      show ?thesis
        by (simp add: unfold split_def lifecycle_audit_frame [OF assms(1)] lifecycle_audit_cap [OF assms(1)])
    qed
  qed
qed

text \<open>
C3: Over a database that answers, with consistent books of the nodes and a project whose RAM is not negative, creating a tenant is all
  or nothing. On success the node's books
  carry exactly the project's RAM more, within its capacity, one new tenant row exists in the provisioning status and
  one provisioning job for it was started; on any failure no tenant row and no job appeared and the
  books are what they were.
\<close>

theorem Create_all_or_nothing:
  assumes "reliable E" "nodes_ok (w_db w)" "0 \<le> pr_ram_mb (cr_project params)"
  shows "let (r, w') = run_state (lifecycle_Create E s params u) w; d = w_db w; d' = w_db w';
             nid = nd_id (cr_node params); ram = pr_ram_mb (cr_project params) in
     case r of
       Inl _ \<Rightarrow> node_cap d' = node_cap d \<and> tenants d' = tenants d \<and> w_jobs w' = w_jobs w
     | Inr t \<Rightarrow> tenants d' = tenants d @ [t] \<and> tn_status t = Provisioning \<and> tn_node_id t = nid
         \<and> (\<exists>a tot. node_cap d nid = Some (a, tot) \<and> a + ram \<le> tot
                 \<and> node_cap d' = (node_cap d)(nid \<mapsto> (a + ram, tot)))
         \<and> w_jobs w' = w_jobs w @ [\<lparr>job_tenant = tn_id t, job_node = nid, job_project = pr_id (cr_project params),
                                   job_subdomain = cr_subdomain params, job_ram_mb = ram\<rparr>]"
  using lifecycle_Create_outcome [OF assms, of s u]
  by (auto simp: Let_def split: prod.splits sum.splits)

definition sample_params :: CreateParams where
  "sample_params = \<lparr>cr_name = ''new'', cr_subdomain = ''new'', cr_project = sample_project, cr_node = sample_node, cr_owner_id = []\<rparr>"

theorem Create_all_or_nothing_witness:
  "case run_state (lifecycle_Create sample_E \<lparr>ls_audit = True, ls_prov = New []\<rparr> sample_params []) sample_w of
     (Inl _, w') \<Rightarrow> tenants (w_db w') = tenants sample_db
   | (Inr t, w') \<Rightarrow> tenants (w_db w') = tenants sample_db @ [t] \<and> tn_status t = Provisioning"
  using Create_all_or_nothing [of sample_E sample_w sample_params "\<lparr>ls_audit = True, ls_prov = New []\<rparr>" "[]"]
  by (auto simp: sample_simps sample_params_def Let_def split: prod.splits sum.splits)

section \<open>Deletion\<close>

lemma nodes_ok_err_db: "nodes_ok d \<Longrightarrow> nodes_ok (err_db tid nid ram msg d)"
proof -
  assume "nodes_ok d"
  then have "nodes_ok (snd (update_tenants P f d))" for P f by (simp add: nodes_ok_def)
  then show ?thesis by (simp add: err_db_def Let_def nodes_ok_release_ram)
qed

text \<open>A tenant without a container: the two transitions with the release in between.\<close>

lemma tear_down_bare:
  assumes E: "reliable E" and row: "tenant_row (w_db w) (tn_id t) = Some t0" "deletableStatuses (tn_status t0)"
    and bare: "tn_lxc_id t = None"
    and ok: "nodes_ok (w_db w)" "node_cap (w_db w) (tn_node_id t) = Some (a, tot)" "0 \<le> ram" "ram < 2 ^ 31"
    and run: "run_state (tear_down E s t ram) w = (r, w')"
  shows "r = Inr () \<and> (\<exists>t'. tenant_row (w_db w') (tn_id t) = Some t' \<and> tn_status t' = Deleted)
      \<and> node_cap (w_db w') = (node_cap (w_db w))(tn_node_id t \<mapsto> (max (a - ram) 0, tot))"
proof -
  obtain x1 w1 where 1: "run_state (SetDeleting E (tn_id t)) w = (x1, w1)" by fastforce
  note tr = transition [OF E row(1) _ _ 1 [unfolded SetDeleting_def]]
  have x1: "x1 = Inr ()" and d1: "tenant_row (w_db w1) (tn_id t) = Some (t0\<lparr>tn_status := Deleting, tn_updated_at := db_now (w_db w)\<rparr>)"
      "nodes (w_db w1) = nodes (w_db w)"
    using tr row(2) by (auto simp: deletableStatuses_def)
  have ok1: "nodes_ok (w_db w1)" "node_cap (w_db w1) = node_cap (w_db w)"
    using ok(1) d1(2) nodes_ok_cong node_cap_cong by blast+
  let ?cfg = "New []"
  obtain x2 w2 where 2: "run_state (do {
         _ \<leftarrow> (if 0 < ram then ReleaseRAM E (tn_node_id t) ram else State_Monad.return (Inr ()));
         _ \<leftarrow> (if pc_caddy ?cfg \<and> [] \<noteq> ([] :: string) then ext E (RemoveRoute []) else State_Monad.return (Inr ()));
         r \<leftarrow> SetDeleted E (tn_id t);
         State_Monad.return (wrap_err ''set deleted'' r) }) w1 = (x2, w2)" by fastforce
  have "x2 = Inr () \<and> (\<exists>t'. tenant_row (w_db w2) (tn_id t) = Some t' \<and> tn_status t' = Deleted)
      \<and> node_cap (w_db w2) = (node_cap (w_db w1))(tn_node_id t \<mapsto> (max (a - ram) 0, tot))"
    by (rule Deprovision_tail [OF E d1(1) _ ok1(1) _ ok(3,4) 2]) (use ok(2) ok1(2) in simp_all)
  moreover have "w' = w2" "x2 = Inr () \<Longrightarrow> r = Inr ()"
    using run 1 2 x1 bare by (auto simp: tear_down_def New_def split: prod.splits sum.splits)
  ultimately show ?thesis using ok1(2) by simp
qed

lemma Delete_bare:
  assumes E: "reliable E" and row: "tenant_row (w_db w) (tn_id t) = Some t" "deletableStatuses (tn_status t)"
    and bare: "tn_lxc_id t = None" and proj: "project_row (w_db w) (tn_project_id t) = Some p"
    and ok: "nodes_ok (w_db w)" "node_cap (w_db w) (tn_node_id t) = Some (a, tot)" "0 \<le> pr_ram_mb p" "pr_ram_mb p < 2 ^ 31"
  shows "\<exists>t' w'. run_state (lifecycle_Delete E s t u) w = (Inr (Some t'), w') \<and> tn_status t' = Deleted
      \<and> node_cap (w_db w') = (node_cap (w_db w))(tn_node_id t \<mapsto> (max (a - pr_ram_mb p) 0, tot))"
proof -
  let ?w = "w\<lparr>w_db_calls := Suc (w_db_calls w)\<rparr>"
  have q: "run_state (project_GetByID E (tn_project_id t)) w = (Inr (Some p), ?w)"
    using proj by (simp add: project_GetByID_def reliable_call [OF E] query_def)
  obtain r w1 where 1: "run_state (tear_down E s t (pr_ram_mb p)) ?w = (r, w1)" by fastforce
  then have r: "r = Inr ()" and "\<exists>t'. tenant_row (w_db w1) (tn_id t) = Some t' \<and> tn_status t' = Deleted"
      and c: "node_cap (w_db w1) = (node_cap (w_db w))(tn_node_id t \<mapsto> (max (a - pr_ram_mb p) 0, tot))"
    using tear_down_bare [OF E _ row(2) bare _ _ ok(3,4) 1] row(1) ok(1,2) by auto
  then obtain t' where t': "tenant_row (w_db w1) (tn_id t) = Some t'" "tn_status t' = Deleted" by blast
  let ?m = "if u \<noteq> [] then Some [(''user_id'', u)] else None"
  obtain x w2 where 2: "run_state (lifecycle_audit E s ''delete'' (tn_id t) ?m) w1 = (x, w2)"
    by (meson surj_pair)
  have "tenants (w_db w2) = tenants (w_db w1)" "node_cap (w_db w2) = node_cap (w_db w1)"
    using lifecycle_audit_frame(2) [OF E] lifecycle_audit_cap [OF E] 2 by (metis snd_conv)+
  with q 1 r 2 t' c row(2) show ?thesis
    by (auto simp: lifecycle_Delete_def tenant_GetByID_def reliable_call [OF E] query_def tenant_row_def)
qed

text \<open>
A provisioning run that failed has already returned the tenant's RAM. Deleting the tenant
  afterwards returns the same amount once more, so the node's books end up below what the other
  tenants on it hold.
\<close>

theorem failed_tenant_releases_twice:
  assumes E: "reliable E" and ok: "nodes_ok (w_db w)"
    and row: "tenant_row (w_db w) (job_tenant j) = Some t" "tn_status t = Provisioning" "tn_lxc_id t = None"
      "tn_node_id t = job_node j"
    and proj: "project_row (w_db w) (tn_project_id t) = Some p" "pr_ram_mb p = job_ram_mb j"
    and ram: "node_cap (w_db w) (job_node j) = Some (a, tot)" "0 \<le> job_ram_mb j" "job_ram_mb j < 2 ^ 31"
    and failed: "run_state (doProvision E cfg j) w = (False, w1)"
  shows "\<exists>t1 t2 w2. tenant_row (w_db w1) (job_tenant j) = Some t1
     \<and> run_state (lifecycle_Delete E s t1 u) w1 = (Inr (Some t2), w2) \<and> tn_status t2 = Deleted
     \<and> node_cap (w_db w1) (job_node j) = Some (max (a - job_ram_mb j) 0, tot)
     \<and> node_cap (w_db w2) (job_node j) = Some (max (max (a - job_ram_mb j) 0 - job_ram_mb j) 0, tot)"
proof -
  have e: "ended j False (w_db w) (w_db w1)"
    using doProvision_outcome [OF E, of j cfg] failed by (auto simp: outcome_def dest!: spec [of _ w])
  obtain t1 where t1: "tenant_row (w_db w1) (job_tenant j) = Some t1" "tn_node_id t1 = tn_node_id t"
      "tn_project_id t1 = tn_project_id t" "projects (w_db w1) = projects (w_db w)" "tn_status t1 = Errored"
      "tn_lxc_id t1 = None"
    by (rule ended_row [OF e row(1,2)]) (use row(3) in auto)
  have c1: "node_cap (w_db w1) (job_node j) = Some (max (a - job_ram_mb j) 0, tot)"
    using ended_cap [OF e ok ram] by simp
  have ok1: "nodes_ok (w_db w1)"
  proof -
    obtain d1 msg where d: "quiet (w_db w) d1"
        "w_db w1 = err_db (job_tenant j) (job_node j) (job_ram_mb j) msg d1"
      using e by (auto simp: ended_def)
    then have "nodes_ok d1" using ok by (simp add: quiet_def nodes_ok_def)
    then show ?thesis unfolding d(2) by (rule nodes_ok_err_db)
  qed
  have tid: "tn_id t1 = job_tenant j" using t1(1) by (auto dest: tenant_row_in)
  have "project_row (w_db w1) (tn_project_id t1) = Some p" using proj(1) t1 by (simp add: project_row_def)
  from Delete_bare [OF E, of w1 t1, OF _ _ _ this ok1, of "max (a - job_ram_mb j) 0" tot s u] t1 tid c1 row(4) proj(2) ram
  show ?thesis by (auto simp: deletableStatuses_def)
qed

lemma sample_provision_fails:
  "\<exists>w1. run_state (doProvision sample_down (New []) sample_job) sample_w = (False, w1)"
proof -
  have "fst (run_state (doProvision sample_down (New []) sample_job) sample_w) = False"
    by (simp add: doProvision_def provision_lookup_def project_GetByID_def node_GetByID_def getClient_def
        cached_client_def provision_clone_def give_up_def ext_val_def Let_def split_def query_def
        reliable_call [OF sample_reliable(2)] sample_simps)
  then show ?thesis by (metis prod.collapse)
qed

theorem failed_tenant_releases_twice_witness:
  "\<exists>w1 t1 t2 w2. run_state (doProvision sample_down (New []) sample_job) sample_w = (False, w1)
     \<and> run_state (lifecycle_Delete sample_down \<lparr>ls_audit = True, ls_prov = New []\<rparr> t1 []) w1 = (Inr (Some t2), w2)
     \<and> node_cap sample_db ''n1'' = Some (6144, 8192)
     \<and> node_cap (w_db w1) ''n1'' = Some (4608, 8192) \<and> node_cap (w_db w2) ''n1'' = Some (3072, 8192)"
proof -
  obtain w1 where w1: "run_state (doProvision sample_down (New []) sample_job) sample_w = (False, w1)"
    using sample_provision_fails by blast
  have "\<exists>t1 t2 w2. run_state (lifecycle_Delete sample_down \<lparr>ls_audit = True, ls_prov = New []\<rparr> t1 []) w1 = (Inr (Some t2), w2)
     \<and> node_cap (w_db w1) ''n1'' = Some (4608, 8192) \<and> node_cap (w_db w2) ''n1'' = Some (3072, 8192)"
    using failed_tenant_releases_twice [of sample_down sample_w sample_job
      "sample_tenant ''t2'' Provisioning None (Some ''bob'')" sample_project 6144 8192 "New []" w1
      "\<lparr>ls_audit = True, ls_prov = New []\<rparr>" "[]"] w1
    by (auto simp: sample_simps)
  with w1 show ?thesis by (auto simp: sample_simps)
qed

end
