(* ===== verification/CP_Response.thy ===== *)
theory CP_Response
  imports CP_Sample
begin

text \<open>
  The HTTP side shared by the handlers (\<open>src/internal/response\<close>). A handler is a computation
  whose value is the response it writes: a status with either the decoded body of \<open>JSON\<close> or
  the message of \<open>Error\<close>. A request body reaches a handler as the result of \<open>Decode\<close>:
  \<open>None\<close> when the JSON is malformed, too large or has unknown fields.
\<close>

datatype 'a http = JSON nat 'a | Error nat string

fun http_status :: "'a http \<Rightarrow> nat" where
  "http_status (JSON s _) = s"
| "http_status (Error s _) = s"

definition ValidUUID :: "externals \<Rightarrow> string \<Rightarrow> bool" where
  "ValidUUID E s \<longleftrightarrow> uuid_parses E s"

section \<open>Pagination\<close>

definition DefaultLimit :: int where
  "DefaultLimit = 50"

definition MaxLimit :: int where
  "MaxLimit = 200"

record list_params =
  lp_limit :: int
  lp_offset :: int
  lp_status :: string
  lp_node_id :: string
  lp_project_id :: string

record 'a list_result =
  lr_items :: "'a list"
  lr_total :: int
  lr_limit :: int
  lr_offset :: int
  lr_has_more :: bool

text \<open>The query string is the function from a parameter's name to its first value, empty
  when it is absent (\<open>url.Values.Get\<close>).\<close>

definition ParseListParams :: "(string \<Rightarrow> string) \<Rightarrow> list_params" where
  "ParseListParams q =
     (let limit0 = (case atoi (q ''limit'') of Some n \<Rightarrow> if 0 < n then n else DefaultLimit | None \<Rightarrow> DefaultLimit);
          limit = (if q ''limit'' = [] then DefaultLimit else limit0);
          offset0 = (case atoi (q ''offset'') of Some n \<Rightarrow> if 0 \<le> n then n else 0 | None \<Rightarrow> 0);
          offset = (if q ''offset'' = [] then 0 else offset0)
      in \<lparr>lp_limit = (if MaxLimit < limit then MaxLimit else limit), lp_offset = offset,
          lp_status = q ''status'', lp_node_id = q ''node_id'', lp_project_id = q ''project_id''\<rparr>)"

text \<open>What every paginated handler builds from a page and its total.\<close>

definition list_result :: "list_params \<Rightarrow> 'a list \<Rightarrow> nat \<Rightarrow> 'a list_result" where
  "list_result p items total_rows =
     \<lparr>lr_items = items, lr_total = int total_rows, lr_limit = lp_limit p, lr_offset = lp_offset p,
      lr_has_more = (lp_offset p + int (length items) < int total_rows)\<rparr>"

lemma ParseListParams_bounds:
  "1 \<le> lp_limit (ParseListParams q)" "lp_limit (ParseListParams q) \<le> MaxLimit"
  "0 \<le> lp_offset (ParseListParams q)"
  by (auto simp: ParseListParams_def Let_def DefaultLimit_def MaxLimit_def split: option.splits)

text \<open>On a page of a table, \<open>has_more\<close> says exactly whether a row follows the last one shown,
  except for an empty page, which reports that nothing follows.\<close>

lemma has_more_iff:
  assumes "page (lp_limit p) (lp_offset p) rows = (items, n)" "0 \<le> lp_offset p"
  shows "lr_has_more (list_result p items n) \<longleftrightarrow> items \<noteq> [] \<and> nat (lp_offset p) + length items < length rows"
  using assms by (auto simp: page_def list_result_def Let_def split: if_splits)

text \<open>
  The answer of a list handler to a query string, where \<open>rows\<close> are the rows its statement selects in the order it sorts them,
  and what a client collects that goes on after the last row shown, with the same other parameters, until \<open>has_more\<close> is false.
\<close>

definition answer :: "(string \<Rightarrow> string) \<Rightarrow> 'r list \<Rightarrow> 'r list_result" where
  "answer q rows =
     (let p = ParseListParams q; (items, n) = page (lp_limit p) (lp_offset p) rows in list_result p items n)"

definition at_offset :: "nat \<Rightarrow> (string \<Rightarrow> string) \<Rightarrow> string \<Rightarrow> string" where
  "at_offset k q = q(''offset'' := string_of_nat k)"

fun follow :: "nat \<Rightarrow> (string \<Rightarrow> string) \<Rightarrow> nat \<Rightarrow> 'r list \<Rightarrow> 'r list" where
  "follow 0 q k rows = []"
| "follow (Suc m) q k rows =
     (let a = answer (at_offset k q) rows
      in lr_items a @ (if lr_has_more a then follow m q (k + length (lr_items a)) rows else []))"

lemma at_offset_params:
  assumes "int k < 2 ^ 63"
  shows "lp_offset (ParseListParams (at_offset k q)) = int k" "lp_limit (ParseListParams (at_offset k q)) = lp_limit (ParseListParams q)"
  using atoi_string_of_nat [OF assms] by (simp_all add: ParseListParams_def Let_def at_offset_def)

lemma answer_at:
  fixes rows :: "'r list" and q :: "string \<Rightarrow> string"
  assumes "int k < 2 ^ 63"
  defines "l \<equiv> nat (lp_limit (ParseListParams q))"
  shows "lr_items (answer (at_offset k q) rows) = take l (drop k rows)"
    "lr_has_more (answer (at_offset k q) rows) \<longleftrightarrow> k + l < length rows"
proof -
  let ?p = "ParseListParams (at_offset k q)"
  obtain items n where pg: "page (lp_limit ?p) (lp_offset ?p) rows = (items, n)" by fastforce
  then have items: "items = take l (drop k rows)" by (auto simp: page_def Let_def at_offset_params [OF assms(1)] l_def)
  have a: "answer (at_offset k q) rows = list_result ?p items n" unfolding answer_def Let_def pg by simp
  have "0 < l" using ParseListParams_bounds(1) [of q] by (simp add: l_def)
  with has_more_iff [OF pg] items show "lr_has_more (answer (at_offset k q) rows) \<longleftrightarrow> k + l < length rows"
    by (auto simp: a at_offset_params [OF assms(1)])
  show "lr_items (answer (at_offset k q) rows) = take l (drop k rows)" by (simp add: a list_result_def items)
qed

lemma follow_rows:
  assumes "int (length rows) < 2 ^ 63" "k \<le> length rows" "length rows < m + k"
  shows "follow m q k rows = drop k rows"
  using assms(2,3)
proof (induction m arbitrary: k)
  case (Suc m)
  let ?l = "nat (lp_limit (ParseListParams q))"
  have k: "int k < 2 ^ 63" using Suc.prems(1) assms(1) by linarith
  have l: "0 < ?l" using ParseListParams_bounds(1) [of q] by simp
  show ?case
  proof (cases "k + ?l < length rows")
    case True
    with Suc.prems l have "follow m q (k + ?l) rows = drop (k + ?l) rows" by (intro Suc.IH) simp_all
    moreover have "length (take ?l (drop k rows)) = ?l" using True by simp
    ultimately show ?thesis using True
      by (simp add: answer_at [OF k] Let_def del: length_take) (metis append_take_drop_id drop_drop add.commute)
  next
    case False
    then show ?thesis by (simp add: answer_at [OF k] Let_def)
  qed
qed simp

section \<open>Properties\<close>

text \<open>
  Whatever the query string holds, the page that is read has between 1 and 200 rows and starts at a
  non-negative offset.
\<close>

theorem list_params_bounded:
  "1 \<le> lp_limit (ParseListParams q) \<and> lp_limit (ParseListParams q) \<le> 200 \<and> 0 \<le> lp_offset (ParseListParams q)"
  using ParseListParams_bounds [of q] by (simp add: MaxLimit_def)

text \<open>
C36: A client that follows \<open>has_more\<close> sees the whole list: whatever limit and filters its query string holds, beginning at offset 0
  and asking each time for the offset after the last row it has seen, it collects every row exactly once, in order, in at most one
  request more than there are rows; and no page has more than 200 rows. The list has fewer than 2 to the 63 rows and does not
  change in between.
\<close>

theorem paging_is_complete:
  assumes "int (length rows) < 2 ^ 63"
  shows "follow (Suc (length rows)) q 0 rows = rows
     \<and> length (lr_items (answer q rows)) \<le> 200"
proof
  show "follow (Suc (length rows)) q 0 rows = rows" using follow_rows [OF assms, of 0 "Suc (length rows)" q] by simp
  show "length (lr_items (answer q rows)) \<le> 200"
    using ParseListParams_bounds(2) [of q] by (simp add: answer_def page_def Let_def list_result_def MaxLimit_def)
qed

theorem paging_is_complete_witness:
  "follow 4 (\<lambda>k. if k = ''limit'' then ''2'' else []) 0 [1::nat, 2, 3] = [1, 2, 3]"
  using paging_is_complete [of "[1::nat, 2, 3]" "\<lambda>k. if k = ''limit'' then ''2'' else []"] by (simp add: eval_nat_numeral)

end
