(* ===== verification/CP_Tenant_Handlers.thy ===== *)
theory CP_Tenant_Handlers
  imports CP_Lifecycle CP_Response
begin

text \<open>
  The tenant entry points: the API handler (\<open>src/internal/tenant/handler.go\<close>), the handler of the
  authenticated users (\<open>user_handler.go\<close>) and the tier limits it enforces
  (\<open>src/internal/billing/tiers.go\<close>). A handler takes the decoded request and returns the response; the
  user of the request context is \<open>Some uid\<close>.
\<close>

section \<open>Tiers\<close>

record TierLimits =
  tl_max_stations :: int
  tl_max_tenants :: int
  tl_max_platforms :: int
  tl_max_quality :: string
  tl_watermark :: bool
  tl_dsp :: bool
  tl_custom_overlays :: bool
  tl_analytics :: string
  tl_storage :: string

definition tierLimits :: "string \<rightharpoonup> TierLimits" where
  "tierLimits =
     [''free'' \<mapsto> \<lparr>tl_max_stations = 1, tl_max_tenants = 1, tl_max_platforms = 1, tl_max_quality = ''720p'',
        tl_watermark = True, tl_dsp = False, tl_custom_overlays = False, tl_analytics = ''basic'',
        tl_storage = ''unlimited''\<rparr>,
      ''starter'' \<mapsto> \<lparr>tl_max_stations = 1, tl_max_tenants = 1, tl_max_platforms = 1, tl_max_quality = ''720p'',
        tl_watermark = False, tl_dsp = False, tl_custom_overlays = False, tl_analytics = ''basic'',
        tl_storage = ''unlimited''\<rparr>,
      ''pro'' \<mapsto> \<lparr>tl_max_stations = 1, tl_max_tenants = 2, tl_max_platforms = 3, tl_max_quality = ''1080p'',
        tl_watermark = False, tl_dsp = True, tl_custom_overlays = True, tl_analytics = ''full'',
        tl_storage = ''unlimited''\<rparr>,
      ''studio'' \<mapsto> \<lparr>tl_max_stations = 3, tl_max_tenants = 3, tl_max_platforms = 3, tl_max_quality = ''4k'',
        tl_watermark = False, tl_dsp = True, tl_custom_overlays = True, tl_analytics = ''full'',
        tl_storage = ''unlimited''\<rparr>]"

definition ValidTiers :: "string list" where
  "ValidTiers = [''free'', ''starter'', ''pro'', ''studio'']"

definition GetLimits :: "string \<Rightarrow> TierLimits" where
  "GetLimits tier = (case tierLimits tier of Some l \<Rightarrow> l | None \<Rightarrow> the (tierLimits ''free''))"

definition IsValidTier :: "string \<Rightarrow> bool" where
  "IsValidTier tier \<longleftrightarrow> tier \<in> set ValidTiers"

definition IsPaidTier :: "string \<Rightarrow> bool" where
  "IsPaidTier tier \<longleftrightarrow> tier \<noteq> ''free'' \<and> tier \<in> set ValidTiers"

section \<open>The API handler\<close>

record tenant_handler =
  th_audit :: bool
  th_prov :: provisioner_cfg

definition lifecycle_of :: "tenant_handler \<Rightarrow> lifecycle_service" where
  "lifecycle_of h = \<lparr>ls_audit = th_audit h, ls_prov = th_prov h\<rparr>"

definition lifecycleStatus :: "LifecycleError \<Rightarrow> nat" where
  "lifecycleStatus lerr =
     (case le_kind lerr of FailureInvalid \<Rightarrow> 400 | FailureConflict \<Rightarrow> 409 | FailureInternal \<Rightarrow> 500)"

definition respondLifecycle :: "LifecycleError \<Rightarrow> 'a http" where
  "respondLifecycle lerr = Error (lifecycleStatus lerr) (le_message lerr)"

definition log_if ::
  "externals \<Rightarrow> bool \<Rightarrow> string \<Rightarrow> string \<Rightarrow> string \<Rightarrow> (string \<times> string) list option \<Rightarrow> unit cp" where
  "log_if E on action ety eid details =
     (if on then audit_Log E action ety eid details else State_Monad.return ())"

definition tenant_h_List :: "externals \<Rightarrow> (string \<Rightarrow> string) \<Rightarrow> tenant list_result http cp" where
  "tenant_h_List E q = do {
     let params = ParseListParams q;
     r \<leftarrow> tenant_ListPaginated E (lp_limit params) (lp_offset params) (lp_status params)
            (lp_node_id params) (lp_project_id params);
     State_Monad.return (case r of
         Inl _ \<Rightarrow> Error 500 ''failed to list tenants''
       | Inr (ts, n) \<Rightarrow> JSON 200 (list_result params ts n)) }"

definition tenant_h_Get :: "externals \<Rightarrow> string \<Rightarrow> tenant http cp" where
  "tenant_h_Get E tid =
     (if \<not> ValidUUID E tid then State_Monad.return (Error 400 ''invalid tenant ID format'')
      else do {
        r \<leftarrow> tenant_GetByID E tid;
        State_Monad.return (case r of
            Inl _ \<Rightarrow> Error 500 ''failed to get tenant''
          | Inr None \<Rightarrow> Error 404 ''tenant not found''
          | Inr (Some t) \<Rightarrow> JSON 200 t) })"

definition tenant_h_Create :: "externals \<Rightarrow> tenant_handler \<Rightarrow> create_tenant_request option \<Rightarrow> tenant http cp" where
  "tenant_h_Create E h body =
     (case body of
        None \<Rightarrow> State_Monad.return (Error 400 ''invalid request body'')
      | Some req \<Rightarrow>
          if ct_name req = [] \<or> ct_project_id req = [] \<or> ct_node_id req = [] \<or> ct_subdomain req = []
          then State_Monad.return (Error 400 ''name, project_id, node_id, and subdomain are required'')
          else if \<not> ValidUUID E (ct_project_id req)
          then State_Monad.return (Error 400 ''invalid project_id format'')
          else if \<not> ValidUUID E (ct_node_id req)
          then State_Monad.return (Error 400 ''invalid node_id format'')
          else (case ValidateSubdomain (ct_subdomain req) of
              Some lerr \<Rightarrow> State_Monad.return (respondLifecycle lerr)
            | None \<Rightarrow> do {
                rn \<leftarrow> node_GetByID E (ct_node_id req);
                case rn of
                  Inl _ \<Rightarrow> State_Monad.return (Error 500 ''failed to validate node'')
                | Inr None \<Rightarrow> State_Monad.return (Error 404 ''node not found'')
                | Inr (Some n) \<Rightarrow>
                    if nd_status n \<noteq> ''active'' then State_Monad.return (Error 400 ''node is not active'')
                    else do {
                      rp \<leftarrow> project_GetByID E (ct_project_id req);
                      case rp of
                        Inl _ \<Rightarrow> State_Monad.return (Error 500 ''failed to validate project'')
                      | Inr None \<Rightarrow> State_Monad.return (Error 404 ''project not found'')
                      | Inr (Some proj) \<Rightarrow> do {
                          r \<leftarrow> lifecycle_Create E (lifecycle_of h)
                                 \<lparr>cr_name = ct_name req, cr_subdomain = ct_subdomain req, cr_project = proj,
                                  cr_node = n, cr_owner_id = []\<rparr> [];
                          State_Monad.return (case r of
                              Inl lerr \<Rightarrow> respondLifecycle lerr
                            | Inr t \<Rightarrow> JSON 202 t) } } }))"

definition tenant_h_Update ::
  "externals \<Rightarrow> tenant_handler \<Rightarrow> string \<Rightarrow> update_tenant_request option \<Rightarrow> tenant http cp" where
  "tenant_h_Update E h tid body =
     (if \<not> ValidUUID E tid then State_Monad.return (Error 400 ''invalid tenant ID format'')
      else case body of
        None \<Rightarrow> State_Monad.return (Error 400 ''invalid request body'')
      | Some req \<Rightarrow> do {
          r \<leftarrow> tenant_Update E tid req;
          case r of
            Inl e \<Rightarrow> State_Monad.return
                (if errors_is e tenant_ErrNoUpdate then Error 400 ''no fields to update''
                 else if pg_code e = Some ''23505'' then Error 409 ''name already exists''
                 else Error 500 ''failed to update tenant'')
          | Inr None \<Rightarrow> State_Monad.return (Error 404 ''tenant not found'')
          | Inr (Some t) \<Rightarrow> do {
              _ \<leftarrow> log_if E (th_audit h) ''update'' ''tenant'' (tn_id t) None;
              State_Monad.return (JSON 200 t) } })"

text \<open>The second half of \<open>Suspend\<close> and \<open>Resume\<close>, the same in both handlers but for the audit
  details: the status first, then the container, with the status restored when that fails. The
  record that is returned may be missing by then.\<close>

definition do_suspend ::
  "externals \<Rightarrow> tenant_handler \<Rightarrow> string \<Rightarrow> tenant \<Rightarrow> (string \<times> string) list option \<Rightarrow> tenant option http cp" where
  "do_suspend E h tid t details =
     (if tn_status t \<noteq> Active then State_Monad.return (Error 409 ''tenant must be active to suspend'')
      else do {
        r \<leftarrow> SetSuspended E tid;
        case r of
          Inl e \<Rightarrow> State_Monad.return
              (if errors_is e ErrStateConflict then Error 409 ''tenant is not in a suspendable state''
               else Error 500 ''failed to suspend tenant'')
        | Inr _ \<Rightarrow> do {
            s \<leftarrow> (case tn_lxc_id t of
                   None \<Rightarrow> State_Monad.return (Inr ())
                 | Some l \<Rightarrow> provisioner_Suspend E (th_prov h) (tn_node_id t) l);
            case s of
              Inl _ \<Rightarrow> do {
                _ \<leftarrow> SetResumed E tid;
                State_Monad.return (Error 500 ''failed to stop container'') }
            | Inr _ \<Rightarrow> do {
                _ \<leftarrow> log_if E (th_audit h) ''suspend'' ''tenant'' tid details;
                g \<leftarrow> tenant_GetByID E tid;
                State_Monad.return (case g of
                    Inl _ \<Rightarrow> Error 500 ''failed to get tenant''
                  | Inr t' \<Rightarrow> JSON 200 t') } } })"

definition do_resume ::
  "externals \<Rightarrow> tenant_handler \<Rightarrow> string \<Rightarrow> tenant \<Rightarrow> (string \<times> string) list option \<Rightarrow> tenant option http cp" where
  "do_resume E h tid t details =
     (if tn_status t \<noteq> Suspended then State_Monad.return (Error 409 ''tenant must be suspended to resume'')
      else do {
        r \<leftarrow> SetResumed E tid;
        case r of
          Inl e \<Rightarrow> State_Monad.return
              (if errors_is e ErrStateConflict then Error 409 ''tenant is not in a resumable state''
               else Error 500 ''failed to resume tenant'')
        | Inr _ \<Rightarrow> do {
            s \<leftarrow> (case tn_lxc_id t of
                   None \<Rightarrow> State_Monad.return (Inr ())
                 | Some l \<Rightarrow> provisioner_Resume E (th_prov h) (tn_node_id t) l);
            case s of
              Inl _ \<Rightarrow> do {
                _ \<leftarrow> SetSuspended E tid;
                State_Monad.return (Error 500 ''failed to start container'') }
            | Inr _ \<Rightarrow> do {
                _ \<leftarrow> log_if E (th_audit h) ''resume'' ''tenant'' tid details;
                g \<leftarrow> tenant_GetByID E tid;
                State_Monad.return (case g of
                    Inl _ \<Rightarrow> Error 500 ''failed to get tenant''
                  | Inr t' \<Rightarrow> JSON 200 t') } } })"

definition with_tenant ::
  "externals \<Rightarrow> string \<Rightarrow> (tenant \<Rightarrow> 'a http cp) \<Rightarrow> 'a http cp" where
  "with_tenant E tid k =
     (if \<not> ValidUUID E tid then State_Monad.return (Error 400 ''invalid tenant ID format'')
      else do {
        r \<leftarrow> tenant_GetByID E tid;
        case r of
          Inl _ \<Rightarrow> State_Monad.return (Error 500 ''failed to get tenant'')
        | Inr None \<Rightarrow> State_Monad.return (Error 404 ''tenant not found'')
        | Inr (Some t) \<Rightarrow> k t })"

definition tenant_h_Suspend :: "externals \<Rightarrow> tenant_handler \<Rightarrow> string \<Rightarrow> tenant option http cp" where
  "tenant_h_Suspend E h tid = with_tenant E tid (\<lambda>t. do_suspend E h tid t None)"

definition tenant_h_Resume :: "externals \<Rightarrow> tenant_handler \<Rightarrow> string \<Rightarrow> tenant option http cp" where
  "tenant_h_Resume E h tid = with_tenant E tid (\<lambda>t. do_resume E h tid t None)"

definition do_delete ::
  "externals \<Rightarrow> tenant_handler \<Rightarrow> tenant \<Rightarrow> string \<Rightarrow> tenant option http cp" where
  "do_delete E h t actorUserID = do {
     r \<leftarrow> lifecycle_Delete E (lifecycle_of h) t actorUserID;
     State_Monad.return (case r of Inl lerr \<Rightarrow> respondLifecycle lerr | Inr t' \<Rightarrow> JSON 200 t') }"

definition tenant_h_Delete :: "externals \<Rightarrow> tenant_handler \<Rightarrow> string \<Rightarrow> tenant option http cp" where
  "tenant_h_Delete E h tid = with_tenant E tid (\<lambda>t. do_delete E h t [])"

section \<open>The user handler\<close>

record user_handler =
  uh_core :: tenant_handler
  uh_sso_domain :: string
  uh_sso_scheme :: string

record user_create_request =
  uc_name :: string
  uc_subdomain :: string

definition NewUserHandler :: "tenant_handler \<Rightarrow> string \<Rightarrow> string \<Rightarrow> user_handler" where
  "NewUserHandler h ssoDomain ssoScheme =
     \<lparr>uh_core = h, uh_sso_domain = (if ssoDomain = [] then ''example.com'' else ssoDomain),
      uh_sso_scheme = (if ssoScheme = [] then ''https'' else ssoScheme)\<rparr>"

definition as_user :: "string option \<Rightarrow> (string \<Rightarrow> 'a http cp) \<Rightarrow> 'a http cp" where
  "as_user user k =
     (case user of None \<Rightarrow> State_Monad.return (Error 401 ''not authenticated'') | Some uid \<Rightarrow> k uid)"

text \<open>A tenant of somebody else is reported as missing.\<close>

definition with_own_tenant ::
  "externals \<Rightarrow> string option \<Rightarrow> string \<Rightarrow> (string \<Rightarrow> tenant \<Rightarrow> 'a http cp) \<Rightarrow> 'a http cp" where
  "with_own_tenant E user tid k = as_user user (\<lambda>uid.
     with_tenant E tid (\<lambda>t.
       if tn_owner_id t = Some uid then k uid t else State_Monad.return (Error 404 ''tenant not found'')))"

definition user_h_List :: "externals \<Rightarrow> string option \<Rightarrow> tenant list_result http cp" where
  "user_h_List E user = as_user user (\<lambda>uid. do {
     r \<leftarrow> ListByOwnerID E uid;
     State_Monad.return (case r of
         Inl _ \<Rightarrow> Error 500 ''failed to list tenants''
       | Inr ts \<Rightarrow> JSON 200 \<lparr>lr_items = ts, lr_total = int (length ts), lr_limit = int (length ts),
                             lr_offset = 0, lr_has_more = False\<rparr>) })"

definition user_h_Get :: "externals \<Rightarrow> string option \<Rightarrow> string \<Rightarrow> tenant http cp" where
  "user_h_Get E user tid = with_own_tenant E user tid (\<lambda>_ t. State_Monad.return (JSON 200 t))"

text \<open>The best tier among the tenants the user has, free without any.\<close>

definition max_tenants :: "tenant list \<Rightarrow> int" where
  "max_tenants ts =
     fold (\<lambda>t m. if m < tl_max_tenants (GetLimits (tn_tier t)) then tl_max_tenants (GetLimits (tn_tier t)) else m)
       ts (tl_max_tenants (GetLimits ''free''))"

definition user_h_Create ::
  "externals \<Rightarrow> user_handler \<Rightarrow> string option \<Rightarrow> user_create_request option \<Rightarrow> tenant http cp" where
  "user_h_Create E h user body = as_user user (\<lambda>uid.
     case body of
       None \<Rightarrow> State_Monad.return (Error 400 ''invalid request body'')
     | Some req \<Rightarrow>
         if uc_name req = [] \<or> uc_subdomain req = []
         then State_Monad.return (Error 400 ''name and subdomain are required'')
         else (case ValidateSubdomain (uc_subdomain req) of
             Some lerr \<Rightarrow> State_Monad.return (respondLifecycle lerr)
           | None \<Rightarrow> do {
               rc \<leftarrow> CountByOwnerID E uid;
               case rc of
                 Inl _ \<Rightarrow> State_Monad.return (Error 500 ''failed to check tenant limits'')
               | Inr currentCount \<Rightarrow> do {
                   rl \<leftarrow> ListByOwnerID E uid;
                   case rl of
                     Inl _ \<Rightarrow> State_Monad.return (Error 500 ''failed to check tenant limits'')
                   | Inr existing \<Rightarrow>
                       if max_tenants existing \<le> int currentCount
                       then State_Monad.return (Error 403
                              (''tenant limit reached (max '' @ string_of_int (max_tenants existing) @ '')''))
                       else do {
                         rp \<leftarrow> project_GetDefault E;
                         case rp of
                           Inl _ \<Rightarrow> State_Monad.return (Error 500 ''failed to select project'')
                         | Inr None \<Rightarrow> State_Monad.return (Error 503 ''no projects configured'')
                         | Inr (Some proj) \<Rightarrow> do {
                             rn \<leftarrow> node_GetLeastLoaded E (pr_ram_mb proj);
                             case rn of
                               Inl _ \<Rightarrow> State_Monad.return (Error 500 ''failed to select node'')
                             | Inr None \<Rightarrow> State_Monad.return (Error 503 ''no nodes with sufficient capacity'')
                             | Inr (Some n) \<Rightarrow> do {
                                 r \<leftarrow> lifecycle_Create E (lifecycle_of (uh_core h))
                                        \<lparr>cr_name = uc_name req, cr_subdomain = uc_subdomain req, cr_project = proj,
                                         cr_node = n, cr_owner_id = uid\<rparr> uid;
                                 State_Monad.return (case r of
                                     Inl lerr \<Rightarrow> respondLifecycle lerr
                                   | Inr t \<Rightarrow> JSON 202 t) } } } } }))"

definition user_h_Delete ::
  "externals \<Rightarrow> user_handler \<Rightarrow> string option \<Rightarrow> string \<Rightarrow> tenant option http cp" where
  "user_h_Delete E h user tid = with_own_tenant E user tid (\<lambda>uid t. do_delete E (uh_core h) t uid)"

definition user_h_Suspend ::
  "externals \<Rightarrow> user_handler \<Rightarrow> string option \<Rightarrow> string \<Rightarrow> tenant option http cp" where
  "user_h_Suspend E h user tid =
     with_own_tenant E user tid (\<lambda>uid t. do_suspend E (uh_core h) tid t (Some [(''user_id'', uid)]))"

definition user_h_Resume ::
  "externals \<Rightarrow> user_handler \<Rightarrow> string option \<Rightarrow> string \<Rightarrow> tenant option http cp" where
  "user_h_Resume E h user tid =
     with_own_tenant E user tid (\<lambda>uid t. do_resume E (uh_core h) tid t (Some [(''user_id'', uid)]))"

section \<open>Single sign-on\<close>

text \<open>\<open>base64.RawURLEncoding\<close> and \<open>url.QueryEscape\<close> of the standard library.\<close>

definition b64_alphabet :: string where
  "b64_alphabet = ''ABCDEFGHIJKLMNOPQRSTUVWXYZabcdefghijklmnopqrstuvwxyz0123456789-_''"

fun b64_encode :: "string \<Rightarrow> string" where
  "b64_encode [] = []"
| "b64_encode [a] = [b64_alphabet ! (code a div 4), b64_alphabet ! ((code a mod 4) * 16)]"
| "b64_encode [a, b] =
     [b64_alphabet ! (code a div 4), b64_alphabet ! ((code a mod 4) * 16 + code b div 16),
      b64_alphabet ! ((code b mod 16) * 4)]"
| "b64_encode (a # b # c # s) =
     [b64_alphabet ! (code a div 4), b64_alphabet ! ((code a mod 4) * 16 + code b div 16),
      b64_alphabet ! ((code b mod 16) * 4 + code c div 64), b64_alphabet ! (code c mod 64)] @ b64_encode s"

definition upper_hex :: "nat \<Rightarrow> char" where
  "upper_hex n = ''0123456789ABCDEF'' ! n"

definition query_escape_char :: "char \<Rightarrow> string" where
  "query_escape_char c =
     (if is_upper c \<or> is_lower c \<or> is_digit c \<or> c \<in> set ''-_.~'' then [c]
      else if c = CHR '' '' then ''+''
      else [CHR ''%'', upper_hex (code c div 16), upper_hex (code c mod 16)])"

definition QueryEscape :: "string \<Rightarrow> string" where
  "QueryEscape s = concat (map query_escape_char s)"

record sso_response =
  so_url :: string
  so_expires_in :: int
  so_tier :: string

definition sso_payload :: "string \<Rightarrow> tenant \<Rightarrow> string \<Rightarrow> int \<Rightarrow> string" where
  "sso_payload uid t tier timestamp =
     uid @ '':'' @ tn_id t @ '':'' @ tier @ '':'' @ string_of_int timestamp"

definition sso_token :: "externals \<Rightarrow> string \<Rightarrow> string \<Rightarrow> string" where
  "sso_token E key payload = b64_encode payload @ '':'' @ b64_encode (hmac_sha256 E key payload)"

definition user_h_SSOToken ::
  "externals \<Rightarrow> user_handler \<Rightarrow> int \<Rightarrow> string option \<Rightarrow> string \<Rightarrow> sso_response http cp" where
  "user_h_SSOToken E h timestamp user tid = with_own_tenant E user tid (\<lambda>uid t.
     State_Monad.return
       (if tn_status t \<noteq> Active then Error 409 ''tenant must be active to generate SSO token''
        else case tn_dashboard_token t of
          None \<Rightarrow> Error 500 ''dashboard token not configured''
        | Some key \<Rightarrow>
            if key = [] then Error 500 ''dashboard token not configured''
            else let tier = (if tn_tier t = [] then ''free'' else tn_tier t);
                     token = sso_token E key (sso_payload uid t tier timestamp)
                 in JSON 200 \<lparr>so_url = uh_sso_scheme h @ ''://'' @ tn_subdomain t @ ''.'' @ uh_sso_domain h
                                @ ''/auth/sso?token='' @ QueryEscape token,
                              so_expires_in = 60, so_tier = tier\<rparr>))"

section \<open>Only steps of the system\<close>

lemma log_if_steps [io_rules]: "cp_triple E (log_if E b a ety eid x) (\<lambda>_. True)"
  unfolding log_if_def by (rule cp_rules io_rules)+

lemma do_steps [io_rules]:
  "cp_triple E (do_suspend E h tid t x) (\<lambda>_. True)"
  "cp_triple E (do_resume E h tid t x) (\<lambda>_. True)"
  "cp_triple E (do_delete E h t u) (\<lambda>_. True)"
  unfolding do_suspend_def do_resume_def do_delete_def by (rule cp_rules io_rules)+

lemma with_tenant_steps [io_rules]:
  "(\<And>t. cp_triple E (k t) (\<lambda>_. True)) \<Longrightarrow> cp_triple E (with_tenant E tid k) (\<lambda>_. True)"
  unfolding with_tenant_def by (rule cp_rules io_rules | assumption)+

lemma with_own_tenant_steps [io_rules]:
  "(\<And>uid t. cp_triple E (k uid t) (\<lambda>_. True)) \<Longrightarrow> cp_triple E (with_own_tenant E user tid k) (\<lambda>_. True)"
  unfolding with_own_tenant_def as_user_def by (rule cp_rules io_rules | assumption)+

lemma tenant_handler_steps [io_rules]:
  "cp_triple E (tenant_h_List E q) (\<lambda>_. True)"
  "cp_triple E (tenant_h_Get E tid) (\<lambda>_. True)"
  "cp_triple E (tenant_h_Create E h cbody) (\<lambda>_. True)"
  "cp_triple E (tenant_h_Update E h tid ubody) (\<lambda>_. True)"
  "cp_triple E (tenant_h_Suspend E h tid) (\<lambda>_. True)"
  "cp_triple E (tenant_h_Resume E h tid) (\<lambda>_. True)"
  "cp_triple E (tenant_h_Delete E h tid) (\<lambda>_. True)"
  unfolding tenant_h_List_def tenant_h_Get_def tenant_h_Create_def tenant_h_Update_def
    tenant_h_Suspend_def tenant_h_Resume_def tenant_h_Delete_def
  by (rule cp_rules io_rules | simp add: ram_nonneg_def)+

lemma user_handler_steps [io_rules]:
  "cp_triple E (user_h_List E user) (\<lambda>_. True)"
  "cp_triple E (user_h_Get E user tid) (\<lambda>_. True)"
  "cp_triple E (user_h_Create E uh user body) (\<lambda>_. True)"
  "cp_triple E (user_h_Delete E uh user tid) (\<lambda>_. True)"
  "cp_triple E (user_h_Suspend E uh user tid) (\<lambda>_. True)"
  "cp_triple E (user_h_Resume E uh user tid) (\<lambda>_. True)"
  "cp_triple E (user_h_SSOToken E uh now user tid) (\<lambda>_. True)"
  unfolding user_h_List_def user_h_Get_def user_h_Create_def user_h_Delete_def user_h_Suspend_def
    user_h_Resume_def user_h_SSOToken_def as_user_def
  by (rule cp_rules io_rules | simp add: ram_nonneg_def)+

section \<open>Tenants of other users\<close>

text \<open>Reading a row changes neither the tables nor anything outside.\<close>

lemma GetByID_run:
  "run_state (tenant_GetByID E tid) w = (r, w') \<Longrightarrow>
     w_db w' = w_db w \<and> w_trace w' = w_trace w \<and> w_jobs w' = w_jobs w \<and> w_clients w' = w_clients w
     \<and> (r = Inr (tenant_row (w_db w) tid) \<or> (\<exists>e. r = Inl e))"
  by (auto simp: tenant_GetByID_def db_call_def query_def Let_def split: db_fate.splits prod.splits)

definition untouched :: "world \<Rightarrow> world \<Rightarrow> bool" where
  "untouched w w' \<longleftrightarrow> w_db w' = w_db w \<and> w_trace w' = w_trace w \<and> w_jobs w' = w_jobs w \<and> w_clients w' = w_clients w"

definition refused :: "world \<Rightarrow> 'a http \<times> world \<Rightarrow> bool" where
  "refused w p \<longleftrightarrow> untouched w (snd p) \<and> http_status (fst p) \<in> {400, 401, 404, 500}"

lemma with_own_tenant_foreign:
  assumes "\<And>t. tenant_row (w_db w) tid = Some t \<Longrightarrow> tn_owner_id t \<noteq> user"
  shows "refused w (run_state (with_own_tenant E user tid k) w)"
proof (cases user)
  case None
  then show ?thesis by (simp add: with_own_tenant_def as_user_def untouched_def refused_def)
next
  case (Some uid)
  obtain g w1 where g: "run_state (tenant_GetByID E tid) w = (g, w1)" by fastforce
  from GetByID_run [OF g] assms Some g show ?thesis
    by (auto simp: with_own_tenant_def as_user_def with_tenant_def untouched_def refused_def
        split: if_splits option.splits)
qed

text \<open>
C8: A user cannot reach a tenant that is not theirs. Every tenant-scoped user operation on such an id, a
  missing one included, answers 400, 401, 404 or 500, and neither the database, nor any outside
  system, nor the provisioning jobs are touched.
\<close>

theorem user_isolation:
  assumes "\<And>t. tenant_row (w_db w) tid = Some t \<Longrightarrow> tn_owner_id t \<noteq> user"
  shows "refused w (run_state (user_h_Get E user tid) w)
       \<and> refused w (run_state (user_h_SSOToken E uh now user tid) w)
       \<and> refused w (run_state (user_h_Delete E uh user tid) w)
       \<and> refused w (run_state (user_h_Suspend E uh user tid) w)
       \<and> refused w (run_state (user_h_Resume E uh user tid) w)"
  unfolding user_h_Get_def user_h_SSOToken_def user_h_Delete_def user_h_Suspend_def user_h_Resume_def
  by (intro conjI with_own_tenant_foreign assms)

definition sample_uh :: user_handler where
  "sample_uh = NewUserHandler \<lparr>th_audit = True, th_prov = New []\<rparr> [] []"

theorem user_isolation_witness:
  "tenant_row (w_db sample_w) ''t1'' \<noteq> None
   \<and> refused sample_w (run_state (user_h_Delete sample_E sample_uh (Some ''mallory'') ''t1'') sample_w)"
  using user_isolation [of sample_w "''t1''" "Some ''mallory''" sample_E sample_uh 0]
  by (simp add: sample_simps)

section \<open>The tenant limit\<close>

lemma max_tenants_ge: "1 \<le> max_tenants ts"
proof -
  have "m \<le> fold (\<lambda>t m. if m < tl_max_tenants (GetLimits (tn_tier t)) then tl_max_tenants (GetLimits (tn_tier t)) else m) ts m"
    for m :: int
  proof (induction ts arbitrary: m)
    case (Cons t ts)
    show ?case using Cons [of "tl_max_tenants (GetLimits (tn_tier t))"] Cons [of m] by auto
  qed simp
  from this [of 1] show ?thesis by (simp add: max_tenants_def GetLimits_def tierLimits_def)
qed

lemma tier_max: "tl_max_tenants (GetLimits tier) \<le> 3"
  by (auto simp: GetLimits_def tierLimits_def)

lemma max_tenants_le: "max_tenants ts \<le> 3"
proof -
  have "m \<le> 3 \<Longrightarrow> fold (\<lambda>t m. if m < tl_max_tenants (GetLimits (tn_tier t)) then tl_max_tenants (GetLimits (tn_tier t)) else m) ts m \<le> 3"
    for m :: int
    by (induction ts arbitrary: m) (auto simp: tier_max)
  then show ?thesis by (simp add: max_tenants_def GetLimits_def tierLimits_def)
qed

lemma count_where_snoc: "count_where P (xs @ [x]) = count_where P xs + (if P x then 1 else 0)"
  by (simp add: count_where_def)

text \<open>What a run of \<open>user_h_Create\<close> that ends in success has read and done.\<close>

lemma user_h_Create_JSON:
  assumes E: "reliable E"
    and run: "run_state (user_h_Create E uh (Some uid) (Some req)) w = (JSON s t, w')"
  obtains proj n w1 where
    "run_state (lifecycle_Create E (lifecycle_of (uh_core uh))
        \<lparr>cr_name = uc_name req, cr_subdomain = uc_subdomain req, cr_project = proj, cr_node = n, cr_owner_id = uid\<rparr> uid) w1
     = (Inr t, w')"
    "w_db w1 = w_db w" "s = 202"
    "int (count_where (owned uid) (tenants (w_db w))) < max_tenants (order_desc tn_created_at (filter (owned uid) (tenants (w_db w))))"
    "fst (least_loaded (pr_ram_mb proj) (w_db w)) = Inr (Some n)"
    "proj \<in> set (projects (w_db w))"
proof -
  have ll: "snd (least_loaded r d) = d" for r d by (simp add: least_loaded_def Let_def)
  have dflt: "p \<in> set (projects d)" if "(case sort_key pr_created_at (projects d) of [] \<Rightarrow> None | p # _ \<Rightarrow> Some p) = Some p" for p d
    using that by (auto split: list.splits dest: arg_cong [where f = set])
  from run show thesis
    unfolding user_h_Create_def as_user_def CountByOwnerID_def ListByOwnerID_def project_GetDefault_def node_GetLeastLoaded_def
    by (auto simp: reliable_call [OF E] query_def ll respondLifecycle_def split: if_splits option.splits sum.splits prod.splits
        dest!: dflt) (erule that; simp)
qed

text \<open>
C16: Over a database that answers, with consistent books and no project of negative RAM, a user's creation request that is accepted
  stays within the limit of the best tier among the user's tenants, which is never above 3: exactly one tenant is added, it is in
  provisioning and belongs to the user, and counting it the user has at most that many live tenants. It is placed on an active node,
  and no active node has more free RAM.
\<close>

theorem user_create_within_limit:
  assumes "reliable E" "nodes_ok (w_db w)" "projects_ok (w_db w)" "uid \<noteq> []"
    and "run_state (user_h_Create E uh (Some uid) (Some req)) w = (JSON s t, w')"
  shows "s = 202 \<and> tenants (w_db w') = tenants (w_db w) @ [t] \<and> tn_status t = Provisioning \<and> tn_owner_id t = Some uid
     \<and> int (count_where (owned uid) (tenants (w_db w')))
         \<le> max_tenants (order_desc tn_created_at (filter (owned uid) (tenants (w_db w))))
     \<and> max_tenants (order_desc tn_created_at (filter (owned uid) (tenants (w_db w)))) \<le> 3
     \<and> (\<exists>m\<in>set (nodes (w_db w)). nd_id m = tn_node_id t \<and> nd_status m = ''active''
          \<and> (\<forall>k\<in>set (nodes (w_db w)). nd_status k = ''active'' \<longrightarrow> free_ram k \<le> free_ram m))"
proof -
  obtain proj n w1 where
    run: "run_state (lifecycle_Create E (lifecycle_of (uh_core uh))
        \<lparr>cr_name = uc_name req, cr_subdomain = uc_subdomain req, cr_project = proj, cr_node = n, cr_owner_id = uid\<rparr> uid) w1
     = (Inr t, w')" and w1: "w_db w1 = w_db w" and s: "s = 202"
    and lim: "int (count_where (owned uid) (tenants (w_db w)))
        < max_tenants (order_desc tn_created_at (filter (owned uid) (tenants (w_db w))))"
    and ll: "fst (least_loaded (pr_ram_mb proj) (w_db w)) = Inr (Some n)"
    and proj: "proj \<in> set (projects (w_db w))"
    by (rule user_h_Create_JSON [OF assms(1,5)])
  have "0 \<le> pr_ram_mb proj" using proj assms(3) by (simp add: projects_ok_def)
  with lifecycle_Create_outcome [OF assms(1), of w1 "\<lparr>cr_name = uc_name req, cr_subdomain = uc_subdomain req,
      cr_project = proj, cr_node = n, cr_owner_id = uid\<rparr>" "lifecycle_of (uh_core uh)" uid] run w1 assms(2,4)
  have t: "tenants (w_db w') = tenants (w_db w) @ [t]" "tn_status t = Provisioning" "tn_node_id t = nd_id n"
      "tn_owner_id t = Some uid"
    by (auto simp: Let_def)
  obtain m where m: "m \<in> set (nodes (w_db w))" "n = scan_node m" "nd_status m = ''active''"
      "pr_ram_mb proj \<le> free_ram m"
      "\<forall>k\<in>set (nodes (w_db w)). nd_status k = ''active'' \<longrightarrow> pr_ram_mb proj \<le> free_ram k \<longrightarrow> free_ram k \<le> free_ram m"
    using least_loaded_Some [OF ll] by metis
  then have "\<forall>k\<in>set (nodes (w_db w)). nd_status k = ''active'' \<longrightarrow> free_ram k \<le> free_ram m"
    by (meson le_cases order_trans)
  moreover have "nd_id m = tn_node_id t" using m(2) t(3) by (simp add: scan_node_def)
  ultimately show ?thesis
    using s t lim m(1,3) max_tenants_le [of "order_desc tn_created_at (filter (owned uid) (tenants (w_db w)))"] by (auto simp: count_where_snoc owned_def)
qed

definition sample_request :: user_create_request where
  "sample_request = \<lparr>uc_name = ''second'', uc_subdomain = ''second''\<rparr>"

lemma sample_create_accepted:
  "case fst (run_state (user_h_Create sample_E sample_uh (Some ''alice'') (Some sample_request)) sample_w) of
     JSON s t \<Rightarrow> s = 202 | Error _ _ \<Rightarrow> False"
  by code_simp

theorem user_create_within_limit_witness:
  "\<exists>t w'. run_state (user_h_Create sample_E sample_uh (Some ''alice'') (Some sample_request)) sample_w = (JSON 202 t, w')
     \<and> tn_owner_id t = Some ''alice'' \<and> tenants (w_db w') = tenants sample_db @ [t]"
proof -
  obtain s t w' where run: "run_state (user_h_Create sample_E sample_uh (Some ''alice'') (Some sample_request)) sample_w = (JSON s t, w')"
    using sample_create_accepted by (auto split: http.splits) (metis prod.collapse)
  with user_create_within_limit [OF _ _ _ _ run] show ?thesis by (auto simp: sample_simps)
qed

section \<open>Suspending and resuming\<close>

lemma suspend_quiet:
  "quietly (provisioner_Suspend E cfg nid l)" "quietly (provisioner_Resume E cfg nid l)"
  unfolding provisioner_Suspend_def provisioner_Resume_def
  by (rule quiet.t_control quiet_rules container_quiet TrueI)+

text \<open>The last two calls of the trace are an operation on a container and the wait for its task, and both were answered without error.\<close>

definition asked_and_ended :: "externals \<Rightarrow> ext_call \<Rightarrow> world \<Rightarrow> bool" where
  "asked_and_ended E c w \<longleftrightarrow> take 2 (w_trace w) = [TaskWait c, c]
     \<and> ext_reply E (drop 1 (w_trace w)) = None \<and> ext_reply E (w_trace w) = None"

lemma getClient_Inr: "run_state (getClient E cfg nid) w = (Inr c, w') \<Longrightarrow> w_clients w' nid = Some c"
  by (auto simp: getClient_def cached_client_def store_client_def split: option.splits sum.splits if_splits prod.splits)

lemma provisioner_calls_Inr:
  assumes "run_state (provisioner_Suspend E cfg nid l) w = (Inr u, w') \<and> op = StopContainer
    \<or> run_state (provisioner_Resume E cfg nid l) w = (Inr u, w') \<and> op = StartContainer"
  shows "\<exists>client. w_clients w' nid = Some client \<and> asked_and_ended E (op client l) w'"
proof -
  obtain r w1 where g: "run_state (getClient E cfg nid) w = (r, w1)" by fastforce
  with assms obtain client where r: "r = Inr client"
    by (cases r) (auto simp: provisioner_Suspend_def provisioner_Resume_def)
  from g assms have "w_clients w' = w_clients w1 \<and> asked_and_ended E (op client l) w'"
    by (auto simp: r provisioner_Suspend_def provisioner_Resume_def stop_and_wait_def ext_def wrap_err_def asked_and_ended_def Let_def
        split: option.splits sum.splits)
  with getClient_Inr [OF g [unfolded r]] show ?thesis by auto
qed

lemma log_if_keeps:
  "run_state (log_if E b a ety eid x) w = (u, w') \<Longrightarrow> w_clients w' = w_clients w \<and> w_trace w' = w_trace w"
  by (auto simp: log_if_def audit_Log_def db_call_def Let_def split: if_splits db_fate.splits prod.splits)

lemma log_if_quiet: "quietly (log_if E b a ety eid x)"
  unfolding log_if_def audit_Log_def
  by (rule quiet.t_control q_write TrueI | simp add: quiet_def)+

lemma quiet_status:
  assumes "quiet d d'" "tenant_row d tid = Some t"
  shows "\<exists>t'. tenant_row d' tid = Some t' \<and> tn_status t' = tn_status t"
  by (rule quiet_row [OF assms]) (simp add: tn_core_def)

text \<open>
C23: Over a database that answers, suspending an active tenant reports success exactly when the tenant ends
  suspended, and then its container, where it has one, has been stopped: the cached client of its node was asked to stop it, that task was
  waited for, and neither failed. Otherwise, that is when the container cannot be stopped, the answer is 500 and the tenant is active again.
\<close>

theorem suspend_outcome:
  assumes E: "reliable E" and row: "tenant_row (w_db w) tid = Some t" "tn_status t = Active"
  shows "let (r, w') = run_state (do_suspend E h tid t x) w in
     \<exists>t'. tenant_row (w_db w') tid = Some t'
        \<and> (case r of
              JSON s u \<Rightarrow> s = 200 \<and> tn_status t' = Suspended \<and> u = Some t'
                \<and> (case tn_lxc_id t of
                      None \<Rightarrow> True
                    | Some l \<Rightarrow> \<exists>client. w_clients w' (tn_node_id t) = Some client \<and> asked_and_ended E (StopContainer client l) w')
            | Error s _ \<Rightarrow> tn_status t' = Active \<and> s = 500)"
proof -
  obtain x1 w1 where 1: "run_state (SetSuspended E tid) w = (x1, w1)" by fastforce
  note tr = transition [OF E row(1) _ _ 1 [unfolded SetSuspended_def]]
  have x1: "x1 = Inr ()" and t1: "tenant_row (w_db w1) tid = Some (t\<lparr>tn_status := Suspended, tn_updated_at := db_now (w_db w)\<rparr>)"
    using tr row(2) by auto
  let ?stop = "case tn_lxc_id t of None \<Rightarrow> State_Monad.return (Inr ())
                 | Some l \<Rightarrow> provisioner_Suspend E (th_prov h) (tn_node_id t) l"
  have q: "quietly ?stop" by (rule quiet.t_control suspend_quiet TrueI)+
  obtain x2 w2 where 2: "run_state ?stop w1 = (x2, w2)" by (meson surj_pair)
  obtain t2 where t2: "tenant_row (w_db w2) tid = Some t2" "tn_status t2 = Suspended"
    using quiet_status [OF quietly_run [OF q 2] t1] by auto
  show ?thesis
  proof (cases x2)
    case (Inl e)
    obtain x3 w3 where 3: "run_state (SetResumed E tid) w2 = (x3, w3)" by fastforce
    note tr = transition [OF E t2(1) _ _ 3 [unfolded SetResumed_def]]
    have "tenant_row (w_db w3) tid = Some (t2\<lparr>tn_status := Active, tn_updated_at := db_now (w_db w2)\<rparr>)"
      using tr t2(2) by auto
    with 1 2 3 x1 Inl row(2) show ?thesis by (simp add: do_suspend_def)
  next
    case (Inr u)
    obtain x3 w3 where 3: "run_state (log_if E (th_audit h) ''suspend'' ''tenant'' tid x) w2 = (x3, w3)"
      by (meson surj_pair)
    obtain t3 where "tenant_row (w_db w3) tid = Some t3" "tn_status t3 = Suspended"
      using quiet_status [OF quietly_run [OF log_if_quiet 3] t2(1)] t2(2) by auto
    moreover have "\<exists>client. w_clients w2 (tn_node_id t) = Some client \<and> asked_and_ended E (StopContainer client l) w2" if "tn_lxc_id t = Some l" for l
      by (rule provisioner_calls_Inr [of E "th_prov h" "tn_node_id t" l w1 u w2]) (use 2 Inr that in simp)
    ultimately show ?thesis using log_if_keeps [OF 3] 1 2 3 x1 Inr row(2)
      by (simp add: do_suspend_def tenant_GetByID_def reliable_call [OF E] query_def asked_and_ended_def split: option.split)
  qed
qed

lemma sample_suspends:
  "case fst (run_state (do_suspend sample_E (uh_core sample_uh) ''t1'' (sample_tenant ''t1'' Active (Some 101) (Some ''alice'')) None) sample_w) of
     JSON s _ \<Rightarrow> s = 200 | Error _ _ \<Rightarrow> False"
  by code_simp

theorem suspend_outcome_witness:
  "\<exists>u w' client. run_state (do_suspend sample_E (uh_core sample_uh) ''t1'' (sample_tenant ''t1'' Active (Some 101) (Some ''alice'')) None) sample_w
      = (JSON 200 (Some u), w') \<and> tn_status u = Suspended \<and> asked_and_ended sample_E (StopContainer client 101) w'"
proof -
  obtain s u w' where run: "run_state (do_suspend sample_E (uh_core sample_uh) ''t1'' (sample_tenant ''t1'' Active (Some 101) (Some ''alice'')) None) sample_w
      = (JSON s u, w')" using sample_suspends by (auto split: http.splits) (metis prod.collapse)
  with suspend_outcome [of sample_E sample_w "''t1''" "sample_tenant ''t1'' Active (Some 101) (Some ''alice'')"
      "uh_core sample_uh" None] show ?thesis by (auto simp: sample_simps)
qed

text \<open>
Over a database that answers, resuming a tenant reports success exactly when the tenant ends active.
  When the container cannot be started, the tenant is suspended again.
\<close>

theorem resume_outcome:
  assumes E: "reliable E" and row: "tenant_row (w_db w) tid = Some t" "tn_status t = Suspended"
  shows "let (r, w') = run_state (do_resume E h tid t x) w in
     \<exists>t'. tenant_row (w_db w') tid = Some t'
        \<and> (case r of
              JSON s u \<Rightarrow> s = 200 \<and> tn_status t' = Active \<and> u = Some t'
                \<and> (case tn_lxc_id t of
                      None \<Rightarrow> True
                    | Some l \<Rightarrow> \<exists>client. w_clients w' (tn_node_id t) = Some client \<and> asked_and_ended E (StartContainer client l) w')
            | Error s _ \<Rightarrow> tn_status t' = Suspended \<and> s = 500)"
proof -
  obtain x1 w1 where 1: "run_state (SetResumed E tid) w = (x1, w1)" by fastforce
  note tr = transition [OF E row(1) _ _ 1 [unfolded SetResumed_def]]
  have x1: "x1 = Inr ()" and t1: "tenant_row (w_db w1) tid = Some (t\<lparr>tn_status := Active, tn_updated_at := db_now (w_db w)\<rparr>)"
    using tr row(2) by auto
  let ?stop = "case tn_lxc_id t of None \<Rightarrow> State_Monad.return (Inr ())
                 | Some l \<Rightarrow> provisioner_Resume E (th_prov h) (tn_node_id t) l"
  have q: "quietly ?stop" by (rule quiet.t_control suspend_quiet TrueI)+
  obtain x2 w2 where 2: "run_state ?stop w1 = (x2, w2)" by (meson surj_pair)
  obtain t2 where t2: "tenant_row (w_db w2) tid = Some t2" "tn_status t2 = Active"
    using quiet_status [OF quietly_run [OF q 2] t1] by auto
  show ?thesis
  proof (cases x2)
    case (Inl e)
    obtain x3 w3 where 3: "run_state (SetSuspended E tid) w2 = (x3, w3)" by fastforce
    note tr = transition [OF E t2(1) _ _ 3 [unfolded SetSuspended_def]]
    have "tenant_row (w_db w3) tid = Some (t2\<lparr>tn_status := Suspended, tn_updated_at := db_now (w_db w2)\<rparr>)"
      using tr t2(2) by auto
    with 1 2 3 x1 Inl row(2) show ?thesis by (simp add: do_resume_def)
  next
    case (Inr u)
    obtain x3 w3 where 3: "run_state (log_if E (th_audit h) ''resume'' ''tenant'' tid x) w2 = (x3, w3)"
      by (meson surj_pair)
    obtain t3 where "tenant_row (w_db w3) tid = Some t3" "tn_status t3 = Active"
      using quiet_status [OF quietly_run [OF log_if_quiet 3] t2(1)] t2(2) by auto
    moreover have "\<exists>client. w_clients w2 (tn_node_id t) = Some client \<and> asked_and_ended E (StartContainer client l) w2" if "tn_lxc_id t = Some l" for l
      by (rule provisioner_calls_Inr [of E "th_prov h" "tn_node_id t" l w1 u w2]) (use 2 Inr that in simp)
    ultimately show ?thesis using log_if_keeps [OF 3] 1 2 3 x1 Inr row(2)
      by (simp add: do_resume_def tenant_GetByID_def reliable_call [OF E] query_def asked_and_ended_def split: option.split)
  qed
qed

theorem resume_outcome_witness:
  "\<exists>t'. tenant_row (w_db (snd (run_state (do_resume sample_E (uh_core sample_uh) ''t3''
       (sample_tenant ''t3'' Suspended (Some 103) None) None) sample_w))) ''t3'' = Some t'
     \<and> (tn_status t' = Suspended \<or> tn_status t' = Active)"
proof -
  obtain r w' where run: "run_state (do_resume sample_E (uh_core sample_uh) ''t3'' (sample_tenant ''t3'' Suspended (Some 103) None) None) sample_w
      = (r, w')" by (meson surj_pair)
  with resume_outcome [of sample_E sample_w "''t3''" "sample_tenant ''t3'' Suspended (Some 103) None"
      "uh_core sample_uh" None] show ?thesis by (cases r) (auto simp: sample_simps)
qed

end
