(* ===== verification/CP_Wireguard.thy ===== *)
theory CP_Wireguard
  imports CP_Auth_Store CP_Tenant_Handlers
begin

text \<open>
  The peers of the WireGuard mesh (\<open>src/internal/wireguard\<close>): the validation of what a request may set, the table of peers, the
  service that makes keys and configurations and drives the \<open>wg\<close> command, and the API handlers. The command, the key generator and the
  QR encoder are outside the sources. Error texts quote with \<open>%q\<close>, given here for ASCII texts.
\<close>

section \<open>Validation\<close>

definition quote_char :: "char \<Rightarrow> string" where
  "quote_char c =
     (if c = CHR ''\"'' \<or> c = CHR 0x5C then [CHR 0x5C, c]
      else if c = CHR 0x0A then [CHR 0x5C, CHR ''n''] else if c = CHR 0x09 then [CHR 0x5C, CHR ''t'']
      else if c = CHR 0x0D then [CHR 0x5C, CHR ''r'']
      else if code c < 32 \<or> 126 < code c
      then [CHR 0x5C, CHR ''x'', hex_digit (code c div 16), hex_digit (code c mod 16)] else [c])"

definition go_quote :: "string \<Rightarrow> string" where
  "go_quote s = [CHR 0x22] @ concat (map quote_char s) @ [CHR 0x22]"

definition allowedSupernet :: prefix where
  "allowedSupernet = \<lparr>p_addr = Addr4 (addr_from4 [10, 10, 0, 0]), p_bits = 16\<rparr>"

text \<open>\<open>Prefix.Contains\<close> for an IPv4 prefix: an IPv6 address is never inside.\<close>

definition prefix_contains :: "prefix \<Rightarrow> addr \<Rightarrow> bool" where
  "prefix_contains p ip =
     (case (p_addr p, ip) of (Addr4 a, Addr4 b) \<Rightarrow> masked a (p_bits p) = masked b (p_bits p) | _ \<Rightarrow> False)"

definition check_allowed :: "(string \<Rightarrow> bool) \<Rightarrow> string \<Rightarrow> go_error option" where
  "check_allowed v6 cidr =
     (case ParsePrefix v6 cidr of
        None \<Rightarrow> Some (Wrap (''invalid CIDR '' @ go_quote cidr) (GoErr ''netip.ParsePrefix''))
      | Some prefix \<Rightarrow>
          if p_bits prefix = 0
          then Some (GoErr (''0.0.0.0/0 is not allowed '' @ [CHR 0xE2, CHR 0x80, CHR 0x94] @ '' route-all traffic is prohibited''))
          else if \<not> prefix_contains allowedSupernet (p_addr prefix)
          then Some (GoErr (''CIDR '' @ go_quote cidr @ '' is outside allowed range 10.10.0.0/16''))
          else if p_bits prefix < p_bits allowedSupernet
          then Some (GoErr (''CIDR '' @ go_quote cidr @ '' is wider than allowed range 10.10.0.0/16''))
          else None)"

fun first_error :: "(string \<Rightarrow> go_error option) \<Rightarrow> string list \<Rightarrow> go_error option" where
  "first_error f [] = None"
| "first_error f (p # ps) = (case f p of Some e \<Rightarrow> Some e | None \<Rightarrow> first_error f ps)"

text \<open>\<open>strings.Split\<close> never gives an empty list, so the source's test for one is dead code.\<close>

definition ValidateAllowedIPs :: "(string \<Rightarrow> bool) \<Rightarrow> string \<Rightarrow> go_error option" where
  "ValidateAllowedIPs v6 allowedIPs =
     first_error (\<lambda>part. let cidr = trim_space part in if cidr = [] then None else check_allowed v6 cidr)
       (split_on CHR '','' allowedIPs)"

text \<open>\<open>base64.StdEncoding.DecodeString\<close>: line breaks are skipped, the last quantum may be padded.\<close>

definition std64_val :: "char \<Rightarrow> nat option" where
  "std64_val c =
     (if is_upper c then Some (code c - 65) else if is_lower c then Some (code c - 71)
      else if is_digit c then Some (code c + 4) else if c = CHR ''+'' then Some 62
      else if c = CHR ''/'' then Some 63 else None)"

fun std64_quads :: "string \<Rightarrow> string option" where
  "std64_quads [] = Some []"
| "std64_quads (a # b # c # d # s) =
     (if s = [] \<and> d = CHR ''='' then
        (if c = CHR ''='' then
           (case (std64_val a, std64_val b) of (Some x, Some y) \<Rightarrow> Some [char_of (x * 4 + y div 16)] | _ \<Rightarrow> None)
         else
           (case (std64_val a, std64_val b, std64_val c) of
              (Some x, Some y, Some z) \<Rightarrow> Some [char_of (x * 4 + y div 16), char_of (y mod 16 * 16 + z div 4)] | _ \<Rightarrow> None))
      else
        (case (std64_val a, std64_val b, std64_val c, std64_val d, std64_quads s) of
           (Some x, Some y, Some z, Some u, Some r) \<Rightarrow>
             Some (char_of (x * 4 + y div 16) # char_of (y mod 16 * 16 + z div 4) # char_of (z mod 4 * 64 + u) # r)
         | _ \<Rightarrow> None))"
| "std64_quads _ = None"

definition std64_decode :: "string \<Rightarrow> string option" where
  "std64_decode s = std64_quads (filter (\<lambda>c. c \<noteq> CHR 0x0A \<and> c \<noteq> CHR 0x0D) s)"

definition std64_char :: "nat \<Rightarrow> char" where
  "std64_char n =
     (if n < 26 then char_of (n + 65) else if n < 52 then char_of (n + 71) else if n < 62 then char_of (n - 4)
      else if n = 62 then CHR ''+'' else CHR ''/'')"

fun std64_encode :: "string \<Rightarrow> string" where
  "std64_encode [] = []"
| "std64_encode [a] = [std64_char (code a div 4), std64_char (code a mod 4 * 16), CHR ''='', CHR ''='']"
| "std64_encode [a, b] =
     [std64_char (code a div 4), std64_char (code a mod 4 * 16 + code b div 16), std64_char (code b mod 16 * 4), CHR ''='']"
| "std64_encode (a # b # c # s) =
     std64_char (code a div 4) # std64_char (code a mod 4 * 16 + code b div 16)
     # std64_char (code b mod 16 * 4 + code c div 64) # std64_char (code c mod 64) # std64_encode s"

definition ValidatePublicKey :: "string \<Rightarrow> go_error option" where
  "ValidatePublicKey key =
     (case std64_decode key of
        None \<Rightarrow> Some (Wrap ''invalid base64'' (GoErr ''base64''))
      | Some b \<Rightarrow> if length b \<noteq> 32 then Some (GoErr (''key must be 32 bytes, got '' @ string_of_nat (length b))) else None)"

text \<open>\<open>net.SplitHostPort\<close>: the port follows the last colon; a host with colons is in brackets.\<close>

definition SplitHostPort :: "string \<Rightarrow> (string \<times> string) option" where
  "SplitHostPort s =
     (case split_last CHR '':'' s of
        None \<Rightarrow> None
      | Some (before, port) \<Rightarrow>
          if hd s = CHR ''['' then
            (let host = takeWhile (\<lambda>c. c \<noteq> CHR '']'') (tl s); rest = dropWhile (\<lambda>c. c \<noteq> CHR '']'') (tl s)
             in if rest = [] \<or> tl rest \<noteq> CHR '':'' # port then None
                else if CHR ''['' \<in> set (tl s) \<or> CHR '']'' \<in> set (tl rest) then None
                else Some (host, port))
          else if CHR '':'' \<in> set before \<or> CHR ''['' \<in> set s \<or> CHR '']'' \<in> set s then None
          else Some (before, port))"

definition ValidateEndpoint :: "string \<Rightarrow> go_error option" where
  "ValidateEndpoint endpoint =
     (case SplitHostPort endpoint of
        None \<Rightarrow> Some (GoErr ''must be host:port format'')
      | Some (host, portStr) \<Rightarrow>
          if host = [] then Some (GoErr ''must be host:port format'')
          else (case atoi portStr of
              None \<Rightarrow> Some (GoErr ''port must be 1-65535'')
            | Some port \<Rightarrow> if port < 1 \<or> 65535 < port then Some (GoErr ''port must be 1-65535'') else None))"

section \<open>The table of peers\<close>

definition ValidPeerTypes :: "string list" where
  "ValidPeerTypes = [''admin'', ''node'', ''user'']"

definition peer_List :: "externals \<Rightarrow> peer list res cp" where
  "peer_List E = do {
     r \<leftarrow> db_call E (query (\<lambda>d. order_desc pe_created_at (peers d)));
     State_Monad.return (wrap_err ''query wireguard_peers'' r) }"

definition peer_ListByType :: "externals \<Rightarrow> string \<Rightarrow> peer list res cp" where
  "peer_ListByType E peerType = do {
     r \<leftarrow> db_call E (query (\<lambda>d. order_desc pe_created_at (filter (\<lambda>p. pe_type p = peerType) (peers d))));
     State_Monad.return (wrap_err ''query wireguard_peers by type'' r) }"

definition peer_ListEnabled :: "externals \<Rightarrow> peer list res cp" where
  "peer_ListEnabled E = do {
     r \<leftarrow> db_call E (query (\<lambda>d. order_desc pe_created_at (filter pe_enabled (peers d))));
     State_Monad.return (wrap_err ''query enabled peers'' r) }"

definition peer_row :: "db \<Rightarrow> string \<Rightarrow> peer option" where
  "peer_row d pid = select_one (\<lambda>p. pe_id p = pid) (peers d)"

definition peer_GetByID :: "externals \<Rightarrow> string \<Rightarrow> peer option res cp" where
  "peer_GetByID E pid = do {
     r \<leftarrow> db_call E (query (\<lambda>d. peer_row d pid));
     State_Monad.return (wrap_err ''query peer'' r) }"

definition peer_GetByTenantID :: "externals \<Rightarrow> string \<Rightarrow> peer option res cp" where
  "peer_GetByTenantID E tenantID = do {
     r \<leftarrow> choose_row E (\<lambda>n. query (\<lambda>d. select_any n (\<lambda>p. pe_tenant_id p = Some tenantID) (peers d)));
     State_Monad.return (wrap_err ''query peer by tenant'' r) }"

text \<open>\<open>Create\<close> takes every column but the id and the times from its argument.\<close>

definition insert_peer :: "externals \<Rightarrow> peer \<Rightarrow> peer stmt" where
  "insert_peer E p d =
     (if (case pe_tenant_id p of None \<Rightarrow> False | Some t \<Rightarrow> \<not> uuid_parses E t) then (Inl (PgError ''22P02''), d)
      else
        let pid = gen_uuid E (uuid_ctr d); d1 = d\<lparr>uuid_ctr := Suc (uuid_ctr d)\<rparr>;
            p' = p\<lparr>pe_id := pid, pe_created_at := db_now d, pe_updated_at := db_now d\<rparr>
        in if pe_type p \<notin> set ValidPeerTypes then (Inl check_violation, d1)
           else if \<exists>q\<in>set (peers d). pe_id q = pid \<or> pe_public_key q = pe_public_key p \<or> pe_wg_ip q = pe_wg_ip p
           then (Inl unique_violation, d1)
           else if (case pe_tenant_id p of None \<Rightarrow> False | Some t \<Rightarrow> \<forall>r\<in>set (tenants d). tn_id r \<noteq> t)
           then (Inl foreign_key_violation, d1)
           else (Inr p', d1\<lparr>peers := peers d @ [p']\<rparr>))"

definition peer_Create :: "externals \<Rightarrow> peer \<Rightarrow> peer res cp" where
  "peer_Create E p = do {
     r \<leftarrow> db_call E (insert_peer E p);
     State_Monad.return (wrap_err ''insert peer'' r) }"

definition peer_ErrNoUpdate :: go_error where
  "peer_ErrNoUpdate = Sentinel ''no fields to update''"

record UpdatePeerRequest =
  uq_name :: "string option"
  uq_endpoint :: "string option"
  uq_enabled :: "bool option"

definition apply_peer_update :: "UpdatePeerRequest \<Rightarrow> peer \<Rightarrow> peer" where
  "apply_peer_update req p =
     p\<lparr>pe_name := case_option (pe_name p) id (uq_name req),
       pe_endpoint := case_option (pe_endpoint p) Some (uq_endpoint req),
       pe_enabled := case_option (pe_enabled p) id (uq_enabled req)\<rparr>"

definition update_peers :: "(peer \<Rightarrow> bool) \<Rightarrow> (peer \<Rightarrow> peer) \<Rightarrow> db \<Rightarrow> db" where
  "update_peers P f d = d\<lparr>peers := update_where P (\<lambda>p. (f p)\<lparr>pe_updated_at := db_now d\<rparr>) (peers d)\<rparr>"

definition update_peer_stmt :: "string \<Rightarrow> UpdatePeerRequest \<Rightarrow> peer stmt" where
  "update_peer_stmt pid req d =
     (case peer_row d pid of
        None \<Rightarrow> (Inl ErrNoRows, d)
      | Some p \<Rightarrow> (Inr ((apply_peer_update req p)\<lparr>pe_updated_at := db_now d\<rparr>),
                   update_peers (\<lambda>p. pe_id p = pid) (apply_peer_update req) d))"

definition peer_Update :: "externals \<Rightarrow> string \<Rightarrow> UpdatePeerRequest \<Rightarrow> peer option res cp" where
  "peer_Update E pid req =
     (if uq_name req = None \<and> uq_endpoint req = None \<and> uq_enabled req = None
      then State_Monad.return (Inl peer_ErrNoUpdate)
      else do {
        r \<leftarrow> db_call E (update_peer_stmt pid req);
        State_Monad.return (case r of
            Inl e \<Rightarrow> if e = ErrNoRows then Inr None else Inl (Wrap ''update peer'' e)
          | Inr p \<Rightarrow> Inr (Some p)) })"

definition delete_peer :: "string \<Rightarrow> nat stmt" where
  "delete_peer pid d =
     (Inr (count_where (\<lambda>p. pe_id p = pid) (peers d)), d\<lparr>peers := filter (\<lambda>p. pe_id p \<noteq> pid) (peers d)\<rparr>)"

definition peer_Delete :: "externals \<Rightarrow> string \<Rightarrow> unit res cp" where
  "peer_Delete E pid = exec_rows E ''delete peer'' ErrNoRows (delete_peer pid)"

definition set_enabled_stmt :: "string \<Rightarrow> bool \<Rightarrow> nat stmt" where
  "set_enabled_stmt pid enabled d =
     (Inr (count_where (\<lambda>p. pe_id p = pid) (peers d)), update_peers (\<lambda>p. pe_id p = pid) (\<lambda>p. p\<lparr>pe_enabled := enabled\<rparr>) d)"

definition SetEnabled :: "externals \<Rightarrow> string \<Rightarrow> bool \<Rightarrow> unit res cp" where
  "SetEnabled E pid enabled = exec_rows E ''set peer enabled'' ErrNoRows (set_enabled_stmt pid enabled)"

definition list_peer_ips :: "externals \<Rightarrow> string list res cp" where
  "list_peer_ips E = do {
     r \<leftarrow> db_call E (query (\<lambda>d. map pe_wg_ip (peers d)));
     State_Monad.return (wrap_err ''query existing IPs'' r) }"

definition peer_GetNextAvailableIP :: "externals \<Rightarrow> string \<Rightarrow> string res cp" where
  "peer_GetNextAvailableIP E subnet = Allocate E subnet (list_peer_ips E)"

section \<open>The service\<close>

record wg_service =
  sv_encryption_key :: string
  sv_hub_public_key :: string
  sv_hub_endpoint :: string
  sv_network_cidr :: string
  sv_iface :: string
  sv_dns_addr :: string
  sv_keepalive :: int

definition defaultAddrBits :: nat where
  "defaultAddrBits = 24"

definition wg_NewService :: "string \<Rightarrow> string \<Rightarrow> string \<Rightarrow> string \<Rightarrow> wg_service" where
  "wg_NewService encryptionKey hubPublicKey hubEndpoint networkCIDR =
     \<lparr>sv_encryption_key = encryptionKey, sv_hub_public_key = hubPublicKey, sv_hub_endpoint = hubEndpoint,
      sv_network_cidr = (if networkCIDR = [] then ''10.10.0.0/24'' else networkCIDR),
      sv_iface = ''wg0'', sv_dns_addr = ''10.10.0.1'', sv_keepalive = 25\<rparr>"

definition WithInterface :: "string \<Rightarrow> wg_service \<Rightarrow> wg_service" where
  "WithInterface name s = (if name \<noteq> [] then s\<lparr>sv_iface := name\<rparr> else s)"

definition WithDNSAddr :: "string \<Rightarrow> wg_service \<Rightarrow> wg_service" where
  "WithDNSAddr addr s = (if addr \<noteq> [] then s\<lparr>sv_dns_addr := addr\<rparr> else s)"

definition WithKeepalive :: "int \<Rightarrow> wg_service \<Rightarrow> wg_service" where
  "WithKeepalive secs s = (if 0 < secs then s\<lparr>sv_keepalive := secs\<rparr> else s)"

definition GenerateKeypair :: "externals \<Rightarrow> (string \<times> string) res cp" where
  "GenerateKeypair E = do {
     r \<leftarrow> ext_val E (ext_text E) WgPrivateKey;
     State_Monad.return (case r of Inl e \<Rightarrow> Inl (Wrap ''generate private key'' e) | Inr k \<Rightarrow> Inr (k, wg_public E k)) }"

definition GeneratePresharedKey :: "externals \<Rightarrow> string res cp" where
  "GeneratePresharedKey E = do {
     r \<leftarrow> ext_val E (ext_text E) WgPresharedKey;
     State_Monad.return (wrap_err ''generate preshared key'' r) }"

definition EncryptPSK :: "externals \<Rightarrow> wg_service \<Rightarrow> string \<Rightarrow> string res cp" where
  "EncryptPSK E s psk = Encrypt E psk (sv_encryption_key s)"

definition DecryptPSK :: "externals \<Rightarrow> wg_service \<Rightarrow> string \<Rightarrow> string res" where
  "DecryptPSK E s encrypted = Decrypt E encrypted (sv_encryption_key s)"

record CreatePeerRequest =
  pq_name :: string
  pq_type :: string
  pq_endpoint :: string
  pq_tenant_id :: string
  pq_allowed_ips :: string

definition new_peer :: "CreatePeerRequest \<Rightarrow> string \<Rightarrow> string \<Rightarrow> string \<Rightarrow> peer" where
  "new_peer req publicKey encryptedPSK wgIP =
     \<lparr>pe_id = [], pe_name = pq_name req, pe_public_key = publicKey, pe_psk_encrypted = Some encryptedPSK, pe_wg_ip = wgIP,
      pe_allowed_ips = (if pq_allowed_ips req = [] then wgIP @ ''/32'' else pq_allowed_ips req),
      pe_endpoint = (if pq_endpoint req = [] then None else Some (pq_endpoint req)), pe_type = pq_type req,
      pe_tenant_id = (if pq_tenant_id req = [] then None else Some (pq_tenant_id req)), pe_enabled = True,
      pe_created_at = 0, pe_updated_at = 0\<rparr>"

definition service_CreatePeer :: "externals \<Rightarrow> wg_service \<Rightarrow> CreatePeerRequest \<Rightarrow> (peer \<times> string) res cp" where
  "service_CreatePeer E s req = do {
     rk \<leftarrow> GenerateKeypair E;
     case rk of Inl e \<Rightarrow> State_Monad.return (Inl (Wrap ''generate keypair'' e)) | Inr (privateKey, publicKey) \<Rightarrow> do {
     rp \<leftarrow> GeneratePresharedKey E;
     case rp of Inl e \<Rightarrow> State_Monad.return (Inl (Wrap ''generate psk'' e)) | Inr psk \<Rightarrow> do {
     re \<leftarrow> EncryptPSK E s psk;
     case re of Inl e \<Rightarrow> State_Monad.return (Inl (Wrap ''encrypt psk'' e)) | Inr encryptedPSK \<Rightarrow> do {
     ri \<leftarrow> peer_GetNextAvailableIP E (sv_network_cidr s);
     case ri of Inl e \<Rightarrow> State_Monad.return (Inl (Wrap ''allocate IP'' e)) | Inr wgIP \<Rightarrow> do {
     rc \<leftarrow> peer_Create E (new_peer req publicKey encryptedPSK wgIP);
     State_Monad.return (case rc of
         Inl e \<Rightarrow> Inl (Wrap ''create peer in DB'' e)
       | Inr created \<Rightarrow> Inr (created, privateKey)) }}}}}"

text \<open>The network as the configuration file shows it: the DNS address, the allowed network and the mask. What \<open>netip\<close> prints for an
  IPv6 network is the parameter \<open>text6\<close>.\<close>

definition peer_network :: "externals \<Rightarrow> (prefix \<Rightarrow> string \<times> string) \<Rightarrow> wg_service \<Rightarrow> string \<times> string \<times> nat" where
  "peer_network E text6 s =
     (case ParsePrefix (valid6 E) (sv_network_cidr s) of
        None \<Rightarrow> (sv_dns_addr s, sv_network_cidr s, defaultAddrBits)
      | Some p \<Rightarrow>
          (case p_addr p of
             Addr4 a \<Rightarrow> ((case addr_next a of Some n \<Rightarrow> addr_string n | None \<Rightarrow> ''invalid IP''),
                         prefix_string a (p_bits p), p_bits p)
           | Addr6 _ \<Rightarrow> (fst (text6 p), snd (text6 p), p_bits p)))"

definition psk_line :: "externals \<Rightarrow> wg_service \<Rightarrow> peer \<Rightarrow> string" where
  "psk_line E s p =
     (case pe_psk_encrypted p of
        None \<Rightarrow> []
      | Some enc \<Rightarrow>
          if enc = [] then []
          else (case DecryptPSK E s enc of Inl _ \<Rightarrow> [] | Inr psk \<Rightarrow> ''PresharedKey = '' @ psk @ [CHR 0x0A]))"

definition BuildPeerConfig :: "externals \<Rightarrow> (prefix \<Rightarrow> string \<times> string) \<Rightarrow> wg_service \<Rightarrow> peer \<Rightarrow> string \<Rightarrow> string" where
  "BuildPeerConfig E text6 s p privateKey =
     (let (dnsAddr, peerAllowedIPs, addrBits) = peer_network E text6 s; nl = [CHR 0x0A]
      in ''[Interface]'' @ nl
         @ ''Address = '' @ pe_wg_ip p @ ''/'' @ string_of_nat addrBits @ nl
         @ ''PrivateKey = '' @ privateKey @ nl
         @ ''DNS = '' @ dnsAddr @ nl @ nl
         @ ''[Peer]'' @ nl
         @ ''PublicKey = '' @ sv_hub_public_key s @ nl
         @ psk_line E s p
         @ ''AllowedIPs = '' @ peerAllowedIPs @ nl
         @ ''Endpoint = '' @ sv_hub_endpoint s @ nl
         @ ''PersistentKeepalive = '' @ string_of_int (sv_keepalive s) @ nl)"

definition wg :: "externals \<Rightarrow> string \<Rightarrow> string list \<Rightarrow> string \<Rightarrow> unit res cp" where
  "wg E msg args stdin = do {
     r \<leftarrow> ext E (WgCommand args stdin);
     State_Monad.return (wrap_err msg r) }"

definition ApplyPeer :: "externals \<Rightarrow> wg_service \<Rightarrow> peer \<Rightarrow> unit res cp" where
  "ApplyPeer E s p =
     (let args = [''set'', sv_iface s, ''peer'', pe_public_key p, ''allowed-ips'', pe_allowed_ips p]
                 @ (case pe_endpoint p of Some e \<Rightarrow> if e \<noteq> [] then [''endpoint'', e] else [] | None \<Rightarrow> [])
      in case pe_psk_encrypted p of
           None \<Rightarrow> wg E ''wg set peer'' args []
         | Some enc \<Rightarrow>
             if enc = [] then wg E ''wg set peer'' args []
             else (case DecryptPSK E s enc of
                 Inl e \<Rightarrow> State_Monad.return (Inl (Wrap ''decrypt psk for apply'' e))
               | Inr psk \<Rightarrow> wg E ''wg set peer'' (args @ [''preshared-key'', ''/dev/stdin'']) psk))"

definition RemovePeer :: "externals \<Rightarrow> wg_service \<Rightarrow> string \<Rightarrow> unit res cp" where
  "RemovePeer E s publicKey = wg E ''wg remove peer'' [''set'', sv_iface s, ''peer'', publicKey, ''remove''] []"

definition parse_keys :: "string \<Rightarrow> string list" where
  "parse_keys output =
     filter (\<lambda>l. l \<noteq> [] \<and> std64_decode l \<noteq> None) (map trim_space (split_on CHR 0x0A (trim_space output)))"

definition getWGPeers :: "externals \<Rightarrow> wg_service \<Rightarrow> string list res cp" where
  "getWGPeers E s = do {
     r \<leftarrow> ext_val E (ext_text E) (WgCommand [''show'', sv_iface s, ''peers''] []);
     State_Monad.return (case r of Inl e \<Rightarrow> Inl (Wrap ''wg show peers'' e) | Inr out \<Rightarrow> Inr (parse_keys out)) }"

fun apply_enabled :: "externals \<Rightarrow> wg_service \<Rightarrow> peer list \<Rightarrow> unit cp" where
  "apply_enabled E s [] = State_Monad.return ()"
| "apply_enabled E s (p # ps) = do {
     _ \<leftarrow> (if pe_enabled p then ApplyPeer E s p else State_Monad.return (Inr ()));
     apply_enabled E s ps }"

fun remove_stale :: "externals \<Rightarrow> wg_service \<Rightarrow> string set \<Rightarrow> string list \<Rightarrow> unit cp" where
  "remove_stale E s enabledKeys [] = State_Monad.return ()"
| "remove_stale E s enabledKeys (k # ks) = do {
     _ \<leftarrow> (if k \<notin> enabledKeys then RemovePeer E s k else State_Monad.return (Inr ()));
     remove_stale E s enabledKeys ks }"

definition SyncPeers :: "externals \<Rightarrow> wg_service \<Rightarrow> unit res cp" where
  "SyncPeers E s = do {
     rl \<leftarrow> peer_List E;
     case rl of Inl e \<Rightarrow> State_Monad.return (Inl (Wrap ''list peers for sync'' e)) | Inr ps \<Rightarrow> do {
     rc \<leftarrow> getWGPeers E s;
     case rc of Inl _ \<Rightarrow> State_Monad.return (Inr ()) | Inr currentPeers \<Rightarrow> do {
     _ \<leftarrow> apply_enabled E s ps;
     _ \<leftarrow> remove_stale E s (set (map pe_public_key (filter pe_enabled ps))) currentPeers;
     State_Monad.return (Inr ()) }}}"

end
