(* ===== verification/CP_Wg_Handlers.thy ===== *)
theory CP_Wg_Handlers
  imports CP_Wireguard
begin

text \<open>
  The API handlers of the WireGuard peers (\<open>src/internal/wireguard/handler.go\<close>): validation of a request, the call of the service, the
  audit entry and the answer. The properties of the module are in \<open>CP_Wg_Props\<close>.
\<close>

record wg_handler =
  wh_service :: wg_service
  wh_audit :: bool
  wh_text6 :: "prefix \<Rightarrow> string \<times> string"
  wh_qr :: "string \<Rightarrow> string res"

record peer_created =
  pc_peer :: peer
  pc_private_key :: string
  pc_config :: string

definition ListPeers :: "externals \<Rightarrow> string \<Rightarrow> peer list http cp" where
  "ListPeers E filterType = do {
     r \<leftarrow> (if filterType \<noteq> [] \<and> filterType \<in> set ValidPeerTypes then peer_ListByType E filterType else peer_List E);
     State_Monad.return (case r of Inl _ \<Rightarrow> Error 500 ''failed to list peers'' | Inr ps \<Rightarrow> JSON 200 ps) }"

definition with_peer :: "externals \<Rightarrow> string \<Rightarrow> (peer \<Rightarrow> 'a http cp) \<Rightarrow> 'a http cp" where
  "with_peer E pid k =
     (if \<not> ValidUUID E pid then State_Monad.return (Error 400 ''invalid peer ID format'')
      else do {
        r \<leftarrow> peer_GetByID E pid;
        case r of
          Inl _ \<Rightarrow> State_Monad.return (Error 500 ''failed to get peer'')
        | Inr None \<Rightarrow> State_Monad.return (Error 404 ''peer not found'')
        | Inr (Some p) \<Rightarrow> k p })"

definition GetPeer :: "externals \<Rightarrow> string \<Rightarrow> peer http cp" where
  "GetPeer E pid = with_peer E pid (\<lambda>p. State_Monad.return (JSON 200 p))"

definition handler_CreatePeer :: "externals \<Rightarrow> wg_handler \<Rightarrow> CreatePeerRequest option \<Rightarrow> peer_created http cp" where
  "handler_CreatePeer E h body =
     (case body of
        None \<Rightarrow> State_Monad.return (Error 400 ''invalid request body'')
      | Some req \<Rightarrow>
          if pq_name req = [] \<or> pq_type req = [] then State_Monad.return (Error 400 ''name and type are required'')
          else if pq_type req \<notin> set ValidPeerTypes
          then State_Monad.return (Error 400 ''invalid type: must be admin, node, or user'')
          else (case (if pq_allowed_ips req = [] then None else ValidateAllowedIPs (valid6 E) (pq_allowed_ips req)) of
              Some e \<Rightarrow> State_Monad.return (Error 400 (''invalid allowed_ips: '' @ error_text e))
            | None \<Rightarrow>
                (case (if pq_endpoint req = [] then None else ValidateEndpoint (pq_endpoint req)) of
                   Some e \<Rightarrow> State_Monad.return (Error 400 (''invalid endpoint: '' @ error_text e))
                 | None \<Rightarrow> do {
                     r \<leftarrow> service_CreatePeer E (wh_service h) req;
                     case r of
                       Inl e \<Rightarrow> State_Monad.return
                         (if pg_code e = Some ''23505'' then Error 409 ''peer with this public key or IP already exists''
                          else Error 500 ''failed to create peer'')
                     | Inr (p, privateKey) \<Rightarrow> do {
                         _ \<leftarrow> log_if E (wh_audit h) ''create'' ''wireguard_peer'' (pe_id p)
                                (Some [(''name'', pq_name req), (''type'', pq_type req)]);
                         State_Monad.return (JSON 201 \<lparr>pc_peer = p, pc_private_key = privateKey,
                           pc_config = BuildPeerConfig E (wh_text6 h) (wh_service h) p privateKey\<rparr>) } })))"

definition UpdatePeer :: "externals \<Rightarrow> wg_handler \<Rightarrow> string \<Rightarrow> UpdatePeerRequest option \<Rightarrow> peer http cp" where
  "UpdatePeer E h pid body =
     (if \<not> ValidUUID E pid then State_Monad.return (Error 400 ''invalid peer ID format'')
      else case body of
        None \<Rightarrow> State_Monad.return (Error 400 ''invalid request body'')
      | Some req \<Rightarrow> do {
          r \<leftarrow> peer_Update E pid req;
          case r of
            Inl e \<Rightarrow> State_Monad.return
              (if errors_is e peer_ErrNoUpdate then Error 400 ''no fields to update'' else Error 500 ''failed to update peer'')
          | Inr None \<Rightarrow> State_Monad.return (Error 404 ''peer not found'')
          | Inr (Some p) \<Rightarrow> do {
              _ \<leftarrow> log_if E (wh_audit h) ''update'' ''wireguard_peer'' pid None;
              State_Monad.return (JSON 200 p) } })"

definition DeletePeer :: "externals \<Rightarrow> wg_handler \<Rightarrow> string \<Rightarrow> string http cp" where
  "DeletePeer E h pid = with_peer E pid (\<lambda>p. do {
     _ \<leftarrow> RemovePeer E (wh_service h) (pe_public_key p);
     r \<leftarrow> peer_Delete E pid;
     case r of
       Inl e \<Rightarrow> State_Monad.return
         (if errors_is e ErrNoRows then Error 404 ''peer not found'' else Error 500 ''failed to delete peer'')
     | Inr _ \<Rightarrow> do {
         _ \<leftarrow> log_if E (wh_audit h) ''delete'' ''wireguard_peer'' pid (Some [(''name'', pe_name p)]);
         State_Monad.return (JSON 200 ''deleted'') } })"

definition EnablePeer :: "externals \<Rightarrow> wg_handler \<Rightarrow> string \<Rightarrow> string http cp" where
  "EnablePeer E h pid =
     (if \<not> ValidUUID E pid then State_Monad.return (Error 400 ''invalid peer ID format'')
      else do {
        r \<leftarrow> SetEnabled E pid True;
        case r of
          Inl e \<Rightarrow> State_Monad.return
            (if errors_is e ErrNoRows then Error 404 ''peer not found'' else Error 500 ''failed to enable peer'')
        | Inr _ \<Rightarrow> do {
            rp \<leftarrow> peer_GetByID E pid;
            _ \<leftarrow> (case rp of
                    Inr (Some p) \<Rightarrow> ApplyPeer E (wh_service h) p
                  | _ \<Rightarrow> State_Monad.return (Inr ()));
            _ \<leftarrow> log_if E (wh_audit h) ''enable'' ''wireguard_peer'' pid None;
            State_Monad.return (JSON 200 ''enabled'') } })"

definition DisablePeer :: "externals \<Rightarrow> wg_handler \<Rightarrow> string \<Rightarrow> string http cp" where
  "DisablePeer E h pid = with_peer E pid (\<lambda>p. do {
     r \<leftarrow> SetEnabled E pid False;
     case r of
       Inl e \<Rightarrow> State_Monad.return
         (if errors_is e ErrNoRows then Error 404 ''peer not found'' else Error 500 ''failed to disable peer'')
     | Inr _ \<Rightarrow> do {
         _ \<leftarrow> RemovePeer E (wh_service h) (pe_public_key p);
         _ \<leftarrow> log_if E (wh_audit h) ''disable'' ''wireguard_peer'' pid None;
         State_Monad.return (JSON 200 ''disabled'') } })"

definition GetPeerConfig :: "externals \<Rightarrow> wg_handler \<Rightarrow> string \<Rightarrow> string http cp" where
  "GetPeerConfig E h pid = with_peer E pid (\<lambda>p. State_Monad.return
     (JSON 200 (BuildPeerConfig E (wh_text6 h) (wh_service h) p ''<PRIVATE_KEY>'')))"

definition GetPeerQR :: "externals \<Rightarrow> wg_handler \<Rightarrow> string \<Rightarrow> string http cp" where
  "GetPeerQR E h pid = with_peer E pid (\<lambda>p. State_Monad.return
     (case wh_qr h (BuildPeerConfig E (wh_text6 h) (wh_service h) p ''<PRIVATE_KEY>'') of
        Inl _ \<Rightarrow> Error 500 ''failed to generate QR code''
      | Inr png \<Rightarrow> JSON 200 (std64_encode png)))"

section \<open>Only steps of the system\<close>

lemma peer_stmts:
  "auth_stmt (insert_peer E p)" "auth_stmt (update_peer_stmt pid req)" "auth_stmt (delete_peer pid)" "auth_stmt (set_enabled_stmt pid b)"
  by (auto simp: auth_stmt_def insert_peer_def update_peer_stmt_def delete_peer_def set_enabled_stmt_def update_peers_def Let_def
      split: option.split intro!: sessions_kept_frame)

lemma cp_exec_other: "auth_stmt s \<Longrightarrow> cp_triple E (exec_rows E m e s) (\<lambda>_. True)"
  by (rule cp_exec_rows) (auto simp: auth_stmt_def intro: S_other)

lemma peer_store_steps [io_rules]:
  "cp_triple E (peer_List E) (\<lambda>_. True)" "cp_triple E (peer_ListByType E ty) (\<lambda>_. True)"
  "cp_triple E (peer_ListEnabled E) (\<lambda>_. True)" "cp_triple E (peer_GetByID E pid) (\<lambda>_. True)"
  "cp_triple E (peer_GetByTenantID E tid) (\<lambda>_. True)" "cp_triple E (peer_Create E p) (\<lambda>_. True)"
  "cp_triple E (peer_Update E pid req) (\<lambda>_. True)" "cp_triple E (peer_Delete E pid) (\<lambda>_. True)"
  "cp_triple E (SetEnabled E pid b) (\<lambda>_. True)" "cp_triple E (list_peer_ips E) (\<lambda>_. True)"
  unfolding peer_List_def peer_ListByType_def peer_ListEnabled_def peer_GetByID_def peer_GetByTenantID_def peer_Create_def
    peer_Update_def peer_Delete_def SetEnabled_def list_peer_ips_def
  by (rule cp_rules choose_row_triple cp_query cp_other cp_exec_other peer_stmts)+

lemma peer_alloc_steps [io_rules]: "cp_triple E (peer_GetNextAvailableIP E cidr) (\<lambda>_. True)"
  unfolding peer_GetNextAvailableIP_def Allocate_def by (intro steps.t_control Addr_case_triple io_rules cp_query TrueI)

lemma wg_steps [io_rules]:
  "cp_triple E (wg E m a i) (\<lambda>_. True)" "cp_triple E (GenerateKeypair E) (\<lambda>_. True)"
  "cp_triple E (GeneratePresharedKey E) (\<lambda>_. True)" "cp_triple E (EncryptPSK E s k) (\<lambda>_. True)" "cp_triple E (getWGPeers E s) (\<lambda>_. True)"
  unfolding wg_def GenerateKeypair_def GeneratePresharedKey_def EncryptPSK_def Encrypt_def getWGPeers_def
  by (rule cp_rules cp_ext cp_ext_val)+

lemma peer_service_steps [io_rules]:
  "cp_triple E (ApplyPeer E s p) (\<lambda>_. True)" "cp_triple E (RemovePeer E s k) (\<lambda>_. True)"
  "cp_triple E (service_CreatePeer E s req) (\<lambda>_. True)"
  unfolding ApplyPeer_def RemovePeer_def service_CreatePeer_def by (rule cp_rules io_rules)+

lemma apply_enabled_steps [io_rules]: "cp_triple E (apply_enabled E s ps) (\<lambda>_. True)"
  by (induction ps) (simp_all only: apply_enabled.simps, (rule cp_rules io_rules | assumption)+)

lemma remove_stale_steps [io_rules]: "cp_triple E (remove_stale E s K ks) (\<lambda>_. True)"
  by (induction ks) (simp_all only: remove_stale.simps, (rule cp_rules io_rules | assumption)+)

lemma with_peer_steps [io_rules]:
  "(\<And>p. cp_triple E (k p) (\<lambda>_. True)) \<Longrightarrow> cp_triple E (with_peer E pid k) (\<lambda>_. True)"
  unfolding with_peer_def by (rule cp_rules io_rules | assumption)+

lemma wg_handlers_steps [io_rules]:
  "cp_triple E (SyncPeers E s) (\<lambda>_. True)" "cp_triple E (ListPeers E ty) (\<lambda>_. True)" "cp_triple E (GetPeer E pid) (\<lambda>_. True)"
  "cp_triple E (handler_CreatePeer E h cbody) (\<lambda>_. True)" "cp_triple E (UpdatePeer E h pid ubody) (\<lambda>_. True)"
  "cp_triple E (DeletePeer E h pid) (\<lambda>_. True)" "cp_triple E (EnablePeer E h pid) (\<lambda>_. True)"
  "cp_triple E (DisablePeer E h pid) (\<lambda>_. True)" "cp_triple E (GetPeerConfig E h pid) (\<lambda>_. True)" "cp_triple E (GetPeerQR E h pid) (\<lambda>_. True)"
  unfolding SyncPeers_def ListPeers_def GetPeer_def handler_CreatePeer_def UpdatePeer_def DeletePeer_def EnablePeer_def
    DisablePeer_def GetPeerConfig_def GetPeerQR_def
  by (rule cp_rules io_rules)+

end
