(* ===== verification/CP_Stations.thy ===== *)
theory CP_Stations
  imports CP_Wireguard
begin

text \<open>
  The public catalogue of stations (\<open>src/internal/station/handler.go\<close> and the search of \<open>store.go\<close>), the poller that
  collects the live status of the dashboards (\<open>poller.go\<close>), and the adapter that looks up a tenant's tier
  (\<open>src/internal/server/server.go\<close>). \<open>ILIKE\<close> folds the case of ASCII letters; \<open>text_le\<close> of \<open>externals\<close> is the collation
  of the database. The poller's cache is \<open>w_status\<close>.
\<close>

section \<open>The search\<close>

record ListPublicParams =
  lq_query :: string
  lq_genre :: string
  lq_sort :: string
  lq_limit :: int
  lq_offset :: int

definition like_escape :: "char \<Rightarrow> string" where
  "like_escape c = (if c = CHR 0x5C \<or> c = CHR ''%'' \<or> c = CHR ''_'' then [CHR 0x5C, c] else [c])"

definition likePattern :: "string \<Rightarrow> string" where
  "likePattern q = ''%'' @ concat (map like_escape q) @ ''%''"

text \<open>\<open>ILIKE pattern ESCAPE '\'\<close> of the database; a pattern that ends in the escape character matches nothing (it is an error there).\<close>

fun ilike :: "string \<Rightarrow> string \<Rightarrow> bool" where
  "ilike [] s = (s = [])"
| "ilike (p # ps) s =
     (if p = CHR ''%'' then ilike ps s \<or> (case s of [] \<Rightarrow> False | _ # t \<Rightarrow> ilike (p # ps) t)
      else if p = CHR 0x5C then
        (case ps of [] \<Rightarrow> False | q # qs \<Rightarrow> (case s of [] \<Rightarrow> False | c # t \<Rightarrow> char_lower q = char_lower c \<and> ilike qs t))
      else (case s of [] \<Rightarrow> False | c # t \<Rightarrow> (p = CHR ''_'' \<or> char_lower p = char_lower c) \<and> ilike ps t))"

definition public_match :: "ListPublicParams \<Rightarrow> station \<Rightarrow> bool" where
  "public_match p s \<longleftrightarrow> st_is_public s
     \<and> (lq_query p = [] \<or> ilike (likePattern (lq_query p)) (st_name s) \<or> ilike (likePattern (lq_query p)) (st_genre s)
          \<or> ilike (likePattern (lq_query p)) (st_description s))
     \<and> (lq_genre p = [] \<or> st_genre s = lq_genre p)"

definition public_order :: "externals \<Rightarrow> string \<Rightarrow> station list \<Rightarrow> station list" where
  "public_order E srt rs =
     (if srt = ''newest'' then order_desc st_created_at rs
      else if srt = ''online_first''
      then order_by (\<lambda>a b. (st_is_online a \<and> \<not> st_is_online b)
                         \<or> (st_is_online a = st_is_online b \<and> text_le E (st_name a) (st_name b))) rs
      else order_by (\<lambda>a b. text_le E (st_name a) (st_name b)) rs)"

definition public_rows :: "externals \<Rightarrow> ListPublicParams \<Rightarrow> db \<Rightarrow> station list" where
  "public_rows E p d = public_order E (lq_sort p) (filter (public_match p) (stations d))"

definition ListPublic :: "externals \<Rightarrow> ListPublicParams \<Rightarrow> (station list \<times> nat) res cp" where
  "ListPublic E p = do {
     rt \<leftarrow> db_call E (query (\<lambda>d. count_where (public_match p) (stations d)));
     case rt of Inl e \<Rightarrow> State_Monad.return (Inl (Wrap ''count public stations'' e)) | Inr n \<Rightarrow> do {
     rs \<leftarrow> db_call E (query (\<lambda>d. take (nat (lq_limit p)) (drop (nat (lq_offset p)) (public_rows E p d))));
     State_Monad.return (case rs of Inl e \<Rightarrow> Inl (Wrap ''query public stations'' e) | Inr items \<Rightarrow> Inr (items, n)) }}"

definition ListGenres :: "externals \<Rightarrow> string list res cp" where
  "ListGenres E = do {
     r \<leftarrow> db_call E (query (\<lambda>d. order_by (text_le E)
            (remdups (map st_genre (filter (\<lambda>s. st_is_public s \<and> st_genre s \<noteq> []) (stations d))))));
     State_Monad.return (wrap_err ''query genres'' r) }"

section \<open>The handler\<close>

record live_station =
  lv_station :: station
  lv_listeners :: int
  lv_now_playing :: string
  lv_bpm :: string

record station_handler =
  sh_audit :: bool
  sh_poller :: bool
  sh_tenants :: bool

definition validSlug :: "string \<Rightarrow> bool" where
  "validSlug s \<longleftrightarrow> 2 \<le> length s \<and> length s \<le> 63 \<and> matches subdomainRegexp s"

definition listenersScanLimit :: int where
  "listenersScanLimit = 1000"

definition pageOf :: "'a list \<Rightarrow> int \<Rightarrow> int \<Rightarrow> 'a list" where
  "pageOf items offset limit =
     (if int (length items) \<le> offset then []
      else let end = (if int (length items) < offset + limit then int (length items) else offset + limit)
           in take (nat (end - offset)) (drop (nat offset) items))"

definition GetStatus :: "string \<Rightarrow> station_status option cp" where
  "GetStatus tid = State (\<lambda>w. (w_status w tid, w))"

definition plain_live :: "station \<Rightarrow> live_station" where
  "plain_live s = \<lparr>lv_station = s, lv_listeners = 0, lv_now_playing = [], lv_bpm = ''0''\<rparr>"

definition enrich :: "(string \<rightharpoonup> station_status) \<Rightarrow> station \<Rightarrow> live_station" where
  "enrich cache s =
     (case Option.bind (st_tenant_id s) cache of
        None \<Rightarrow> plain_live s
      | Some x \<Rightarrow> \<lparr>lv_station = s, lv_listeners = ss_listeners x, lv_now_playing = ss_now_playing x, lv_bpm = ss_bpm x\<rparr>)"

text \<open>The map a handler reads the live status from: empty without a poller.\<close>

definition status_cache :: "station_handler \<Rightarrow> (string \<rightharpoonup> station_status) cp" where
  "status_cache h = State (\<lambda>w. (if sh_poller h then w_status w else Map.empty, w))"

text \<open>The sum of two Go \<open>int\<close>s, which wraps at 64 bits.\<close>

definition int64_add :: "int \<Rightarrow> int \<Rightarrow> int" where
  "int64_add a b = (a + b + 2 ^ 63) mod 2 ^ 64 - 2 ^ 63"

definition station_h_List :: "externals \<Rightarrow> station_handler \<Rightarrow> (string \<Rightarrow> string) \<Rightarrow> live_station list_result http cp" where
  "station_h_List E h q =
     (let lp = ParseListParams q;
          params = \<lparr>lq_query = q ''q'', lq_genre = q ''genre'', lq_sort = q ''sort'', lq_limit = lp_limit lp, lq_offset = lp_offset lp\<rparr>;
          byListeners = (lq_sort params = ''listeners'');
          scan = (if byListeners then params\<lparr>lq_limit := listenersScanLimit, lq_offset := 0\<rparr> else params)
      in do {
        r \<leftarrow> ListPublic E scan;
        case r of
          Inl _ \<Rightarrow> State_Monad.return (Error 500 ''failed to list stations'')
        | Inr (rows, n) \<Rightarrow> do {
            cache \<leftarrow> status_cache h;
            let live = map (enrich cache) rows;
            let ranked = (if byListeners then order_desc lv_listeners live else live);
            let pageable = (if byListeners then length live else n);
            let items = (if byListeners then pageOf ranked (lq_offset params) (lq_limit params) else live);
            State_Monad.return (JSON 200 \<lparr>lr_items = items, lr_total = int n, lr_limit = lq_limit params, lr_offset = lq_offset params,
              lr_has_more = (int64_add (lq_offset params) (lq_limit params) < int pageable)\<rparr>) } })"

definition Genres :: "externals \<Rightarrow> string list http cp" where
  "Genres E = do {
     r \<leftarrow> ListGenres E;
     State_Monad.return (case r of Inl _ \<Rightarrow> Error 500 ''failed to list genres'' | Inr gs \<Rightarrow> JSON 200 gs) }"

definition station_h_GetBySlug :: "externals \<Rightarrow> station_handler \<Rightarrow> string \<Rightarrow> live_station http cp" where
  "station_h_GetBySlug E h slug =
     (if \<not> validSlug slug then State_Monad.return (Error 400 ''invalid slug format'')
      else do {
        r \<leftarrow> station_GetBySlug E slug;
        case r of
          Inl _ \<Rightarrow> State_Monad.return (Error 500 ''failed to get station'')
        | Inr None \<Rightarrow> State_Monad.return (Error 404 ''station not found'')
        | Inr (Some s) \<Rightarrow> do {
            cache \<leftarrow> status_cache h;
            State_Monad.return (JSON 200 (enrich cache s)) } })"

definition GetTier :: "externals \<Rightarrow> string \<Rightarrow> string res cp" where
  "GetTier E tid = do {
     r \<leftarrow> tenant_GetByID E tid;
     State_Monad.return (case r of
         Inl e \<Rightarrow> Inl e
       | Inr None \<Rightarrow> Inl (GoErr (''tenant '' @ tid @ '' not found''))
       | Inr (Some t) \<Rightarrow> Inr (if tn_tier t = [] then ''free'' else tn_tier t)) }"

text \<open>The tier check of \<open>Create\<close>; \<open>Some\<close> is the refusal.\<close>

definition check_station_limit :: "externals \<Rightarrow> string \<Rightarrow> station http option cp" where
  "check_station_limit E tid = do {
     rt \<leftarrow> GetTier E tid;
     case rt of
       Inl _ \<Rightarrow> State_Monad.return (Some (Error 500 ''failed to check tier limits''))
     | Inr tier \<Rightarrow> do {
         rc \<leftarrow> station_CountByTenantID E tid;
         State_Monad.return (case rc of
             Inl _ \<Rightarrow> Some (Error 500 ''failed to check station count'')
           | Inr n \<Rightarrow>
               if tl_max_stations (GetLimits tier) \<le> int n
               then Some (Error 403 (''station limit reached for tier '' @ tier @ '' (max ''
                            @ string_of_int (tl_max_stations (GetLimits tier)) @ '')''))
               else None) } }"

definition station_h_Create :: "externals \<Rightarrow> station_handler \<Rightarrow> create_station_request option \<Rightarrow> station http cp" where
  "station_h_Create E h body =
     (case body of
        None \<Rightarrow> State_Monad.return (Error 400 ''invalid request body'')
      | Some req \<Rightarrow>
          if cs_name req = [] \<or> cs_slug req = [] then State_Monad.return (Error 400 ''name and slug are required'')
          else if \<not> validSlug (cs_slug req)
          then State_Monad.return (Error 400 ''invalid slug: must be lowercase alphanumeric with hyphens, 2-63 chars'')
          else if (case cs_tenant_id req of Some t \<Rightarrow> \<not> ValidUUID E t | None \<Rightarrow> False)
          then State_Monad.return (Error 400 ''invalid tenant_id format'')
          else if (case cs_owner_id req of Some u \<Rightarrow> \<not> ValidUUID E u | None \<Rightarrow> False)
          then State_Monad.return (Error 400 ''invalid owner_id format'')
          else if sh_tenants h \<and> cs_tenant_id req = None
          then State_Monad.return (Error 400 ''tenant_id is required'')
          else do {
            refusal \<leftarrow> (case cs_tenant_id req of
                          Some tid \<Rightarrow> if sh_tenants h then check_station_limit E tid else State_Monad.return None
                        | None \<Rightarrow> State_Monad.return None);
            case refusal of
              Some resp \<Rightarrow> State_Monad.return resp
            | None \<Rightarrow> do {
                r \<leftarrow> station_Create E req;
                case r of
                  Inl e \<Rightarrow> State_Monad.return
                    (if pg_code e = Some ''23505'' then Error 409 ''slug already exists'' else Error 500 ''failed to create station'')
                | Inr s \<Rightarrow> do {
                    _ \<leftarrow> log_if E (sh_audit h) ''create'' ''station'' (st_id s) (Some [(''name'', st_name s), (''slug'', st_slug s)]);
                    State_Monad.return (JSON 201 s) } } })"

definition station_h_Update :: "externals \<Rightarrow> station_handler \<Rightarrow> string \<Rightarrow> update_station_request option \<Rightarrow> station http cp" where
  "station_h_Update E h sid body =
     (if \<not> ValidUUID E sid then State_Monad.return (Error 400 ''invalid station ID format'')
      else case body of
        None \<Rightarrow> State_Monad.return (Error 400 ''invalid request body'')
      | Some req \<Rightarrow>
          if (case us_slug req of Some s \<Rightarrow> \<not> validSlug s | None \<Rightarrow> False)
          then State_Monad.return (Error 400 ''invalid slug: must be lowercase alphanumeric with hyphens, 2-63 chars'')
          else do {
            r \<leftarrow> station_Update E sid req;
            case r of
              Inl e \<Rightarrow> State_Monad.return
                (if errors_is e station_ErrNoUpdate then Error 400 ''no fields to update''
                 else if pg_code e = Some ''23505'' then Error 409 ''slug already exists''
                 else Error 500 ''failed to update station'')
            | Inr None \<Rightarrow> State_Monad.return (Error 404 ''station not found'')
            | Inr (Some s) \<Rightarrow> do {
                _ \<leftarrow> log_if E (sh_audit h) ''update'' ''station'' (st_id s) None;
                State_Monad.return (JSON 200 s) } })"

definition station_h_Delete :: "externals \<Rightarrow> station_handler \<Rightarrow> string \<Rightarrow> unit http cp" where
  "station_h_Delete E h sid =
     (if \<not> ValidUUID E sid then State_Monad.return (Error 400 ''invalid station ID format'')
      else do {
        r \<leftarrow> station_Delete E sid;
        case r of
          Inl e \<Rightarrow> State_Monad.return
            (if errors_is e ErrNoRows then Error 404 ''station not found'' else Error 500 ''failed to delete station'')
        | Inr _ \<Rightarrow> do {
            _ \<leftarrow> log_if E (sh_audit h) ''delete'' ''station'' sid None;
            State_Monad.return (JSON 204 ()) } })"

section \<open>The poller\<close>

text \<open>\<open>net.ParseIP\<close> with \<open>To4\<close>: an IPv6 text counts only if it is IPv4-mapped, which \<open>mapped4\<close> tells.\<close>

definition ip_to4 :: "(string \<Rightarrow> ipv4 option) \<Rightarrow> string \<Rightarrow> ipv4 option" where
  "ip_to4 mapped4 host =
     (case parse_addr (\<lambda>s. mapped4 s \<noteq> None) host of
        Some (Addr4 a) \<Rightarrow> Some a
      | Some (Addr6 s) \<Rightarrow> mapped4 s
      | None \<Rightarrow> None)"

definition isAllowedIP :: "(string \<Rightarrow> ipv4 option) \<Rightarrow> string \<Rightarrow> bool" where
  "isAllowedIP mapped4 ipStr =
     (let host = (case SplitHostPort ipStr of Some (h, _) \<Rightarrow> h | None \<Rightarrow> ipStr)
      in case ip_to4 mapped4 host of
           None \<Rightarrow> False
         | Some ip \<Rightarrow>
             if masked ip 8 = addr_from4 [127, 0, 0, 0] \<or> masked ip 16 = addr_from4 [169, 254, 0, 0] \<or> ip = 0 then False
             else masked ip 8 = addr_from4 [10, 0, 0, 0])"

definition offline :: "int \<Rightarrow> station_status" where
  "offline now = \<lparr>ss_is_online = False, ss_listeners = 0, ss_now_playing = [], ss_bpm = ''0'', ss_fetched_at = now\<rparr>"

definition status_url :: "string \<Rightarrow> string" where
  "status_url ip = ''http://'' @ ip @ '':80/api/status''"

definition fetchStatus :: "externals \<Rightarrow> int \<Rightarrow> string \<Rightarrow> station_status cp" where
  "fetchStatus E now ip =
     (case url_parse E (status_url ip) of
        None \<Rightarrow> State_Monad.return (offline now)
      | Some _ \<Rightarrow> do {
          r \<leftarrow> ext_val E (ext_dash E) (DashboardStatus (status_url ip));
          State_Monad.return (case r of
              Inr (Some data) \<Rightarrow> \<lparr>ss_is_online = (da_mode data = ''live''), ss_listeners = da_listeners data,
                ss_now_playing = da_title data, ss_bpm = da_bpm data, ss_fetched_at = now\<rparr>
            | _ \<Rightarrow> offline now) })"

definition store_status :: "string \<Rightarrow> station_status \<Rightarrow> unit cp" where
  "store_status tid s = State (\<lambda>w. ((), w\<lparr>w_status := (w_status w)(tid \<mapsto> s)\<rparr>))"

definition ctx_cancelled :: "externals \<Rightarrow> bool cp" where
  "ctx_cancelled E = State (\<lambda>w. (ctx_done E (w_trace w), w))"

fun poll_tenants :: "externals \<Rightarrow> (string \<Rightarrow> ipv4 option) \<Rightarrow> bool \<Rightarrow> int \<Rightarrow> (string \<times> string) list \<Rightarrow> unit cp" where
  "poll_tenants E mapped4 skipIPCheck now [] = State_Monad.return ()"
| "poll_tenants E mapped4 skipIPCheck now ((tid, ip) # ts) = do {
     done \<leftarrow> ctx_cancelled E;
     if done then State_Monad.return ()
     else if \<not> skipIPCheck \<and> \<not> isAllowedIP mapped4 ip then poll_tenants E mapped4 skipIPCheck now ts
     else do {
       status \<leftarrow> fetchStatus E now ip;
       _ \<leftarrow> store_status tid status;
       _ \<leftarrow> station_SetOnline E tid (ss_is_online status);
       poll_tenants E mapped4 skipIPCheck now ts } }"

definition poll :: "externals \<Rightarrow> (string \<Rightarrow> ipv4 option) \<Rightarrow> bool \<Rightarrow> int \<Rightarrow> unit cp" where
  "poll E mapped4 skipIPCheck now = do {
     r \<leftarrow> ListPollable E;
     case r of
       Inl _ \<Rightarrow> State_Monad.return ()
     | Inr ts \<Rightarrow> poll_tenants E mapped4 skipIPCheck now ts }"

section \<open>Only steps of the system\<close>

lemma station_state_steps [io_rules]:
  "cp_triple E (status_cache h) (\<lambda>_. True)" "cp_triple E (GetStatus tid) (\<lambda>_. True)" "cp_triple E (store_status tid s) (\<lambda>_. True)"
  "cp_triple E (ctx_cancelled E) (\<lambda>_. True)"
  by (auto simp: triple_def status_cache_def GetStatus_def store_status_def ctx_cancelled_def)

lemma station_search_steps [io_rules]: "cp_triple E (ListPublic E p) (\<lambda>_. True)" "cp_triple E (ListGenres E) (\<lambda>_. True)"
  unfolding ListPublic_def ListGenres_def by (rule cp_rules cp_query)+

lemma fetchStatus_steps [io_rules]: "cp_triple E (fetchStatus E now ip) (\<lambda>_. True)"
  unfolding fetchStatus_def by (rule cp_rules cp_ext_val)+

lemma poll_tenants_steps [io_rules]: "cp_triple E (poll_tenants E m sk now ts) (\<lambda>_. True)"
proof (induction ts)
  case (Cons t ts)
  obtain tid ip where "t = (tid, ip)" by fastforce
  then show ?case by (simp only: poll_tenants.simps) (rule cp_rules io_rules Cons)+
qed (simp only: poll_tenants.simps, rule cp_rules, rule TrueI)

lemma GetTier_steps [io_rules]: "cp_triple E (GetTier E tid) (\<lambda>_. True)"
  unfolding GetTier_def by (rule cp_rules io_rules)+

lemma check_station_limit_steps [io_rules]: "cp_triple E (check_station_limit E tid) (\<lambda>_. True)"
  unfolding check_station_limit_def by (rule cp_rules io_rules)+

lemma station_handlers_steps [io_rules]:
  "cp_triple E (station_h_List E h q) (\<lambda>_. True)" "cp_triple E (Genres E) (\<lambda>_. True)" "cp_triple E (station_h_GetBySlug E h slug) (\<lambda>_. True)"
  "cp_triple E (station_h_Create E h cbody) (\<lambda>_. True)" "cp_triple E (station_h_Update E h sid ubody) (\<lambda>_. True)"
  "cp_triple E (station_h_Delete E h sid) (\<lambda>_. True)" "cp_triple E (poll E m sk now) (\<lambda>_. True)"
  unfolding station_h_List_def Genres_def station_h_GetBySlug_def station_h_Create_def station_h_Update_def station_h_Delete_def poll_def
  by (rule cp_rules io_rules)+

end
