(* ===== verification/CP_Station_Props.thy ===== *)
theory CP_Station_Props
  imports CP_Stations
begin

text \<open>
  What the catalogue and the poller guarantee: the search is literal, ranking by listeners ranks the whole catalogue, the tier limits the
  stations of a tenant, and the poller talks only to the private network and keeps the database in step with its cache.
\<close>

section \<open>Searching\<close>

text \<open>\<open>matches_prefix\<close>: the text starts with the term, up to the case of letters.\<close>

fun ci_prefix :: "string \<Rightarrow> string \<Rightarrow> bool" where
  "ci_prefix [] s = True"
| "ci_prefix (q # qs) [] = False"
| "ci_prefix (q # qs) (c # s) = (char_lower q = char_lower c \<and> ci_prefix qs s)"

lemma ilike_any: "ilike ''%'' s"
  by (induction s) simp_all

lemma ilike_escaped: "ilike (concat (map like_escape q) @ ''%'') s = ci_prefix q s"
proof (induction q arbitrary: s)
  case Nil
  then show ?case using ilike_any [of s] by simp
next
  case (Cons c q)
  then show ?case by (cases s) (auto simp: like_escape_def)
qed

lemma ilike_percent: "ilike (CHR ''%'' # ps) s \<longleftrightarrow> (\<exists>n\<le>length s. ilike ps (drop n s))"
proof (induction s)
  case Nil
  then show ?case by simp
next
  case (Cons c s)
  have "(\<exists>n\<le>length (c # s). ilike ps (drop n (c # s))) \<longleftrightarrow> ilike ps (c # s) \<or> (\<exists>n\<le>length s. ilike ps (drop n s))"
    by (metis Suc_le_mono drop0 drop_Suc_Cons le0 length_Cons not0_implies_Suc)
  then show ?case using Cons by simp
qed

lemma ci_prefix_take: "ci_prefix q s \<longleftrightarrow> to_lower (take (length q) s) = to_lower q"
  by (induction q s rule: ci_prefix.induct) (auto simp: to_lower_def)

text \<open>
C30: A search term is taken literally: a station matches exactly if its name, genre or description contains the term, up to
  the case of letters. Percent signs, underscores and backslashes in the term have no special meaning.
\<close>

theorem search_is_literal:
  "ilike (likePattern q) s \<longleftrightarrow> str_contains (to_lower s) (to_lower q)"
proof -
  have "ilike (likePattern q) s \<longleftrightarrow> (\<exists>n\<le>length s. to_lower (take (length q) (drop n s)) = to_lower q)"
    unfolding likePattern_def using ilike_percent [of "concat (map like_escape q) @ ''%''" s] by (simp add: ilike_escaped ci_prefix_take)
  also have "\<dots> \<longleftrightarrow> (\<exists>a b. to_lower s = a @ to_lower q @ b)"
  proof
    assume "\<exists>n\<le>length s. to_lower (take (length q) (drop n s)) = to_lower q"
    then obtain n where "to_lower (take (length q) (drop n s)) = to_lower q" by blast
    then have "to_lower s = to_lower (take n s) @ to_lower q @ to_lower (drop (length q) (drop n s))"
      unfolding to_lower_def by (metis append_take_drop_id map_append)
    then show "\<exists>a b. to_lower s = a @ to_lower q @ b" by blast
  next
    assume "\<exists>a b. to_lower s = a @ to_lower q @ b"
    then obtain a b where ab: "to_lower s = a @ to_lower q @ b" by blast
    have "to_lower (take (length q) (drop (length a) s)) = take (length q) (drop (length a) (to_lower s))"
      by (simp add: to_lower_def take_map drop_map)
    also have "\<dots> = to_lower q" unfolding ab by (simp add: to_lower_def)
    finally have "to_lower (take (length q) (drop (length a) s)) = to_lower q" .
    moreover have "length a \<le> length s" using arg_cong [OF ab, of length] by (simp add: to_lower_def)
    ultimately show "\<exists>n\<le>length s. to_lower (take (length q) (drop n s)) = to_lower q" by blast
  qed
  finally show ?thesis by (simp add: str_contains_iff)
qed

section \<open>Ranking by listeners\<close>

lemma pageOf_eq: "0 \<le> offset \<Longrightarrow> 0 \<le> limit \<Longrightarrow> pageOf items offset limit = take (nat limit) (drop (nat offset) items)"
  by (auto simp: pageOf_def Let_def nat_add_distrib min_def)

lemma ListPublic_reliable:
  assumes "reliable E"
  shows "fst (run_state (ListPublic E p) w)
      = Inr (take (nat (lq_limit p)) (drop (nat (lq_offset p)) (public_rows E p (w_db w))), count_where (public_match p) (stations (w_db w)))"
    "w_db (snd (run_state (ListPublic E p) w)) = w_db w" "w_status (snd (run_state (ListPublic E p) w)) = w_status w"
  using assms by (simp_all add: ListPublic_def query_def reliable_call)

text \<open>
Ranking by listeners is a ranking of the catalogue and not of one page: as long as at most 1000 public stations match, the
  page at an offset is that stretch of all matching stations ordered by their live listener counts, and \<open>has_more\<close> is set exactly
  when stations follow, for offsets below 2 to the 63 less the page length.
\<close>

theorem listeners_ranking:
  assumes "reliable E" "q ''sort'' = ''listeners''" "p = ParseListParams q" "lp_offset p + lp_limit p < 2 ^ 63"
    and "params = \<lparr>lq_query = q ''q'', lq_genre = q ''genre'', lq_sort = ''listeners'', lq_limit = 1000, lq_offset = 0\<rparr>"
    and "length (public_rows E params (w_db w)) \<le> 1000"
    and "ranked = order_desc lv_listeners (map (enrich (if sh_poller h then w_status w else Map.empty)) (public_rows E params (w_db w)))"
  shows "\<exists>n. fst (run_state (station_h_List E h q) w) = JSON 200
      \<lparr>lr_items = take (nat (lp_limit p)) (drop (nat (lp_offset p)) ranked), lr_total = n, lr_limit = lp_limit p, lr_offset = lp_offset p,
       lr_has_more = (nat (lp_offset p) + nat (lp_limit p) < length ranked)\<rparr>"
proof -
  have b: "1 \<le> lp_limit p" "0 \<le> lp_offset p" using ParseListParams_bounds [of q] assms(3) by simp_all
  have all: "take 1000 (public_rows E params (w_db w)) = public_rows E params (w_db w)" using assms(6) by simp
  have wrap: "int64_add (lp_offset p) (lp_limit p) = lp_offset p + lp_limit p" using b assms(4) by (simp add: int64_add_def)
  let ?rows = "public_rows E params (w_db w)"
  have more: "int64_add (lp_offset p) (lp_limit p) < int (length ?rows) \<longleftrightarrow> nat (lp_offset p) + nat (lp_limit p) < length ?rows"
    unfolding wrap using b by linarith
  have scan: "\<lparr>lq_query = q ''q'', lq_genre = q ''genre'', lq_sort = q ''sort'', lq_limit = lp_limit p, lq_offset = lp_offset p\<rparr>
      \<lparr>lq_limit := listenersScanLimit, lq_offset := 0\<rparr> = params"
    using assms(2,5) by (simp add: listenersScanLimit_def)
  obtain w1 where run: "run_state (ListPublic E params) w
      = (Inr (public_rows E params (w_db w), count_where (public_match params) (stations (w_db w))), w1)" "w_status w1 = w_status w"
    using ListPublic_reliable [OF assms(1), of params w] all assms(5)
    by (cases "run_state (ListPublic E params) w") simp
  show ?thesis
    using run assms(2,3) scan b more by (simp add: station_h_List_def Let_def status_cache_def pageOf_eq) (simp add: assms(7))
qed

definition sample_sh :: station_handler where
  "sample_sh = \<lparr>sh_audit = True, sh_poller = True, sh_tenants = True\<rparr>"

definition sample_station :: "string \<Rightarrow> string \<Rightarrow> station" where
  "sample_station nm tid = \<lparr>st_id = nm, st_name = nm, st_slug = nm, st_genre = ''rock'', st_description = ''100% live'', st_artwork_url = [],
     st_stream_url = [], st_owner_id = None, st_tenant_id = Some tid, st_is_public = True, st_is_online = False, st_created_at = 1, st_updated_at = 1\<rparr>"

definition station_w :: world where
  "station_w = sample_w\<lparr>w_db := sample_db\<lparr>stations := [sample_station ''s1'' ''t1'', sample_station ''s2'' ''t2'', sample_station ''s3'' ''t3'']\<rparr>,
     w_status := [''t2'' \<mapsto> \<lparr>ss_is_online = True, ss_listeners = 40, ss_now_playing = ''x'', ss_bpm = ''120'', ss_fetched_at = 0\<rparr>]\<rparr>"

theorem listeners_ranking_witness:
  "case fst (run_state (station_h_List sample_E sample_sh (\<lambda>k. if k = ''sort'' then ''listeners'' else if k = ''limit'' then ''2'' else [])) station_w) of
     JSON _ r \<Rightarrow> map (st_id \<circ> lv_station) (lr_items r) = [''s2'', ''s1''] \<and> lr_has_more r | Error _ _ \<Rightarrow> False"
proof -
  let ?q = "\<lambda>k. if k = ''sort'' then ''listeners'' else if k = ''limit'' then ''2'' else []"
  let ?params = "\<lparr>lq_query = ?q ''q'', lq_genre = ?q ''genre'', lq_sort = ''listeners'', lq_limit = 1000, lq_offset = 0\<rparr>"
  let ?rows = "public_rows sample_E ?params (w_db station_w)"
  let ?cache = "if sh_poller sample_sh then w_status station_w else Map.empty"
  have p: "lp_offset (ParseListParams ?q) + lp_limit (ParseListParams ?q) < 2 ^ 63" "lp_offset (ParseListParams ?q) = 0"
    "lp_limit (ParseListParams ?q) = 2" by code_simp+
  have rows: "length ?rows = 3" "map (st_id \<circ> lv_station) (take 2 (order_desc lv_listeners (map (enrich ?cache) ?rows))) = [''s2'', ''s1'']"
    by code_simp+
  obtain n where "fst (run_state (station_h_List sample_E sample_sh ?q) station_w) = JSON 200
      \<lparr>lr_items = take (nat (lp_limit (ParseListParams ?q))) (drop (nat (lp_offset (ParseListParams ?q)))
         (order_desc lv_listeners (map (enrich ?cache) ?rows))), lr_total = n,
       lr_limit = lp_limit (ParseListParams ?q), lr_offset = lp_offset (ParseListParams ?q),
       lr_has_more = (nat (lp_offset (ParseListParams ?q)) + nat (lp_limit (ParseListParams ?q)) < length (order_desc lv_listeners (map (enrich ?cache) ?rows)))\<rparr>"
    using listeners_ranking [OF sample_reliable(1) _ refl p(1) refl _ refl, where h = sample_sh and w = station_w] rows(1) by auto
  then show ?thesis using rows by (simp add: p(2,3))
qed

text \<open>
  The addition behind \<open>has_more\<close> wraps at 64 bits: for an offset so large that offset and limit together reach 2 to the 63, the
  page is empty and \<open>has_more\<close> is true nevertheless.
\<close>

theorem has_more_wraps:
  assumes "reliable E" "q ''sort'' = []" "p = ParseListParams q" "2 ^ 63 \<le> lp_offset p + lp_limit p" "lp_offset p < 2 ^ 63"
    and "int (length (stations (w_db w))) \<le> lp_offset p"
  shows "\<exists>n. fst (run_state (station_h_List E h q) w) = JSON 200
    \<lparr>lr_items = [], lr_total = n, lr_limit = lp_limit p, lr_offset = lp_offset p, lr_has_more = True\<rparr>"
proof -
  have b: "1 \<le> lp_limit p" "lp_limit p \<le> 200" "0 \<le> lp_offset p" using ParseListParams_bounds [of q] assms(3) by (simp_all add: MaxLimit_def)
  have "(lp_offset p + lp_limit p + 2 ^ 63) mod 2 ^ 64 = (lp_offset p + lp_limit p + 2 ^ 63 - 2 ^ 64) mod 2 ^ 64"
    by (simp only: minus_mod_self2)
  also have "\<dots> = lp_offset p + lp_limit p + 2 ^ 63 - 2 ^ 64" using assms(4,5) b by (intro mod_pos_pos_trivial) simp_all
  finally have "(lp_offset p + lp_limit p + 2 ^ 63) mod 2 ^ 64 = lp_offset p + lp_limit p + 2 ^ 63 - 2 ^ 64" .
  then have wrap: "int64_add (lp_offset p) (lp_limit p) < 0" using assms(5) b by (simp add: int64_add_def)
  let ?params = "\<lparr>lq_query = q ''q'', lq_genre = q ''genre'', lq_sort = [], lq_limit = lp_limit p, lq_offset = lp_offset p\<rparr>"
  have "length (public_rows E ?params (w_db w)) \<le> length (stations (w_db w))"
    by (simp add: public_rows_def public_order_def)
  then have rows: "drop (nat (lp_offset p)) (public_rows E ?params (w_db w)) = []" using assms(6) b(3) by simp
  obtain n w1 where "run_state (ListPublic E ?params) w = (Inr ([], n), w1)"
    using ListPublic_reliable [OF assms(1), of ?params w] rows by (cases "run_state (ListPublic E ?params) w") simp
  then show ?thesis using assms(2,3) wrap by (simp add: station_h_List_def Let_def status_cache_def)
qed

lemma far_offset: "atoi ''9223372036854775807'' = Some 9223372036854775807"
  by (simp add: atoi_def Let_def digits_val_def digit_val_def is_digit_def)

theorem has_more_wraps_witness:
  "case fst (run_state (station_h_List sample_E sample_sh (\<lambda>k. if k = ''offset'' then ''9223372036854775807'' else [])) station_w) of
     JSON _ r \<Rightarrow> lr_items r = [] \<and> lr_has_more r | Error _ _ \<Rightarrow> False"
proof -
  let ?q = "\<lambda>k. if k = ''offset'' then ''9223372036854775807'' else []"
  have p: "lp_offset (ParseListParams ?q) = 9223372036854775807" "lp_limit (ParseListParams ?q) = 50"
    using far_offset by (simp_all add: ParseListParams_def Let_def DefaultLimit_def MaxLimit_def)
  have "\<exists>n. fst (run_state (station_h_List sample_E sample_sh ?q) station_w) = JSON 200
    \<lparr>lr_items = [], lr_total = n, lr_limit = lp_limit (ParseListParams ?q), lr_offset = lp_offset (ParseListParams ?q), lr_has_more = True\<rparr>"
    by (rule has_more_wraps [OF sample_reliable(1) _ refl]) (simp_all add: p station_w_def)
  then show ?thesis by auto
qed

section \<open>The limit of a tier\<close>

lemma tenant_GetByID_Inr:
  "run_state (tenant_GetByID E tid) w = (Inr x, w') \<Longrightarrow> x = tenant_row (w_db w) tid \<and> w_db w' = w_db w"
  unfolding tenant_GetByID_def by (auto simp: query_def split: prod.splits dest!: db_call_Inr)

lemma check_station_limit_None:
  assumes "run_state (check_station_limit E tid) w = (None, w')"
  obtains t where "tenant_row (w_db w) tid = Some t" "w_db w' = w_db w"
    "int (count_where (\<lambda>s. st_tenant_id s = Some tid) (stations (w_db w)))
       < tl_max_stations (GetLimits (if tn_tier t = [] then ''free'' else tn_tier t))"
proof -
  obtain tier w1 where t: "run_state (GetTier E tid) w = (Inr tier, w1)"
    using assms by (auto simp: check_station_limit_def split: prod.splits sum.splits)
  then obtain t where g: "run_state (tenant_GetByID E tid) w = (Inr (Some t), w1)" "tier = (if tn_tier t = [] then ''free'' else tn_tier t)"
    by (auto simp: GetTier_def split: prod.splits sum.splits option.splits)
  then have t1: "tenant_row (w_db w) tid = Some t" "tier = (if tn_tier t = [] then ''free'' else tn_tier t)" "w_db w1 = w_db w"
    using tenant_GetByID_Inr [OF g(1)] by simp_all
  obtain n where n: "run_state (station_CountByTenantID E tid) w1 = (Inr n, w')" "int n < tl_max_stations (GetLimits tier)"
    using assms t by (auto simp: check_station_limit_def split: prod.splits sum.splits if_splits)
  from n(1) have "n = count_where (\<lambda>s. st_tenant_id s = Some tid) (stations (w_db w1)) \<and> w_db w' = w_db w1"
    by (auto simp: station_CountByTenantID_def query_def split: prod.splits dest!: db_call_Inr)
  with t1 n(2) show ?thesis by (intro that [of t]) auto
qed

lemma check_station_limit_Some: "run_state (check_station_limit E tid) w \<noteq> (Some (JSON st s), w')"
  by (auto simp: check_station_limit_def split: prod.splits sum.splits if_splits)

text \<open>
A station is created through the API only for a tenant that exists and has fewer stations than its tier allows; what is added is one
  station of that tenant, offline, with a slug that is well formed and that no other station has.
\<close>

theorem station_create_within_limit:
  assumes "sh_tenants h" "run_state (station_h_Create E h (Some req)) w = (JSON st s, w')"
  shows "\<exists>t tid. st = 201 \<and> cs_tenant_id req = Some tid \<and> tenant_row (w_db w) tid = Some t
    \<and> int (count_where (\<lambda>s. st_tenant_id s = Some tid) (stations (w_db w)))
        < tl_max_stations (GetLimits (if tn_tier t = [] then ''free'' else tn_tier t))
    \<and> stations (w_db w') = stations (w_db w) @ [s] \<and> st_tenant_id s = Some tid \<and> \<not> st_is_online s
    \<and> st_slug s = cs_slug req \<and> validSlug (st_slug s) \<and> st_slug s \<notin> st_slug ` set (stations (w_db w))"
proof -
  obtain tid where tid: "cs_tenant_id req = Some tid" "validSlug (cs_slug req)"
    using assms by (auto simp: station_h_Create_def split: if_splits option.splits)
  obtain w1 where c: "run_state (check_station_limit E tid) w = (None, w1)"
    using assms tid check_station_limit_Some by (auto simp: station_h_Create_def split: if_splits option.splits prod.splits)
  obtain s' w2 where i: "run_state (station_Create E req) w1 = (Inr s', w2)"
    and r: "st = 201" "s = s'" "w' = snd (run_state (log_if E (sh_audit h) ''create'' ''station'' (st_id s')
        (Some [(''name'', st_name s'), (''slug'', st_slug s')])) w2)"
    using assms tid c by (auto simp: station_h_Create_def split: if_splits option.splits prod.splits sum.splits)
  from c obtain t where t: "tenant_row (w_db w) tid = Some t" "w_db w1 = w_db w"
    "int (count_where (\<lambda>s. st_tenant_id s = Some tid) (stations (w_db w)))
       < tl_max_stations (GetLimits (if tn_tier t = [] then ''free'' else tn_tier t))" by (rule check_station_limit_None)
  have "run_state (db_call E (insert_station E req)) w1 = (Inr s', w2)"
    using i by (auto simp: station_Create_def split: prod.splits)
  from db_call_Inr [OF this] have "fst (insert_station E req (w_db w)) = Inr s'" "w_db w2 = snd (insert_station E req (w_db w))"
    using t(2) by simp_all
  then have ins: "stations (w_db w2) = stations (w_db w) @ [s']" "st_tenant_id s' = Some tid" "\<not> st_is_online s'" "st_slug s' = cs_slug req"
    "cs_slug req \<notin> st_slug ` set (stations (w_db w))"
    using tid(1) by (auto simp: insert_station_def Let_def image_iff split: if_splits)
  have "stations (w_db w') = stations (w_db w2)"
    unfolding r(3) using db_call_db [of E "insert_audit E ''create'' ''station'' (st_id s') (Some [(''name'', st_name s'), (''slug'', st_slug s')])" w2]
    by (auto simp: log_if_def audit_Log_def case_prod_unfold)
  with ins t tid r show ?thesis by auto
qed

theorem station_create_within_limit_witness:
  "\<exists>s w'. run_state (station_h_Create sample_E sample_sh (Some \<lparr>cs_name = ''N'', cs_slug = ''new-one'', cs_genre = [], cs_description = [],
       cs_artwork_url = [], cs_stream_url = [], cs_owner_id = None, cs_tenant_id = Some ''t4'', cs_is_public = True\<rparr>)) station_w = (JSON 201 s, w')
     \<and> stations (w_db w') = stations (w_db station_w) @ [s]"
proof -
  let ?req = "\<lparr>cs_name = ''N'', cs_slug = ''new-one'', cs_genre = [], cs_description = [],
       cs_artwork_url = [], cs_stream_url = [], cs_owner_id = None, cs_tenant_id = Some ''t4'', cs_is_public = True\<rparr>"
  let ?run = "run_state (station_h_Create sample_E sample_sh (Some ?req)) station_w"
  have "case fst ?run of JSON st _ \<Rightarrow> st = 201 | Error _ _ \<Rightarrow> False" by code_simp
  then obtain s w' where r: "?run = (JSON 201 s, w')" by (cases ?run) (auto split: http.splits)
  have "sh_tenants sample_sh" by (simp add: sample_sh_def)
  from station_create_within_limit [OF this r] r show ?thesis by blast
qed

section \<open>The poller\<close>

text \<open>
  Whom a request goes to: \<open>net/url\<close> takes the authority of the URL up to a slash, a question mark or a number sign, drops the user
  information before the last \<open>@\<close>, and splits off the port after the last colon.
\<close>

definition url_target :: "string \<Rightarrow> (string \<times> string) option" where
  "url_target url =
     (if has_prefix url ''http://'' then
        let authority = takeWhile (\<lambda>c. c \<noteq> CHR ''/'' \<and> c \<noteq> CHR ''?'' \<and> c \<noteq> CHR ''#'') (trim_prefix url ''http://'');
            hostport = (case split_last CHR ''@'' authority of Some (_, h) \<Rightarrow> h | None \<Rightarrow> authority)
        in Some (case split_last CHR '':'' hostport of
                   Some (h, p) \<Rightarrow> if list_all is_digit p then (h, p) else (hostport, [])
                 | None \<Rightarrow> (hostport, []))
      else None)"

text \<open>A request to port 80 of an IPv4 address in 10.0.0.0/8.\<close>

definition polite :: "ext_call \<Rightarrow> bool" where
  "polite c \<longleftrightarrow> (case c of
       DashboardStatus url \<Rightarrow>
         (case url_target url of
            Some (host, port) \<Rightarrow> port = ''80''
              \<and> (case parse_addr4 host of Some a \<Rightarrow> masked a 8 = addr_from4 [10, 0, 0, 0] | None \<Rightarrow> False)
          | None \<Rightarrow> False)
     | _ \<Rightarrow> False)"

lemma parse_octet_digits: "parse_octet s = Some n \<Longrightarrow> c \<in> set s \<Longrightarrow> is_digit c"
  by (auto simp: parse_octet_def split: if_splits)

lemma split_on_member: "c \<in> set s \<Longrightarrow> c \<noteq> x \<Longrightarrow> \<exists>u\<in>set (split_on x s). c \<in> set u"
  by (induction s) (auto split: list.split)

lemma parse_addr4_chars:
  assumes "parse_addr4 s = Some a" "c \<in> set s"
  shows "is_digit c \<or> c = CHR ''.''"
proof -
  obtain w x y z where p: "map parse_octet (split_on CHR ''.'' s) = [Some w, Some x, Some y, Some z]"
    using assms(1) by (auto simp: parse_addr4_def split: list.splits option.splits)
  show ?thesis
  proof (cases "c = CHR ''.''")
    case False
    then obtain u where u: "u \<in> set (split_on CHR ''.'' s)" "c \<in> set u" using split_on_member [OF assms(2)] by metis
    then have "parse_octet u \<in> set [Some w, Some x, Some y, Some z]" unfolding p [symmetric] by simp
    then obtain n where "parse_octet u = Some n" by auto
    then show ?thesis using parse_octet_digits u(2) by blast
  qed simp
qed

lemma status_url_target:
  assumes "parse_addr4 ip = Some a"
  shows "url_target (status_url ip) = Some (ip, ''80'')"
proof -
  have c: "c \<noteq> CHR ''/'' \<and> c \<noteq> CHR ''?'' \<and> c \<noteq> CHR ''#'' \<and> c \<noteq> CHR ''@'' \<and> c \<noteq> CHR '':''" if "c \<in> set ip" for c
    using parse_addr4_chars [OF assms that] by (auto simp: is_digit_def)
  have "takeWhile (\<lambda>c. c \<noteq> CHR ''/'' \<and> c \<noteq> CHR ''?'' \<and> c \<noteq> CHR ''#'') (ip @ '':80/api/status'') = ip @ '':80''"
    using c by (subst takeWhile_append2) auto
  moreover have "split_last CHR ''@'' (ip @ '':80'') = None" using c by (auto simp: split_last_def)
  moreover have "split_last CHR '':'' (ip @ CHR '':'' # ''80'') = Some (ip, ''80'')" by (rule split_last_append) simp
  ultimately show ?thesis by (simp add: url_target_def status_url_def has_prefix_def trim_prefix_def Let_def is_digit_def)
qed

text \<open>The check looks at the text before a colon; a text without one is allowed only if it is an IPv4 address as a whole.\<close>

lemma allowed_plain:
  assumes "isAllowedIP m ip" "CHR '':'' \<notin> set ip"
  obtains a where "parse_addr4 ip = Some a" "masked a 8 = addr_from4 [10, 0, 0, 0]"
proof -
  have "SplitHostPort ip = None" using assms(2) by (simp add: SplitHostPort_def split_last_def)
  with assms(1) obtain a where a: "ip_to4 m ip = Some a" "masked a 8 = addr_from4 [10, 0, 0, 0]"
    by (auto simp: isAllowedIP_def Let_def split: option.splits if_splits)
  have "find (\<lambda>c. c = CHR ''.'' \<or> c = CHR '':'' \<or> c = CHR ''%'') ip \<noteq> Some (CHR '':'')"
    using assms(2) by (auto simp: find_Some_iff)
  with a(1) have "parse_addr4 ip = Some a"
    by (auto simp: ip_to4_def parse_addr_def split: option.splits if_splits)
  then show thesis using a(2) by (rule that)
qed

abbreviation polite_run :: "world \<Rightarrow> world \<Rightarrow> bool" where
  "polite_run w w' \<equiv> (\<exists>new. w_trace w' = new @ w_trace w \<and> list_all polite new)"

interpretation polite: effect_logic "\<lambda>_. True" polite_run
proof
  fix u v w :: world
  assume "polite_run u v" "polite_run v w"
  then obtain a b where "w_trace v = a @ w_trace u" "w_trace w = b @ w_trace v" "list_all polite a" "list_all polite b" by blast
  then show "polite_run u w" by (intro exI [of _ "b @ a"]) simp
qed auto

lemma polite_db: "triple (\<lambda>_. True) (polite_run) (db_call E s) (\<lambda>_. True)"
  by (simp add: triple_def)

lemma polite_state:
  "triple (\<lambda>_. True) (polite_run) (store_status tid st) (\<lambda>_. True)" "triple (\<lambda>_. True) (polite_run) (ctx_cancelled E) (\<lambda>_. True)"
  by (simp_all add: triple_def store_status_def ctx_cancelled_def)

lemma polite_fetch:
  assumes "isAllowedIP m ip" "CHR '':'' \<notin> set ip"
  shows "triple (\<lambda>_. True) polite_run (fetchStatus E now ip) (\<lambda>_. True)"
proof -
  obtain a where "parse_addr4 ip = Some a" "masked a 8 = addr_from4 [10, 0, 0, 0]" by (rule allowed_plain [OF assms])
  then have "polite (DashboardStatus (status_url ip))" by (simp add: polite_def status_url_target)
  then show ?thesis by (auto simp: triple_def fetchStatus_def ext_val_def Let_def split: option.split)
qed

lemma polite_poll_tenants:
  "\<forall>(tid, ip)\<in>set ts. CHR '':'' \<notin> set ip \<Longrightarrow> triple (\<lambda>_. True) polite_run (poll_tenants E m False now ts) (\<lambda>_. True)"
proof (induction ts)
  case (Cons t ts)
  obtain tid ip where t: "t = (tid, ip)" by fastforce
  with Cons.prems have ip: "CHR '':'' \<notin> set ip" by simp
  have IH: "triple (\<lambda>_. True) polite_run (poll_tenants E m False now ts) (\<lambda>_. True)" using Cons by simp
  show ?case unfolding t poll_tenants.simps station_SetOnline_def
    by (rule polite.t_control polite_state polite_db polite_fetch ip IH TrueI | simp)+
qed (simp only: poll_tenants.simps, rule polite.t_return, rule TrueI)

text \<open>The addresses the provisioner stores have no colon.\<close>

definition plain_addresses :: "db \<Rightarrow> bool" where
  "plain_addresses d \<longleftrightarrow> (\<forall>t\<in>set (tenants d). CHR '':'' \<notin> set (case_option [] id (tn_lxc_ip t)))"

lemma addr_string_plain: "CHR '':'' \<notin> set (addr_string a)"
  using parse_addr4_chars [OF parse_addr_string, of "CHR '':''" a] by (auto simp: is_digit_def)

lemma Next_plain:
  assumes "Next v cidr used = Inr ip"
  shows "CHR '':'' \<notin> set ip"
proof -
  obtain c b where "next_free c b used = Some ip"
    using assms by (auto simp: Next_def Let_def split: option.splits addr.splits)
  then show ?thesis by (cases c) (auto simp: next_free_Some addr_string_plain)
qed

lemma GetNextAvailableIP_plain:
  "run_state (GetNextAvailableIP E cidr) w = (Inr ip, w') \<Longrightarrow> CHR '':'' \<notin> set ip"
  by (auto simp: GetNextAvailableIP_def Allocate_def dest: Next_plain split: option.splits sum.splits addr.splits prod.splits if_splits)

text \<open>
C31: The poller's own requests stay in the tenants' network: as long as no tenant's row holds an address with a colon, and the
  provisioner stores none (\<open>GetNextAvailableIP_plain\<close>), the host that every URL asked for in a polling round names is an IPv4 address in
  10.0.0.0/8, and the port is 80, whatever else the rows hold, whatever the database does, and whatever the dashboards answer. Redirects
  that the HTTP client follows are not requests of the poller.
\<close>

theorem poller_stays_in_private_network:
  assumes "plain_addresses (w_db w)"
  shows "\<exists>new. w_trace (snd (run_state (poll E m False now) w)) = new @ w_trace w \<and> list_all polite new"
proof -
  obtain r w1 where l: "run_state (ListPollable E) w = (r, w1)" by fastforce
  have tr: "w_trace w1 = w_trace w"
    using l by (auto simp: ListPollable_def listActiveWithIP_def db_call_def Let_def split: prod.splits db_fate.splits)
  show ?thesis
  proof (cases r)
    case (Inl e)
    with l tr show ?thesis by (simp add: poll_def)
  next
    case (Inr ts)
    have "\<exists>t\<in>set (tenants (w_db w)). ip = case_option [] id (tn_lxc_ip t)" if "(tid, ip) \<in> set ts" for tid ip
      using l that unfolding Inr
      by (auto simp: ListPollable_def listActiveWithIP_def toPollableTenants_def db_call_def query_def wrap_err_def Let_def
          split: prod.splits db_fate.splits sum.splits)
    with assms have "\<forall>(tid, ip)\<in>set ts. CHR '':'' \<notin> set ip" by (fastforce simp: plain_addresses_def)
    from triple_run [OF polite_poll_tenants [OF this, of E m now] TrueI, of w1] show ?thesis
      by (simp add: poll_def l Inr tr)
  qed
qed

definition poll_w :: world where
  "poll_w = station_w\<lparr>w_db := (w_db station_w)\<lparr>tenants := [(sample_tenant ''t1'' Active (Some 101) None)\<lparr>tn_lxc_ip := Some ''10.10.10.2''\<rparr>,
     (sample_tenant ''t2'' Suspended (Some 102) None)\<lparr>tn_lxc_ip := Some ''10.10.10.3''\<rparr>]\<rparr>\<rparr>"

theorem poller_stays_in_private_network_witness:
  "\<exists>new. new \<noteq> [] \<and> w_trace (snd (run_state (poll sample_E (\<lambda>_. None) False 5) poll_w)) = new @ w_trace poll_w \<and> list_all polite new"
proof -
  have "plain_addresses (w_db poll_w)" by (simp add: plain_addresses_def poll_w_def)
  from poller_stays_in_private_network [OF this, of sample_E "\<lambda>_. None" 5]
  obtain new where new: "w_trace (snd (run_state (poll sample_E (\<lambda>_. None) False 5) poll_w)) = new @ w_trace poll_w" "list_all polite new" by blast
  have "length (w_trace (snd (run_state (poll sample_E (\<lambda>_. None) False 5) poll_w))) = Suc (length (w_trace poll_w))" by code_simp
  with new show ?thesis by (intro exI [of _ new]) auto
qed

text \<open>
  The check and the URL read a text with a colon differently: user information with an allowed address before its colon passes the check,
  and the host is the one behind it. Only a row that some other writer has filled can hold such a text.
\<close>

lemma allowed_text_names_another_host:
  "isAllowedIP (\<lambda>_. None) ''10.0.0.1:x@evil.com'' \<and> url_target (status_url ''10.0.0.1:x@evil.com'') = Some (''evil.com'', ''80'')"
  by code_simp

abbreviation stations_of :: "string \<Rightarrow> db \<Rightarrow> station list" where
  "stations_of tid d \<equiv> filter (\<lambda>s. st_tenant_id s = Some tid) (stations d)"

definition synced :: "world \<Rightarrow> string \<Rightarrow> bool" where
  "synced w tid \<longleftrightarrow> (case w_status w tid of None \<Rightarrow> False | Some x \<Rightarrow> list_all (\<lambda>s. st_is_online s = ss_is_online x) (stations_of tid (w_db w)))"

definition same_for :: "world \<Rightarrow> world \<Rightarrow> string \<Rightarrow> bool" where
  "same_for w w' tid \<longleftrightarrow> w_status w' tid = w_status w tid \<and> stations_of tid (w_db w') = stations_of tid (w_db w)"

lemma synced_same: "synced w tid \<Longrightarrow> same_for w w' tid \<Longrightarrow> synced w' tid"
  unfolding synced_def same_for_def by (auto split: option.splits)

lemma set_online_rows:
  "stations_of tid (snd (set_online_stmt tid onl d)) = map (\<lambda>s. s\<lparr>st_is_online := onl, st_updated_at := db_now d\<rparr>) (stations_of tid d)"
  "other \<noteq> tid \<Longrightarrow> stations_of other (snd (set_online_stmt tid onl d)) = stations_of other d"
proof -
  have "filter (\<lambda>s. st_tenant_id s = Some tid) (update_where (\<lambda>s. st_tenant_id s = Some tid)
      (\<lambda>s. s\<lparr>st_is_online := onl, st_updated_at := db_now d\<rparr>) ss)
    = map (\<lambda>s. s\<lparr>st_is_online := onl, st_updated_at := db_now d\<rparr>) (filter (\<lambda>s. st_tenant_id s = Some tid) ss)" for ss
    by (induction ss) (auto simp: update_where_def)
  moreover have "other \<noteq> tid \<Longrightarrow> filter (\<lambda>s. st_tenant_id s = Some other) (update_where (\<lambda>s. st_tenant_id s = Some tid)
      (\<lambda>s. s\<lparr>st_is_online := onl, st_updated_at := db_now d\<rparr>) ss) = filter (\<lambda>s. st_tenant_id s = Some other) ss" for ss
    by (induction ss) (auto simp: update_where_def)
  ultimately show "stations_of tid (snd (set_online_stmt tid onl d)) = map (\<lambda>s. s\<lparr>st_is_online := onl, st_updated_at := db_now d\<rparr>) (stations_of tid d)"
    "other \<noteq> tid \<Longrightarrow> stations_of other (snd (set_online_stmt tid onl d)) = stations_of other d"
    by (simp_all add: set_online_stmt_def)
qed

lemma fetchStatus_frame:
  "w_db (snd (run_state (fetchStatus E now ip) w)) = w_db w" "w_status (snd (run_state (fetchStatus E now ip) w)) = w_status w"
  by (auto simp: fetchStatus_def ext_val_def Let_def split: option.split)

definition poll_one :: "externals \<Rightarrow> int \<Rightarrow> string \<Rightarrow> string \<Rightarrow> world \<Rightarrow> world" where
  "poll_one E now tid ip w =
     (let (s, w1) = run_state (fetchStatus E now ip) w
      in snd (run_state (station_SetOnline E tid (ss_is_online s)) (w1\<lparr>w_status := (w_status w1)(tid \<mapsto> s)\<rparr>)))"

lemma poll_one_effect:
  assumes "reliable E"
  shows "synced (poll_one E now tid ip w) tid" "other \<noteq> tid \<Longrightarrow> same_for w (poll_one E now tid ip w) other"
  using assms fetchStatus_frame [of E now ip w]
  by (auto simp: poll_one_def synced_def same_for_def station_SetOnline_def reliable_call set_online_rows list_all_iff Let_def case_prod_unfold)

lemma poll_tenants_Cons:
  assumes "\<not> ctx_done E (w_trace w)"
  shows "snd (run_state (poll_tenants E m False now ((tid, ip) # ts)) w)
    = snd (run_state (poll_tenants E m False now ts) (if isAllowedIP m ip then poll_one E now tid ip w else w))"
  using assms by (simp add: ctx_cancelled_def poll_one_def store_status_def Let_def case_prod_unfold)

lemma poll_tenants_effect:
  assumes "reliable E" "\<And>tr. \<not> ctx_done E tr" "distinct (map fst ts)"
  shows "(\<forall>(tid, ip)\<in>set ts. isAllowedIP m ip \<longrightarrow> synced (snd (run_state (poll_tenants E m False now ts) w)) tid)
    \<and> (\<forall>tid. (\<forall>ip. (tid, ip) \<in> set ts \<longrightarrow> \<not> isAllowedIP m ip) \<longrightarrow> same_for w (snd (run_state (poll_tenants E m False now ts) w)) tid)"
  using assms(3)
proof (induction ts arbitrary: w)
  case Nil
  then show ?case by (simp add: same_for_def)
next
  case (Cons t ts)
  obtain tid ip where t: "t = (tid, ip)" by fastforce
  let ?w1 = "if isAllowedIP m ip then poll_one E now tid ip w else w"
  let ?w' = "snd (run_state (poll_tenants E m False now ts) ?w1)"
  have run: "snd (run_state (poll_tenants E m False now (t # ts)) w) = ?w'"
    unfolding t using poll_tenants_Cons [of E w m now tid ip ts] assms(2) by simp
  have fresh: "\<And>i. (tid, i) \<notin> set ts" using Cons.prems t by force
  note IH = Cons.IH [of ?w1]
  have head: "same_for ?w1 ?w' tid" using IH Cons.prems fresh by auto
  have "synced ?w' tid" if "isAllowedIP m ip"
    using synced_same [OF _ head] poll_one_effect(1) [OF assms(1), where now = now and tid = tid and ip = ip and w = w] that by simp
  moreover have "same_for w ?w' other" if "\<forall>i. (other, i) \<in> set (t # ts) \<longrightarrow> \<not> isAllowedIP m i" for other
  proof -
    have "same_for w ?w1 other"
      using that poll_one_effect(2) [OF assms(1), where now = now and tid = tid and ip = ip and w = w and other = other] t by (auto simp: same_for_def)
    moreover have "same_for ?w1 ?w' other" using IH Cons.prems that by auto
    ultimately show ?thesis by (simp add: same_for_def)
  qed
  ultimately show ?case unfolding run using IH Cons.prems t by auto
qed

text \<open>
C32: A polling round that is not cancelled, over a database that answers, in which no two tenants have the same id, leaves the cache and the database in agreement about every
  active tenant with an allowed address: the tenant has a cached status, and its stations are marked online exactly if that status
  says so. The status and the stations of every other tenant, a suspended one for instance, are left as they were: a station
  that was online when its tenant was suspended stays online.
\<close>

theorem poll_keeps_stations_in_step:
  assumes "reliable E" "\<And>tr. \<not> ctx_done E tr" "distinct (map tn_id (tenants (w_db w)))"
    and "w' = snd (run_state (poll E m False now) w)"
    and "\<And>t. pollable t \<longleftrightarrow> t \<in> set (tenants (w_db w)) \<and> tn_status t = Active \<and> has_ip t \<and> isAllowedIP m (the (tn_lxc_ip t))"
  shows "(\<forall>t. pollable t \<longrightarrow> synced w' (tn_id t)) \<and> (\<forall>tid. (\<forall>t. pollable t \<longrightarrow> tn_id t \<noteq> tid) \<longrightarrow> same_for w w' tid)"
proof -
  let ?ts = "map (\<lambda>t. (tn_id t, case_option [] id (tn_lxc_ip t))) (filter (\<lambda>t. tn_status t = Active \<and> has_ip t) (tenants (w_db w)))"
  let ?w1 = "w\<lparr>w_db_calls := Suc (w_db_calls w)\<rparr>"
  have run: "w' = snd (run_state (poll_tenants E m False now ?ts) ?w1)"
    using assms(1,4) by (simp add: poll_def ListPollable_def listActiveWithIP_def toPollableTenants_def query_def reliable_call comp_def)
  have dist: "distinct (map fst ?ts)" using assms(3) by (auto simp: comp_def intro: distinct_map_filter)
  have mem: "(tid, ip) \<in> set ?ts \<and> isAllowedIP m ip \<longleftrightarrow> (\<exists>t. pollable t \<and> tn_id t = tid \<and> the (tn_lxc_ip t) = ip)" for tid ip
    by (auto simp: assms(5) has_ip_def image_iff)
  have same1: "same_for ?w1 w' tid = same_for w w' tid" for tid by (simp add: same_for_def)
  from poll_tenants_effect [OF assms(1,2) dist, of m now ?w1] show ?thesis
    unfolding run [symmetric] same1 using mem by (metis (no_types, lifting) case_prodD)
qed

definition poll_E :: externals where
  "poll_E = sample_E\<lparr>ext_dash := (\<lambda>_. Some \<lparr>da_title = ''song'', da_listeners = 7, da_mode = ''live'', da_bpm = ''99''\<rparr>)\<rparr>"

theorem poll_keeps_stations_in_step_witness:
  "synced (snd (run_state (poll poll_E (\<lambda>_. None) False 5) poll_w)) ''t1'' \<and> same_for poll_w (snd (run_state (poll poll_E (\<lambda>_. None) False 5) poll_w)) ''t2''"
proof -
  let ?w' = "snd (run_state (poll poll_E (\<lambda>_. None) False 5) poll_w)"
  let ?t1 = "(sample_tenant ''t1'' Active (Some 101) None)\<lparr>tn_lxc_ip := Some ''10.10.10.2''\<rparr>"
  let ?p = "\<lambda>t. t \<in> set (tenants (w_db poll_w)) \<and> tn_status t = Active \<and> has_ip t \<and> isAllowedIP (\<lambda>_. None) (the (tn_lxc_ip t))"
  have e: "reliable poll_E" "\<And>tr. \<not> ctx_done poll_E tr" by (simp_all add: reliable_def poll_E_def sample_data)
  have d: "distinct (map tn_id (tenants (w_db poll_w)))" by (simp add: poll_w_def sample_fields)
  have "isAllowedIP (\<lambda>_. None) ''10.10.10.2''" by code_simp
  then have p: "?p t \<longleftrightarrow> t = ?t1" for t by (auto simp: poll_w_def sample_tenant_def has_ip_def)
  have r: "(\<forall>t. ?p t \<longrightarrow> synced ?w' (tn_id t)) \<and> (\<forall>tid. (\<forall>t. ?p t \<longrightarrow> tn_id t \<noteq> tid) \<longrightarrow> same_for poll_w ?w' tid)"
    by (rule poll_keeps_stations_in_step [OF e d refl]) simp
  have "tn_id ?t1 = ''t1''" by (simp add: sample_tenant_def)
  with r [unfolded p] show ?thesis by auto
qed

end
