(* ===== verification/CP_Limiter.thy ===== *)
theory CP_Limiter
  imports CP_Sample "HOL-Library.AList"
begin

text \<open>
  The limiter of failed logins (\<open>loginLimiter\<close> in \<open>src/internal/auth/handler.go\<close>). Its map is an
  association list. A Go map is visited in no fixed order: \<open>lim_order\<close> of \<open>externals\<close> is the order a loop sees,
  and \<open>order_law\<close> says only that it visits every entry once. Times are in microseconds.
\<close>

type_synonym limiter = "(string \<times> limitEntry) list"

definition maxLoginAttempts :: nat where
  "maxLoginAttempts = 5"

definition loginLimitWindow :: int where
  "loginLimitWindow = 15 * 60 * 1000000"

definition maxLimiterEntries :: nat where
  "maxLimiterEntries = 10000"

definition limiter_check :: "int \<Rightarrow> string \<Rightarrow> limiter \<Rightarrow> bool \<times> limiter" where
  "limiter_check now email l =
     (case map_of l email of
        None \<Rightarrow> (True, l)
      | Some e \<Rightarrow>
          if loginLimitWindow < now - li_last_fail e then (True, AList.delete email l)
          else (li_failures e < maxLoginAttempts, l))"

definition sweepLocked :: "int \<Rightarrow> limiter \<Rightarrow> nat \<times> limiter" where
  "sweepLocked now l =
     (let kept = filter (\<lambda>(_, e). \<not> loginLimitWindow < now - li_last_fail e) l
      in (length l - length kept, kept))"

text \<open>The loop that looks for the least recently failed entry; the empty address doubles as "none yet".\<close>

fun pick_oldest :: "string \<Rightarrow> int \<Rightarrow> limiter \<Rightarrow> string" where
  "pick_oldest oldestEmail oldestAt [] = oldestEmail"
| "pick_oldest oldestEmail oldestAt ((email, e) # l) =
     (if oldestEmail = [] \<or> li_last_fail e < oldestAt then pick_oldest email (li_last_fail e) l
      else pick_oldest oldestEmail oldestAt l)"

definition makeRoomLocked :: "externals \<Rightarrow> int \<Rightarrow> limiter \<Rightarrow> limiter" where
  "makeRoomLocked E now l =
     (if length l < maxLimiterEntries then l
      else let l1 = snd (sweepLocked now l)
           in if length l1 < maxLimiterEntries then l1
              else AList.delete (pick_oldest [] 0 (lim_order E l1)) l1)"

definition recordFailure :: "externals \<Rightarrow> int \<Rightarrow> string \<Rightarrow> limiter \<Rightarrow> limiter" where
  "recordFailure E now email l =
     (case map_of l email of
        None \<Rightarrow> AList.update email \<lparr>li_failures = 1, li_last_fail = now\<rparr> (makeRoomLocked E now l)
      | Some e \<Rightarrow> AList.update email \<lparr>li_failures = li_failures e + 1, li_last_fail = now\<rparr> l)"

definition limiter_reset :: "string \<Rightarrow> limiter \<Rightarrow> limiter" where
  "limiter_reset email l = AList.delete email l"

section \<open>The bound\<close>

definition order_law :: "externals \<Rightarrow> bool" where
  "order_law E \<longleftrightarrow> (\<forall>l. set (lim_order E l) = set l)"

definition limiter_ok :: "limiter \<Rightarrow> bool" where
  "limiter_ok l \<longleftrightarrow> distinct (map fst l) \<and> length l \<le> maxLimiterEntries"

lemma pick_oldest_in: "pick_oldest k at l \<in> insert k (fst ` set l)"
  by (induction k at l rule: pick_oldest.induct) auto

lemma pick_oldest_key: "l \<noteq> [] \<Longrightarrow> pick_oldest [] at l \<in> fst ` set l"
  using pick_oldest_in by (cases l) fastforce+

lemma length_delete_key: "k \<in> fst ` set l \<Longrightarrow> length (AList.delete k l) < length l"
  unfolding AList.delete_eq by (auto intro: length_filter_less)

lemma length_update_key: "length (AList.update k v l) = (if k \<in> fst ` set l then length l else Suc (length l))"
  by (induction l) auto

lemma makeRoomLocked_room:
  assumes "order_law E" "limiter_ok l"
  shows "distinct (map fst (makeRoomLocked E now l)) \<and> length (makeRoomLocked E now l) < maxLimiterEntries"
proof -
  let ?l1 = "snd (sweepLocked now l)"
  have d: "distinct (map fst ?l1)" "length ?l1 \<le> maxLimiterEntries"
    using assms(2) by (auto simp: limiter_ok_def sweepLocked_def Let_def intro: distinct_map_filter order_trans [OF length_filter_le])
  have "length (AList.delete (pick_oldest [] 0 (lim_order E ?l1)) ?l1) < maxLimiterEntries" if "\<not> length ?l1 < maxLimiterEntries"
  proof -
    have "?l1 \<noteq> []" using that by (auto simp: maxLimiterEntries_def)
    then have "set (lim_order E ?l1) \<noteq> {}" using assms(1) by (simp add: order_law_def)
    then have "pick_oldest [] 0 (lim_order E ?l1) \<in> fst ` set ?l1"
      using pick_oldest_key [of "lim_order E ?l1" 0] assms(1) by (simp add: order_law_def)
    from length_delete_key [OF this] d(2) show ?thesis by simp
  qed
  then show ?thesis using assms(2) d by (auto simp: makeRoomLocked_def limiter_ok_def Let_def distinct_delete)
qed

lemma limiter_ops_ok:
  assumes "limiter_ok l"
  shows "limiter_ok (snd (limiter_check now email l))" "limiter_ok (snd (sweepLocked now l))"
    "limiter_ok (limiter_reset email l)" "order_law E \<Longrightarrow> limiter_ok (recordFailure E now email l)"
proof -
  have del: "limiter_ok (AList.delete email l)"
    using assms AList.length_delete_le [of email l] by (auto simp: limiter_ok_def distinct_delete)
  then show "limiter_ok (snd (limiter_check now email l))" "limiter_ok (limiter_reset email l)"
    using assms by (auto simp: limiter_check_def limiter_reset_def split: option.split)
  show "limiter_ok (snd (sweepLocked now l))"
    using assms by (auto simp: limiter_ok_def sweepLocked_def Let_def intro: distinct_map_filter order_trans [OF length_filter_le])
  assume E: "order_law E"
  show "limiter_ok (recordFailure E now email l)"
  proof (cases "map_of l email")
    case None
    then show ?thesis using makeRoomLocked_room [OF E assms, of now]
      by (auto simp: recordFailure_def limiter_ok_def distinct_update length_update_key)
  next
    case (Some e)
    then have "email \<in> fst ` set l" by (metis domI dom_map_of_conv_image_fst)
    then show ?thesis using assms Some by (auto simp: recordFailure_def limiter_ok_def distinct_update length_update_key)
  qed
qed

section \<open>The contract\<close>

text \<open>
  What the login handler relies on, stated over the entry of one address. A limiter promises that an entry is
  missing or counts the failures, that \<open>check\<close> is false exactly when the entry has reached the maximum inside the
  window, and that a failure counts. The lock after the maximum of failures follows from this alone.
\<close>

locale attempt_limiter =
  fixes entry :: "'s \<Rightarrow> string \<Rightarrow> (nat \<times> int) option"
    and chk :: "int \<Rightarrow> string \<Rightarrow> 's \<Rightarrow> bool \<times> 's"
    and fails :: "int \<Rightarrow> string \<Rightarrow> 's \<Rightarrow> 's"
    and attempts :: nat
    and window :: int
  assumes check_passes: "fst (chk now k s) \<longleftrightarrow>
      (case entry s k of None \<Rightarrow> True | Some (n, t) \<Rightarrow> window < now - t \<or> n < attempts)"
    and check_blocks: "\<not> fst (chk now k s) \<Longrightarrow> snd (chk now k s) = s"
    and check_entry: "entry (snd (chk now k s)) k =
      (case entry s k of None \<Rightarrow> None | Some (n, t) \<Rightarrow> if window < now - t then None else Some (n, t))"
    and fails_entry: "entry (fails now k s) k =
      Some (case entry s k of None \<Rightarrow> 1 | Some (n, t) \<Rightarrow> n + 1, now)"
begin

fun failed_attempts :: "string \<Rightarrow> int list \<Rightarrow> 's \<Rightarrow> 's" where
  "failed_attempts k [] s = s"
| "failed_attempts k (now # ts) s = failed_attempts k ts (fails now k (snd (chk now k s)))"

text \<open>Attempts that follow each other within the window add up, whatever the state they start in.\<close>

lemma attempts_add_up:
  assumes "ts \<noteq> []" "successively (\<lambda>a b. b - a \<le> window) ts"
  shows "\<exists>n. length ts \<le> n \<and> entry (failed_attempts k ts s) k = Some (n, last ts)"
  using assms
proof (induction ts rule: rev_induct)
  case (snoc t ts)
  have step: "failed_attempts k (us @ [t]) v = fails t k (snd (chk t k (failed_attempts k us v)))" for us v
    by (induction us arbitrary: v) auto
  show ?case
  proof (cases "ts = []")
    case True
    then show ?thesis by (auto simp: fails_entry split: option.split)
  next
    case False
    with snoc obtain n where n: "length ts \<le> n" "entry (failed_attempts k ts s) k = Some (n, last ts)"
      by (auto simp: successively_append_iff)
    moreover have "\<not> window < t - last ts" using snoc.prems False by (simp add: successively_append_iff)
    ultimately show ?thesis by (auto simp: step fails_entry check_entry)
  qed
qed simp

lemma locked_after_attempts:
  assumes "length ts = attempts" "ts \<noteq> []" "successively (\<lambda>a b. b - a \<le> window) ts" "now - last ts \<le> window"
  shows "chk now k (failed_attempts k ts s) = (False, failed_attempts k ts s)"
proof -
  obtain n where "attempts \<le> n" "entry (failed_attempts k ts s) k = Some (n, last ts)"
    using attempts_add_up [OF assms(2,3)] assms(1) by metis
  then have "\<not> fst (chk now k (failed_attempts k ts s))" using assms(4) by (simp add: check_passes)
  with check_blocks [OF this] show ?thesis by (simp add: prod_eq_iff)
qed

end

definition entry_of :: "limiter \<Rightarrow> string \<Rightarrow> (nat \<times> int) option" where
  "entry_of l k = map_option (\<lambda>e. (li_failures e, li_last_fail e)) (map_of l k)"

interpretation lim: attempt_limiter entry_of limiter_check "recordFailure E" maxLoginAttempts loginLimitWindow
  by unfold_locales
    (auto simp: limiter_check_def recordFailure_def entry_of_def update_conv' delete_conv' split: option.split if_splits)

end
