(* ===== verification/CP_Auth.thy ===== *)
theory CP_Auth
  imports CP_Auth_Store CP_Limiter CP_Response
begin

text \<open>
  Sessions of the users (\<open>src/internal/auth\<close>): the handlers of \<open>handler.go\<close>, the middleware of
  \<open>middleware.go\<close> and the janitor of \<open>janitor.go\<close>. JWTs and bcrypt are not part of the sources: \<open>jwt_sign\<close>,
  \<open>jwt_verify\<close>, \<open>jwt_hmac\<close> (the header names an HMAC method) and \<open>bcrypt_ok\<close> of \<open>externals\<close> stand for them. A handler
  reads the clock once, as its argument \<open>now\<close> in microseconds. A handler's value is its response with the cookies it sets.
\<close>

section \<open>Requests, responses, configuration\<close>

record cookie =
  ck_name :: string
  ck_value :: string
  ck_path :: string
  ck_http_only :: bool
  ck_secure :: bool
  ck_same_site :: string
  ck_max_age :: int

record http_request =
  hr_authorization :: string
  hr_registration :: string
  hr_cookie :: "string \<Rightarrow> string option"

type_synonym 'a reply = "'a http \<times> cookie list"

record auth_handler =
  ah_jwt_secret :: string
  ah_registration_token :: string
  ah_cookie_secure :: bool

definition auth_NewHandler :: "string \<Rightarrow> string \<Rightarrow> bool \<Rightarrow> auth_handler" where
  "auth_NewHandler jwtSecret registrationToken cookieSecure =
     \<lparr>ah_jwt_secret = jwtSecret, ah_registration_token = registrationToken, ah_cookie_secure = cookieSecure\<rparr>"

record registerRequest =
  rr_email :: string
  rr_password :: string
  rr_display_name :: string
  rr_registration_token :: string

record loginRequest =
  lq_email :: string
  lq_password :: string

record userView =
  uv_id :: string
  uv_email :: string
  uv_display_name :: string

record authResponse =
  ar_token :: string
  ar_refresh_token :: string
  ar_expires_in :: int
  ar_user :: userView

definition toUserView :: "user \<Rightarrow> userView" where
  "toUserView u = \<lparr>uv_id = ur_id u, uv_email = ur_email u, uv_display_name = ur_display_name u\<rparr>"

definition second :: int where
  "second = 1000000"

definition accessTokenExpiration :: int where
  "accessTokenExpiration = 15 * 60 * second"

definition refreshTokenExpiry :: int where
  "refreshTokenExpiry = 30 * 24 * 60 * 60 * second"

definition minPasswordLen :: nat where
  "minPasswordLen = 12"

abbreviation fail_with :: "nat \<Rightarrow> string \<Rightarrow> 'a reply cp" where
  "fail_with s m \<equiv> State_Monad.return (Error s m, [])"

section \<open>Tokens\<close>

definition new_uuid :: "externals \<Rightarrow> string cp" where
  "new_uuid E = State (\<lambda>w. let tr = NewUUID # w_trace w in (ext_text E tr, w\<lparr>w_trace := tr\<rparr>))"

definition generateAccessToken :: "externals \<Rightarrow> auth_handler \<Rightarrow> int \<Rightarrow> user \<Rightarrow> string res cp" where
  "generateAccessToken E h now u = do {
     jti \<leftarrow> new_uuid E;
     State_Monad.return (jwt_sign E (ah_jwt_secret h)
       \<lparr>jc_sub = Some (ur_id u), jc_email = Some (ur_email u), jc_jti = Some jti,
        jc_exp = Some ((now + accessTokenExpiration) div second), jc_iat = Some (now div second)\<rparr>) }"

definition issueTokenPair :: "externals \<Rightarrow> auth_handler \<Rightarrow> int \<Rightarrow> user \<Rightarrow> authResponse res cp" where
  "issueTokenPair E h now u = do {
     ra \<leftarrow> generateAccessToken E h now u;
     case ra of Inl e \<Rightarrow> State_Monad.return (Inl e) | Inr accessToken \<Rightarrow> do {
     rr \<leftarrow> GenerateRefreshToken E;
     case rr of Inl e \<Rightarrow> State_Monad.return (Inl e) | Inr refreshToken \<Rightarrow> do {
     rc \<leftarrow> CreateRefreshToken E (ur_id u) (HashToken E refreshToken) (now + refreshTokenExpiry);
     case rc of Inl e \<Rightarrow> State_Monad.return (Inl e) | Inr _ \<Rightarrow> State_Monad.return (Inr
       \<lparr>ar_token = accessToken, ar_refresh_token = refreshToken,
        ar_expires_in = accessTokenExpiration div second, ar_user = toUserView u\<rparr>) }}}"

definition setAuthCookies :: "auth_handler \<Rightarrow> string \<Rightarrow> string \<Rightarrow> cookie list" where
  "setAuthCookies h accessToken refreshToken =
     [\<lparr>ck_name = ''access_token'', ck_value = accessToken, ck_path = ''/'', ck_http_only = True,
       ck_secure = ah_cookie_secure h, ck_same_site = ''Lax'', ck_max_age = accessTokenExpiration div second\<rparr>,
      \<lparr>ck_name = ''refresh_token'', ck_value = refreshToken, ck_path = ''/api/v1/auth/'', ck_http_only = True,
       ck_secure = ah_cookie_secure h, ck_same_site = ''Strict'', ck_max_age = refreshTokenExpiry div second\<rparr>]"

definition clearAuthCookies :: "auth_handler \<Rightarrow> cookie list" where
  "clearAuthCookies h =
     [\<lparr>ck_name = ''access_token'', ck_value = [], ck_path = ''/'', ck_http_only = True,
       ck_secure = ah_cookie_secure h, ck_same_site = ''Lax'', ck_max_age = - 1\<rparr>,
      \<lparr>ck_name = ''refresh_token'', ck_value = [], ck_path = ''/api/v1/auth/'', ck_http_only = True,
       ck_secure = ah_cookie_secure h, ck_same_site = ''Strict'', ck_max_age = - 1\<rparr>]"

text \<open>How \<open>Register\<close>, \<open>Login\<close>, \<open>Refresh\<close> and \<open>ChangePassword\<close> end.\<close>

definition respond_tokens :: "externals \<Rightarrow> auth_handler \<Rightarrow> int \<Rightarrow> user \<Rightarrow> nat \<Rightarrow> string \<Rightarrow> authResponse reply cp" where
  "respond_tokens E h now u status failure = do {
     r \<leftarrow> issueTokenPair E h now u;
     State_Monad.return (case r of
         Inl _ \<Rightarrow> (Error 500 failure, [])
       | Inr resp \<Rightarrow> (JSON status resp, setAuthCookies h (ar_token resp) (ar_refresh_token resp))) }"

definition hmacKeyfunc :: "externals \<Rightarrow> string \<Rightarrow> string \<Rightarrow> string option" where
  "hmacKeyfunc E secret tokenStr = (if jwt_hmac E tokenStr then Some secret else None)"

definition jwt_Parse :: "externals \<Rightarrow> string \<Rightarrow> int \<Rightarrow> string \<Rightarrow> jwt_claims option" where
  "jwt_Parse E secret now tokenStr =
     (case hmacKeyfunc E secret tokenStr of None \<Rightarrow> None | Some k \<Rightarrow> jwt_verify E k (now div second) tokenStr)"

section \<open>The middleware\<close>

definition request_token :: "http_request \<Rightarrow> string" where
  "request_token r =
     (if has_prefix (hr_authorization r) ''Bearer '' then trim_prefix (hr_authorization r) ''Bearer ''
      else case hr_cookie r ''access_token'' of Some c \<Rightarrow> c | None \<Rightarrow> [])"

definition jwt_user :: "externals \<Rightarrow> bool \<Rightarrow> string \<Rightarrow> int \<Rightarrow> http_request \<Rightarrow> (nat \<times> string + user) cp" where
  "jwt_user E tokenStore secret now r =
     (let tokenStr = request_token r
      in if tokenStr = [] then State_Monad.return (Inl (401, ''missing authorization''))
      else case jwt_Parse E secret now tokenStr of
        None \<Rightarrow> State_Monad.return (Inl (401, ''invalid or expired token''))
      | Some claims \<Rightarrow> do {
          rv \<leftarrow> (case jc_jti claims of
                   Some jti \<Rightarrow> if jti \<noteq> [] \<and> tokenStore then IsRevoked E jti else State_Monad.return (Inr False)
                 | None \<Rightarrow> State_Monad.return (Inr False));
          case rv of
            Inl _ \<Rightarrow> State_Monad.return (Inl (500, ''failed to verify token''))
          | Inr revoked \<Rightarrow>
              if revoked then State_Monad.return (Inl (401, ''token has been revoked''))
              else case jc_sub claims of
                None \<Rightarrow> State_Monad.return (Inl (401, ''invalid token subject''))
              | Some sub \<Rightarrow>
                  if \<not> uuid_parses E sub then State_Monad.return (Inl (401, ''invalid user ID in token''))
                  else do {
                    ru \<leftarrow> user_GetByID E sub;
                    State_Monad.return (case ru of
                        Inl _ \<Rightarrow> Inl (500, ''failed to verify user'')
                      | Inr None \<Rightarrow> Inl (401, ''user not found'')
                      | Inr (Some u) \<Rightarrow> Inr u) } })"

definition JWTAuth ::
  "externals \<Rightarrow> bool \<Rightarrow> string \<Rightarrow> int \<Rightarrow> http_request \<Rightarrow> (user \<Rightarrow> 'a http cp) \<Rightarrow> 'a http cp" where
  "JWTAuth E tokenStore secret now r next = do {
     ru \<leftarrow> jwt_user E tokenStore secret now r;
     case ru of Inl (s, m) \<Rightarrow> State_Monad.return (Error s m) | Inr u \<Rightarrow> next u }"

section \<open>The handlers\<close>

definition on_limiter :: "(limiter \<Rightarrow> 'a \<times> limiter) \<Rightarrow> 'a cp" where
  "on_limiter f = State (\<lambda>w. let (x, l) = f (w_limiter w) in (x, w\<lparr>w_limiter := l\<rparr>))"

definition Register ::
  "externals \<Rightarrow> auth_handler \<Rightarrow> int \<Rightarrow> http_request \<Rightarrow> registerRequest option \<Rightarrow> authResponse reply cp" where
  "Register E h now r body =
     (case body of
        None \<Rightarrow> fail_with 400 ''invalid request body''
      | Some req \<Rightarrow>
          if ah_registration_token h \<noteq> []
             \<and> (if rr_registration_token req = [] then hr_registration r else rr_registration_token req) \<noteq> ah_registration_token h
          then fail_with 403 ''registration is not open''
          else case mail_parse E (rr_email req) of
            None \<Rightarrow> fail_with 400 ''invalid email format''
          | Some addr \<Rightarrow>
              if length (rr_password req) < minPasswordLen
              then fail_with 400 ''password must be at least 12 characters''
              else do {
                rh \<leftarrow> ext_val E (ext_text E) (BcryptHash (rr_password req));
                case rh of
                  Inl _ \<Rightarrow> fail_with 500 ''failed to process registration''
                | Inr hash \<Rightarrow> do {
                    ru \<leftarrow> user_Create E (NormalizeEmail addr) hash (rr_display_name req);
                    case ru of
                      Inl e \<Rightarrow> if pg_code e = Some ''23505'' then fail_with 409 ''email already registered''
                               else fail_with 500 ''failed to create user''
                    | Inr u \<Rightarrow> respond_tokens E h now u 201 ''failed to generate tokens'' } })"

definition Login :: "externals \<Rightarrow> auth_handler \<Rightarrow> int \<Rightarrow> loginRequest option \<Rightarrow> authResponse reply cp" where
  "Login E h now body =
     (case body of
        None \<Rightarrow> fail_with 400 ''invalid request body''
      | Some req \<Rightarrow>
          if lq_email req = [] \<or> lq_password req = [] then fail_with 400 ''email and password are required''
          else do {
            let email = NormalizeEmail (lq_email req);
            ok \<leftarrow> on_limiter (limiter_check now email);
            if \<not> ok then fail_with 429 ''too many login attempts, try again later''
            else do {
              ru \<leftarrow> GetByEmail E email;
              case ru of
                Inl _ \<Rightarrow> fail_with 500 ''failed to process login''
              | Inr None \<Rightarrow> do {
                  _ \<leftarrow> on_limiter (\<lambda>l. ((), recordFailure E now email l));
                  fail_with 401 ''invalid email or password'' }
              | Inr (Some u) \<Rightarrow>
                  if \<not> bcrypt_ok E (ur_password_hash u) (lq_password req) then do {
                    _ \<leftarrow> on_limiter (\<lambda>l. ((), recordFailure E now email l));
                    fail_with 401 ''invalid email or password'' }
                  else do {
                    _ \<leftarrow> on_limiter (\<lambda>l. ((), limiter_reset email l));
                    respond_tokens E h now u 200 ''failed to generate tokens'' } } })"

text \<open>The refresh token of \<open>Refresh\<close> and \<open>Logout\<close>: \<open>req.RefreshToken\<close> as the decoding of the body has left it
  (its error is ignored), else the cookie.\<close>

definition body_or_cookie :: "http_request \<Rightarrow> string \<Rightarrow> string" where
  "body_or_cookie r body =
     (if body = [] then (case hr_cookie r ''refresh_token'' of Some c \<Rightarrow> c | None \<Rightarrow> []) else body)"

definition Refresh :: "externals \<Rightarrow> auth_handler \<Rightarrow> int \<Rightarrow> http_request \<Rightarrow> string \<Rightarrow> authResponse reply cp" where
  "Refresh E h now r body =
     (let refreshToken = body_or_cookie r body
      in if refreshToken = [] then fail_with 400 ''refresh_token is required''
      else do {
        let tokenHash = HashToken E refreshToken;
        rv \<leftarrow> ValidateRefreshToken E tokenHash;
        case rv of
          Inl _ \<Rightarrow> fail_with 401 ''invalid or expired refresh token''
        | Inr userID \<Rightarrow> do {
            _ \<leftarrow> RevokeRefreshToken E tokenHash;
            ru \<leftarrow> user_GetByID E userID;
            case ru of
              Inr (Some u) \<Rightarrow> respond_tokens E h now u 200 ''failed to generate tokens''
            | _ \<Rightarrow> fail_with 401 ''user not found'' } })"

definition logout_token :: "http_request \<Rightarrow> string" where
  "logout_token r =
     (let tokenStr = trim_prefix (hr_authorization r) ''Bearer ''
      in if tokenStr = [] \<or> tokenStr = hr_authorization r
         then (case hr_cookie r ''access_token'' of Some c \<Rightarrow> c | None \<Rightarrow> tokenStr) else tokenStr)"

definition Logout ::
  "externals \<Rightarrow> auth_handler \<Rightarrow> int \<Rightarrow> http_request \<Rightarrow> user option \<Rightarrow> string \<Rightarrow> string reply cp" where
  "Logout E h now r ctx_user body =
     (case ctx_user of
        None \<Rightarrow> fail_with 401 ''not authenticated''
      | Some u \<Rightarrow> do {
          _ \<leftarrow> (case jwt_Parse E (ah_jwt_secret h) now (logout_token r) of
                  None \<Rightarrow> State_Monad.return (Inr ())
                | Some claims \<Rightarrow>
                    (case jc_jti claims of
                       None \<Rightarrow> State_Monad.return (Inr ())
                     | Some jti \<Rightarrow>
                         if jti = [] then State_Monad.return (Inr ())
                         else Revoke E jti (ur_id u)
                                (case jc_exp claims of Some x \<Rightarrow> x * second | None \<Rightarrow> 0)));
          _ \<leftarrow> (let refreshTokenValue = body_or_cookie r body
                in if refreshTokenValue \<noteq> [] then RevokeRefreshToken E (HashToken E refreshTokenValue)
                   else State_Monad.return (Inr ()));
          State_Monad.return (JSON 200 ''logged out'', clearAuthCookies h) })"

definition ChangePassword ::
  "externals \<Rightarrow> auth_handler \<Rightarrow> int \<Rightarrow> user option \<Rightarrow> (string \<times> string) option \<Rightarrow> authResponse reply cp" where
  "ChangePassword E h now ctx_user body =
     (case ctx_user of
        None \<Rightarrow> fail_with 401 ''not authenticated''
      | Some u \<Rightarrow>
          (case body of
             None \<Rightarrow> fail_with 400 ''invalid request body''
           | Some (oldPassword, newPassword) \<Rightarrow>
               if oldPassword = [] \<or> newPassword = [] then fail_with 400 ''old_password and new_password are required''
               else if length newPassword < minPasswordLen
               then fail_with 400 ''new password must be at least 12 characters''
               else if \<not> bcrypt_ok E (ur_password_hash u) oldPassword
               then fail_with 401 ''incorrect current password''
               else do {
                 rh \<leftarrow> ext_val E (ext_text E) (BcryptHash newPassword);
                 case rh of
                   Inl _ \<Rightarrow> fail_with 500 ''failed to update password''
                 | Inr hash \<Rightarrow> do {
                     rp \<leftarrow> UpdatePassword E (ur_id u) hash;
                     case rp of
                       Inl _ \<Rightarrow> fail_with 500 ''failed to update password''
                     | Inr _ \<Rightarrow> do {
                         _ \<leftarrow> RevokeAllUserRefreshTokens E (ur_id u);
                         respond_tokens E h now u 200 ''password updated but failed to generate new tokens'' } } }))"

definition Me :: "user option \<Rightarrow> userView http" where
  "Me ctx_user = (case ctx_user of None \<Rightarrow> Error 401 ''not authenticated'' | Some u \<Rightarrow> JSON 200 (toUserView u))"

section \<open>The janitor\<close>

definition CleanOnce :: "externals \<Rightarrow> bool \<Rightarrow> int \<Rightarrow> unit cp" where
  "CleanOnce E tokens now = do {
     _ \<leftarrow> (if tokens then Cleanup E else State_Monad.return (Inr ()));
     _ \<leftarrow> on_limiter (sweepLocked now);
     State_Monad.return () }"

section \<open>Only steps of the system\<close>

lemma new_uuid_steps [io_rules]: "cp_triple E (new_uuid E) (\<lambda>_. True)"
  by (auto simp: triple_def new_uuid_def Let_def)

lemma on_limiter_steps [io_rules]: "cp_triple E (on_limiter f) (\<lambda>_. True)"
  by (auto simp: triple_def on_limiter_def Let_def split: prod.splits)

lemma respond_tokens_steps [io_rules]: "cp_triple E (respond_tokens E h now u s m) (\<lambda>_. True)"
  unfolding respond_tokens_def issueTokenPair_def generateAccessToken_def by (rule cp_rules io_rules)+

lemma jwt_user_steps [io_rules]: "cp_triple E (jwt_user E ts secret now r) (\<lambda>_. True)"
  unfolding jwt_user_def by (rule cp_rules io_rules)+

lemma JWTAuth_steps [io_rules]:
  "(\<And>u. cp_triple E (next u) (\<lambda>_. True)) \<Longrightarrow> cp_triple E (JWTAuth E ts secret now r next) (\<lambda>_. True)"
  unfolding JWTAuth_def by (rule cp_rules io_rules | assumption)+

lemma auth_handlers_steps [io_rules]:
  "cp_triple E (Register E h now r rbody) (\<lambda>_. True)" "cp_triple E (Login E h now lbody) (\<lambda>_. True)"
  "cp_triple E (Refresh E h now r v) (\<lambda>_. True)" "cp_triple E (Logout E h now r cu v) (\<lambda>_. True)"
  "cp_triple E (ChangePassword E h now cu pbody) (\<lambda>_. True)" "cp_triple E (CleanOnce E ts now) (\<lambda>_. True)"
  unfolding Register_def Login_def Refresh_def Logout_def ChangePassword_def CleanOnce_def
  by (rule cp_rules cp_ext_val io_rules)+

end
