(* ===== verification/CP_Admin_Auth.thy ===== *)
theory CP_Admin_Auth
  imports CP_Auth CP_Tenant_Handlers
begin

text \<open>
  How administrators sign in: the session cookie (\<open>src/internal/admin/auth.go\<close>), the passkeys
  (\<open>webauthn_store.go\<close>) and the two halves of a registration or a login with their challenge in between (\<open>webauthn.go\<close>), and the deletion of
  a passkey (\<open>handler_settings.go\<close>). The WebAuthn library and the JSON of a session are parameters: the library's session data is a
  text, \<open>la_finish_register\<close> and \<open>la_finish_login\<close> say which answers of a browser it accepts for a challenge, and a login may be refused before the
  library asks for the passkeys. A handler reads the clock once, as \<open>now\<close> in microseconds.
\<close>

section \<open>Responses of the admin pages\<close>

text \<open>A page or a part of one with the data it is made from, a flash message, a redirect of the browser or of htmx (perhaps with a toast), the
  answer that ends polling, and plain errors. Templates only lay the data out and are not modelled.\<close>

datatype 'a ui =
    Render 'a
  | Flash nat string
  | HxRedirect "string option" string
  | SeeOther string
  | StopPolling
  | Failure nat string

fun ui_status :: "'a ui \<Rightarrow> nat" where
  "ui_status (Render x) = 200"
| "ui_status (Flash st msg) = st"
| "ui_status (HxRedirect toast url) = 200"
| "ui_status (SeeOther url) = 303"
| "ui_status StopPolling = 286"
| "ui_status (Failure st msg) = st"

definition renderFlash :: "string \<Rightarrow> 'a ui" where
  "renderFlash msg = Flash 200 msg"

section \<open>The session cookie\<close>

definition sessionCookieName :: string where
  "sessionCookieName = ''admin_session''"

definition sessionMaxAge :: int where
  "sessionMaxAge = 8 * 3600 * second"

definition challengeTTL :: int where
  "challengeTTL = 5 * 60 * second"

record login_lib =
  la_marshal :: "string \<Rightarrow> int \<Rightarrow> string option"
  la_unmarshal :: "string \<Rightarrow> (string \<times> int) option"
  la_finish_register :: "string \<Rightarrow> wa_credential list \<Rightarrow> string \<Rightarrow> string \<Rightarrow> wa_credential option"
  la_finish_login :: "string \<Rightarrow> string \<Rightarrow> (string \<Rightarrow> wa_credential list \<Rightarrow> wa_credential option) option"

record admin_auth =
  aa_encryption_key :: string
  aa_setup_token :: string
  aa_lib :: login_lib

definition admin_cookie :: "string \<Rightarrow> int \<Rightarrow> cookie" where
  "admin_cookie value maxAge = \<lparr>ck_name = sessionCookieName, ck_value = value, ck_path = ''/admin'', ck_http_only = True,
     ck_secure = True, ck_same_site = ''Strict'', ck_max_age = maxAge\<rparr>"

definition clearSessionCookie :: cookie where
  "clearSessionCookie = admin_cookie [] (- 1)"

definition setSessionCookie :: "externals \<Rightarrow> admin_auth \<Rightarrow> int \<Rightarrow> cookie res cp" where
  "setSessionCookie E A now =
     (case la_marshal (aa_lib A) ''admin'' (now + sessionMaxAge) of
        None \<Rightarrow> State_Monad.return (Inl (GoErr ''json''))
      | Some data \<Rightarrow> do {
          r \<leftarrow> Encrypt E data (aa_encryption_key A);
          State_Monad.return (case r of
              Inl e \<Rightarrow> Inl e
            | Inr encrypted \<Rightarrow> Inr (admin_cookie encrypted (sessionMaxAge div second))) })"

text \<open>\<open>requireAuth\<close> lets the request through or answers with the way to the login page; an unusable cookie is cleared.\<close>

definition requireAuth :: "externals \<Rightarrow> admin_auth \<Rightarrow> int \<Rightarrow> http_request \<Rightarrow> ('a ui \<times> cookie list) cp \<Rightarrow> ('a ui \<times> cookie list) cp" where
  "requireAuth E A now r next =
     (case hr_cookie r sessionCookieName of
        None \<Rightarrow> State_Monad.return (SeeOther ''/admin/login'', [])
      | Some value \<Rightarrow>
          if value = [] then State_Monad.return (SeeOther ''/admin/login'', [])
          else (case Decrypt E value (aa_encryption_key A) of
              Inl _ \<Rightarrow> State_Monad.return (SeeOther ''/admin/login'', [clearSessionCookie])
            | Inr plaintext \<Rightarrow>
                (case la_unmarshal (aa_lib A) plaintext of
                   None \<Rightarrow> State_Monad.return (SeeOther ''/admin/login'', [clearSessionCookie])
                 | Some (uid, exp) \<Rightarrow>
                     if exp < now then State_Monad.return (SeeOther ''/admin/login'', [clearSessionCookie])
                     else next)))"

definition isAuthenticated :: "externals \<Rightarrow> admin_auth \<Rightarrow> int \<Rightarrow> http_request \<Rightarrow> bool" where
  "isAuthenticated E A now r =
     (case hr_cookie r sessionCookieName of
        None \<Rightarrow> False
      | Some value \<Rightarrow>
          if value = [] then False
          else (case Decrypt E value (aa_encryption_key A) of
              Inl _ \<Rightarrow> False
            | Inr plaintext \<Rightarrow>
                (case la_unmarshal (aa_lib A) plaintext of None \<Rightarrow> False | Some (uid, exp) \<Rightarrow> now < exp)))"

section \<open>The passkeys\<close>

text \<open>\<open>hex.DecodeString\<close> with its error ignored: the bytes before it.\<close>

fun hex_bytes :: "string \<Rightarrow> string" where
  "hex_bytes (a # b # s) = (case hex_decode [a, b] of Some x \<Rightarrow> x @ hex_bytes s | None \<Rightarrow> [])"
| "hex_bytes s = []"

definition NewAdminUser :: "externals \<Rightarrow> string \<Rightarrow> string" where
  "NewAdminUser E encryptionKey = hmac_sha256 E (hex_bytes encryptionKey) ''webauthn-admin''"

definition by_creation :: "db \<Rightarrow> credential_row list" where
  "by_creation d = order_by (\<lambda>a b. cw_created_at a \<le> cw_created_at b) (credentials d)"

definition ListCredentials :: "externals \<Rightarrow> wa_credential list res cp" where
  "ListCredentials E = db_call E (query (\<lambda>d. map cw_credential (by_creation d)))"

definition insert_credential :: "externals \<Rightarrow> wa_credential \<Rightarrow> unit stmt" where
  "insert_credential E c d =
     (let cid = gen_uuid E (uuid_ctr d); d1 = d\<lparr>uuid_ctr := Suc (uuid_ctr d)\<rparr>
      in case int4 (wc_sign_count c) of
           Inl e \<Rightarrow> (Inl e, d)
         | Inr _ \<Rightarrow>
             if \<exists>x\<in>set (credentials d). cw_id x = cid \<or> wc_id (cw_credential x) = wc_id c
             then (Inl unique_violation, d1)
             else (Inr (), d1\<lparr>credentials := credentials d @ [\<lparr>cw_id = cid, cw_credential = c, cw_created_at = db_now d\<rparr>]\<rparr>))"

definition AddCredential :: "externals \<Rightarrow> wa_credential \<Rightarrow> unit res cp" where
  "AddCredential E c = db_call E (insert_credential E c)"

definition sign_count_stmt :: "string \<Rightarrow> int \<Rightarrow> unit stmt" where
  "sign_count_stmt credentialID n d =
     (case int4 n of
        Inl e \<Rightarrow> (Inl e, d)
      | Inr _ \<Rightarrow> (Inr (), d\<lparr>credentials := update_where (\<lambda>x. wc_id (cw_credential x) = credentialID)
                   (\<lambda>x. x\<lparr>cw_credential := (cw_credential x)\<lparr>wc_sign_count := n\<rparr>\<rparr>) (credentials d)\<rparr>))"

definition UpdateSignCount :: "externals \<Rightarrow> string \<Rightarrow> int \<Rightarrow> unit res cp" where
  "UpdateSignCount E credentialID n = db_call E (sign_count_stmt credentialID n)"

definition HasCredentials :: "externals \<Rightarrow> bool res cp" where
  "HasCredentials E = db_call E (query (\<lambda>d. credentials d \<noteq> []))"

definition ListCredentialInfos :: "externals \<Rightarrow> (string \<times> int \<times> int) list res cp" where
  "ListCredentialInfos E = db_call E (query (\<lambda>d.
     map (\<lambda>x. (cw_id x, cw_created_at x, wc_sign_count (cw_credential x))) (by_creation d)))"

definition delete_credential :: "string \<Rightarrow> unit stmt" where
  "delete_credential cid d = (Inr (), d\<lparr>credentials := filter (\<lambda>x. cw_id x \<noteq> cid) (credentials d)\<rparr>)"

definition DeleteCredential :: "externals \<Rightarrow> string \<Rightarrow> unit res cp" where
  "DeleteCredential E cid = db_call E (delete_credential cid)"

section \<open>Challenges\<close>

definition admin_generateToken :: "externals \<Rightarrow> string res cp" where
  "admin_generateToken E = do {
     r \<leftarrow> ext_val E (ext_text E) (RandRead 32);
     State_Monad.return (case r of Inl e \<Rightarrow> Inl e | Inr b \<Rightarrow> Inr (b64_encode b)) }"

definition live_challenges :: "int \<Rightarrow> (string \<rightharpoonup> challenge) \<Rightarrow> (string \<rightharpoonup> challenge)" where
  "live_challenges now m = (\<lambda>k. case m k of None \<Rightarrow> None | Some c \<Rightarrow> if ch_expires c < now then None else Some c)"

definition SetSession :: "externals \<Rightarrow> int \<Rightarrow> string \<Rightarrow> string \<Rightarrow> int \<Rightarrow> string res cp" where
  "SetSession E now flowType data expires = do {
     r \<leftarrow> admin_generateToken E;
     case r of
       Inl e \<Rightarrow> State_Monad.return (Inl e)
     | Inr token \<Rightarrow> State (\<lambda>w. (Inr token,
         w\<lparr>w_challenges := (live_challenges now (w_challenges w))
             (token \<mapsto> \<lparr>ch_data = data, ch_expires = expires, ch_flow = flowType\<rparr>)\<rparr>)) }"

text \<open>A challenge is taken out when it is looked up, whatever comes of it.\<close>

definition GetSession :: "int \<Rightarrow> string \<Rightarrow> string \<Rightarrow> string option cp" where
  "GetSession now token expectedFlow = State (\<lambda>w.
     case w_challenges w token of
       None \<Rightarrow> (None, w)
     | Some entry \<Rightarrow>
         (if ch_flow entry \<noteq> expectedFlow then None
          else if ch_expires entry < now then None
          else Some (ch_data entry),
          w\<lparr>w_challenges := (w_challenges w)(token := None)\<rparr>))"

section \<open>The endpoints\<close>

definition loginPage :: "externals \<Rightarrow> admin_auth \<Rightarrow> int \<Rightarrow> http_request \<Rightarrow> bool ui cp" where
  "loginPage E A now r =
     (if isAuthenticated E A now r then State_Monad.return (SeeOther ''/admin/'')
      else do {
        h \<leftarrow> HasCredentials E;
        State_Monad.return (case h of Inl _ \<Rightarrow> Failure 500 ''internal error'' | Inr has \<Rightarrow> Render has) })"

text \<open>The answer of a first half is the library's challenge and the token it is kept under.\<close>

definition open_challenge :: "externals \<Rightarrow> int \<Rightarrow> string \<Rightarrow> string \<Rightarrow> (string \<times> string) http cp" where
  "open_challenge E now flowType failure = do {
     rs \<leftarrow> ext_val E (ext_text E) (WaChallenge flowType);
     case rs of
       Inl _ \<Rightarrow> State_Monad.return (Error 500 failure)
     | Inr session \<Rightarrow> do {
         rt \<leftarrow> SetSession E now flowType session (now + challengeTTL);
         State_Monad.return (case rt of Inl _ \<Rightarrow> Error 500 ''internal error'' | Inr token \<Rightarrow> JSON 200 (session, token)) } }"

definition registerBegin :: "externals \<Rightarrow> admin_auth \<Rightarrow> int \<Rightarrow> http_request \<Rightarrow> string \<Rightarrow> (string \<times> string) http cp" where
  "registerBegin E A now r providedToken = do {
     h \<leftarrow> HasCredentials E;
     case h of
       Inl _ \<Rightarrow> State_Monad.return (Error 500 ''internal error'')
     | Inr has \<Rightarrow>
         if has \<and> \<not> isAuthenticated E A now r then State_Monad.return (Error 403 ''forbidden'')
         else if \<not> has \<and> aa_setup_token A = []
         then State_Monad.return (Error 403 ''setup token required for first registration'')
         else if \<not> has \<and> providedToken \<noteq> aa_setup_token A
         then State_Monad.return (Error 403 ''invalid setup token'')
         else do {
           rc \<leftarrow> ListCredentials E;
           case rc of
             Inl _ \<Rightarrow> State_Monad.return (Error 500 ''internal error'')
           | Inr creds \<Rightarrow> open_challenge E now ''register'' ''failed to begin registration'' } }"

definition sign_in :: "externals \<Rightarrow> admin_auth \<Rightarrow> int \<Rightarrow> string \<Rightarrow> unit reply cp" where
  "sign_in E A now failure = do {
     rs \<leftarrow> setSessionCookie E A now;
     State_Monad.return (case rs of Inl _ \<Rightarrow> (Error 500 failure, []) | Inr c \<Rightarrow> (JSON 200 (), [c])) }"

definition registerFinish :: "externals \<Rightarrow> admin_auth \<Rightarrow> int \<Rightarrow> http_request \<Rightarrow> string \<Rightarrow> string \<Rightarrow> unit reply cp" where
  "registerFinish E A now r sessionToken body = do {
     h \<leftarrow> HasCredentials E;
     case h of
       Inl _ \<Rightarrow> State_Monad.return (Error 500 ''internal error'', [])
     | Inr has \<Rightarrow>
         if has \<and> \<not> isAuthenticated E A now r then State_Monad.return (Error 403 ''forbidden'', [])
         else if sessionToken = [] then State_Monad.return (Error 400 ''missing session token'', [])
         else do {
           rg \<leftarrow> GetSession now sessionToken ''register'';
           case rg of
             None \<Rightarrow> State_Monad.return (Error 400 ''no pending registration'', [])
           | Some session \<Rightarrow> do {
               rc \<leftarrow> ListCredentials E;
               case rc of
                 Inl _ \<Rightarrow> State_Monad.return (Error 500 ''internal error'', [])
               | Inr creds \<Rightarrow>
                   (case la_finish_register (aa_lib A) (NewAdminUser E (aa_encryption_key A)) creds session body of
                      None \<Rightarrow> State_Monad.return (Error 400 ''registration failed'', [])
                    | Some credential \<Rightarrow> do {
                        ra \<leftarrow> AddCredential E credential;
                        case ra of
                          Inl _ \<Rightarrow> State_Monad.return (Error 500 ''failed to store credential'', [])
                        | Inr _ \<Rightarrow> sign_in E A now ''registered but failed to create session'' }) } } }"

definition loginBegin :: "externals \<Rightarrow> int \<Rightarrow> (string \<times> string) http cp" where
  "loginBegin E now = open_challenge E now ''login'' ''failed to begin login''"

text \<open>The library looks at the answer, then asks for the passkeys, then decides.\<close>

definition passkey_of :: "externals \<Rightarrow> admin_auth \<Rightarrow> string \<Rightarrow> string \<Rightarrow> wa_credential option cp" where
  "passkey_of E A session body =
     (case la_finish_login (aa_lib A) session body of
        None \<Rightarrow> State_Monad.return None
      | Some decide \<Rightarrow> do {
          rc \<leftarrow> ListCredentials E;
          State_Monad.return (case rc of
              Inl _ \<Rightarrow> None
            | Inr creds \<Rightarrow> decide (NewAdminUser E (aa_encryption_key A)) creds) })"

definition loginFinish :: "externals \<Rightarrow> admin_auth \<Rightarrow> int \<Rightarrow> string \<Rightarrow> string \<Rightarrow> unit reply cp" where
  "loginFinish E A now sessionToken body =
     (if sessionToken = [] then State_Monad.return (Error 400 ''no pending login'', [])
      else do {
        rg \<leftarrow> GetSession now sessionToken ''login'';
        case rg of
          None \<Rightarrow> State_Monad.return (Error 400 ''no pending login'', [])
        | Some session \<Rightarrow> do {
            rp \<leftarrow> passkey_of E A session body;
            case rp of
              None \<Rightarrow> State_Monad.return (Error 401 ''login failed'', [])
            | Some credential \<Rightarrow> do {
                _ \<leftarrow> UpdateSignCount E (wc_id credential) (wc_sign_count credential);
                sign_in E A now ''authenticated but failed to create session'' } } })"

definition admin_logout :: "unit ui \<times> cookie list" where
  "admin_logout = (SeeOther ''/admin/login'', [clearSessionCookie])"

definition deleteCredential :: "externals \<Rightarrow> string \<Rightarrow> unit ui cp" where
  "deleteCredential E cid =
     (if \<not> ValidUUID E cid then State_Monad.return (renderFlash ''Invalid credential ID'')
      else do {
        rc \<leftarrow> ListCredentialInfos E;
        case rc of
          Inl _ \<Rightarrow> State_Monad.return (renderFlash ''Failed to check credentials'')
        | Inr creds \<Rightarrow>
            if length creds \<le> 1 then State_Monad.return (renderFlash ''Cannot delete the last credential'')
            else do {
              r \<leftarrow> DeleteCredential E cid;
              State_Monad.return (case r of
                  Inl _ \<Rightarrow> renderFlash ''Failed to delete credential''
                | Inr _ \<Rightarrow> HxRedirect None ''/admin/settings'') } })"

section \<open>Only steps of the system\<close>

lemma credential_stmts:
  "auth_stmt (insert_credential E c)" "auth_stmt (sign_count_stmt i n)" "auth_stmt (delete_credential i)"
  by (auto simp: auth_stmt_def insert_credential_def sign_count_stmt_def delete_credential_def Let_def int4_def
      split: sum.split intro!: sessions_kept_frame)

lemma credential_store_steps [io_rules]:
  "cp_triple E (ListCredentials E) (\<lambda>_. True)" "cp_triple E (AddCredential E c) (\<lambda>_. True)"
  "cp_triple E (UpdateSignCount E i n) (\<lambda>_. True)" "cp_triple E (HasCredentials E) (\<lambda>_. True)"
  "cp_triple E (ListCredentialInfos E) (\<lambda>_. True)" "cp_triple E (DeleteCredential E i) (\<lambda>_. True)"
  unfolding ListCredentials_def AddCredential_def UpdateSignCount_def HasCredentials_def ListCredentialInfos_def DeleteCredential_def
  by (rule cp_rules cp_query cp_other credential_stmts)+

lemma cp_local: "(\<And>w. w_db (snd (run_state m w)) = w_db w) \<Longrightarrow> cp_triple E m (\<lambda>_. True)"
  by (rule tripleI) simp

lemma challenge_steps [io_rules]:
  "cp_triple E (SetSession E now f d x) (\<lambda>_. True)" "cp_triple E (GetSession now tok f) (\<lambda>_. True)"
  unfolding SetSession_def admin_generateToken_def GetSession_def
  by (rule cp_rules cp_ext_val cp_local | simp split: option.split)+

lemma admin_auth_steps [io_rules]:
  "cp_triple E (setSessionCookie E A now) (\<lambda>_. True)" "cp_triple E (loginPage E A now r) (\<lambda>_. True)"
  "cp_triple E (open_challenge E now f m) (\<lambda>_. True)" "cp_triple E (passkey_of E A sd body) (\<lambda>_. True)"
  "cp_triple E (deleteCredential E cid) (\<lambda>_. True)"
  unfolding setSessionCookie_def loginPage_def open_challenge_def passkey_of_def deleteCredential_def Encrypt_def
  by (rule cp_rules io_rules cp_ext_val)+

lemma sign_in_steps [io_rules]: "cp_triple E (sign_in E A now m) (\<lambda>_. True)"
  unfolding sign_in_def by (rule cp_rules io_rules)+

lemma passkey_steps [io_rules]:
  "cp_triple E (registerBegin E A now r tok) (\<lambda>_. True)" "cp_triple E (registerFinish E A now r tok body) (\<lambda>_. True)"
  "cp_triple E (loginBegin E now) (\<lambda>_. True)" "cp_triple E (loginFinish E A now tok body) (\<lambda>_. True)"
  unfolding registerBegin_def registerFinish_def loginBegin_def loginFinish_def by (rule cp_rules io_rules)+

end
