(* ===== verification/CP_Infra_Handlers.thy ===== *)
theory CP_Infra_Handlers
  imports CP_Tenant_Handlers
begin

text \<open>
  The admin API over nodes and projects (\<open>src/internal/node/handler.go\<close>, \<open>src/internal/project/handler.go\<close>).
  A deletion that succeeds answers 204 without a body.
\<close>

section \<open>Nodes\<close>

record node_handler =
  nh_audit :: bool
  nh_encryption_key :: string
  nh_provisioner :: bool

definition name_end :: "char \<Rightarrow> bool" where
  "name_end c \<longleftrightarrow> is_lower c \<or> is_digit c"

definition name_inner :: "char \<Rightarrow> bool" where
  "name_inner c \<longleftrightarrow> is_lower c \<or> is_digit c \<or> c \<in> set ''._-''"

definition nameRegexp :: rx where
  "nameRegexp = Seq (Cls name_end) (Seq (Star (Cls name_inner)) (Cls name_end))"

text \<open>\<open>net.ParseIP\<close>: the addresses of \<open>netip.ParseAddr\<close> without a zone.\<close>

definition parses_as_ip :: "externals \<Rightarrow> string \<Rightarrow> bool" where
  "parses_as_ip E s =
     (case parse_addr (valid6 E) s of None \<Rightarrow> False | Some (Addr4 _) \<Rightarrow> True | Some (Addr6 _) \<Rightarrow> CHR ''%'' \<notin> set s)"

definition https_url :: "externals \<Rightarrow> string \<Rightarrow> bool" where
  "https_url E u =
     (case url_parse E u of None \<Rightarrow> False | Some (scheme, host, _) \<Rightarrow> scheme = ''https'' \<and> host \<noteq> [])"

definition node_h_List :: "externals \<Rightarrow> (string \<Rightarrow> string) \<Rightarrow> node list_result http cp" where
  "node_h_List E q = do {
     let params = ParseListParams q;
     r \<leftarrow> node_ListPaginated E (lp_limit params) (lp_offset params);
     State_Monad.return (case r of
         Inl _ \<Rightarrow> Error 500 ''failed to list nodes''
       | Inr (ns, n) \<Rightarrow> JSON 200 (list_result params ns n)) }"

definition node_h_Get :: "externals \<Rightarrow> string \<Rightarrow> node http cp" where
  "node_h_Get E nid =
     (if \<not> ValidUUID E nid then State_Monad.return (Error 400 ''invalid node ID format'')
      else do {
        r \<leftarrow> node_GetByID E nid;
        State_Monad.return (case r of
            Inl _ \<Rightarrow> Error 500 ''failed to get node''
          | Inr None \<Rightarrow> Error 404 ''node not found''
          | Inr (Some n) \<Rightarrow> JSON 200 n) })"

definition node_h_Create :: "externals \<Rightarrow> node_handler \<Rightarrow> create_node_request option \<Rightarrow> node http cp" where
  "node_h_Create E h body =
     (case body of
        None \<Rightarrow> State_Monad.return (Error 400 ''invalid request body'')
      | Some req \<Rightarrow>
          if cn_name req = [] \<or> cn_tailscale_ip req = [] \<or> cn_proxmox_url req = [] \<or> cn_api_token req = []
             \<or> cn_total_ram_mb req \<le> 0
          then State_Monad.return (Error 400 ''name, tailscale_ip, proxmox_url, api_token, and total_ram_mb are required'')
          else if \<not> matches nameRegexp (cn_name req) \<or> 63 < length (cn_name req)
          then State_Monad.return (Error 400 ''invalid name: must be lowercase alphanumeric with hyphens/dots/underscores, 2-63 chars'')
          else if \<not> parses_as_ip E (cn_tailscale_ip req)
          then State_Monad.return (Error 400 ''invalid tailscale_ip: must be a valid IP address'')
          else if \<not> https_url E (cn_proxmox_url req)
          then State_Monad.return (Error 400 ''invalid proxmox_url: must be a valid HTTPS URL'')
          else do {
            re \<leftarrow> Encrypt E (cn_api_token req) (nh_encryption_key h);
            case re of
              Inl _ \<Rightarrow> State_Monad.return (Error 500 ''failed to encrypt api token'')
            | Inr encrypted \<Rightarrow> do {
                r \<leftarrow> node_Create E (req\<lparr>cn_api_token := encrypted\<rparr>);
                case r of
                  Inl e \<Rightarrow> State_Monad.return
                      (if pg_code e = Some ''23505'' then Error 409 ''name already exists''
                       else Error 500 ''failed to create node'')
                | Inr n \<Rightarrow> do {
                    _ \<leftarrow> log_if E (nh_audit h) ''create'' ''node'' (nd_id n) (Some [(''name'', nd_name n)]);
                    State_Monad.return (JSON 201 n) } } })"

text \<open>The three checks of the optional fields, then the encryption of a new token.\<close>

definition node_update_invalid :: "externals \<Rightarrow> update_node_request \<Rightarrow> string option" where
  "node_update_invalid E req =
     (if (case un_status req of None \<Rightarrow> False | Some s \<Rightarrow> s \<notin> set [''active'', ''maintenance'', ''offline''])
      then Some ''invalid status: must be active, maintenance, or offline''
      else if (case un_total_ram_mb req of None \<Rightarrow> False | Some r \<Rightarrow> r \<le> 0)
      then Some ''total_ram_mb must be positive''
      else if (case un_proxmox_url req of None \<Rightarrow> False | Some u \<Rightarrow> \<not> https_url E u)
      then Some ''invalid proxmox_url: must be a valid HTTPS URL''
      else None)"

definition encrypt_token :: "externals \<Rightarrow> node_handler \<Rightarrow> update_node_request \<Rightarrow> update_node_request res cp" where
  "encrypt_token E h req =
     (case un_api_token req of
        None \<Rightarrow> State_Monad.return (Inr req)
      | Some token \<Rightarrow> do {
          r \<leftarrow> Encrypt E token (nh_encryption_key h);
          State_Monad.return (case r of Inl e \<Rightarrow> Inl e | Inr c \<Rightarrow> Inr (req\<lparr>un_api_token := Some c\<rparr>)) })"

definition node_h_Update ::
  "externals \<Rightarrow> node_handler \<Rightarrow> string \<Rightarrow> update_node_request option \<Rightarrow> node http cp" where
  "node_h_Update E h nid body =
     (if \<not> ValidUUID E nid then State_Monad.return (Error 400 ''invalid node ID format'')
      else case body of
        None \<Rightarrow> State_Monad.return (Error 400 ''invalid request body'')
      | Some req0 \<Rightarrow>
          (case node_update_invalid E req0 of
             Some m \<Rightarrow> State_Monad.return (Error 400 m)
           | None \<Rightarrow> do {
               re \<leftarrow> encrypt_token E h req0;
               case re of
                 Inl _ \<Rightarrow> State_Monad.return (Error 500 ''failed to encrypt api token'')
               | Inr req \<Rightarrow> do {
                   r \<leftarrow> node_Update E nid req;
                   case r of
                     Inl e \<Rightarrow> State_Monad.return
                         (if errors_is e node_ErrNoUpdate then Error 400 ''no fields to update''
                          else if errors_is e ErrRAMBelowAllocated
                          then Error 409 ''total_ram_mb cannot be less than allocated_ram_mb''
                          else Error 500 ''failed to update node'')
                   | Inr None \<Rightarrow> State_Monad.return (Error 404 ''node not found'')
                   | Inr (Some n) \<Rightarrow> do {
                       _ \<leftarrow> (if un_api_token req \<noteq> None \<and> nh_provisioner h then InvalidateClient nid
                            else State_Monad.return ());
                       _ \<leftarrow> log_if E (nh_audit h) ''update'' ''node'' (nd_id n) None;
                       State_Monad.return (JSON 200 n) } } }))"

definition node_h_Delete :: "externals \<Rightarrow> node_handler \<Rightarrow> string \<Rightarrow> unit http cp" where
  "node_h_Delete E h nid =
     (if \<not> ValidUUID E nid then State_Monad.return (Error 400 ''invalid node ID format'')
      else do {
        rc \<leftarrow> node_CountTenants E nid;
        case rc of
          Inl _ \<Rightarrow> State_Monad.return (Error 500 ''failed to check node dependencies'')
        | Inr c \<Rightarrow>
            if 0 < c then State_Monad.return (Error 409 ''cannot delete node with active tenants'')
            else do {
              r \<leftarrow> node_Delete E nid;
              case r of
                Inl e \<Rightarrow> State_Monad.return
                    (if errors_is e ErrNoRows then Error 404 ''node not found'' else Error 500 ''failed to delete node'')
              | Inr _ \<Rightarrow> do {
                  _ \<leftarrow> log_if E (nh_audit h) ''delete'' ''node'' nid None;
                  State_Monad.return (JSON 204 ()) } } })"

section \<open>Projects\<close>

definition project_h_List :: "externals \<Rightarrow> (string \<Rightarrow> string) \<Rightarrow> project list_result http cp" where
  "project_h_List E q = do {
     let params = ParseListParams q;
     r \<leftarrow> project_ListPaginated E (lp_limit params) (lp_offset params);
     State_Monad.return (case r of
         Inl _ \<Rightarrow> Error 500 ''failed to list projects''
       | Inr (ps, n) \<Rightarrow> JSON 200 (list_result params ps n)) }"

definition project_h_Get :: "externals \<Rightarrow> string \<Rightarrow> project http cp" where
  "project_h_Get E pid =
     (if \<not> ValidUUID E pid then State_Monad.return (Error 400 ''invalid project ID format'')
      else do {
        r \<leftarrow> project_GetByID E pid;
        State_Monad.return (case r of
            Inl _ \<Rightarrow> Error 500 ''failed to get project''
          | Inr None \<Rightarrow> Error 404 ''project not found''
          | Inr (Some p) \<Rightarrow> JSON 200 p) })"

definition project_h_Create :: "externals \<Rightarrow> bool \<Rightarrow> create_project_request option \<Rightarrow> project http cp" where
  "project_h_Create E audited body =
     (case body of
        None \<Rightarrow> State_Monad.return (Error 400 ''invalid request body'')
      | Some req \<Rightarrow>
          if cp_name req = [] \<or> cp_template_id req \<le> 0
          then State_Monad.return (Error 400 ''name and template_id are required'')
          else do {
            r \<leftarrow> project_Create E req;
            case r of
              Inl e \<Rightarrow> State_Monad.return
                  (if pg_code e = Some ''23505'' then Error 409 ''name already exists''
                   else Error 500 ''failed to create project'')
            | Inr p \<Rightarrow> do {
                _ \<leftarrow> log_if E audited ''create'' ''project'' (pr_id p) (Some [(''name'', pr_name p)]);
                State_Monad.return (JSON 201 p) } })"

definition project_h_Update ::
  "externals \<Rightarrow> bool \<Rightarrow> string \<Rightarrow> update_project_request option \<Rightarrow> project http cp" where
  "project_h_Update E audited pid body =
     (if \<not> ValidUUID E pid then State_Monad.return (Error 400 ''invalid project ID format'')
      else case body of
        None \<Rightarrow> State_Monad.return (Error 400 ''invalid request body'')
      | Some req \<Rightarrow> do {
          r \<leftarrow> project_Update E pid req;
          case r of
            Inl e \<Rightarrow> State_Monad.return
                (if errors_is e project_ErrNoUpdate then Error 400 ''no fields to update''
                 else if pg_code e = Some ''23505'' then Error 409 ''name already exists''
                 else Error 500 ''failed to update project'')
          | Inr None \<Rightarrow> State_Monad.return (Error 404 ''project not found'')
          | Inr (Some p) \<Rightarrow> do {
              _ \<leftarrow> log_if E audited ''update'' ''project'' (pr_id p) None;
              State_Monad.return (JSON 200 p) } })"

definition project_h_Delete :: "externals \<Rightarrow> bool \<Rightarrow> string \<Rightarrow> unit http cp" where
  "project_h_Delete E audited pid =
     (if \<not> ValidUUID E pid then State_Monad.return (Error 400 ''invalid project ID format'')
      else do {
        rc \<leftarrow> project_CountTenants E pid;
        case rc of
          Inl _ \<Rightarrow> State_Monad.return (Error 500 ''failed to check project dependencies'')
        | Inr c \<Rightarrow>
            if 0 < c then State_Monad.return (Error 409 ''cannot delete project with active tenants'')
            else do {
              r \<leftarrow> project_Delete E pid;
              case r of
                Inl e \<Rightarrow> State_Monad.return
                    (if errors_is e ErrNoRows then Error 404 ''project not found'' else Error 500 ''failed to delete project'')
              | Inr _ \<Rightarrow> do {
                  _ \<leftarrow> log_if E audited ''delete'' ''project'' pid None;
                  State_Monad.return (JSON 204 ()) } } })"

section \<open>Only steps of the system\<close>

lemma Encrypt_steps [io_rules]: "cp_triple E (Encrypt E p k) (\<lambda>_. True)"
  unfolding Encrypt_def by (rule cp_rules cp_ext_val)+

lemma encrypt_token_steps [io_rules]: "cp_triple E (encrypt_token E h req) (\<lambda>_. True)"
  unfolding encrypt_token_def by (rule cp_rules io_rules)+

lemma node_handler_steps [io_rules]:
  "cp_triple E (node_h_List E q) (\<lambda>_. True)"
  "cp_triple E (node_h_Get E nid) (\<lambda>_. True)"
  "cp_triple E (node_h_Create E h cbody) (\<lambda>_. True)"
  "cp_triple E (node_h_Update E h nid ubody) (\<lambda>_. True)"
  "cp_triple E (node_h_Delete E h nid) (\<lambda>_. True)"
  unfolding node_h_List_def node_h_Get_def node_h_Create_def node_h_Update_def node_h_Delete_def
  by (rule cp_rules io_rules | simp)+

lemma project_handler_steps [io_rules]:
  "cp_triple E (project_h_List E q) (\<lambda>_. True)"
  "cp_triple E (project_h_Get E pid) (\<lambda>_. True)"
  "cp_triple E (project_h_Delete E au pid) (\<lambda>_. True)"
  unfolding project_h_List_def project_h_Get_def project_h_Delete_def
  by (rule cp_rules io_rules | simp)+

text \<open>The two operations that carry an amount of RAM, for amounts that are not negative.\<close>

lemma project_writes_steps [io_rules]:
  "(\<And>req. cbody = Some req \<Longrightarrow> 0 \<le> cp_ram_mb req) \<Longrightarrow> cp_triple E (project_h_Create E au cbody) (\<lambda>_. True)"
  "(\<And>req r. ubody = Some req \<Longrightarrow> up_ram_mb req = Some r \<Longrightarrow> 0 \<le> r)
     \<Longrightarrow> cp_triple E (project_h_Update E au pid ubody) (\<lambda>_. True)"
  unfolding project_h_Create_def project_h_Update_def by (rule cp_rules io_rules | simp)+

section \<open>Deleting nodes and projects\<close>

lemma log_if_frame [simp]:
  assumes "reliable E"
  shows "nodes (w_db (snd (run_state (log_if E on a ety eid x) w))) = nodes (w_db w)"
    and "projects (w_db (snd (run_state (log_if E on a ety eid x) w))) = projects (w_db w)"
    and "tenants (w_db (snd (run_state (log_if E on a ety eid x) w))) = tenants (w_db w)"
  by (simp_all add: log_if_def audit_Log_def reliable_call [OF assms])

lemma tenants_counted: "0 < count_where P (ts :: tenant list) \<longleftrightarrow> (\<exists>t\<in>set ts. P t)"
  using count_where_zero [of P ts] by auto

text \<open>
Deleting a node that exists: while a tenant on it is not deleted the answer is 409; when only deleted tenants
  refer to it the foreign key of their rows makes the deletion fail and the answer is 500, every time; otherwise the
  node is removed, and only it. In the first two cases no table changes.
\<close>

theorem node_delete_outcome:
  assumes E: "reliable E" and "ValidUUID E nid" "node_row (w_db w) nid = Some n"
    and run: "run_state (node_h_Delete E h nid) w = (r, w')"
  shows "if \<exists>t\<in>set (tenants (w_db w)). tn_node_id t = nid \<and> tn_status t \<noteq> Deleted
     then r = Error 409 ''cannot delete node with active tenants'' \<and> w_db w' = w_db w
     else if \<exists>t\<in>set (tenants (w_db w)). tn_node_id t = nid
     then r = Error 500 ''failed to delete node'' \<and> w_db w' = w_db w
     else r = JSON 204 () \<and> nodes (w_db w') = filter (\<lambda>m. nd_id m \<noteq> nid) (nodes (w_db w))
        \<and> projects (w_db w') = projects (w_db w) \<and> tenants (w_db w') = tenants (w_db w)"
proof -
  have some: "count_where (\<lambda>m. nd_id m = nid) (nodes (w_db w)) \<noteq> 0"
    using assms(3) by (auto simp: count_where_zero node_row_def dest: select_one_Some)
  let ?w = "w\<lparr>w_db_calls := Suc (Suc (w_db_calls w)), w_db := snd (delete_node nid (w_db w))\<rparr>"
  note frame = log_if_frame [OF E, of "nh_audit h" "''delete''" "''node''" nid None ?w]
  show ?thesis
    using run frame some
    by (auto simp: node_h_Delete_def assms(2,3) node_CountTenants_def node_Delete_def reliable_call [OF E]
        query_def wrap_err_def tenants_counted delete_node_def split: prod.splits if_splits)
qed

text \<open>The sample deployment with every tenant deleted.\<close>

definition sample_retired :: world where
  "sample_retired = sample_w\<lparr>w_db := sample_db\<lparr>tenants := map (\<lambda>t. t\<lparr>tn_status := Deleted\<rparr>) (tenants sample_db)\<rparr>\<rparr>"

definition sample_nh :: node_handler where
  "sample_nh = \<lparr>nh_audit = True, nh_encryption_key = [], nh_provisioner = True\<rparr>"

lemma sample_retired_rows:
  "node_row (w_db sample_retired) ''n1'' = Some sample_node" "project_row (w_db sample_retired) ''p1'' = Some sample_project"
  "\<forall>t\<in>set (tenants (w_db sample_retired)). tn_node_id t = ''n1'' \<and> tn_project_id t = ''p1'' \<and> tn_status t = Deleted"
  "tenants (w_db sample_retired) \<noteq> []"
  by (simp_all add: sample_retired_def node_row_def project_row_def select_one_def sample_data)

theorem node_delete_outcome_witness:
  "fst (run_state (node_h_Delete sample_E sample_nh ''n1'') sample_retired) = Error 500 ''failed to delete node''"
proof -
  obtain r w' where run: "run_state (node_h_Delete sample_E sample_nh ''n1'') sample_retired = (r, w')" by fastforce
  with node_delete_outcome [OF sample_reliable(1) _ sample_retired_rows(1) run] sample_retired_rows(3,4)
  show ?thesis by (auto simp: ValidUUID_def sample_fields split: if_splits)
qed

text \<open>
  Deleting a project that exists, in the same way: 409 while one of its tenants is not deleted, 500 when only deleted
  tenants refer to it, and otherwise it is removed, and only it.
\<close>

theorem project_delete_outcome:
  assumes E: "reliable E" and "ValidUUID E pid" "project_row (w_db w) pid = Some p"
    and run: "run_state (project_h_Delete E audited pid) w = (r, w')"
  shows "if \<exists>t\<in>set (tenants (w_db w)). tn_project_id t = pid \<and> tn_status t \<noteq> Deleted
     then r = Error 409 ''cannot delete project with active tenants'' \<and> w_db w' = w_db w
     else if \<exists>t\<in>set (tenants (w_db w)). tn_project_id t = pid
     then r = Error 500 ''failed to delete project'' \<and> w_db w' = w_db w
     else r = JSON 204 () \<and> projects (w_db w') = filter (\<lambda>q. pr_id q \<noteq> pid) (projects (w_db w))
        \<and> nodes (w_db w') = nodes (w_db w) \<and> tenants (w_db w') = tenants (w_db w)"
proof -
  have some: "count_where (\<lambda>q. pr_id q = pid) (projects (w_db w)) \<noteq> 0"
    using assms(3) by (auto simp: count_where_zero project_row_def dest: select_one_Some)
  let ?w = "w\<lparr>w_db_calls := Suc (Suc (w_db_calls w)), w_db := snd (delete_project pid (w_db w))\<rparr>"
  note frame = log_if_frame [OF E, of audited "''delete''" "''project''" pid None ?w]
  show ?thesis
    using run frame some
    by (auto simp: project_h_Delete_def assms(2,3) project_CountTenants_def project_Delete_def reliable_call [OF E]
        query_def wrap_err_def tenants_counted delete_project_def split: prod.splits if_splits)
qed

theorem project_delete_outcome_witness:
  "fst (run_state (project_h_Delete sample_E True ''p1'') sample_w) = Error 409 ''cannot delete project with active tenants''"
proof -
  obtain r w' where run: "run_state (project_h_Delete sample_E True ''p1'') sample_w = (r, w')" by fastforce
  moreover have "\<exists>t\<in>set (tenants (w_db sample_w)). tn_project_id t = ''p1'' \<and> tn_status t \<noteq> Deleted"
    by (simp add: sample_data)
  ultimately show ?thesis
    using project_delete_outcome [OF sample_reliable(1) _ _ run] by (simp add: ValidUUID_def sample_simps)
qed

section \<open>The client cache after an update\<close>

text \<open>
  A successful update of a node drops its cached Proxmox client exactly when it carries a new API token (and a
  provisioner is attached). An update that only moves the node to another Proxmox URL keeps the cached client, so later
  operations go on to call the old URL: \<open>getClient\<close> answers from the cache without looking at the row.
\<close>

theorem node_update_client_cache:
  assumes "run_state (node_h_Update E h nid (Some req)) w = (JSON s n, w')"
  shows "w_clients w' = (if un_api_token req \<noteq> None \<and> nh_provisioner h then (w_clients w)(nid := None) else w_clients w)
     \<and> (un_api_token req = None \<and> w_clients w nid = Some c \<longrightarrow> run_state (getClient E cfg nid) w' = (Inr c, w'))"
proof -
  have enc: "w_clients w1 = w_clients v \<and> (\<forall>req'. x = Inr req' \<longrightarrow> (un_api_token req' = None) = (un_api_token req = None))"
    if "run_state (encrypt_token E h req) v = (x, w1)" for v x w1
    using that by (auto simp: encrypt_token_def Encrypt_def ext_val_def Let_def split: option.splits sum.splits if_splits prod.splits)
  have upd: "w_clients w1 = w_clients v" if "run_state (node_Update E nid req') v = (x, w1)" for v x w1 req'
    using that by (auto simp: node_Update_def node_GetByID_def db_call_def Let_def split: option.splits sum.splits if_splits prod.splits db_fate.splits)
  have log: "w_clients w1 = w_clients v" if "run_state (log_if E on a ety eid y) v = (x, w1)" for on a ety eid y v x w1
    using that by (auto simp: log_if_def audit_Log_def db_call_def Let_def split: if_splits prod.splits db_fate.splits)
  from assms have "w_clients w' = (if un_api_token req \<noteq> None \<and> nh_provisioner h then (w_clients w)(nid := None) else w_clients w)"
    by (auto simp: node_h_Update_def InvalidateClient_def split: if_splits option.splits prod.splits sum.splits
        dest!: enc upd log)
  then show ?thesis by (simp add: getClient_def cached_client_def)
qed

definition sample_move :: update_node_request where
  "sample_move = \<lparr>un_status = None, un_total_ram_mb = None, un_proxmox_url = Some ''https://10.10.0.9:8006'', un_api_token = None\<rparr>"

lemma sample_move_accepted:
  "case run_state (node_h_Update sample_E sample_nh ''n1'' (Some sample_move)) sample_w of
     (JSON s n, w') \<Rightarrow> map nd_proxmox_url (nodes (w_db w')) = [''https://10.10.0.9:8006''] | (Error s m, w') \<Rightarrow> False"
  by code_simp

theorem node_update_client_cache_witness:
  "\<exists>w'. map nd_proxmox_url (nodes (w_db w')) = [''https://10.10.0.9:8006'']
     \<and> run_state (getClient sample_E (New []) ''n1'') w' = (Inr (''https://10.10.0.2:8006'', ''token''), w')"
proof -
  obtain s n w' where "run_state (node_h_Update sample_E sample_nh ''n1'' (Some sample_move)) sample_w = (JSON s n, w')"
    and url: "map nd_proxmox_url (nodes (w_db w')) = [''https://10.10.0.9:8006'']"
    using sample_move_accepted by (auto split: prod.splits http.splits)
  from node_update_client_cache [OF this(1), of "(''https://10.10.0.2:8006'', ''token'')" "New []"] url
  show ?thesis by (intro exI [of _ w']) (simp add: sample_fields sample_move_def)
qed

end
