(* ===== verification/CP_Admin.thy ===== *)
theory CP_Admin
  imports CP_Admin_Auth CP_Infra_Handlers CP_Wg_Handlers
begin

text \<open>
  The admin pages over nodes, projects, the dashboard, the settings and the audit log (\<open>handler.go\<close>, \<open>handler_nodes.go\<close>,
  \<open>handler_projects.go\<close>, \<open>handler_dashboard.go\<close>, \<open>handler_settings.go\<close>, \<open>handler_audit.go\<close> of \<open>src/internal/admin\<close>). A form is the
  function from a field to its first value, \<open>None\<close> when it cannot be parsed. A panic is the answer 500 of the recovering middleware, with no body.
\<close>

record admin_handler =
  ad_auth :: admin_auth
  ad_audit :: bool
  ad_prov :: provisioner_cfg
  ad_wg :: "wg_handler option"

type_synonym form = "(string \<Rightarrow> string) option"

abbreviation internal_error :: "'a ui" where
  "internal_error \<equiv> Failure 500 ''internal error''"

abbreviation panicked :: "'a ui" where
  "panicked \<equiv> Failure 500 []"

definition admin_lifecycle :: "admin_handler \<Rightarrow> lifecycle_service" where
  "admin_lifecycle h = \<lparr>ls_audit = ad_audit h, ls_prov = ad_prov h\<rparr>"

section \<open>Shared helpers\<close>

definition deleteStatusRefusalPrefix :: string where
  "deleteStatusRefusalPrefix = ''tenant cannot be deleted in current status: ''"

definition adminFlashMessages :: "(string \<times> string) list" where
  "adminFlashMessages =
     [(''invalid subdomain: must be lowercase alphanumeric with hyphens, 2-63 chars'',
       ''Invalid subdomain: lowercase alphanumeric with hyphens, 2-63 chars''),
      (''subdomain is reserved'', ''Subdomain is reserved''),
      (''insufficient capacity on node'', ''Insufficient RAM capacity on node''),
      (''failed to reserve resources'', ''Failed to reserve resources''),
      (''name or subdomain already exists'', ''Name or subdomain already exists''),
      (''failed to create tenant'', ''Failed to create tenant''),
      (''tenant is already being deleted'', ''Tenant is already being deleted''),
      (''failed to deprovision tenant'', ''Failed to deprovision tenant''),
      (''failed to delete tenant'', ''Failed to delete tenant''),
      (''failed to get project'', ''Failed to get project''),
      (''failed to get tenant'', ''Failed to get tenant'')]"

definition adminFlashMessage :: "LifecycleError \<Rightarrow> string" where
  "adminFlashMessage lerr =
     (if has_prefix (le_message lerr) deleteStatusRefusalPrefix
      then ''Cannot delete tenant in status: '' @ trim_prefix (le_message lerr) deleteStatusRefusalPrefix
      else (case map_of adminFlashMessages (le_message lerr) of Some msg \<Rightarrow> msg | None \<Rightarrow> le_message lerr))"

definition flashLifecycle :: "LifecycleError \<Rightarrow> 'a ui" where
  "flashLifecycle lerr =
     (if le_kind lerr = FailureConflict then Flash 409 (adminFlashMessage lerr) else renderFlash (adminFlashMessage lerr))"

record enriched_tenant =
  et_tenant :: tenant
  et_project_name :: string
  et_node_name :: string

definition truncID :: "string \<Rightarrow> string" where
  "truncID i = (if 8 \<le> length i then take 8 i else if i = [] then ''?'' else i)"

definition buildMaps :: "node list \<Rightarrow> project list \<Rightarrow> (string \<rightharpoonup> string) \<times> (string \<rightharpoonup> string)" where
  "buildMaps ns ps =
     (fold (\<lambda>n m. m(nd_id n \<mapsto> nd_name n)) ns Map.empty, fold (\<lambda>p m. m(pr_id p \<mapsto> pr_name p)) ps Map.empty)"

definition name_or_id :: "string option \<Rightarrow> string \<Rightarrow> string" where
  "name_or_id nm i = (case nm of None \<Rightarrow> truncID i | Some s \<Rightarrow> if s = [] then truncID i else s)"

definition enrichTenant :: "tenant \<Rightarrow> (string \<rightharpoonup> string) \<Rightarrow> (string \<rightharpoonup> string) \<Rightarrow> enriched_tenant" where
  "enrichTenant t nodeMap projectMap =
     \<lparr>et_tenant = t, et_project_name = name_or_id (projectMap (tn_project_id t)) (tn_project_id t),
      et_node_name = name_or_id (nodeMap (tn_node_id t)) (tn_node_id t)\<rparr>"

definition enrichSingle :: "externals \<Rightarrow> tenant \<Rightarrow> enriched_tenant cp" where
  "enrichSingle E t = do {
     rp \<leftarrow> project_GetByID E (tn_project_id t);
     rn \<leftarrow> node_GetByID E (tn_node_id t);
     State_Monad.return
       \<lparr>et_tenant = t,
        et_project_name = name_or_id (case rp of Inr (Some p) \<Rightarrow> Some (pr_name p) | _ \<Rightarrow> None) (tn_project_id t),
        et_node_name = name_or_id (case rn of Inr (Some n) \<Rightarrow> Some (nd_name n) | _ \<Rightarrow> None) (tn_node_id t)\<rparr> }"

section \<open>Nodes\<close>

definition nodesList :: "externals \<Rightarrow> node list ui cp" where
  "nodesList E = do {
     r \<leftarrow> node_List E;
     State_Monad.return (case r of Inl _ \<Rightarrow> internal_error | Inr ns \<Rightarrow> Render ns) }"

text \<open>The six checks of the form, in their order.\<close>

definition node_form_invalid :: "externals \<Rightarrow> (string \<Rightarrow> string) \<Rightarrow> string option" where
  "node_form_invalid E f =
     (let name = trim_space (f ''name''); ip = trim_space (f ''tailscale_ip''); u = trim_space (f ''proxmox_url'');
          token = trim_space (f ''api_token''); ram = f ''total_ram_mb''
      in if name = [] \<or> ip = [] \<or> u = [] \<or> token = [] \<or> ram = [] then Some ''All fields are required''
         else if \<not> matches nameRegexp name \<or> 63 < length name
         then Some ''Invalid name: lowercase alphanumeric with hyphens/dots/underscores, 2-63 chars''
         else if \<not> parses_as_ip E ip then Some ''Invalid Tailscale IP address''
         else if \<not> https_url E u then Some ''Invalid Proxmox URL: must be a valid HTTPS URL''
         else if (case atoi ram of None \<Rightarrow> True | Some n \<Rightarrow> n \<le> 0) then Some ''Total RAM must be a positive number''
         else None)"

definition createNode :: "externals \<Rightarrow> admin_handler \<Rightarrow> form \<Rightarrow> node ui cp" where
  "createNode E h form =
     (case form of
        None \<Rightarrow> State_Monad.return (renderFlash ''Invalid form data'')
      | Some f \<Rightarrow>
          (case node_form_invalid E f of
             Some msg \<Rightarrow> State_Monad.return (renderFlash msg)
           | None \<Rightarrow> do {
               re \<leftarrow> Encrypt E (trim_space (f ''api_token'')) (aa_encryption_key (ad_auth h));
               case re of
                 Inl _ \<Rightarrow> State_Monad.return (renderFlash ''Failed to encrypt API token'')
               | Inr encrypted \<Rightarrow> do {
                   r \<leftarrow> node_Create E
                          \<lparr>cn_name = trim_space (f ''name''), cn_tailscale_ip = trim_space (f ''tailscale_ip''),
                           cn_proxmox_url = trim_space (f ''proxmox_url''), cn_api_token = encrypted,
                           cn_total_ram_mb = case_option 0 id (atoi (f ''total_ram_mb''))\<rparr>;
                   case r of
                     Inl e \<Rightarrow> State_Monad.return
                       (renderFlash (if pg_code e = Some ''23505'' then ''Node name already exists'' else ''Failed to create node''))
                   | Inr n \<Rightarrow> do {
                       _ \<leftarrow> log_if E (ad_audit h) ''create'' ''node'' (nd_id n) (Some [(''name'', nd_name n)]);
                       State_Monad.return (Render n) } } }))"

definition nodeDetail :: "externals \<Rightarrow> string \<Rightarrow> (node \<times> enriched_tenant list) ui cp" where
  "nodeDetail E nid =
     (if \<not> ValidUUID E nid then State_Monad.return (Failure 400 ''invalid ID'')
      else do {
        rn \<leftarrow> node_GetByID E nid;
        case rn of
          Inl _ \<Rightarrow> State_Monad.return internal_error
        | Inr None \<Rightarrow> State_Monad.return (Failure 404 ''not found'')
        | Inr (Some n) \<Rightarrow> do {
            rt \<leftarrow> tenant_List E;
            case rt of
              Inl _ \<Rightarrow> State_Monad.return internal_error
            | Inr allTenants \<Rightarrow> do {
                rp \<leftarrow> project_List E;
                State_Monad.return (case rp of
                    Inl _ \<Rightarrow> internal_error
                  | Inr ps \<Rightarrow> Render (n,
                      map (\<lambda>t. \<lparr>et_tenant = t,
                                et_project_name = name_or_id (snd (buildMaps [] ps) (tn_project_id t)) (tn_project_id t),
                                et_node_name = nd_name n\<rparr>)
                        (filter (\<lambda>t. tn_node_id t = nid \<and> tn_status t \<noteq> Deleted) allTenants))) } } })"

text \<open>An empty field is no change. The API token cannot be changed here, so no cached client is dropped. The updated row is not looked at:
  an update of a node that does not exist is reported as done.\<close>

definition node_update_form :: "(string \<Rightarrow> string) \<Rightarrow> string + update_node_request" where
  "node_update_form f =
     (if f ''status'' \<noteq> [] \<and> f ''status'' \<notin> set [''active'', ''maintenance'', ''offline''] then Inl ''Invalid status''
      else if f ''total_ram_mb'' \<noteq> [] \<and> (case atoi (f ''total_ram_mb'') of None \<Rightarrow> True | Some n \<Rightarrow> n \<le> 0)
      then Inl ''Invalid RAM value''
      else Inr \<lparr>un_status = (if f ''status'' = [] then None else Some (f ''status'')),
                un_total_ram_mb = (if f ''total_ram_mb'' = [] then None else atoi (f ''total_ram_mb'')),
                un_proxmox_url = None, un_api_token = None\<rparr>)"

definition updateNodeAdmin :: "externals \<Rightarrow> admin_handler \<Rightarrow> string \<Rightarrow> form \<Rightarrow> unit ui cp" where
  "updateNodeAdmin E h nid form =
     (if \<not> ValidUUID E nid then State_Monad.return (renderFlash ''Invalid node ID'')
      else case form of
        None \<Rightarrow> State_Monad.return (renderFlash ''Invalid form data'')
      | Some f \<Rightarrow>
          (case node_update_form f of
             Inl msg \<Rightarrow> State_Monad.return (renderFlash msg)
           | Inr req \<Rightarrow> do {
               r \<leftarrow> node_Update E nid req;
               case r of
                 Inl e \<Rightarrow> State_Monad.return (renderFlash
                   (if errors_is e node_ErrNoUpdate then ''No changes to apply''
                    else if errors_is e ErrRAMBelowAllocated then ''Total RAM cannot be less than allocated RAM''
                    else ''Failed to update node''))
               | Inr _ \<Rightarrow> do {
                   _ \<leftarrow> (if un_api_token req \<noteq> None then InvalidateClient nid else State_Monad.return ());
                   _ \<leftarrow> log_if E (ad_audit h) ''update'' ''node'' nid None;
                   State_Monad.return (HxRedirect (Some ''Node updated'') (''/admin/nodes/'' @ nid)) } }))"

definition deleteNodeAdmin :: "externals \<Rightarrow> admin_handler \<Rightarrow> string \<Rightarrow> unit ui cp" where
  "deleteNodeAdmin E h nid =
     (if \<not> ValidUUID E nid then State_Monad.return (renderFlash ''Invalid node ID'')
      else do {
        rc \<leftarrow> node_CountTenants E nid;
        case rc of
          Inl _ \<Rightarrow> State_Monad.return (renderFlash ''Failed to check node dependencies'')
        | Inr c \<Rightarrow>
            if 0 < c
            then State_Monad.return (renderFlash (''Cannot delete node: '' @ string_of_nat c @ '' active tenant(s)''))
            else do {
              r \<leftarrow> node_Delete E nid;
              case r of
                Inl _ \<Rightarrow> State_Monad.return (renderFlash ''Failed to delete node'')
              | Inr _ \<Rightarrow> do {
                  _ \<leftarrow> log_if E (ad_audit h) ''delete'' ''node'' nid None;
                  State_Monad.return (HxRedirect None ''/admin/nodes'') } } })"

section \<open>Projects\<close>

definition projectsList :: "externals \<Rightarrow> project list ui cp" where
  "projectsList E = do {
     r \<leftarrow> project_List E;
     State_Monad.return (case r of Inl _ \<Rightarrow> internal_error | Inr ps \<Rightarrow> Render ps) }"

fun parse_ports :: "string list \<Rightarrow> string + int list" where
  "parse_ports [] = Inr []"
| "parse_ports (ps # rest) =
     (case (case atoi (trim_space ps) of None \<Rightarrow> None | Some p \<Rightarrow> if p < 1 \<or> 65535 < p then None else Some p) of
        None \<Rightarrow> Inl (''Invalid port number: '' @ trim_space ps)
      | Some p \<Rightarrow> (case parse_ports rest of Inl m \<Rightarrow> Inl m | Inr qs \<Rightarrow> Inr (p # qs)))"

definition project_form :: "(string \<Rightarrow> string) \<Rightarrow> string + create_project_request" where
  "project_form f =
     (let name = trim_space (f ''name''); portsStr = trim_space (f ''ports''); ramStr = f ''ram_mb''
      in if name = [] \<or> f ''template_id'' = [] then Inl ''Name and Template ID are required''
         else (case (case atoi (f ''template_id'') of None \<Rightarrow> None | Some t \<Rightarrow> if t \<le> 0 then None else Some t) of
             None \<Rightarrow> Inl ''Template ID must be a positive number''
           | Some templateID \<Rightarrow>
               (case (if portsStr = [] then Inr None else map_sum id Some (parse_ports (split_on CHR '','' portsStr))) of
                  Inl msg \<Rightarrow> Inl msg
                | Inr ports \<Rightarrow>
                    (case (if ramStr = [] then Some 0
                           else case atoi ramStr of None \<Rightarrow> None | Some n \<Rightarrow> if n < 0 then None else Some n) of
                       None \<Rightarrow> Inl ''RAM must be a non-negative number''
                     | Some ramMB \<Rightarrow> Inr
                         \<lparr>cp_name = name, cp_template_id = templateID, cp_ports = ports, cp_stripe_price_id = None,
                          cp_health_path = trim_space (f ''health_path''), cp_ram_mb = ramMB, cp_network_cidr = [],
                          cp_gateway = []\<rparr>))))"

definition createProject :: "externals \<Rightarrow> admin_handler \<Rightarrow> form \<Rightarrow> project ui cp" where
  "createProject E h form =
     (case form of
        None \<Rightarrow> State_Monad.return (renderFlash ''Invalid form data'')
      | Some f \<Rightarrow>
          (case project_form f of
             Inl msg \<Rightarrow> State_Monad.return (renderFlash msg)
           | Inr req \<Rightarrow> do {
               r \<leftarrow> project_Create E req;
               case r of
                 Inl e \<Rightarrow> State_Monad.return
                   (renderFlash (if pg_code e = Some ''23505'' then ''Project name already exists'' else ''Failed to create project''))
               | Inr p \<Rightarrow> do {
                   _ \<leftarrow> log_if E (ad_audit h) ''create'' ''project'' (pr_id p) (Some [(''name'', pr_name p)]);
                   State_Monad.return (Render p) } }))"

definition projectDetail :: "externals \<Rightarrow> string \<Rightarrow> (project \<times> enriched_tenant list) ui cp" where
  "projectDetail E pid =
     (if \<not> ValidUUID E pid then State_Monad.return (Failure 400 ''invalid ID'')
      else do {
        rp \<leftarrow> project_GetByID E pid;
        case rp of
          Inl _ \<Rightarrow> State_Monad.return internal_error
        | Inr None \<Rightarrow> State_Monad.return (Failure 404 ''not found'')
        | Inr (Some p) \<Rightarrow> do {
            rt \<leftarrow> tenant_List E;
            case rt of
              Inl _ \<Rightarrow> State_Monad.return internal_error
            | Inr allTenants \<Rightarrow> do {
                rn \<leftarrow> node_List E;
                State_Monad.return (case rn of
                    Inl _ \<Rightarrow> internal_error
                  | Inr ns \<Rightarrow> Render (p,
                      map (\<lambda>t. \<lparr>et_tenant = t, et_project_name = pr_name p,
                                et_node_name = name_or_id (fst (buildMaps ns []) (tn_node_id t)) (tn_node_id t)\<rparr>)
                        (filter (\<lambda>t. tn_project_id t = pid \<and> tn_status t \<noteq> Deleted) allTenants))) } } })"

definition project_update_form :: "(string \<Rightarrow> string) \<Rightarrow> string + update_project_request" where
  "project_update_form f =
     (let name = trim_space (f ''name''); templateID = f ''template_id''; ram = f ''ram_mb''; path = trim_space (f ''health_path'')
      in if templateID \<noteq> [] \<and> (case atoi templateID of None \<Rightarrow> True | Some v \<Rightarrow> v \<le> 0) then Inl ''Invalid template ID''
         else if ram \<noteq> [] \<and> (case atoi ram of None \<Rightarrow> True | Some v \<Rightarrow> v < 0) then Inl ''Invalid RAM value''
         else Inr \<lparr>up_name = (if name = [] then None else Some name),
                   up_template_id = (if templateID = [] then None else atoi templateID), up_ports = None, up_stripe_price_id = None,
                   up_health_path = (if path = [] then None else Some path), up_ram_mb = (if ram = [] then None else atoi ram),
                   up_network_cidr = None, up_gateway = None\<rparr>)"

definition updateProjectAdmin :: "externals \<Rightarrow> admin_handler \<Rightarrow> string \<Rightarrow> form \<Rightarrow> unit ui cp" where
  "updateProjectAdmin E h pid form =
     (if \<not> ValidUUID E pid then State_Monad.return (renderFlash ''Invalid project ID'')
      else case form of
        None \<Rightarrow> State_Monad.return (renderFlash ''Invalid form data'')
      | Some f \<Rightarrow>
          (case project_update_form f of
             Inl msg \<Rightarrow> State_Monad.return (renderFlash msg)
           | Inr req \<Rightarrow> do {
               r \<leftarrow> project_Update E pid req;
               case r of
                 Inl e \<Rightarrow> State_Monad.return (renderFlash
                   (if errors_is e project_ErrNoUpdate then ''No changes to apply'' else ''Failed to update project''))
               | Inr _ \<Rightarrow> do {
                   _ \<leftarrow> log_if E (ad_audit h) ''update'' ''project'' pid None;
                   State_Monad.return (HxRedirect (Some ''Project updated'') (''/admin/projects/'' @ pid)) } }))"

definition deleteProjectAdmin :: "externals \<Rightarrow> admin_handler \<Rightarrow> string \<Rightarrow> unit ui cp" where
  "deleteProjectAdmin E h pid =
     (if \<not> ValidUUID E pid then State_Monad.return (renderFlash ''Invalid project ID'')
      else do {
        rc \<leftarrow> project_CountTenants E pid;
        case rc of
          Inl _ \<Rightarrow> State_Monad.return (renderFlash ''Failed to check project dependencies'')
        | Inr c \<Rightarrow>
            if 0 < c
            then State_Monad.return (renderFlash (''Cannot delete project: '' @ string_of_nat c @ '' active tenant(s)''))
            else do {
              r \<leftarrow> project_Delete E pid;
              case r of
                Inl _ \<Rightarrow> State_Monad.return (renderFlash ''Failed to delete project'')
              | Inr _ \<Rightarrow> do {
                  _ \<leftarrow> log_if E (ad_audit h) ''delete'' ''project'' pid None;
                  State_Monad.return (HxRedirect None ''/admin/projects'') } } })"

section \<open>Dashboard, settings, audit log\<close>

record dashboard_data =
  dd_nodes :: "node list"
  dd_projects :: "project list"
  dd_tenants :: "tenant list"
  dd_total_ram :: int
  dd_allocated_ram :: int
  dd_active :: nat
  dd_suspended :: nat
  dd_errors :: nat
  dd_healthy :: nat
  dd_unhealthy :: nat
  dd_unknown :: nat
  dd_recent :: "enriched_tenant list"
  dd_audit :: "audit_entry list"

definition dashboard_of :: "node list \<Rightarrow> project list \<Rightarrow> tenant list \<Rightarrow> audit_entry list \<Rightarrow> dashboard_data" where
  "dashboard_of ns ps ts audit =
     (let (nodeMap, projectMap) = buildMaps ns ps; active = filter (\<lambda>t. tn_status t = Active) ts
      in \<lparr>dd_nodes = ns, dd_projects = ps, dd_tenants = ts,
          dd_total_ram = sum_list (map nd_total_ram_mb ns), dd_allocated_ram = sum_list (map nd_allocated_ram_mb ns),
          dd_active = length active, dd_suspended = count_where (\<lambda>t. tn_status t = Suspended) ts,
          dd_errors = count_where (\<lambda>t. tn_status t = Errored) ts,
          dd_healthy = count_where (\<lambda>t. tn_health_status t = ''healthy'') active,
          dd_unhealthy = count_where (\<lambda>t. tn_health_status t = ''unhealthy'') active,
          dd_unknown = count_where (\<lambda>t. tn_health_status t \<noteq> ''healthy'' \<and> tn_health_status t \<noteq> ''unhealthy'') active,
          dd_recent = map (\<lambda>t. enrichTenant t nodeMap projectMap) (take 10 ts), dd_audit = audit\<rparr>)"

definition dashboard :: "externals \<Rightarrow> admin_handler \<Rightarrow> dashboard_data ui cp" where
  "dashboard E h = do {
     rn \<leftarrow> node_List E;
     case rn of
       Inl _ \<Rightarrow> State_Monad.return internal_error
     | Inr ns \<Rightarrow> do {
         rp \<leftarrow> project_List E;
         case rp of
           Inl _ \<Rightarrow> State_Monad.return internal_error
         | Inr ps \<Rightarrow> do {
             rt \<leftarrow> tenant_List E;
             case rt of
               Inl _ \<Rightarrow> State_Monad.return internal_error
             | Inr ts \<Rightarrow> do {
                 ra \<leftarrow> (if ad_audit h then audit_List E 10 0 [] [] else State_Monad.return (Inr ([], 0)));
                 State_Monad.return (Render (dashboard_of ns ps ts (case ra of Inl _ \<Rightarrow> [] | Inr (es, _) \<Rightarrow> es))) } } } }"

record settings_data =
  sd_db_status :: string
  sd_node_count :: nat
  sd_active_tenants :: nat
  sd_credentials :: "(string \<times> int \<times> int) list"

definition settingsPage :: "externals \<Rightarrow> settings_data ui cp" where
  "settingsPage E = do {
     rn \<leftarrow> node_List E;
     rt \<leftarrow> tenant_List E;
     rc \<leftarrow> ListCredentialInfos E;
     State_Monad.return (Render
       \<lparr>sd_db_status = (case (rn, rt) of (Inr _, Inr _) \<Rightarrow> ''healthy'' | _ \<Rightarrow> ''error''),
        sd_node_count = (case rn of Inl _ \<Rightarrow> 0 | Inr ns \<Rightarrow> length ns),
        sd_active_tenants = (case rt of Inl _ \<Rightarrow> 0 | Inr ts \<Rightarrow> count_where (\<lambda>t. tn_status t = Active) ts),
        sd_credentials = (case rc of Inl _ \<Rightarrow> [] | Inr cs \<Rightarrow> cs)\<rparr>) }"

definition auditPage :: "externals \<Rightarrow> admin_handler \<Rightarrow> (string \<Rightarrow> string) \<Rightarrow> audit_entry list_result ui cp" where
  "auditPage E h q = do {
     let params = ParseListParams q;
     r \<leftarrow> (if ad_audit h then audit_List E (lp_limit params) (lp_offset params) (q ''entity_type'') (q ''action'')
           else State_Monad.return (Inr ([], 0)));
     State_Monad.return (case r of Inl _ \<Rightarrow> internal_error | Inr (es, n) \<Rightarrow> Render (list_result params es n)) }"

end
