(* ===== verification/CP_Admin_Pages.thy ===== *)
theory CP_Admin_Pages
  imports CP_Admin
begin

text \<open>
  The admin pages over tenants (\<open>src/internal/admin/handler_tenants.go\<close>) and WireGuard peers (\<open>handler_network.go\<close>), and the check that all
  operations of the admin pages are sequences of the steps of the system. \<open>ad_wg\<close> is \<open>None\<close> when WireGuard is not configured: the
  pages that do not ask then panic on the missing store.
\<close>

section \<open>Tenants\<close>

record tenants_data =
  td_nodes :: "node list"
  td_projects :: "project list"
  td_tenants :: "enriched_tenant list"
  td_total :: nat

definition tenantsList :: "externals \<Rightarrow> (string \<Rightarrow> string) \<Rightarrow> tenants_data ui cp" where
  "tenantsList E q = do {
     rn \<leftarrow> node_List E;
     case rn of
       Inl _ \<Rightarrow> State_Monad.return internal_error
     | Inr ns \<Rightarrow> do {
         rp \<leftarrow> project_List E;
         case rp of
           Inl _ \<Rightarrow> State_Monad.return internal_error
         | Inr ps \<Rightarrow> do {
             rc \<leftarrow> tenant_Count E;
             case rc of
               Inl _ \<Rightarrow> State_Monad.return internal_error
             | Inr n \<Rightarrow> do {
                 rt \<leftarrow> tenant_ListPaginated E (int n) 0 (q ''status'') (q ''node_id'') (q ''project_id'');
                 State_Monad.return (case rt of
                     Inl _ \<Rightarrow> internal_error
                   | Inr (filtered, _) \<Rightarrow> (let (nodeMap, projectMap) = buildMaps ns ps in Render
                       \<lparr>td_nodes = ns, td_projects = ps,
                        td_tenants = map (\<lambda>t. enrichTenant t nodeMap projectMap) filtered, td_total = n\<rparr>)) } } } }"

definition createTenant :: "externals \<Rightarrow> admin_handler \<Rightarrow> form \<Rightarrow> enriched_tenant ui cp" where
  "createTenant E h form =
     (case form of
        None \<Rightarrow> State_Monad.return (renderFlash ''Invalid form data'')
      | Some f \<Rightarrow>
          if f ''name'' = [] \<or> f ''subdomain'' = [] \<or> f ''project_id'' = [] \<or> f ''node_id'' = []
          then State_Monad.return (renderFlash ''All fields are required'')
          else (case ValidateSubdomain (f ''subdomain'') of
              Some lerr \<Rightarrow> State_Monad.return (flashLifecycle lerr)
            | None \<Rightarrow> do {
                rn \<leftarrow> node_GetByID E (f ''node_id'');
                case rn of
                  Inl _ \<Rightarrow> State_Monad.return (renderFlash ''Failed to validate node'')
                | Inr None \<Rightarrow> State_Monad.return (renderFlash ''Node not found'')
                | Inr (Some n) \<Rightarrow>
                    if nd_status n \<noteq> ''active'' then State_Monad.return (renderFlash ''Node is not active'')
                    else do {
                      rp \<leftarrow> project_GetByID E (f ''project_id'');
                      case rp of
                        Inl _ \<Rightarrow> State_Monad.return (renderFlash ''Failed to validate project'')
                      | Inr None \<Rightarrow> State_Monad.return (renderFlash ''Project not found'')
                      | Inr (Some proj) \<Rightarrow> do {
                          r \<leftarrow> lifecycle_Create E (admin_lifecycle h)
                                 \<lparr>cr_name = f ''name'', cr_subdomain = f ''subdomain'', cr_project = proj, cr_node = n,
                                  cr_owner_id = []\<rparr> [];
                          State_Monad.return (case r of
                              Inl lerr \<Rightarrow> flashLifecycle lerr
                            | Inr t \<Rightarrow> Render \<lparr>et_tenant = t, et_project_name = pr_name proj, et_node_name = nd_name n\<rparr>) } } }))"

text \<open>Looking a tenant up, in the two styles of the handlers: with an error page, or with a flash that takes an error for a missing row.\<close>

definition page_of_tenant :: "externals \<Rightarrow> string \<Rightarrow> (tenant \<Rightarrow> 'a ui cp) \<Rightarrow> 'a ui cp" where
  "page_of_tenant E tid k =
     (if \<not> ValidUUID E tid then State_Monad.return (Failure 400 ''invalid ID'')
      else do {
        r \<leftarrow> tenant_GetByID E tid;
        case r of
          Inl _ \<Rightarrow> State_Monad.return internal_error
        | Inr None \<Rightarrow> State_Monad.return (Failure 404 ''not found'')
        | Inr (Some t) \<Rightarrow> k t })"

definition flash_of_tenant :: "externals \<Rightarrow> string \<Rightarrow> (tenant \<Rightarrow> 'a ui cp) \<Rightarrow> 'a ui cp" where
  "flash_of_tenant E tid k = do {
     r \<leftarrow> tenant_GetByID E tid;
     case r of
       Inr (Some t) \<Rightarrow> k t
     | _ \<Rightarrow> State_Monad.return (renderFlash ''Tenant not found'') }"

definition deleteTenant :: "externals \<Rightarrow> admin_handler \<Rightarrow> string \<Rightarrow> enriched_tenant ui cp" where
  "deleteTenant E h tid = page_of_tenant E tid (\<lambda>t. do {
     r \<leftarrow> lifecycle_Delete E (admin_lifecycle h) t [];
     case r of
       Inl lerr \<Rightarrow> State_Monad.return (flashLifecycle lerr)
     | Inr None \<Rightarrow> State_Monad.return panicked
     | Inr (Some t') \<Rightarrow> do {
         e \<leftarrow> enrichSingle E t';
         State_Monad.return (Render e) } })"

definition tenantRow :: "externals \<Rightarrow> string \<Rightarrow> enriched_tenant ui cp" where
  "tenantRow E tid =
     (if \<not> ValidUUID E tid then State_Monad.return StopPolling
      else do {
        r \<leftarrow> tenant_GetByID E tid;
        case r of
          Inl _ \<Rightarrow> State_Monad.return internal_error
        | Inr None \<Rightarrow> State_Monad.return StopPolling
        | Inr (Some t) \<Rightarrow> do {
            e \<leftarrow> enrichSingle E t;
            State_Monad.return (Render e) } })"

record tenant_page =
  tp_tenant :: enriched_tenant
  tp_audit :: "audit_entry list"
  tp_peer :: "peer option"
  tp_config :: string
  tp_qr :: string
  tp_wg_enabled :: bool
  tp_private_key :: string

definition qr_base64 :: "wg_handler \<Rightarrow> string \<Rightarrow> string" where
  "qr_base64 g config = (case wh_qr g config of Inl _ \<Rightarrow> [] | Inr png \<Rightarrow> std64_encode png)"

definition entity_audit :: "externals \<Rightarrow> admin_handler \<Rightarrow> string \<Rightarrow> audit_entry list cp" where
  "entity_audit E h tid =
     (if ad_audit h then do {
        r \<leftarrow> audit_ListByEntity E ''tenant'' tid 20;
        State_Monad.return (case r of Inl _ \<Rightarrow> [] | Inr es \<Rightarrow> es) }
      else State_Monad.return [])"

definition tenantDetail :: "externals \<Rightarrow> admin_handler \<Rightarrow> string \<Rightarrow> tenant_page ui cp" where
  "tenantDetail E h tid = page_of_tenant E tid (\<lambda>t. do {
     e \<leftarrow> enrichSingle E t;
     audit \<leftarrow> entity_audit E h tid;
     rp \<leftarrow> (case ad_wg h of None \<Rightarrow> State_Monad.return (Inr None) | Some g \<Rightarrow> peer_GetByTenantID E (tn_id t));
     State_Monad.return (Render (case (ad_wg h, rp) of
         (Some g, Inr (Some p)) \<Rightarrow>
           (let config = BuildPeerConfig E (wh_text6 g) (wh_service g) p ''<PRIVATE_KEY>''
            in \<lparr>tp_tenant = e, tp_audit = audit, tp_peer = Some p, tp_config = config, tp_qr = qr_base64 g config,
                tp_wg_enabled = True, tp_private_key = []\<rparr>)
       | _ \<Rightarrow> \<lparr>tp_tenant = e, tp_audit = audit, tp_peer = None, tp_config = [], tp_qr = [],
               tp_wg_enabled = (ad_wg h \<noteq> None), tp_private_key = []\<rparr>)) })"

definition suspendTenant :: "externals \<Rightarrow> admin_handler \<Rightarrow> string \<Rightarrow> unit ui cp" where
  "suspendTenant E h tid =
     (if \<not> ValidUUID E tid then State_Monad.return (renderFlash ''Invalid tenant ID'')
      else flash_of_tenant E tid (\<lambda>t.
        if tn_status t \<noteq> Active then State_Monad.return (renderFlash ''Tenant must be active to suspend'')
        else do {
          r \<leftarrow> SetSuspended E tid;
          case r of
            Inl e \<Rightarrow> State_Monad.return (renderFlash
              (if errors_is e ErrStateConflict then ''Tenant is not in a suspendable state'' else ''Failed to suspend tenant''))
          | Inr _ \<Rightarrow> do {
              s \<leftarrow> (case tn_lxc_id t of
                     None \<Rightarrow> State_Monad.return (Inr ())
                   | Some l \<Rightarrow> provisioner_Suspend E (ad_prov h) (tn_node_id t) l);
              case s of
                Inl _ \<Rightarrow> do {
                  _ \<leftarrow> SetResumed E tid;
                  State_Monad.return (renderFlash ''Failed to stop container'') }
              | Inr _ \<Rightarrow> do {
                  _ \<leftarrow> log_if E (ad_audit h) ''suspend'' ''tenant'' tid None;
                  State_Monad.return (HxRedirect None (''/admin/tenants/'' @ tid)) } } }))"

definition resumeTenant :: "externals \<Rightarrow> admin_handler \<Rightarrow> string \<Rightarrow> unit ui cp" where
  "resumeTenant E h tid =
     (if \<not> ValidUUID E tid then State_Monad.return (renderFlash ''Invalid tenant ID'')
      else flash_of_tenant E tid (\<lambda>t.
        if tn_status t \<noteq> Suspended then State_Monad.return (renderFlash ''Tenant must be suspended to resume'')
        else do {
          r \<leftarrow> SetResumed E tid;
          case r of
            Inl e \<Rightarrow> State_Monad.return (renderFlash
              (if errors_is e ErrStateConflict then ''Tenant is not in a resumable state'' else ''Failed to resume tenant''))
          | Inr _ \<Rightarrow> do {
              s \<leftarrow> (case tn_lxc_id t of
                     None \<Rightarrow> State_Monad.return (Inr ())
                   | Some l \<Rightarrow> provisioner_Resume E (ad_prov h) (tn_node_id t) l);
              case s of
                Inl _ \<Rightarrow> do {
                  _ \<leftarrow> SetSuspended E tid;
                  State_Monad.return (renderFlash ''Failed to start container'') }
              | Inr _ \<Rightarrow> do {
                  _ \<leftarrow> log_if E (ad_audit h) ''resume'' ''tenant'' tid None;
                  State_Monad.return (HxRedirect None (''/admin/tenants/'' @ tid)) } } }))"

text \<open>How a new peer's creation fails, the same on both pages that create one.\<close>

definition peer_failure :: "string \<Rightarrow> go_error \<Rightarrow> 'a ui" where
  "peer_failure msg e = renderFlash (if pg_code e = Some ''23505'' then ''Peer with this public key or IP already exists'' else msg)"

definition createTenantPeer :: "externals \<Rightarrow> admin_handler \<Rightarrow> string \<Rightarrow> tenant_page ui cp" where
  "createTenantPeer E h tid =
     (if \<not> ValidUUID E tid then State_Monad.return (renderFlash ''Invalid tenant ID'')
      else case ad_wg h of
        None \<Rightarrow> State_Monad.return (renderFlash ''WireGuard not configured'')
      | Some g \<Rightarrow> flash_of_tenant E tid (\<lambda>t.
          if tn_status t \<noteq> Active then State_Monad.return (renderFlash ''Tenant must be active to create WG peer'')
          else do {
            rx \<leftarrow> peer_GetByTenantID E (tn_id t);
            case rx of
              Inl _ \<Rightarrow> State_Monad.return (renderFlash ''Failed to check existing peer'')
            | Inr (Some _) \<Rightarrow> State_Monad.return (renderFlash ''WireGuard peer already exists for this tenant'')
            | Inr None \<Rightarrow> do {
                r \<leftarrow> service_CreatePeer E (wh_service g)
                       \<lparr>pq_name = ''tenant-'' @ tn_name t, pq_type = ''user'', pq_endpoint = [], pq_tenant_id = tn_id t,
                        pq_allowed_ips = []\<rparr>;
                case r of
                  Inl e \<Rightarrow> State_Monad.return (peer_failure ''Failed to create WG peer'' e)
                | Inr (p, privateKey) \<Rightarrow> do {
                    _ \<leftarrow> ApplyPeer E (wh_service g) p;
                    _ \<leftarrow> log_if E (ad_audit h) ''create'' ''wireguard_peer'' (pe_id p)
                           (Some [(''name'', pe_name p), (''tenant_id'', tn_id t)]);
                    e \<leftarrow> enrichSingle E t;
                    audit \<leftarrow> entity_audit E h tid;
                    State_Monad.return (let config = BuildPeerConfig E (wh_text6 g) (wh_service g) p privateKey in Render
                      \<lparr>tp_tenant = e, tp_audit = audit, tp_peer = Some p, tp_config = config, tp_qr = qr_base64 g config,
                       tp_wg_enabled = True, tp_private_key = privateKey\<rparr>) } } }))"

section \<open>WireGuard peers\<close>

record network_data =
  nw_peers :: "peer list"
  nw_filter :: string
  nw_admins :: nat
  nw_nodes :: nat
  nw_users :: nat
  nw_enabled :: nat
  nw_total :: nat

definition networkPage :: "externals \<Rightarrow> admin_handler \<Rightarrow> string \<Rightarrow> network_data ui cp" where
  "networkPage E h filterType =
     (case ad_wg h of
        None \<Rightarrow> State_Monad.return (Failure 500 ''WireGuard not configured'')
      | Some g \<Rightarrow> do {
          r \<leftarrow> peer_List E;
          State_Monad.return (case r of
              Inl _ \<Rightarrow> internal_error
            | Inr allPeers \<Rightarrow> Render
                \<lparr>nw_peers = (if filterType \<noteq> [] \<and> filterType \<in> set ValidPeerTypes
                             then filter (\<lambda>p. pe_type p = filterType) allPeers else allPeers),
                 nw_filter = filterType, nw_admins = count_where (\<lambda>p. pe_type p = ''admin'') allPeers,
                 nw_nodes = count_where (\<lambda>p. pe_type p = ''node'') allPeers,
                 nw_users = count_where (\<lambda>p. pe_type p = ''user'') allPeers,
                 nw_enabled = count_where pe_enabled allPeers, nw_total = length allPeers\<rparr>) })"

record peer_page =
  pp_peer :: peer
  pp_config :: string
  pp_qr :: string
  pp_private_key :: string

definition peer_form_invalid :: "externals \<Rightarrow> (string \<Rightarrow> string) \<Rightarrow> string option" where
  "peer_form_invalid E f =
     (let name = trim_space (f ''name''); peerType = trim_space (f ''type''); allowedIPs = trim_space (f ''allowed_ips'')
      in if name = [] \<or> peerType = [] then Some ''Name and type are required''
         else if peerType \<notin> set ValidPeerTypes then Some ''Invalid type: must be admin, node, or user''
         else (case (if allowedIPs = [] then None else ValidateAllowedIPs (valid6 E) allowedIPs) of
             Some e \<Rightarrow> Some (''Invalid AllowedIPs: '' @ error_text e)
           | None \<Rightarrow> None))"

definition createPeerAdmin :: "externals \<Rightarrow> admin_handler \<Rightarrow> form \<Rightarrow> peer_page ui cp" where
  "createPeerAdmin E h form =
     (case ad_wg h of
        None \<Rightarrow> State_Monad.return (renderFlash ''WireGuard not configured'')
      | Some g \<Rightarrow>
          (case form of
             None \<Rightarrow> State_Monad.return (renderFlash ''Invalid form data'')
           | Some f \<Rightarrow>
               (case peer_form_invalid E f of
                  Some msg \<Rightarrow> State_Monad.return (renderFlash msg)
                | None \<Rightarrow> do {
                    r \<leftarrow> service_CreatePeer E (wh_service g)
                           \<lparr>pq_name = trim_space (f ''name''), pq_type = trim_space (f ''type''),
                            pq_endpoint = trim_space (f ''endpoint''), pq_tenant_id = trim_space (f ''tenant_id''),
                            pq_allowed_ips = trim_space (f ''allowed_ips'')\<rparr>;
                    case r of
                      Inl e \<Rightarrow> State_Monad.return (peer_failure ''Failed to create peer'' e)
                    | Inr (p, privateKey) \<Rightarrow> do {
                        _ \<leftarrow> ApplyPeer E (wh_service g) p;
                        _ \<leftarrow> log_if E (ad_audit h) ''create'' ''wireguard_peer'' (pe_id p)
                               (Some [(''name'', trim_space (f ''name'')), (''type'', trim_space (f ''type''))]);
                        State_Monad.return (let config = BuildPeerConfig E (wh_text6 g) (wh_service g) p privateKey in Render
                          \<lparr>pp_peer = p, pp_config = config, pp_qr = qr_base64 g config, pp_private_key = privateKey\<rparr>) } })))"

definition peerDetail :: "externals \<Rightarrow> admin_handler \<Rightarrow> string \<Rightarrow> peer_page ui cp" where
  "peerDetail E h pid =
     (case ad_wg h of
        None \<Rightarrow> State_Monad.return (Failure 500 ''WireGuard not configured'')
      | Some g \<Rightarrow>
          if \<not> ValidUUID E pid then State_Monad.return (Failure 400 ''invalid ID'')
          else do {
            r \<leftarrow> peer_GetByID E pid;
            State_Monad.return (case r of
                Inl _ \<Rightarrow> internal_error
              | Inr None \<Rightarrow> Failure 404 ''not found''
              | Inr (Some p) \<Rightarrow> (let config = BuildPeerConfig E (wh_text6 g) (wh_service g) p ''<PRIVATE_KEY>'' in Render
                  \<lparr>pp_peer = p, pp_config = config, pp_qr = qr_base64 g config, pp_private_key = []\<rparr>)) })"

definition updatePeerAdmin :: "externals \<Rightarrow> admin_handler \<Rightarrow> string \<Rightarrow> form \<Rightarrow> unit ui cp" where
  "updatePeerAdmin E h pid form =
     (if \<not> ValidUUID E pid then State_Monad.return (renderFlash ''Invalid peer ID'')
      else case form of
        None \<Rightarrow> State_Monad.return (renderFlash ''Invalid form data'')
      | Some f \<Rightarrow>
          (case ad_wg h of
             None \<Rightarrow> State_Monad.return panicked
           | Some g \<Rightarrow> do {
               r \<leftarrow> peer_Update E pid \<lparr>uq_name = (if f ''name'' = [] then None else Some (f ''name'')),
                      uq_endpoint = (if f ''endpoint'' = [] then None else Some (f ''endpoint'')), uq_enabled = None\<rparr>;
               case r of
                 Inl e \<Rightarrow> State_Monad.return
                   (renderFlash (if errors_is e peer_ErrNoUpdate then ''No changes to apply'' else ''Failed to update peer''))
               | Inr _ \<Rightarrow> do {
                   _ \<leftarrow> log_if E (ad_audit h) ''update'' ''wireguard_peer'' pid None;
                   State_Monad.return (HxRedirect (Some ''Peer updated'') (''/admin/network/peers/'' @ pid)) } }))"

definition deletePeerAdmin :: "externals \<Rightarrow> admin_handler \<Rightarrow> string \<Rightarrow> unit ui cp" where
  "deletePeerAdmin E h pid =
     (if \<not> ValidUUID E pid then State_Monad.return (renderFlash ''Invalid peer ID'')
      else case ad_wg h of
        None \<Rightarrow> State_Monad.return panicked
      | Some g \<Rightarrow> do {
          rp \<leftarrow> peer_GetByID E pid;
          case rp of
            Inl _ \<Rightarrow> State_Monad.return internal_error
          | Inr None \<Rightarrow> State_Monad.return (Failure 404 ''not found'')
          | Inr (Some p) \<Rightarrow> do {
              _ \<leftarrow> RemovePeer E (wh_service g) (pe_public_key p);
              r \<leftarrow> peer_Delete E pid;
              case r of
                Inl e \<Rightarrow> State_Monad.return
                  (if errors_is e ErrNoRows then Failure 404 ''not found'' else renderFlash ''Failed to delete peer'')
              | Inr _ \<Rightarrow> do {
                  _ \<leftarrow> log_if E (ad_audit h) ''delete'' ''wireguard_peer'' pid (Some [(''name'', pe_name p)]);
                  State_Monad.return (HxRedirect None ''/admin/network'') } } })"

definition enablePeerAdmin :: "externals \<Rightarrow> admin_handler \<Rightarrow> string \<Rightarrow> unit ui cp" where
  "enablePeerAdmin E h pid =
     (if \<not> ValidUUID E pid then State_Monad.return (renderFlash ''Invalid peer ID'')
      else case ad_wg h of
        None \<Rightarrow> State_Monad.return panicked
      | Some g \<Rightarrow> do {
          r \<leftarrow> SetEnabled E pid True;
          case r of
            Inl e \<Rightarrow> State_Monad.return
              (renderFlash (if errors_is e ErrNoRows then ''Peer not found'' else ''Failed to enable peer''))
          | Inr _ \<Rightarrow> do {
              rp \<leftarrow> peer_GetByID E pid;
              _ \<leftarrow> (case rp of
                      Inr (Some p) \<Rightarrow> ApplyPeer E (wh_service g) p
                    | _ \<Rightarrow> State_Monad.return (Inr ()));
              _ \<leftarrow> log_if E (ad_audit h) ''enable'' ''wireguard_peer'' pid None;
              State_Monad.return (HxRedirect (Some ''Peer enabled'') (''/admin/network/peers/'' @ pid)) } })"

definition disablePeerAdmin :: "externals \<Rightarrow> admin_handler \<Rightarrow> string \<Rightarrow> unit ui cp" where
  "disablePeerAdmin E h pid =
     (if \<not> ValidUUID E pid then State_Monad.return (renderFlash ''Invalid peer ID'')
      else case ad_wg h of
        None \<Rightarrow> State_Monad.return panicked
      | Some g \<Rightarrow> do {
          rp \<leftarrow> peer_GetByID E pid;
          case rp of
            Inl _ \<Rightarrow> State_Monad.return (renderFlash ''Failed to get peer'')
          | Inr None \<Rightarrow> State_Monad.return (renderFlash ''Peer not found'')
          | Inr (Some p) \<Rightarrow> do {
              r \<leftarrow> SetEnabled E pid False;
              case r of
                Inl _ \<Rightarrow> State_Monad.return (renderFlash ''Failed to disable peer'')
              | Inr _ \<Rightarrow> do {
                  _ \<leftarrow> RemovePeer E (wh_service g) (pe_public_key p);
                  _ \<leftarrow> log_if E (ad_audit h) ''disable'' ''wireguard_peer'' pid None;
                  State_Monad.return (HxRedirect (Some ''Peer disabled'') (''/admin/network/peers/'' @ pid)) } } })"

section \<open>Only steps of the system\<close>

lemma admin_helper_steps [io_rules]:
  "cp_triple E (enrichSingle E t) (\<lambda>_. True)" "cp_triple E (entity_audit E h tid) (\<lambda>_. True)"
  unfolding enrichSingle_def entity_audit_def by (rule steps.t_control io_rules TrueI)+

lemma tenant_lookup_steps [io_rules]:
  "(\<And>t. cp_triple E (k t) (\<lambda>_. True)) \<Longrightarrow> cp_triple E (page_of_tenant E tid k) (\<lambda>_. True)"
  "(\<And>t. cp_triple E (k t) (\<lambda>_. True)) \<Longrightarrow> cp_triple E (flash_of_tenant E tid k) (\<lambda>_. True)"
  unfolding page_of_tenant_def flash_of_tenant_def by (rule cp_rules io_rules | assumption)+

lemma node_form_ram: "node_form_invalid E f = None \<Longrightarrow> 0 \<le> case_option 0 id (atoi (f ''total_ram_mb''))"
  by (simp add: node_form_invalid_def Let_def split: if_splits option.splits)

lemma project_form_ram: "project_form f = Inr req \<Longrightarrow> 0 \<le> cp_ram_mb req"
  by (auto simp: project_form_def Let_def split: if_splits option.splits sum.splits)

lemma project_update_form_ram: "project_update_form f = Inr req \<Longrightarrow> up_ram_mb req = Some r \<Longrightarrow> 0 \<le> r"
  by (auto simp: project_update_form_def Let_def split: if_splits option.splits)

lemma admin_node_steps [io_rules]:
  "cp_triple E (nodesList E) (\<lambda>_. True)" "cp_triple E (nodeDetail E nid) (\<lambda>_. True)"
  "cp_triple E (updateNodeAdmin E h nid uform) (\<lambda>_. True)" "cp_triple E (deleteNodeAdmin E h nid) (\<lambda>_. True)"
  unfolding nodesList_def nodeDetail_def updateNodeAdmin_def deleteNodeAdmin_def by (rule cp_rules io_rules)+

lemma createNode_steps [io_rules]: "cp_triple E (createNode E h form) (\<lambda>_. True)"
  unfolding createNode_def by (rule cp_rules io_rules | simp add: node_form_ram)+

lemma admin_project_steps [io_rules]:
  "cp_triple E (projectsList E) (\<lambda>_. True)" "cp_triple E (projectDetail E pid) (\<lambda>_. True)" "cp_triple E (deleteProjectAdmin E h pid) (\<lambda>_. True)"
  unfolding projectsList_def projectDetail_def deleteProjectAdmin_def by (rule cp_rules io_rules)+

lemma admin_project_writes_steps [io_rules]:
  "cp_triple E (createProject E h form) (\<lambda>_. True)" "cp_triple E (updateProjectAdmin E h pid form) (\<lambda>_. True)"
  unfolding createProject_def updateProjectAdmin_def
  by (rule cp_rules io_rules | erule project_form_ram project_update_form_ram | assumption)+

lemma admin_overview_steps [io_rules]:
  "cp_triple E (dashboard E h) (\<lambda>_. True)" "cp_triple E (settingsPage E) (\<lambda>_. True)" "cp_triple E (auditPage E h q) (\<lambda>_. True)"
  unfolding dashboard_def settingsPage_def auditPage_def by (rule cp_rules io_rules)+

lemma admin_tenant_steps [io_rules]:
  "cp_triple E (tenantsList E q) (\<lambda>_. True)" "cp_triple E (createTenant E h form) (\<lambda>_. True)"
  "cp_triple E (deleteTenant E h tid) (\<lambda>_. True)" "cp_triple E (tenantRow E tid) (\<lambda>_. True)"
  "cp_triple E (tenantDetail E h tid) (\<lambda>_. True)" "cp_triple E (suspendTenant E h tid) (\<lambda>_. True)"
  "cp_triple E (resumeTenant E h tid) (\<lambda>_. True)" "cp_triple E (createTenantPeer E h tid) (\<lambda>_. True)"
  unfolding tenantsList_def createTenant_def deleteTenant_def tenantRow_def tenantDetail_def suspendTenant_def resumeTenant_def
    createTenantPeer_def
  by (rule cp_rules io_rules | assumption | simp add: ram_nonneg_def)+

lemma admin_peer_steps [io_rules]:
  "cp_triple E (networkPage E h ty) (\<lambda>_. True)" "cp_triple E (createPeerAdmin E h form) (\<lambda>_. True)"
  "cp_triple E (peerDetail E h pid) (\<lambda>_. True)" "cp_triple E (updatePeerAdmin E h pid form) (\<lambda>_. True)"
  "cp_triple E (deletePeerAdmin E h pid) (\<lambda>_. True)" "cp_triple E (enablePeerAdmin E h pid) (\<lambda>_. True)"
  "cp_triple E (disablePeerAdmin E h pid) (\<lambda>_. True)"
  unfolding networkPage_def createPeerAdmin_def peerDetail_def updatePeerAdmin_def deletePeerAdmin_def enablePeerAdmin_def disablePeerAdmin_def
  by (rule cp_rules io_rules)+

end
