(* ===== verification/CP_Admin_Routes.thy ===== *)
theory CP_Admin_Routes
  imports CP_Admin_Pages
begin

text \<open>
  The routes of the admin UI (\<open>Routes\<close> in \<open>src/internal/admin/handler.go\<close>): which of them change something and therefore need the CSRF token,
  which are public and which stand behind the session. Static files and the rate limits are not modelled; the CSRF library's
  verdict on a request is a parameter of the server. The value of a route is the status of its answer.
\<close>

datatype admin_route =
    ALoginPage
  | ALogout
  | ARegisterBegin string
  | ARegisterFinish string string
  | ALoginBegin
  | ALoginFinish string string
  | ADashboard
  | ANodes
  | ANode string
  | AProjects
  | AProject string
  | ATenants "string \<Rightarrow> string"
  | ATenant string
  | AAudit "string \<Rightarrow> string"
  | ASettings
  | ANodeCreate form
  | ANodeUpdate string form
  | ANodeDelete string
  | AProjectCreate form
  | AProjectUpdate string form
  | AProjectDelete string
  | ATenantCreate form
  | ATenantDelete string
  | ATenantSuspend string
  | ATenantResume string
  | ATenantPeer string
  | ATenantRow string
  | ANetwork string
  | APeerCreate form
  | APeer string
  | APeerUpdate string form
  | APeerDelete string
  | APeerEnable string
  | APeerDisable string
  | ACredentialDelete string

fun admin_public :: "admin_route \<Rightarrow> bool" where
  "admin_public ALoginPage = True"
| "admin_public ALogout = True"
| "admin_public (ARegisterBegin setup) = True"
| "admin_public (ARegisterFinish token body) = True"
| "admin_public ALoginBegin = True"
| "admin_public (ALoginFinish token body) = True"
| "admin_public _ = False"

text \<open>POST, PUT and DELETE, less the four exempt paths.\<close>

fun csrf_protected :: "admin_route \<Rightarrow> bool" where
  "csrf_protected ALogout = True"
| "csrf_protected (ANodeCreate f) = True"
| "csrf_protected (ANodeUpdate i f) = True"
| "csrf_protected (ANodeDelete i) = True"
| "csrf_protected (AProjectCreate f) = True"
| "csrf_protected (AProjectUpdate i f) = True"
| "csrf_protected (AProjectDelete i) = True"
| "csrf_protected (ATenantCreate f) = True"
| "csrf_protected (ATenantDelete i) = True"
| "csrf_protected (ATenantSuspend i) = True"
| "csrf_protected (ATenantResume i) = True"
| "csrf_protected (ATenantPeer i) = True"
| "csrf_protected (APeerCreate f) = True"
| "csrf_protected (APeerUpdate i f) = True"
| "csrf_protected (APeerDelete i) = True"
| "csrf_protected (APeerEnable i) = True"
| "csrf_protected (APeerDisable i) = True"
| "csrf_protected (ACredentialDelete i) = True"
| "csrf_protected _ = False"

abbreviation ui_answer :: "'a ui cp \<Rightarrow> nat cp" where
  "ui_answer m \<equiv> State_Monad.bind m (\<lambda>u. State_Monad.return (ui_status u))"

fun admin_handle :: "externals \<Rightarrow> admin_handler \<Rightarrow> int \<Rightarrow> http_request \<Rightarrow> admin_route \<Rightarrow> nat cp" where
  "admin_handle E h now r ALoginPage = ui_answer (loginPage E (ad_auth h) now r)"
| "admin_handle E h now r ALogout = State_Monad.return (ui_status (fst admin_logout))"
| "admin_handle E h now r (ARegisterBegin setup) =
     State_Monad.bind (registerBegin E (ad_auth h) now r setup) (\<lambda>x. State_Monad.return (http_status x))"
| "admin_handle E h now r (ARegisterFinish token body) =
     State_Monad.bind (registerFinish E (ad_auth h) now r token body) (\<lambda>x. State_Monad.return (http_status (fst x)))"
| "admin_handle E h now r ALoginBegin = State_Monad.bind (loginBegin E now) (\<lambda>x. State_Monad.return (http_status x))"
| "admin_handle E h now r (ALoginFinish token body) =
     State_Monad.bind (loginFinish E (ad_auth h) now token body) (\<lambda>x. State_Monad.return (http_status (fst x)))"
| "admin_handle E h now r ADashboard = ui_answer (dashboard E h)"
| "admin_handle E h now r ANodes = ui_answer (nodesList E)"
| "admin_handle E h now r (ANode i) = ui_answer (nodeDetail E i)"
| "admin_handle E h now r AProjects = ui_answer (projectsList E)"
| "admin_handle E h now r (AProject i) = ui_answer (projectDetail E i)"
| "admin_handle E h now r (ATenants q) = ui_answer (tenantsList E q)"
| "admin_handle E h now r (ATenant i) = ui_answer (tenantDetail E h i)"
| "admin_handle E h now r (AAudit q) = ui_answer (auditPage E h q)"
| "admin_handle E h now r ASettings = ui_answer (settingsPage E)"
| "admin_handle E h now r (ANodeCreate f) = ui_answer (createNode E h f)"
| "admin_handle E h now r (ANodeUpdate i f) = ui_answer (updateNodeAdmin E h i f)"
| "admin_handle E h now r (ANodeDelete i) = ui_answer (deleteNodeAdmin E h i)"
| "admin_handle E h now r (AProjectCreate f) = ui_answer (createProject E h f)"
| "admin_handle E h now r (AProjectUpdate i f) = ui_answer (updateProjectAdmin E h i f)"
| "admin_handle E h now r (AProjectDelete i) = ui_answer (deleteProjectAdmin E h i)"
| "admin_handle E h now r (ATenantCreate f) = ui_answer (createTenant E h f)"
| "admin_handle E h now r (ATenantDelete i) = ui_answer (deleteTenant E h i)"
| "admin_handle E h now r (ATenantSuspend i) = ui_answer (suspendTenant E h i)"
| "admin_handle E h now r (ATenantResume i) = ui_answer (resumeTenant E h i)"
| "admin_handle E h now r (ATenantPeer i) = ui_answer (createTenantPeer E h i)"
| "admin_handle E h now r (ATenantRow i) = ui_answer (tenantRow E i)"
| "admin_handle E h now r (ANetwork ty) = ui_answer (networkPage E h ty)"
| "admin_handle E h now r (APeerCreate f) = ui_answer (createPeerAdmin E h f)"
| "admin_handle E h now r (APeer i) = ui_answer (peerDetail E h i)"
| "admin_handle E h now r (APeerUpdate i f) = ui_answer (updatePeerAdmin E h i f)"
| "admin_handle E h now r (APeerDelete i) = ui_answer (deletePeerAdmin E h i)"
| "admin_handle E h now r (APeerEnable i) = ui_answer (enablePeerAdmin E h i)"
| "admin_handle E h now r (APeerDisable i) = ui_answer (disablePeerAdmin E h i)"
| "admin_handle E h now r (ACredentialDelete i) = ui_answer (deleteCredential E i)"

lemma admin_handle_steps [io_rules]: "cp_triple E (admin_handle E h now r rt) (\<lambda>_. True)"
  by (cases rt) (simp_all only: admin_handle.simps, (rule cp_rules io_rules)+)

text \<open>The session behind which a page stands.\<close>

definition with_admin :: "externals \<Rightarrow> admin_handler \<Rightarrow> int \<Rightarrow> http_request \<Rightarrow> nat cp \<Rightarrow> nat cp" where
  "with_admin E h now r next =
     State_Monad.bind (requireAuth E (ad_auth h) now r (State_Monad.bind next (\<lambda>st. State_Monad.return (Render st, []))))
       (\<lambda>(u, cookies). State_Monad.return (case u of Render st \<Rightarrow> st | _ \<Rightarrow> ui_status u))"

definition session_ok :: "externals \<Rightarrow> admin_auth \<Rightarrow> int \<Rightarrow> http_request \<Rightarrow> bool" where
  "session_ok E A now r =
     (case hr_cookie r sessionCookieName of
        None \<Rightarrow> False
      | Some v \<Rightarrow> v \<noteq> [] \<and> (case Decrypt E v (aa_encryption_key A) of
            Inl _ \<Rightarrow> False
          | Inr p \<Rightarrow> (case la_unmarshal (aa_lib A) p of None \<Rightarrow> False | Some (uid, exp) \<Rightarrow> now \<le> exp)))"

lemma requireAuth_cases:
  "requireAuth E A now r next = next \<or> (\<exists>cs. requireAuth E A now r next = State_Monad.return (SeeOther ''/admin/login'', cs))"
  unfolding requireAuth_def by (auto split: option.split sum.split)

lemma requireAuth_refused:
  "\<not> session_ok E A now r \<Longrightarrow> \<exists>cs. requireAuth E A now r next = State_Monad.return (SeeOther ''/admin/login'', cs)"
  unfolding requireAuth_def session_ok_def by (auto split: option.splits sum.splits if_splits)

lemma requireAuth_accepted: "session_ok E A now r \<Longrightarrow> requireAuth E A now r next = next"
  unfolding requireAuth_def session_ok_def by (auto split: option.splits sum.splits)

lemma with_admin_ok: "session_ok E (ad_auth h) now r \<Longrightarrow> with_admin E h now r next = next"
  by (rule State_Monad.state.expand, rule ext)
    (simp add: with_admin_def requireAuth_accepted State_Monad.bind_def split_def State_Monad.return_def)

lemma with_admin_refused: "\<not> session_ok E (ad_auth h) now r \<Longrightarrow> with_admin E h now r next = State_Monad.return 303"
proof -
  assume "\<not> session_ok E (ad_auth h) now r"
  then obtain cs where "requireAuth E (ad_auth h) now r (State_Monad.bind next (\<lambda>st. State_Monad.return (Render st, [])))
      = State_Monad.return (SeeOther ''/admin/login'', cs)" using requireAuth_refused by blast
  then show ?thesis by (simp only: with_admin_def bind_left_identity prod.case ui.case ui_status.simps)
qed

lemma with_admin_steps [io_rules]: "cp_triple E m (\<lambda>_. True) \<Longrightarrow> cp_triple E (with_admin E h now r m) (\<lambda>_. True)"
  by (cases "session_ok E (ad_auth h) now r") (simp_all add: with_admin_ok with_admin_refused, rule cp_rules, rule TrueI)

end
