(* ===== verification/CP_Admin_Props.thy ===== *)
theory CP_Admin_Props
  imports CP_Admin_Routes
begin

text \<open>
  What the admin UI guarantees beyond being made of the steps of the system (\<open>src/internal/admin\<close>): its actions have the same effects as
  those of the API, its list of tenants is complete, and where it answers differently.
\<close>

section \<open>Programs with the same effects\<close>

text \<open>Two states that differ at most in the number of database calls made.\<close>

definition same_effects :: "world \<Rightarrow> world \<Rightarrow> bool" where
  "same_effects w v \<longleftrightarrow> w_db w = w_db v \<and> w_trace w = w_trace v \<and> w_jobs w = w_jobs v \<and> w_clients w = w_clients v
     \<and> w_limiter w = w_limiter v \<and> w_status w = w_status v \<and> w_challenges w = w_challenges v"

definition like :: "'a cp \<Rightarrow> 'b cp \<Rightarrow> bool" where
  "like m n \<longleftrightarrow> (\<forall>w. same_effects (snd (run_state m w)) (snd (run_state n w)))"

interpretation reads: effect_logic "\<lambda>_. True" same_effects
  by unfold_locales (auto simp: same_effects_def)

abbreviation reads_only :: "'a cp \<Rightarrow> bool" where
  "reads_only m \<equiv> triple (\<lambda>_. True) same_effects m (\<lambda>_. True)"

lemma reads_query: "reads_only (db_call E (query f))"
  using db_call_db [of E "query f"] by (auto simp: triple_def same_effects_def query_def)

lemma like_return: "like (State_Monad.return x) (State_Monad.return y)"
  by (simp add: like_def same_effects_def)

lemma like_bind: "(\<And>x. like (f x) (g x)) \<Longrightarrow> like (State_Monad.bind m f) (State_Monad.bind m g)"
  by (simp add: like_def split_def)

lemma like_read_left: "reads_only m \<Longrightarrow> like m (State_Monad.return y)"
  by (auto simp: like_def triple_def same_effects_def)

lemma like_read_right: "reads_only m \<Longrightarrow> like (State_Monad.return y) m"
  by (auto simp: like_def triple_def same_effects_def)

lemma like_reads: "reads_only m \<Longrightarrow> reads_only n \<Longrightarrow> like m n"
  by (auto simp: like_def triple_def same_effects_def)

lemma like_if: "\<lbrakk>b \<Longrightarrow> like m n; \<not> b \<Longrightarrow> like m' n'\<rbrakk> \<Longrightarrow> like (if b then m else m') (if b then n else n')"
  by simp

lemma like_sum:
  "\<lbrakk>\<And>e. like (f e) (f' e); \<And>x. like (g x) (g' x)\<rbrakk>
   \<Longrightarrow> like (case r of Inl e \<Rightarrow> f e | Inr x \<Rightarrow> g x) (case r of Inl e \<Rightarrow> f' e | Inr x \<Rightarrow> g' x)"
  by (cases r) auto

lemma like_option:
  "\<lbrakk>like m m'; \<And>x. like (g x) (g' x)\<rbrakk>
   \<Longrightarrow> like (case r of None \<Rightarrow> m | Some x \<Rightarrow> g x) (case r of None \<Rightarrow> m' | Some x \<Rightarrow> g' x)"
  by (cases r) auto

lemmas like_control = like_return like_bind like_if like_sum like_option

lemma reads_lookups:
  "reads_only (tenant_GetByID E tid)" "reads_only (project_GetByID E pid)" "reads_only (node_GetByID E nid)"
  unfolding tenant_GetByID_def project_GetByID_def node_GetByID_def by (rule reads.t_control reads_query TrueI)+

lemma reads_enrichSingle: "reads_only (enrichSingle E t)"
  unfolding enrichSingle_def by (rule reads.t_control reads_lookups TrueI)+

section \<open>The admin UI acts like the API\<close>

lemma like_lookup:
  "(\<And>t. like (k t) (k' t)) \<Longrightarrow> like (flash_of_tenant E tid k)
     (State_Monad.bind (tenant_GetByID E tid) (\<lambda>r. case r of
         Inl _ \<Rightarrow> State_Monad.return y
       | Inr x \<Rightarrow> (case x of None \<Rightarrow> State_Monad.return z | Some t \<Rightarrow> k' t)))"
  unfolding flash_of_tenant_def by (rule like_control | assumption)+

lemma like_page:
  "(\<And>t. like (k t) (k' t)) \<Longrightarrow> like (page_of_tenant E tid k) (with_tenant E tid k')"
  unfolding page_of_tenant_def with_tenant_def by (rule like_control | assumption)+

lemma like_flash:
  "(\<And>t. like (k t) (k' t)) \<Longrightarrow> like (if \<not> ValidUUID E tid then State_Monad.return x else flash_of_tenant E tid k) (with_tenant E tid k')"
  unfolding with_tenant_def by (rule like_if like_lookup like_return | assumption)+

definition api_tenants :: "admin_handler \<Rightarrow> tenant_handler" where
  "api_tenants h = \<lparr>th_audit = ad_audit h, th_prov = ad_prov h\<rparr>"

definition api_nodes :: "admin_handler \<Rightarrow> node_handler" where
  "api_nodes h = \<lparr>nh_audit = ad_audit h, nh_encryption_key = aa_encryption_key (ad_auth h), nh_provisioner = True\<rparr>"

lemma like_suspend: "like (suspendTenant E h tid) (tenant_h_Suspend E (api_tenants h) tid)"
  unfolding suspendTenant_def tenant_h_Suspend_def do_suspend_def api_tenants_def tenant_handler.select_convs
  by (rule like_flash like_control like_read_right reads.t_control reads_lookups TrueI)+

lemma like_resume: "like (resumeTenant E h tid) (tenant_h_Resume E (api_tenants h) tid)"
  unfolding resumeTenant_def tenant_h_Resume_def do_resume_def api_tenants_def tenant_handler.select_convs
  by (rule like_flash like_control like_read_right reads.t_control reads_lookups TrueI)+

lemma like_delete: "like (deleteTenant E h tid) (tenant_h_Delete E (api_tenants h) tid)"
  unfolding deleteTenant_def tenant_h_Delete_def do_delete_def api_tenants_def lifecycle_of_def admin_lifecycle_def tenant_handler.select_convs
proof (rule like_page, rule like_bind)
  fix r :: "LifecycleError + tenant option"
  show "like (case r of Inl lerr \<Rightarrow> State_Monad.return (flashLifecycle lerr)
      | Inr None \<Rightarrow> State_Monad.return panicked
      | Inr (Some t') \<Rightarrow> State_Monad.bind (enrichSingle E t') (\<lambda>e. State_Monad.return (Render e)))
    (State_Monad.return (case r of Inl lerr \<Rightarrow> respondLifecycle lerr | Inr t' \<Rightarrow> JSON 200 t'))"
    by (rule like_read_left) (rule reads.t_control reads_enrichSingle TrueI)+
qed

lemma like_infra_deletes:
  "like (deleteNodeAdmin E h nid) (node_h_Delete E (api_nodes h) nid)"
  "like (deleteProjectAdmin E h pid) (project_h_Delete E (ad_audit h) pid)"
  unfolding deleteNodeAdmin_def node_h_Delete_def deleteProjectAdmin_def project_h_Delete_def api_nodes_def node_handler.select_convs
  by (rule like_control)+

definition tenant_request :: "(string \<Rightarrow> string) \<Rightarrow> create_tenant_request" where
  "tenant_request f = \<lparr>ct_name = f ''name'', ct_project_id = f ''project_id'', ct_node_id = f ''node_id'', ct_subdomain = f ''subdomain''\<rparr>"

lemma like_create:
  assumes "ValidUUID E (f ''project_id'')" "ValidUUID E (f ''node_id'')"
  shows "like (createTenant E h (Some f)) (tenant_h_Create E (api_tenants h) (Some (tenant_request f)))"
proof -
  have c: "(f ''name'' = [] \<or> f ''project_id'' = [] \<or> f ''node_id'' = [] \<or> f ''subdomain'' = [])
      = (f ''name'' = [] \<or> f ''subdomain'' = [] \<or> f ''project_id'' = [] \<or> f ''node_id'' = [])" by blast
  have v: "(\<not> ValidUUID E (f ''project_id'')) = False" "(\<not> ValidUUID E (f ''node_id'')) = False" using assms by simp_all
  show ?thesis
    unfolding createTenant_def tenant_h_Create_def option.case tenant_request_def create_tenant_request.select_convs c v if_False
      api_tenants_def lifecycle_of_def admin_lifecycle_def tenant_handler.select_convs
    by (rule like_control)+
qed

text \<open>
  C24: Six actions of the admin UI do exactly what the API's do, whatever any statement or outside call returns: after suspending, resuming
  or deleting a tenant, creating one for a project and a node whose ids are valid UUIDs, or deleting a node or a project through
  either, the tables, the calls made to the outside, the jobs and the in-memory state are the same; only the answers differ. Creating and
  updating nodes and projects is not among them: there the two differ (\<open>update_of_missing_node_reported_done\<close>).
\<close>

theorem admin_ui_acts_like_api:
  "like (suspendTenant E h tid) (tenant_h_Suspend E (api_tenants h) tid)
   \<and> like (resumeTenant E h tid) (tenant_h_Resume E (api_tenants h) tid)
   \<and> like (deleteTenant E h tid) (tenant_h_Delete E (api_tenants h) tid)
   \<and> like (deleteNodeAdmin E h nid) (node_h_Delete E (api_nodes h) nid)
   \<and> like (deleteProjectAdmin E h pid) (project_h_Delete E (ad_audit h) pid)
   \<and> (if ValidUUID E (f ''project_id'') \<and> ValidUUID E (f ''node_id'')
      then like (createTenant E h (Some f)) (tenant_h_Create E (api_tenants h) (Some (tenant_request f))) else True)"
  by (simp add: like_suspend like_resume like_delete like_infra_deletes like_create)

section \<open>The list of tenants\<close>

lemma fold_upd: "fold (\<lambda>x m. m(k x \<mapsto> v x)) xs m0 = m0 ++ map_of (rev (map (\<lambda>x. (k x, v x)) xs))"
  by (induction xs arbitrary: m0) (auto simp: map_add_assoc fun_eq_iff map_add_def split: option.splits)

lemma fold_upd_key:
  assumes "distinct (map k xs)" "x \<in> set xs"
  shows "fold (\<lambda>x m. m(k x \<mapsto> v x)) xs Map.empty (k x) = Some (v x)"
proof -
  have "distinct (map fst (rev (map (\<lambda>x. (k x, v x)) xs)))" using assms(1) by (simp add: comp_def distinct_rev flip: rev_map)
  moreover have "(k x, v x) \<in> set (rev (map (\<lambda>x. (k x, v x)) xs))" using assms(2) by simp
  ultimately show ?thesis by (simp add: fold_upd)
qed

lemma node_list_names:
  assumes "distinct (map nd_id (nodes d))" "n \<in> set (nodes d)"
  shows "fst (buildMaps (map scan_node (order_desc nd_created_at (nodes d))) ps) (nd_id n) = Some (nd_name n)"
proof -
  have "distinct (map nd_id (map scan_node (order_desc nd_created_at (nodes d))))"
    using assms(1) by (simp add: comp_def scan_node_def order_desc_def distinct_map)
  moreover have "scan_node n \<in> set (map scan_node (order_desc nd_created_at (nodes d)))" using assms(2) by simp
  ultimately show ?thesis
    using fold_upd_key [of nd_id _ "scan_node n" nd_name] by (simp add: buildMaps_def scan_node_def)
qed

definition tenant_matches :: "(string \<Rightarrow> string) \<Rightarrow> tenant \<Rightarrow> bool" where
  "tenant_matches q t \<longleftrightarrow> (q ''status'' = [] \<or> status_name (tn_status t) = q ''status'')
     \<and> (q ''node_id'' = [] \<or> tn_node_id t = q ''node_id'') \<and> (q ''project_id'' = [] \<or> tn_project_id t = q ''project_id'')"

lemma page_whole: "length rs \<le> n \<Longrightarrow> fst (page (int n) 0 rs) = rs"
  by (simp add: page_def Let_def)

text \<open>
The list of tenants is never cut short: over a database that answers, the page shows every tenant the filters allow, newest
  first, the number of all tenants beside it, and each row names its node by the name the node has.
\<close>

theorem tenants_page_complete:
  assumes "reliable E" "distinct (map nd_id (nodes (w_db w)))"
    and "q ''node_id'' = [] \<or> uuid_parses E (q ''node_id'')" "q ''project_id'' = [] \<or> uuid_parses E (q ''project_id'')"
  shows "\<exists>page. fst (run_state (tenantsList E q) w) = Render page
    \<and> map et_tenant (td_tenants page) = order_desc tn_created_at (filter (tenant_matches q) (tenants (w_db w)))
    \<and> td_total page = length (tenants (w_db w))
    \<and> (\<forall>e\<in>set (td_tenants page). \<forall>n\<in>set (nodes (w_db w)). nd_id n = tn_node_id (et_tenant e) \<and> nd_name n \<noteq> [] \<longrightarrow> et_node_name e = nd_name n)"
proof -
  let ?d = "w_db w"
  let ?ns = "map scan_node (order_desc nd_created_at (nodes ?d))"
  let ?ps = "order_desc pr_created_at (projects ?d)"
  let ?rows = "order_desc tn_created_at (filter (tenant_matches q) (tenants ?d))"
  let ?page = "\<lparr>td_nodes = ?ns, td_projects = ?ps,
      td_tenants = map (\<lambda>t. enrichTenant t (fst (buildMaps ?ns ?ps)) (snd (buildMaps ?ns ?ps))) ?rows, td_total = length (tenants ?d)\<rparr>"
  have f: "(\<lambda>t. (q ''status'' = [] \<or> status_name (tn_status t) = q ''status'') \<and> (q ''node_id'' = [] \<or> tn_node_id t = q ''node_id'')
      \<and> (q ''project_id'' = [] \<or> tn_project_id t = q ''project_id'')) = tenant_matches q"
    by (simp add: fun_eq_iff tenant_matches_def)
  have whole: "fst (page (int (length (tenants ?d))) 0 ?rows) = ?rows" by (rule page_whole) simp
  have r: "fst (run_state (tenantsList E q) w) = Render ?page"
    using assms(3,4) whole
    by (simp add: tenantsList_def node_List_def project_List_def tenant_Count_def tenant_ListPaginated_def reliable_call [OF assms(1)] query_def
        f split_def Let_def)
  have m: "map et_tenant (td_tenants ?page) = ?rows" by (simp add: enrichTenant_def comp_def)
  have "et_node_name e = nd_name n"
    if e: "e \<in> set (td_tenants ?page)" and n: "n \<in> set (nodes ?d)" "nd_id n = tn_node_id (et_tenant e)" "nd_name n \<noteq> []" for e n
  proof -
    from e obtain t where t: "e = enrichTenant t (fst (buildMaps ?ns ?ps)) (snd (buildMaps ?ns ?ps))" by auto
    then have "tn_node_id t = nd_id n" using n(2) by (simp add: enrichTenant_def)
    with t n(3) node_list_names [OF assms(2) n(1)] show ?thesis by (simp add: enrichTenant_def name_or_id_def)
  qed
  with r m show ?thesis by auto
qed

definition active_only :: "string \<Rightarrow> string" where
  "active_only k = (if k = ''status'' then ''active'' else [])"

theorem tenants_page_complete_witness:
  "\<exists>page. fst (run_state (tenantsList sample_E active_only) sample_w) = Render page
     \<and> map et_tenant (td_tenants page) = [sample_tenant ''t1'' Active (Some 101) (Some ''alice'')] \<and> td_total page = 4"
proof -
  have q: "active_only ''node_id'' = []" "active_only ''project_id'' = []" "active_only ''status'' = ''active''" by (simp_all add: active_only_def)
  have d: "distinct (map nd_id (nodes (w_db sample_w)))" by (simp add: sample_data)
  have "filter (tenant_matches active_only) (tenants (w_db sample_w)) = [sample_tenant ''t1'' Active (Some 101) (Some ''alice'')]"
    by (simp add: tenant_matches_def q sample_w_def sample_db_def sample_fields)
  then have r: "order_desc tn_created_at (filter (tenant_matches active_only) (tenants (w_db sample_w)))
      = [sample_tenant ''t1'' Active (Some 101) (Some ''alice'')]" by (simp add: order_desc_def)
  have n: "length (tenants (w_db sample_w)) = 4" by (simp add: sample_w_def sample_db_def)
  show ?thesis using tenants_page_complete [OF sample_reliable(1) d disjI1 [OF q(1)] disjI1 [OF q(2)]] unfolding r n by (elim exE conjE) (intro exI conjI)
qed

section \<open>Where the answers mislead\<close>

text \<open>An update of a node that does not exist is reported as done, and logged.\<close>

lemma update_of_missing_node_reported_done:
  assumes "reliable E" "ValidUUID E nid" "node_row (w_db w) nid = None"
    and "f ''status'' = ''offline''" "f ''total_ram_mb'' = []"
  shows "fst (run_state (updateNodeAdmin E h nid (Some f)) w) = HxRedirect (Some ''Node updated'') (''/admin/nodes/'' @ nid)"
proof -
  have r: "node_update_form f = Inr \<lparr>un_status = Some ''offline'', un_total_ram_mb = None, un_proxmox_url = None, un_api_token = None\<rparr>"
    using assms(4,5) by (simp add: node_update_form_def)
  have "fst (run_state (node_Update E nid \<lparr>un_status = Some ''offline'', un_total_ram_mb = None, un_proxmox_url = None, un_api_token = None\<rparr>) w)
      = Inr None"
    using assms(1,3) by (simp add: node_Update_def update_node_stmt_def reliable_call query_def split_def)
  then show ?thesis using assms(2) by (simp add: updateNodeAdmin_def r split_def)
qed

end
