(* ===== verification/CP_Billing.thy ===== *)
theory CP_Billing
  imports CP_Tenant_Handlers
begin

text \<open>
  Billing (\<open>src/internal/billing/stripe.go\<close>, \<open>handler.go\<close>): checkout and portal sessions, the billing
  status, and the Stripe webhook that moves tenants between tiers. The Stripe API is an external
  call; the signature check \<open>webhook.ConstructEvent\<close> is a parameter of \<open>Webhook\<close>, and an event
  arrives with its JSON decoded (\<open>None\<close> when it does not unmarshal).
\<close>

section \<open>The service\<close>

record billing_service =
  bs_webhook_secret :: string
  bs_prices :: "(string \<times> string) list"
  bs_price_to_tier :: "string \<rightharpoonup> string"

text \<open>The list is the map from tiers to prices in the order the loop visits it.\<close>

definition NewService :: "string \<Rightarrow> (string \<times> string) list \<Rightarrow> billing_service" where
  "NewService webhookSecret prices =
     \<lparr>bs_webhook_secret = webhookSecret, bs_prices = prices,
      bs_price_to_tier = fold (\<lambda>(tier, priceID) m. if priceID \<noteq> [] then m(priceID \<mapsto> tier) else m) prices Map.empty\<rparr>"

definition GetTierFromPriceID :: "billing_service \<Rightarrow> string \<Rightarrow> string" where
  "GetTierFromPriceID s priceID = (case bs_price_to_tier s priceID of Some tier \<Rightarrow> tier | None \<Rightarrow> ''free'')"

definition GetPriceID :: "billing_service \<Rightarrow> string \<Rightarrow> string" where
  "GetPriceID s tier = (case map_of (bs_prices s) tier of Some p \<Rightarrow> p | None \<Rightarrow> [])"

definition CreateCheckoutSession ::
  "externals \<Rightarrow> string \<Rightarrow> string \<Rightarrow> string \<Rightarrow> string \<Rightarrow> (string \<times> string) list \<Rightarrow> string res cp" where
  "CreateCheckoutSession E customerEmail priceID successURL cancelURL metadata = do {
     r \<leftarrow> ext_val E (ext_text E) (StripeCheckout customerEmail priceID successURL cancelURL metadata);
     State_Monad.return (wrap_err ''create checkout session'' r) }"

definition CreateCustomerPortalSession :: "externals \<Rightarrow> string \<Rightarrow> string \<Rightarrow> string res cp" where
  "CreateCustomerPortalSession E customerID returnURL = do {
     r \<leftarrow> ext_val E (ext_text E) (StripePortal customerID returnURL);
     State_Monad.return (wrap_err ''create portal session'' r) }"

section \<open>Events\<close>

record CheckoutSessionData =
  cd_customer_id :: string
  cd_subscription_id :: string
  cd_customer_email :: string
  cd_metadata :: "(string \<times> string) list"

record raw_subscription =
  rs_id :: string
  rs_customer :: string
  rs_status :: string
  rs_prices :: "string list"

record SubscriptionData =
  sd_id :: string
  sd_customer_id :: string
  sd_price_id :: string
  sd_status :: string

text \<open>The price of the first item decides.\<close>

definition ParseSubscription :: "raw_subscription \<Rightarrow> SubscriptionData" where
  "ParseSubscription r =
     \<lparr>sd_id = rs_id r, sd_customer_id = rs_customer r,
      sd_price_id = (case rs_prices r of [] \<Rightarrow> [] | p # _ \<Rightarrow> p), sd_status = rs_status r\<rparr>"

datatype stripe_event =
    CheckoutCompleted "CheckoutSessionData option"
  | SubscriptionUpdated "raw_subscription option"
  | SubscriptionDeleted "raw_subscription option"
  | InvoicePaymentFailed
  | OtherEvent string

definition terminalSubscriptionStatuses :: "string list" where
  "terminalSubscriptionStatuses = [''canceled'', ''unpaid'', ''incomplete_expired'']"

definition liveSubscriptionStatuses :: "string list" where
  "liveSubscriptionStatuses = [''active'', ''trialing'']"

definition metadata_get :: "(string \<times> string) list \<Rightarrow> string \<Rightarrow> string" where
  "metadata_get m k = (case map_of m k of Some v \<Rightarrow> v | None \<Rightarrow> [])"

definition handleCheckoutCompleted :: "externals \<Rightarrow> CheckoutSessionData option \<Rightarrow> unit res cp" where
  "handleCheckoutCompleted E data =
     (case data of
        None \<Rightarrow> State_Monad.return (Inr ())
      | Some session \<Rightarrow>
          let userID = metadata_get (cd_metadata session) ''user_id'';
              tier = metadata_get (cd_metadata session) ''tier''
          in if userID = [] \<or> tier = [] then State_Monad.return (Inr ())
             else do {
               r \<leftarrow> GetBillingByOwnerID E userID;
               case r of
                 Inl e \<Rightarrow> State_Monad.return (Inl (Wrap (''get tenants for checkout (user '' @ userID @ '')'') e))
               | Inr [] \<Rightarrow> State_Monad.return (Inr ())
               | Inr (t # _) \<Rightarrow> do {
                   u \<leftarrow> UpdateBilling E (bt_id t) (cd_customer_id session) (cd_subscription_id session) tier;
                   State_Monad.return (wrap_err (''update tenant '' @ bt_id t @ '' after checkout'') u) } })"

text \<open>The tier and the subscription reference a status asks for; \<open>None\<close> while it is unresolved.\<close>

definition subscription_effect :: "billing_service \<Rightarrow> SubscriptionData \<Rightarrow> (string \<times> string) option" where
  "subscription_effect s sub =
     (if sd_status sub \<in> set terminalSubscriptionStatuses then Some (''free'', [])
      else if sd_status sub \<in> set liveSubscriptionStatuses
      then Some (GetTierFromPriceID s (sd_price_id sub), sd_id sub)
      else None)"

definition handleSubscriptionUpdated ::
  "externals \<Rightarrow> billing_service \<Rightarrow> raw_subscription option \<Rightarrow> unit res cp" where
  "handleSubscriptionUpdated E s data =
     (case data of
        None \<Rightarrow> State_Monad.return (Inr ())
      | Some raw \<Rightarrow>
          let sub = ParseSubscription raw
          in case subscription_effect s sub of
               None \<Rightarrow> State_Monad.return (Inr ())
             | Some (tier, subscriptionRef) \<Rightarrow> do {
                 r \<leftarrow> GetByStripeCustomerID E (sd_customer_id sub);
                 case r of
                   Inl e \<Rightarrow> State_Monad.return (Inl (Wrap (''get tenant by customer '' @ sd_customer_id sub) e))
                 | Inr None \<Rightarrow> State_Monad.return (Inr ())
                 | Inr (Some t) \<Rightarrow> do {
                     u \<leftarrow> UpdateBilling E (bt_id t) (sd_customer_id sub) subscriptionRef tier;
                     State_Monad.return (wrap_err (''update tier for tenant '' @ bt_id t) u) } })"

definition handleSubscriptionDeleted :: "externals \<Rightarrow> raw_subscription option \<Rightarrow> unit res cp" where
  "handleSubscriptionDeleted E data =
     (case data of
        None \<Rightarrow> State_Monad.return (Inr ())
      | Some raw \<Rightarrow> do {
          let sub = ParseSubscription raw;
          r \<leftarrow> GetByStripeCustomerID E (sd_customer_id sub);
          case r of
            Inl e \<Rightarrow> State_Monad.return (Inl (Wrap (''get tenant by customer '' @ sd_customer_id sub) e))
          | Inr None \<Rightarrow> State_Monad.return (Inr ())
          | Inr (Some t) \<Rightarrow> do {
              u \<leftarrow> UpdateBilling E (bt_id t) (sd_customer_id sub) [] ''free'';
              State_Monad.return (wrap_err (''downgrade tenant '' @ bt_id t @ '' to free'') u) } })"

definition handle_event :: "externals \<Rightarrow> billing_service \<Rightarrow> stripe_event \<Rightarrow> unit res cp" where
  "handle_event E s ev =
     (case ev of
        CheckoutCompleted d \<Rightarrow> handleCheckoutCompleted E d
      | SubscriptionUpdated d \<Rightarrow> handleSubscriptionUpdated E s d
      | SubscriptionDeleted d \<Rightarrow> handleSubscriptionDeleted E d
      | InvoicePaymentFailed \<Rightarrow> State_Monad.return (Inr ())
      | OtherEvent _ \<Rightarrow> State_Monad.return (Inr ()))"

section \<open>The handler\<close>

text \<open>The handler has a service or billing is switched off. \<open>body\<close> is \<open>None\<close> when reading it fails;
  \<open>construct\<close> stands for \<open>webhook.ConstructEvent\<close> applied to the body, the signature and the secret.\<close>

definition Webhook ::
  "externals \<Rightarrow> billing_service option \<Rightarrow> (string \<Rightarrow> string \<Rightarrow> string \<Rightarrow> stripe_event option)
   \<Rightarrow> string option \<Rightarrow> string \<Rightarrow> unit http cp" where
  "Webhook E svc construct body signature =
     (case svc of
        None \<Rightarrow> State_Monad.return (Error 501 ''billing is not configured'')
      | Some s \<Rightarrow>
          (case body of
             None \<Rightarrow> State_Monad.return (Error 400 ''failed to read request body'')
           | Some payload \<Rightarrow>
               if signature = [] then State_Monad.return (Error 400 ''missing Stripe-Signature header'')
               else (case construct payload signature (bs_webhook_secret s) of
                   None \<Rightarrow> State_Monad.return (Error 400 ''invalid webhook signature'')
                 | Some ev \<Rightarrow> do {
                     r \<leftarrow> handle_event E s ev;
                     State_Monad.return (case r of
                         Inl _ \<Rightarrow> Error 500 ''failed to process webhook''
                       | Inr _ \<Rightarrow> JSON 200 ()) })))"

record checkout_request =
  ck_tier :: string
  ck_success_url :: string
  ck_cancel_url :: string

definition CreateCheckout ::
  "externals \<Rightarrow> billing_service option \<Rightarrow> (string \<times> string) option \<Rightarrow> checkout_request option \<Rightarrow> string http cp" where
  "CreateCheckout E svc user body =
     (case svc of
        None \<Rightarrow> State_Monad.return (Error 501 ''billing is not configured'')
      | Some s \<Rightarrow>
          (case user of
             None \<Rightarrow> State_Monad.return (Error 401 ''unauthorized'')
           | Some (uid, email) \<Rightarrow>
               (case body of
                  None \<Rightarrow> State_Monad.return (Error 400 ''invalid request body'')
                | Some req \<Rightarrow>
                    if \<not> IsPaidTier (ck_tier req)
                    then State_Monad.return (Error 400 ''invalid tier: must be starter, pro, or studio'')
                    else if GetPriceID s (ck_tier req) = []
                    then State_Monad.return (Error 400 ''tier not available for purchase'')
                    else if ck_success_url req = [] \<or> ck_cancel_url req = []
                    then State_Monad.return (Error 400 ''success_url and cancel_url are required'')
                    else do {
                      r \<leftarrow> CreateCheckoutSession E email (GetPriceID s (ck_tier req)) (ck_success_url req) (ck_cancel_url req)
                             [(''user_id'', uid), (''user_email'', email), (''tier'', ck_tier req)];
                      State_Monad.return (case r of
                          Inl _ \<Rightarrow> Error 500 ''failed to create checkout session''
                        | Inr u \<Rightarrow> JSON 200 u) })))"

definition first_customer :: "billing_tenant list \<Rightarrow> string" where
  "first_customer ts =
     (case find (\<lambda>t. bt_stripe_customer_id t \<noteq> None \<and> bt_stripe_customer_id t \<noteq> Some []) ts of
        None \<Rightarrow> [] | Some t \<Rightarrow> case_option [] id (bt_stripe_customer_id t))"

definition CreatePortal ::
  "externals \<Rightarrow> billing_service option \<Rightarrow> string option \<Rightarrow> string option \<Rightarrow> string http cp" where
  "CreatePortal E svc user body =
     (case svc of
        None \<Rightarrow> State_Monad.return (Error 501 ''billing is not configured'')
      | Some s \<Rightarrow>
          (case user of
             None \<Rightarrow> State_Monad.return (Error 401 ''unauthorized'')
           | Some uid \<Rightarrow>
               (case body of
                  None \<Rightarrow> State_Monad.return (Error 400 ''invalid request body'')
                | Some returnURL \<Rightarrow>
                    if returnURL = [] then State_Monad.return (Error 400 ''return_url is required'')
                    else do {
                      r \<leftarrow> GetBillingByOwnerID E uid;
                      case r of
                        Inl _ \<Rightarrow> State_Monad.return (Error 500 ''failed to look up billing info'')
                      | Inr ts \<Rightarrow>
                          if first_customer ts = []
                          then State_Monad.return (Error 400 ''no active subscription found'')
                          else do {
                            p \<leftarrow> CreateCustomerPortalSession E (first_customer ts) returnURL;
                            State_Monad.return (case p of
                                Inl _ \<Rightarrow> Error 500 ''failed to create portal session''
                              | Inr u \<Rightarrow> JSON 200 u) } })))"

record billing_status =
  bi_tenant_id :: string
  bi_tenant_name :: string
  bi_tier :: string
  bi_limits :: TierLimits
  bi_has_stripe :: bool

definition billing_Status ::
  "externals \<Rightarrow> billing_service option \<Rightarrow> string option \<Rightarrow> billing_status list http cp" where
  "billing_Status E svc user =
     (case svc of
        None \<Rightarrow> State_Monad.return (Error 501 ''billing is not configured'')
      | Some s \<Rightarrow>
          (case user of
             None \<Rightarrow> State_Monad.return (Error 401 ''unauthorized'')
           | Some uid \<Rightarrow> do {
               r \<leftarrow> GetBillingByOwnerID E uid;
               State_Monad.return (case r of
                   Inl _ \<Rightarrow> Error 500 ''failed to look up billing info''
                 | Inr ts \<Rightarrow> JSON 200 (map (\<lambda>t. \<lparr>bi_tenant_id = bt_id t, bi_tenant_name = bt_name t, bi_tier = bt_tier t,
                     bi_limits = GetLimits (bt_tier t),
                     bi_has_stripe = (bt_stripe_customer_id t \<noteq> None \<and> bt_stripe_customer_id t \<noteq> Some [])\<rparr>) ts)) }))"

section \<open>Only steps of the system\<close>

lemma billing_event_steps [io_rules]:
  "cp_triple E (handleCheckoutCompleted E cd) (\<lambda>_. True)"
  "cp_triple E (handleSubscriptionUpdated E s sd) (\<lambda>_. True)"
  "cp_triple E (handleSubscriptionDeleted E sd) (\<lambda>_. True)"
  unfolding handleCheckoutCompleted_def handleSubscriptionUpdated_def handleSubscriptionDeleted_def
  by (rule cp_rules io_rules)+

lemma handle_event_steps [io_rules]: "cp_triple E (handle_event E s ev) (\<lambda>_. True)"
  by (cases ev) (simp_all add: handle_event_def io_rules steps.t_return)

lemma billing_handler_steps [io_rules]:
  "cp_triple E (Webhook E svc con body sg) (\<lambda>_. True)"
  "cp_triple E (CreateCheckout E svc user2 cbody) (\<lambda>_. True)"
  "cp_triple E (CreatePortal E svc user pbody) (\<lambda>_. True)"
  "cp_triple E (billing_Status E svc user) (\<lambda>_. True)"
  unfolding Webhook_def CreateCheckout_def CreatePortal_def billing_Status_def
    CreateCheckoutSession_def CreateCustomerPortalSession_def
  by (rule cp_rules io_rules cp_ext_val)+

section \<open>Prices and tiers\<close>

lemma price_unique:
  assumes "distinct (map snd (filter (\<lambda>tp. snd tp \<noteq> []) (tp # prices)))" "snd tp \<noteq> []" "x \<in> set prices"
  shows "snd x \<noteq> snd tp"
proof
  assume eq: "snd x = snd tp"
  with assms(2,3) have "x \<in> set (filter (\<lambda>tp. snd tp \<noteq> []) prices)" by simp
  then have "snd x \<in> snd ` set (filter (\<lambda>tp. snd tp \<noteq> []) prices)" by (rule imageI)
  with assms(1,2) eq show False by simp
qed

lemma price_to_tier_fold:
  assumes "distinct (map snd (filter (\<lambda>tp. snd tp \<noteq> []) prices))"
  shows "fold (\<lambda>(tier, priceID) m. if priceID \<noteq> [] then m(priceID \<mapsto> tier) else m) prices m0 p
     = (case find (\<lambda>tp. snd tp = p \<and> p \<noteq> []) prices of Some tp \<Rightarrow> Some (fst tp) | None \<Rightarrow> m0 p)"
  using assms
proof (induction prices arbitrary: m0)
  case (Cons tp prices)
  have "find (\<lambda>tp. snd tp = p \<and> p \<noteq> []) prices = None" if "snd tp = p" "p \<noteq> []"
    unfolding find_None_iff using price_unique [OF Cons.prems] that by metis
  with Cons show ?case by (auto split: option.splits prod.splits if_splits)
qed simp

text \<open>
  The two price tables are inverse to each other. With one price per tier and no price used
  twice, a subscription that carries the price a tier was sold for is read back as that tier.
\<close>

theorem price_round_trip:
  assumes "distinct (map fst prices)" "distinct (map snd (filter (\<lambda>tp. snd tp \<noteq> []) prices))"
    and "GetPriceID (NewService secret prices) tier \<noteq> []"
  shows "GetTierFromPriceID (NewService secret prices) (GetPriceID (NewService secret prices) tier) = tier"
proof -
  obtain p where p: "map_of prices tier = Some p" "p \<noteq> []" "GetPriceID (NewService secret prices) tier = p"
    using assms(3) by (auto simp: GetPriceID_def NewService_def split: option.splits)
  then have "(tier, p) \<in> set prices" by (simp add: map_of_SomeD)
  then have "find (\<lambda>tp. snd tp = p \<and> p \<noteq> []) prices = Some (tier, p)"
    using assms(2) p(2)
  proof (induction prices)
    case (Cons tp prices)
    show ?case
    proof (cases "tp = (tier, p)")
      case False
      with Cons.prems have mem: "(tier, p) \<in> set prices" by simp
      then have "snd tp \<noteq> p" using price_unique [OF Cons.prems(2) _ mem] Cons.prems(3) by auto
      note this mem
      with Cons show ?thesis by (auto split: if_splits)
    qed (use Cons.prems in simp)
  qed simp
  with p(3) price_to_tier_fold [OF assms(2), of Map.empty p] show ?thesis
    by (simp add: GetTierFromPriceID_def NewService_def)
qed

theorem price_round_trip_witness:
  "GetTierFromPriceID (NewService ''s'' [(''pro'', ''price_1''), (''studio'', ''price_2'')])
     (GetPriceID (NewService ''s'' [(''pro'', ''price_1''), (''studio'', ''price_2'')]) ''studio'') = ''studio''"
  by (rule price_round_trip) (simp_all add: GetPriceID_def NewService_def)

section \<open>Subscription events\<close>

definition bill :: "string \<Rightarrow> string \<Rightarrow> string \<Rightarrow> string \<Rightarrow> db \<Rightarrow> db" where
  "bill tid c s tier d = snd (update_tenants (\<lambda>t. tn_id t = tid)
     (\<lambda>t. t\<lparr>tn_stripe_customer_id := Some c, tn_stripe_subscription_id := Some s, tn_tier := tier\<rparr>) d)"

definition by_customer :: "string \<Rightarrow> db \<Rightarrow> tenant option" where
  "by_customer c d = select_one (\<lambda>t. tn_stripe_customer_id t = Some c \<and> tn_status t \<noteq> Deleted) (tenants d)"

lemma UpdateBilling_db:
  "reliable E \<Longrightarrow> w_db (snd (run_state (UpdateBilling E tid c s tier) w)) = bill tid c s tier (w_db w)"
  by (simp add: UpdateBilling_def exec_rows_reliable bill_def)

text \<open>Nothing in the schema keeps two tenants from having the same customer; a checkout writes the customer of its Stripe session.\<close>

definition customers_unique :: "db \<Rightarrow> bool" where
  "customers_unique d \<longleftrightarrow> (\<forall>t\<in>set (tenants d). \<forall>u\<in>set (tenants d).
     tn_status t \<noteq> Deleted \<and> tn_status u \<noteq> Deleted \<and> tn_stripe_customer_id t \<noteq> None
     \<and> tn_stripe_customer_id t = tn_stripe_customer_id u \<longrightarrow> tn_id t = tn_id u)"

lemma any_by_customer:
  assumes "tenants_ok d" "customers_unique d"
  shows "select_any n (\<lambda>t. tn_stripe_customer_id t = Some c \<and> tn_status t \<noteq> Deleted) (tenants d) = by_customer c d"
proof (cases "by_customer c d")
  case None
  then have "\<forall>t\<in>set (tenants d). \<not> (tn_stripe_customer_id t = Some c \<and> tn_status t \<noteq> Deleted)"
    by (simp add: by_customer_def select_one_None)
  then have "select_any n (\<lambda>t. tn_stripe_customer_id t = Some c \<and> tn_status t \<noteq> Deleted) (tenants d) = None"
    unfolding select_any_None .
  with None show ?thesis by simp
next
  case (Some t)
  then have t: "t \<in> set (tenants d)" "tn_stripe_customer_id t = Some c" "tn_status t \<noteq> Deleted"
    using select_one_Some unfolding by_customer_def by fast+
  have only: "u = t" if "u \<in> set (tenants d)" "tn_stripe_customer_id u = Some c \<and> tn_status u \<noteq> Deleted" for u
  proof -
    have "tn_id u = tn_id t" using assms(2) that t unfolding customers_unique_def by (metis option.distinct(1))
    then show ?thesis using tenant_row_key [OF assms(1) that(1)] tenant_row_key [OF assms(1) t(1)] by (metis option.inject)
  qed
  show ?thesis unfolding Some by (rule select_any_only) (use t only in \<open>blast+\<close>)
qed

text \<open>What an event asks for: the customer, the tier and the subscription reference. A checkout names a user, not a customer.\<close>

fun event_billing :: "billing_service \<Rightarrow> stripe_event \<Rightarrow> (string \<times> string \<times> string) option" where
  "event_billing s (SubscriptionUpdated (Some raw)) = map_option (Pair (rs_customer raw)) (subscription_effect s (ParseSubscription raw))"
| "event_billing s (SubscriptionDeleted (Some raw)) = Some (rs_customer raw, ''free'', [])"
| "event_billing s _ = None"

fun is_checkout :: "stripe_event \<Rightarrow> bool" where
  "is_checkout (CheckoutCompleted _) = True"
| "is_checkout _ = False"

lemma bill_customer:
  assumes "reliable E" "tenants_ok (w_db w)" "customers_unique (w_db w)"
  shows "\<exists>w'. run_state (do {
       r \<leftarrow> GetByStripeCustomerID E c;
       case r of
         Inl e \<Rightarrow> f e
       | Inr None \<Rightarrow> State_Monad.return (Inr ())
       | Inr (Some t) \<Rightarrow> do {
           u \<leftarrow> UpdateBilling E (bt_id t) c ref tier;
           State_Monad.return (wrap_err (m t) u) } }) w = (Inr (), w')
     \<and> w_db w' = (case by_customer c (w_db w) of None \<Rightarrow> w_db w | Some t \<Rightarrow> bill (tn_id t) c ref tier (w_db w))"
proof (cases "by_customer c (w_db w)")
  case None
  then show ?thesis
    by (simp add: GetByStripeCustomerID_def run_choose_row reliable_call [OF assms(1)] query_def any_by_customer [OF assms(2,3)] wrap_err_def)
next
  case (Some t)
  then have "t \<in> set (tenants (w_db w))" by (auto simp: by_customer_def dest: select_one_Some)
  then have n: "count_where (\<lambda>u. tn_id u = tn_id t) (tenants (w_db w)) \<noteq> 0" by (auto simp: count_where_zero)
  show ?thesis using Some n
    by (simp add: GetByStripeCustomerID_def run_choose_row reliable_call [OF assms(1)] query_def any_by_customer [OF assms(2,3)]
        wrap_err_def billing_view_def UpdateBilling_def exec_rows_reliable [OF assms(1)] bill_def update_tenants_def)
qed

lemma handle_event_billing:
  assumes "reliable E" "tenants_ok (w_db w)" "customers_unique (w_db w)" "\<not> is_checkout ev"
  shows "\<exists>w'. run_state (handle_event E s ev) w = (Inr (), w')
    \<and> w_db w' = (case event_billing s ev of
         None \<Rightarrow> w_db w
       | Some (c, tier, ref) \<Rightarrow> (case by_customer c (w_db w) of None \<Rightarrow> w_db w | Some t \<Rightarrow> bill (tn_id t) c ref tier (w_db w)))"
proof -
  have c: "sd_customer_id (ParseSubscription raw) = rs_customer raw" for raw by (simp add: ParseSubscription_def)
  note b = bill_customer [OF assms(1-3)]
  consider d where "ev = SubscriptionUpdated d" | d where "ev = SubscriptionDeleted d"
    | "ev = InvoicePaymentFailed" | x where "ev = OtherEvent x"
    using assms(4) by (cases ev) auto
  then show ?thesis
  proof cases
    case 1
    show ?thesis
    proof (cases d)
      case (Some raw)
      show ?thesis
        by (cases "subscription_effect s (ParseSubscription raw)")
          (use b in \<open>auto simp: 1 Some handle_event_def handleSubscriptionUpdated_def Let_def c\<close>)
    qed (simp add: 1 handle_event_def handleSubscriptionUpdated_def)
  next
    case 2
    show ?thesis
    proof (cases d)
      case (Some raw)
      show ?thesis using b by (simp add: 2 Some handle_event_def handleSubscriptionDeleted_def Let_def c)
    qed (simp add: 2 handle_event_def handleSubscriptionDeleted_def)
  qed (simp_all add: handle_event_def)
qed

text \<open>A billed tenant is billed alike the next time, at whatever time that is.\<close>

definition later :: "int \<Rightarrow> world \<Rightarrow> world" where
  "later t w = w\<lparr>w_db := (w_db w)\<lparr>db_now := t\<rparr>\<rparr>"

definition untimed :: "db \<Rightarrow> db" where
  "untimed d = d\<lparr>tenants := map (tn_updated_at_update (\<lambda>_. 0)) (tenants d), db_now := 0\<rparr>"

lemma untimed_now [simp]: "untimed (d\<lparr>db_now := t\<rparr>) = untimed d"
  by (simp add: untimed_def)

lemma tenants_bill:
  "tenants (bill tid c s tier d) = map (\<lambda>t. if tn_id t = tid then t\<lparr>tn_stripe_customer_id := Some c, tn_stripe_subscription_id := Some s,
     tn_tier := tier, tn_updated_at := db_now d\<rparr> else t) (tenants d)"
  by (simp add: bill_def tenants_update_tenants update_where_def)

lemma bill_twice: "untimed (bill tid c s tier ((bill tid c s tier d)\<lparr>db_now := t\<rparr>)) = untimed (bill tid c s tier d)"
  by (auto simp: untimed_def bill_def update_tenants_def update_where_def)

lemma bill_ok:
  assumes "tenants_ok d" "customers_unique d" "by_customer c d = Some t"
  shows "tenants_ok (bill (tn_id t) c s tier d)" "customers_unique (bill (tn_id t) c s tier d)"
    "\<exists>t'. by_customer c (bill (tn_id t) c s tier d) = Some t' \<and> tn_id t' = tn_id t"
proof -
  have t: "t \<in> set (tenants d)" "tn_stripe_customer_id t = Some c" "tn_status t \<noteq> Deleted"
    using select_one_Some assms(3) unfolding by_customer_def by fast+
  show "tenants_ok (bill (tn_id t) c s tier d)"
    unfolding bill_def by (rule tenants_ok_move [OF assms(1)]) (simp add: row_step_def)
  define g :: "tenant \<Rightarrow> tenant" where "g u = (if tn_id u = tn_id t then u\<lparr>tn_stripe_customer_id := Some c, tn_stripe_subscription_id := Some s,
      tn_tier := tier, tn_updated_at := db_now d\<rparr> else u)" for u
  have rows: "tenants (bill (tn_id t) c s tier d) = map g (tenants d)" by (simp add: tenants_bill g_def)
  have only: "u = t" if "u \<in> set (tenants d)" "tn_id u = tn_id t" for u
    using tenant_row_key [OF assms(1) that(1)] tenant_row_key [OF assms(1) t(1)] that(2) by (metis option.inject)
  have gt: "tn_stripe_customer_id (g t) = tn_stripe_customer_id t" using t(2) by (simp add: g_def)
  have g: "tn_id (g u) = tn_id u" "tn_status (g u) = tn_status u" for u by (simp_all add: g_def)
  have gc: "tn_stripe_customer_id (g u) = tn_stripe_customer_id u" if "u \<in> set (tenants d)" for u
  proof (cases "tn_id u = tn_id t")
    case True
    with that have "u = t" by (rule only)
    then show ?thesis using gt by simp
  qed (simp add: g_def)
  show "customers_unique (bill (tn_id t) c s tier d)"
    using assms(2) by (simp add: customers_unique_def rows g gc)
  have "\<not> (\<forall>v\<in>set (map g (tenants d)). \<not> (tn_stripe_customer_id v = Some c \<and> tn_status v \<noteq> Deleted))"
    unfolding set_map ball_simps not_not
    by (rule bexI [OF _ t(1)]) (simp add: g(2) t(3) gt, rule t(2))
  then obtain v where v: "by_customer c (bill (tn_id t) c s tier d) = Some v"
    unfolding by_customer_def rows select_one_None [symmetric] by blast
  have "v \<in> g ` set (tenants d) \<and> tn_stripe_customer_id v = Some c \<and> tn_status v \<noteq> Deleted"
    using select_one_Some [of "\<lambda>t. tn_stripe_customer_id t = Some c \<and> tn_status t \<noteq> Deleted" "map g (tenants d)" v]
      v [unfolded by_customer_def rows] unfolding set_map by (rule mp [OF impI])
  then obtain u where u: "u \<in> set (tenants d)" "v = g u" "tn_stripe_customer_id u = Some c" "tn_status u \<noteq> Deleted"
    using g(2) gc by (metis imageE)
  with t assms(2) have "tn_id u = tn_id t" unfolding customers_unique_def by (metis option.distinct(1))
  with u(1,2) g v show "\<exists>t'. by_customer c (bill (tn_id t) c s tier d) = Some t' \<and> tn_id t' = tn_id t" by auto
qed

lemma later_ok: "tenants_ok (d\<lparr>db_now := t\<rparr>) = tenants_ok d" "customers_unique (d\<lparr>db_now := t\<rparr>) = customers_unique d"
    "by_customer c (d\<lparr>db_now := t\<rparr>) = by_customer c d"
  by (simp_all add: tenants_ok_def customers_unique_def by_customer_def)

text \<open>
C34: Redelivery of a subscription event is harmless: over a database that answers, in which no two live tenants have the same Stripe
  customer, handling the same updated, deleted or failed-payment event again at any later time succeeds and leaves the tables as the
  first delivery left them, but for the time of the last update. Which row the unordered query returns does not matter.
\<close>

theorem subscription_event_idempotent:
  assumes "reliable E" "tenants_ok (w_db w)" "customers_unique (w_db w)" "\<not> is_checkout ev"
    and "run_state (handle_event E s ev) w = (r, w')"
  shows "r = Inr () \<and> fst (run_state (handle_event E s ev) (later t w')) = Inr ()
    \<and> untimed (w_db (snd (run_state (handle_event E s ev) (later t w')))) = untimed (w_db w')"
proof -
  from handle_event_billing [OF assms(1-4), of s] assms(5) have r: "r = Inr ()"
    and w': "w_db w' = (case event_billing s ev of None \<Rightarrow> w_db w
       | Some (c, tier, ref) \<Rightarrow> (case by_customer c (w_db w) of None \<Rightarrow> w_db w | Some t \<Rightarrow> bill (tn_id t) c ref tier (w_db w)))"
    by auto
  note ok = bill_ok [OF assms(2,3)]
  have "tenants_ok (w_db (later t w'))" "customers_unique (w_db (later t w'))"
    using ok assms(2,3) by (auto simp: later_def later_ok w' split: option.split prod.split)
  from handle_event_billing [OF assms(1) this assms(4), of s] obtain w2 where
    w2: "run_state (handle_event E s ev) (later t w') = (Inr (), w2)" and
    d2: "w_db w2 = (case event_billing s ev of None \<Rightarrow> w_db (later t w')
       | Some (c, tier, ref) \<Rightarrow> (case by_customer c (w_db (later t w')) of None \<Rightarrow> w_db (later t w')
           | Some u \<Rightarrow> bill (tn_id u) c ref tier (w_db (later t w'))))"
    by blast
  have "untimed (w_db w2) = untimed (w_db w')"
  proof (cases "event_billing s ev")
    case None
    then show ?thesis by (simp add: d2 later_def)
  next
    case (Some e)
    then obtain c tier ref where e: "event_billing s ev = Some (c, tier, ref)" by (cases e) auto
    show ?thesis
    proof (cases "by_customer c (w_db w)")
      case None
      then show ?thesis using e by (simp add: d2 later_def later_ok w')
    next
      case (Some u)
      from ok(3) [OF this, of ref tier] obtain u' where
        "by_customer c (bill (tn_id u) c ref tier (w_db w)) = Some u'" "tn_id u' = tn_id u" by blast
      then show ?thesis using e Some by (simp add: d2 later_def later_ok w' bill_twice)
    qed
  qed
  with r w2 show ?thesis by simp
qed

definition sample_sub :: "string \<Rightarrow> raw_subscription" where
  "sample_sub st = \<lparr>rs_id = ''sub_1'', rs_customer = ''ct1'', rs_status = st, rs_prices = [''price_2'']\<rparr>"

abbreviation sample_svc :: billing_service where
  "sample_svc \<equiv> NewService ''s'' [(''pro'', ''price_1''), (''studio'', ''price_2'')]"

lemma sample_customers: "customers_unique (w_db sample_w)"
  by (simp add: customers_unique_def sample_data)

theorem subscription_event_idempotent_witness:
  "untimed (w_db (snd (run_state (handle_event sample_E sample_svc (SubscriptionUpdated (Some (sample_sub ''active''))))
      (later 9 (snd (run_state (handle_event sample_E sample_svc (SubscriptionUpdated (Some (sample_sub ''active'')))) sample_w))))))
   = untimed (w_db (snd (run_state (handle_event sample_E sample_svc (SubscriptionUpdated (Some (sample_sub ''active'')))) sample_w)))"
  using subscription_event_idempotent [OF sample_reliable(1) _ sample_customers _ prod.collapse [symmetric], of "SubscriptionUpdated (Some (sample_sub ''active''))" sample_svc 9]
  by (simp add: sample_simps)

text \<open>
  A subscription that ended for good drops its tenant to the free tier and clears the
  subscription, whatever price it still carries; while the payment is unresolved nothing changes.
\<close>

theorem subscription_status_decides:
  assumes "reliable E" "tenants_ok (w_db w)" "customers_unique (w_db w)" "by_customer (rs_customer raw) (w_db w) = Some t"
    and "run_state (handleSubscriptionUpdated E s (Some raw)) w = (r, w')"
  shows "if rs_status raw \<in> set terminalSubscriptionStatuses
         then \<exists>t'. tenant_row (w_db w') (tn_id t) = Some t' \<and> tn_tier t' = ''free'' \<and> tn_stripe_subscription_id t' = Some []
         else if rs_status raw \<in> set liveSubscriptionStatuses
         then \<exists>t'. tenant_row (w_db w') (tn_id t) = Some t' \<and> tn_stripe_subscription_id t' = Some (rs_id raw)
                 \<and> tn_tier t' = GetTierFromPriceID s (case rs_prices raw of [] \<Rightarrow> [] | p # _ \<Rightarrow> p)
         else w_db w' = w_db w"
proof -
  have t: "tenant_row (w_db w) (tn_id t) = Some t"
    using assms(2,4) by (intro tenant_row_key) (auto simp: by_customer_def dest: select_one_Some)
  have row: "tenant_row (bill (tn_id t) c ref tier (w_db w)) (tn_id t) = Some (t\<lparr>tn_stripe_customer_id := Some c,
      tn_stripe_subscription_id := Some ref, tn_tier := tier, tn_updated_at := db_now (w_db w)\<rparr>)" for c ref tier
    unfolding bill_def using t by (subst tenant_row_update) auto
  have "run_state (handle_event E s (SubscriptionUpdated (Some raw))) w = (r, w')" using assms(5) by (simp add: handle_event_def)
  with handle_event_billing [OF assms(1-3), of "SubscriptionUpdated (Some raw)" s]
  have "w_db w' = (case subscription_effect s (ParseSubscription raw) of None \<Rightarrow> w_db w
      | Some (tier, ref) \<Rightarrow> bill (tn_id t) (rs_customer raw) ref tier (w_db w))"
    using assms(4) by (auto split: option.splits prod.splits)
  then show ?thesis by (auto simp: subscription_effect_def ParseSubscription_def row split: if_splits)
qed

theorem subscription_status_decides_witness:
  "\<exists>t'. tenant_row (w_db (snd (run_state (handleSubscriptionUpdated sample_E sample_svc (Some (sample_sub ''canceled''))) sample_w))) ''t1''
      = Some t' \<and> tn_tier t' = ''free'' \<and> tn_stripe_subscription_id t' = Some []"
proof -
  have "by_customer (rs_customer (sample_sub ''canceled'')) (w_db sample_w) = Some (sample_tenant ''t1'' Active (Some 101) (Some ''alice''))"
    by (simp add: by_customer_def select_one_def sample_sub_def sample_data)
  from subscription_status_decides [OF _ _ sample_customers this prod.collapse [symmetric], of sample_E sample_svc]
  show ?thesis by (simp add: sample_simps sample_sub_def terminalSubscriptionStatuses_def)
qed

end
