(* ===== verification/CP_System.thy ===== *)
theory CP_System
  imports CP_Infra_Handlers CP_Billing
begin

text \<open>
  The control plane as a whole: every request of the modelled HTTP surface, every provisioning job and
  the passing of time is an event, and a run is a sequence of events in any order. Each event takes
  only steps of \<open>cp_step\<close>, so the invariant and the tenant histories proved there hold in every
  reachable state, whatever the database and the outside systems do.
\<close>

record system =
  sy_tenants :: tenant_handler
  sy_users :: user_handler
  sy_nodes :: node_handler
  sy_billing :: "billing_service option"
  sy_webhooks :: "string \<Rightarrow> string \<Rightarrow> string \<Rightarrow> stripe_event option"
  sy_audit :: bool

datatype event =
    EvTenantList "string \<Rightarrow> string"
  | EvTenantGet string
  | EvTenantCreate "create_tenant_request option"
  | EvTenantUpdate string "update_tenant_request option"
  | EvTenantSuspend string
  | EvTenantResume string
  | EvTenantDelete string
  | EvUserList "string option"
  | EvUserGet "string option" string
  | EvUserCreate "string option" "user_create_request option"
  | EvUserDelete "string option" string
  | EvUserSuspend "string option" string
  | EvUserResume "string option" string
  | EvUserSSO int "string option" string
  | EvNodeList "string \<Rightarrow> string"
  | EvNodeGet string
  | EvNodeCreate "create_node_request option"
  | EvNodeUpdate string "update_node_request option"
  | EvNodeDelete string
  | EvProjectList "string \<Rightarrow> string"
  | EvProjectGet string
  | EvProjectCreate "create_project_request option"
  | EvProjectUpdate string "update_project_request option"
  | EvProjectDelete string
  | EvCheckout "(string \<times> string) option" "checkout_request option"
  | EvPortal "string option" "string option"
  | EvBillingStatus "string option"
  | EvWebhook "string option" string
  | EvRunJob nat
  | EvTime int

abbreviation status_of :: "'a http cp \<Rightarrow> nat cp" where
  "status_of m \<equiv> State_Monad.bind m (\<lambda>r. State_Monad.return (http_status r))"

fun perform :: "externals \<Rightarrow> system \<Rightarrow> event \<Rightarrow> nat cp" where
  "perform E S (EvTenantList q) = status_of (tenant_h_List E q)"
| "perform E S (EvTenantGet tid) = status_of (tenant_h_Get E tid)"
| "perform E S (EvTenantCreate b) = status_of (tenant_h_Create E (sy_tenants S) b)"
| "perform E S (EvTenantUpdate tid b) = status_of (tenant_h_Update E (sy_tenants S) tid b)"
| "perform E S (EvTenantSuspend tid) = status_of (tenant_h_Suspend E (sy_tenants S) tid)"
| "perform E S (EvTenantResume tid) = status_of (tenant_h_Resume E (sy_tenants S) tid)"
| "perform E S (EvTenantDelete tid) = status_of (tenant_h_Delete E (sy_tenants S) tid)"
| "perform E S (EvUserList u) = status_of (user_h_List E u)"
| "perform E S (EvUserGet u tid) = status_of (user_h_Get E u tid)"
| "perform E S (EvUserCreate u b) = status_of (user_h_Create E (sy_users S) u b)"
| "perform E S (EvUserDelete u tid) = status_of (user_h_Delete E (sy_users S) u tid)"
| "perform E S (EvUserSuspend u tid) = status_of (user_h_Suspend E (sy_users S) u tid)"
| "perform E S (EvUserResume u tid) = status_of (user_h_Resume E (sy_users S) u tid)"
| "perform E S (EvUserSSO now u tid) = status_of (user_h_SSOToken E (sy_users S) now u tid)"
| "perform E S (EvNodeList q) = status_of (node_h_List E q)"
| "perform E S (EvNodeGet nid) = status_of (node_h_Get E nid)"
| "perform E S (EvNodeCreate b) = status_of (node_h_Create E (sy_nodes S) b)"
| "perform E S (EvNodeUpdate nid b) = status_of (node_h_Update E (sy_nodes S) nid b)"
| "perform E S (EvNodeDelete nid) = status_of (node_h_Delete E (sy_nodes S) nid)"
| "perform E S (EvProjectList q) = status_of (project_h_List E q)"
| "perform E S (EvProjectGet pid) = status_of (project_h_Get E pid)"
| "perform E S (EvProjectCreate b) = status_of (project_h_Create E (sy_audit S) b)"
| "perform E S (EvProjectUpdate pid b) = status_of (project_h_Update E (sy_audit S) pid b)"
| "perform E S (EvProjectDelete pid) = status_of (project_h_Delete E (sy_audit S) pid)"
| "perform E S (EvCheckout u b) = status_of (CreateCheckout E (sy_billing S) u b)"
| "perform E S (EvPortal u b) = status_of (CreatePortal E (sy_billing S) u b)"
| "perform E S (EvBillingStatus u) = status_of (billing_Status E (sy_billing S) u)"
| "perform E S (EvWebhook b sg) = status_of (Webhook E (sy_billing S) (sy_webhooks S) b sg)"
| "perform E S (EvRunJob i) = State_Monad.bind (run_job E (th_prov (sy_tenants S)) i) (\<lambda>_. State_Monad.return 0)"
| "perform E S (EvTime now) = State (\<lambda>w. (0, w\<lparr>w_db := (w_db w)\<lparr>db_now := now\<rparr>\<rparr>))"

text \<open>The one input the handlers do not check: the amount of RAM of a project.\<close>

fun sane :: "event \<Rightarrow> bool" where
  "sane (EvProjectCreate (Some req)) = (0 \<le> cp_ram_mb req)"
| "sane (EvProjectUpdate pid (Some req)) = (case up_ram_mb req of None \<Rightarrow> True | Some r \<Rightarrow> 0 \<le> r)"
| "sane _ = True"

fun run_events :: "externals \<Rightarrow> system \<Rightarrow> event list \<Rightarrow> world \<Rightarrow> world" where
  "run_events E S [] w = w"
| "run_events E S (ev # evs) w = run_events E S evs (snd (run_state (perform E S ev) w))"

section \<open>Every event is a sequence of steps\<close>

lemma perform_steps: "sane ev \<Longrightarrow> \<forall>now. ev \<noteq> EvTime now \<Longrightarrow> cp_triple E (perform E S ev) (\<lambda>_. True)"
proof (cases ev)
  case (EvProjectCreate b)
  moreover assume "sane ev"
  ultimately show ?thesis by (cases b) (simp_all, (rule cp_rules io_rules | simp)+)
next
  case (EvProjectUpdate pid b)
  moreover assume "sane ev"
  ultimately show ?thesis by (cases b) (simp_all, (rule cp_rules io_rules | force split: option.splits)+)
qed (simp_all only: perform.simps, (rule cp_rules io_rules | simp)+)

lemma projects_ok_tick [simp]: "projects_ok (d\<lparr>db_now := now\<rparr>) \<longleftrightarrow> projects_ok d"
  by (simp add: projects_ok_def)

lemma perform_sys_steps:
  fixes E :: externals and S :: system
  assumes "sane ev" "projects_ok (w_db w)" and w': "w' = snd (run_state (perform E S ev) w)"
  shows "sys_steps E (w_db w) (w_db w') \<and> projects_ok (w_db w')"
proof (cases "\<exists>now. ev = EvTime now")
  case True
  then show ?thesis using assms(2) Tick [of E "w_db w"] by (auto simp: w')
next
  case False
  then have "cp_steps E (w_db w) (w_db w')" unfolding w' by (intro triple_run [OF perform_steps] assms(1,2)) auto
  then show ?thesis using assms(2) by (auto intro: cp_sys_steps projects_ok_steps)
qed

lemma run_events_steps:
  "list_all sane evs \<Longrightarrow> projects_ok (w_db w) \<Longrightarrow> sys_steps E (w_db w) (w_db (run_events E S evs w))"
proof (induction evs arbitrary: w)
  case (Cons ev evs)
  then show ?case using perform_sys_steps [of ev w _ E S] by (auto intro: rtranclp_trans)
qed simp

text \<open>A day on the sample deployment: a user creates a second station, its job runs, one tenant is
  suspended, another is deleted, and the node is asked to shrink.\<close>

definition sample_system :: system where
  "sample_system = \<lparr>sy_tenants = uh_core sample_uh, sy_users = sample_uh,
     sy_nodes = \<lparr>nh_audit = True, nh_encryption_key = [], nh_provisioner = True\<rparr>, sy_billing = None,
     sy_webhooks = (\<lambda>_ _ _. None), sy_audit = True\<rparr>"

definition sample_day :: "event list" where
  "sample_day = [EvUserCreate (Some ''alice'') (Some sample_request), EvTime 8, EvRunJob 0, EvUserSuspend (Some ''alice'') ''t1'',
     EvTenantDelete ''t4'', EvProjectDelete ''p1'', EvNodeDelete ''n1'']"

lemma sample_day_sane: "list_all sane sample_day"
  by (simp add: sample_day_def)

lemma sample_t4: "sample_tenant ''t4'' Errored None None \<in> set (tenants sample_db)"
  by (simp add: sample_db_def)

section \<open>Properties of every run\<close>

text \<open>
In every state the control plane reaches, in whatever order the requests, jobs and webhooks come and
  whichever of their database statements and outside calls fail or lose their reply: no node has less
  than zero or more than its total RAM allocated, no two tenants that are not deleted share a name or
  a subdomain, tenant ids are unique, and every tenant (deleted ones too) refers to a node and a project that
  exist. The one condition on the requests is that no project is given a negative amount of RAM.
\<close>
theorem reachable_states_sound:
  assumes "db_inv (w_db w)" and "list_all sane evs"
    and d: "d = w_db (run_events E S evs w)"
  shows "(\<forall>n\<in>set (nodes d). 0 \<le> nd_allocated_ram_mb n \<and> nd_allocated_ram_mb n \<le> nd_total_ram_mb n)
    \<and> distinct (map tn_id (tenants d))
    \<and> (\<forall>t\<in>set (tenants d). \<forall>u\<in>set (tenants d). tn_id t \<noteq> tn_id u \<and> tn_status t \<noteq> Deleted \<and> tn_status u \<noteq> Deleted
         \<longrightarrow> tn_name t \<noteq> tn_name u \<and> tn_subdomain t \<noteq> tn_subdomain u)
    \<and> (\<forall>t\<in>set (tenants d). tn_node_id t \<in> nd_id ` set (nodes d) \<and> tn_project_id t \<in> pr_id ` set (projects d))"
proof -
  have "projects_ok (w_db w)" using assms(1) by (simp add: db_inv_def)
  from db_inv_sys_steps [OF run_events_steps [OF assms(2) this] assms(1)] have "db_inv d" by (simp add: d)
  then have "nodes_ok d" "tenants_ok d" "refs_ok d" by (auto simp: db_inv_def)
  then show ?thesis
    unfolding nodes_ok_def node_ok_def tenants_ok_def refs_ok_def live_def by (simp add: image_iff)
qed

theorem reachable_states_sound_witness:
  "db_inv (w_db sample_w) \<and> list_all sane sample_day
   \<and> list_all (\<lambda>n. nd_allocated_ram_mb n \<le> nd_total_ram_mb n)
        (nodes (w_db (run_events sample_E sample_system sample_day sample_w)))"
  using reachable_states_sound [of sample_w sample_day _ sample_E sample_system] sample_day_sane sample_inv(1)
  by (simp add: sample_fields(1)) (simp add: list_all_iff)

text \<open>
The history of a tenant in every run: its row never disappears, its id, project, node, subdomain and
  owner never change, its status has moved only along the arrows of the life cycle, and a tenant that is
  deleted stays deleted.
\<close>
theorem tenant_history:
  assumes "projects_ok (w_db w)" and "list_all sane evs" and "t \<in> set (tenants (w_db w))"
  shows "\<exists>t'\<in>set (tenants (w_db (run_events E S evs w))).
           tn_id t' = tn_id t \<and> tn_project_id t' = tn_project_id t \<and> tn_node_id t' = tn_node_id t
           \<and> tn_subdomain t' = tn_subdomain t \<and> tn_owner_id t' = tn_owner_id t
           \<and> status_step\<^sup>*\<^sup>* (tn_status t) (tn_status t')
           \<and> (tn_status t = Deleted \<longrightarrow> tn_status t' = Deleted)"
  using rows_sys_steps [OF run_events_steps [OF assms(2,1)] assms(3)] deleted_steps
  unfolding evolved_def by blast

theorem tenant_history_witness:
  "\<exists>t'\<in>set (tenants (w_db (run_events sample_E sample_system sample_day sample_w))).
     tn_id t' = ''t4'' \<and> tn_node_id t' = ''n1'' \<and> status_step\<^sup>*\<^sup>* Errored (tn_status t')"
  using tenant_history [of sample_w sample_day "sample_tenant ''t4'' Errored None None" sample_E sample_system]
  by (auto simp: sample_simps sample_day_sane sample_t4)

section \<open>Two runs that go wrong\<close>

definition negative_project :: create_project_request where
  "negative_project = \<lparr>cp_name = ''odd'', cp_template_id = 9000, cp_ports = None, cp_stripe_price_id = None, cp_health_path = [],
     cp_ram_mb = - 8192, cp_network_cidr = [], cp_gateway = []\<rparr>"

text \<open>
  The condition on the RAM of projects is needed. The project handlers accept a negative amount, and the next
  tenant of such a project, reserving it, takes the node's allocated RAM below zero: the two requests are answered 201
  and 202.
\<close>

theorem negative_ram_is_accepted:
  "let (s1, w1) = run_state (perform sample_E sample_system (EvProjectCreate (Some negative_project))) sample_w;
       (s2, w2) = run_state (perform sample_E sample_system (EvTenantCreate
                    (Some \<lparr>ct_name = ''new'', ct_project_id = ''u0'', ct_node_id = ''n1'', ct_subdomain = ''new''\<rparr>))) w1
   in s1 = 201 \<and> s2 = 202 \<and> node_cap (w_db w2) ''n1'' = Some (6144 - 8192, 8192)"
  by code_simp

definition sample_checkout :: stripe_event where
  "sample_checkout = CheckoutCompleted (Some \<lparr>cd_customer_id = ''cus'', cd_subscription_id = ''sub'', cd_customer_email = [],
     cd_metadata = [(''user_id'', ''alice''), (''tier'', ''studio'')]\<rparr>)"

definition billed_system :: system where
  "billed_system = sample_system\<lparr>sy_billing := Some (NewService ''whsec'' [(''pro'', ''price_1''), (''studio'', ''price_2'')]),
     sy_webhooks := (\<lambda>_ _ _. Some sample_checkout)\<rparr>"

text \<open>
  A completed checkout that Stripe delivers a second time is not idempotent when the user has made another tenant in
  between: the second delivery gives the same subscription and tier to the newer tenant as well.
\<close>

theorem replayed_checkout_upgrades_another_tenant:
  "map (\<lambda>t. (tn_id t, tn_tier t, tn_stripe_subscription_id t))
       (filter (\<lambda>t. tn_owner_id t = Some ''alice'')
         (tenants (w_db (run_events sample_E billed_system
            [EvWebhook (Some ''evt'') ''sig'', EvUserCreate (Some ''alice'') (Some sample_request), EvWebhook (Some ''evt'') ''sig'']
            sample_w))))
   = [(''t1'', ''studio'', Some ''sub''), (''u0'', ''studio'', Some ''sub'')]"
  by code_simp

end
