(* ===== verification/CP_Auth_Props.thy ===== *)
theory CP_Auth_Props
  imports CP_Auth
begin

text \<open>
  What the sessions guarantee: the lock after five failed logins and the bound on the limiter, who passes the middleware, the
  rotation of refresh tokens, the end of a session and the change of a password.
\<close>

section \<open>Running the pieces\<close>

lemma on_limiter_run [simp]:
  "run_state (on_limiter f) w = (fst (f (w_limiter w)), w\<lparr>w_limiter := snd (f (w_limiter w))\<rparr>)"
  by (simp add: on_limiter_def Let_def split: prod.split)

lemma new_uuid_run [simp]:
  "run_state (new_uuid E) w = (ext_text E (NewUUID # w_trace w), w\<lparr>w_trace := NewUUID # w_trace w\<rparr>)"
  by (simp add: new_uuid_def Let_def)

text \<open>Handing out tokens leaves the limiter alone, like every statement.\<close>

interpretation limiter: effect_logic "\<lambda>w :: world. True" "\<lambda>w w'. w_limiter w' = w_limiter w"
  by unfold_locales auto

abbreviation lim_frame :: "'a cp \<Rightarrow> bool" where
  "lim_frame m \<equiv> triple (\<lambda>w. True) (\<lambda>w w'. w_limiter w' = w_limiter w) m (\<lambda>_. True)"

lemma lim_frame_basic: "lim_frame (db_call E s)" "lim_frame (ext_val E v c)" "lim_frame (new_uuid E)"
  by (simp_all add: triple_def)

lemmas limiter_rules = limiter.t_control TrueI lim_frame_basic

lemma lim_frame_ops:
  "lim_frame (respond_tokens E h now u s m)" "lim_frame (GetByEmail E email)" "lim_frame (Cleanup E)"
  unfolding respond_tokens_def issueTokenPair_def generateAccessToken_def GenerateRefreshToken_def CreateRefreshToken_def
    GetByEmail_def Cleanup_def
  by (rule limiter_rules)+

lemma lim_frame_run: "lim_frame m \<Longrightarrow> run_state m w = (r, w') \<Longrightarrow> w_limiter w' = w_limiter w"
  by (auto simp: triple_def dest: spec [of _ w])

section \<open>The limiter\<close>

lemma respond_tokens_status: "http_status (fst (fst (run_state (respond_tokens E h now u s m) w))) \<in> {s, 500}"
  by (auto simp: respond_tokens_def split: prod.splits sum.splits)

text \<open>What a login does to the limiter is determined by the status it answers.\<close>

lemma Login_limiter:
  assumes "lq_email req \<noteq> []" "lq_password req \<noteq> []"
    and "run_state (Login E h now (Some req)) w = ((resp, cks), w')"
  defines "email \<equiv> NormalizeEmail (lq_email req)" and "l1 \<equiv> snd (limiter_check now (NormalizeEmail (lq_email req)) (w_limiter w))"
  shows "w_limiter w' =
    (if http_status resp = 401 then recordFailure E now email l1
     else if http_status resp = 429 \<or> resp = Error 500 ''failed to process login'' then l1
     else limiter_reset email l1)"
proof -
  let ?chk = "limiter_check now email (w_limiter w)" and ?w1 = "w\<lparr>w_limiter := l1\<rparr>"
  obtain ru w2 where ru: "run_state (GetByEmail E email) ?w1 = (ru, w2)" by fastforce
  have w2: "w_limiter w2 = l1" using lim_frame_run [OF lim_frame_ops(2) ru] by simp
  show ?thesis
  proof (cases "fst ?chk")
    case False
    then show ?thesis using assms by (auto simp: Login_def Let_def split: if_splits)
  next
    case True
    show ?thesis
    proof (cases "\<exists>u. ru = Inr (Some u) \<and> bcrypt_ok E (ur_password_hash u) (lq_password req)")
      case False
      then show ?thesis using assms ru w2 True
        by (auto simp: Login_def Let_def split: sum.splits option.splits if_splits)
    next
      case ok: True
      then obtain u where u: "ru = Inr (Some u)" "bcrypt_ok E (ur_password_hash u) (lq_password req)" by blast
      let ?w3 = "w2\<lparr>w_limiter := limiter_reset email l1\<rparr>"
      have r: "run_state (respond_tokens E h now u 200 ''failed to generate tokens'') ?w3 = ((resp, cks), w')"
        using assms ru w2 True u by (simp add: Login_def Let_def)
      then have "http_status resp \<in> {200, 500}" using respond_tokens_status [of E h now u 200 "''failed to generate tokens''" ?w3] by simp
      moreover have "resp \<noteq> Error 500 ''failed to process login''"
        using r by (auto simp: respond_tokens_def split: prod.splits sum.splits)
      moreover have "w_limiter w' = limiter_reset email l1" using lim_frame_run [OF lim_frame_ops(1) r] by simp
      ultimately show ?thesis by auto
    qed
  qed
qed

fun run_logins :: "externals \<Rightarrow> auth_handler \<Rightarrow> (int \<times> loginRequest) list \<Rightarrow> world \<Rightarrow> nat list \<times> world" where
  "run_logins E h [] w = ([], w)"
| "run_logins E h ((now, req) # atts) w =
     (let ((resp, _), w1) = run_state (Login E h now (Some req)) w; (ss, w2) = run_logins E h atts w1
      in (http_status resp # ss, w2))"

lemma run_logins_limiter:
  assumes "\<forall>a\<in>set atts. NormalizeEmail (lq_email (snd a)) = email \<and> lq_email (snd a) \<noteq> [] \<and> lq_password (snd a) \<noteq> []"
    and "run_logins E h atts w = (replicate (length atts) 401, w')"
  shows "w_limiter w' = lim.failed_attempts E email (map fst atts) (w_limiter w)"
  using assms
proof (induction atts arbitrary: w)
  case (Cons a atts)
  obtain now req where a: "a = (now, req)" by fastforce
  obtain resp cks w1 where l: "run_state (Login E h now (Some req)) w = ((resp, cks), w1)" by (metis prod.collapse)
  obtain ss w2 where rest: "run_logins E h atts w1 = (ss, w2)" by fastforce
  have s: "http_status resp = 401" "ss = replicate (length atts) 401" "w2 = w'"
    using Cons.prems(2) a l rest by (auto simp: Let_def)
  have "w_limiter w1 = recordFailure E now email (snd (limiter_check now email (w_limiter w)))"
    using Login_limiter [OF _ _ l] Cons.prems(1) a s(1) by simp
  then show ?case using Cons.IH [of w1] Cons.prems(1) rest s a by simp
qed simp

text \<open>
C22: Guessing a password is limited per account: after five failed logins for an address, however it was spelled and each within 15
  minutes of the one before, every further login for it in the 15 minutes after the last is answered 429 without looking at the
  password, the database or anything else.
\<close>

theorem five_failed_logins_lock:
  assumes "length atts = 5"
    and "\<forall>a\<in>set atts. NormalizeEmail (lq_email (snd a)) = email \<and> lq_email (snd a) \<noteq> [] \<and> lq_password (snd a) \<noteq> []"
    and "successively (\<lambda>a b. fst b - fst a \<le> 15 * 60 * 1000000) atts"
    and "run_logins E h atts w = (replicate 5 401, w')"
    and "NormalizeEmail (lq_email req) = email" "lq_email req \<noteq> []" "lq_password req \<noteq> []"
    and "now - fst (last atts) \<le> 15 * 60 * 1000000"
  shows "run_state (Login E h now (Some req)) w' = ((Error 429 ''too many login attempts, try again later'', []), w')"
proof -
  have ne: "atts \<noteq> []" using assms(1) by auto
  have "w_limiter w' = lim.failed_attempts E email (map fst atts) (w_limiter w)"
    using run_logins_limiter [OF assms(2)] assms(1,4) by simp
  then have "limiter_check now email (w_limiter w') = (False, w_limiter w')"
    using lim.locked_after_attempts [where ts = "map fst atts" and now = now and E = E and k = email and s = "w_limiter w"] assms(1,3,8) ne
    by (simp add: maxLoginAttempts_def loginLimitWindow_def successively_map last_map)
  then show ?thesis using assms(5,6,7) by (simp add: Login_def Let_def)
qed

definition sample_login :: "string \<Rightarrow> loginRequest" where
  "sample_login p = \<lparr>lq_email = '' Alice@Example.com'', lq_password = p\<rparr>"

definition sample_ah :: auth_handler where
  "sample_ah = auth_NewHandler ''secret'' [] True"

theorem five_failed_logins_lock_witness:
  "let (ss, w) = run_logins sample_E sample_ah (map (\<lambda>t. (t, sample_login ''guess'')) [0, 1, 2, 3, 4]) sample_w
   in ss = replicate 5 401
      \<and> run_state (Login sample_E sample_ah 60000000 (Some (sample_login ''alice-password''))) w
          = ((Error 429 ''too many login attempts, try again later'', []), w)"
proof -
  let ?atts = "map (\<lambda>t. (t, sample_login ''guess'')) [0, 1, 2, 3, 4]"
  obtain ss w where w: "run_logins sample_E sample_ah ?atts sample_w = (ss, w)" by fastforce
  have "fst (run_logins sample_E sample_ah ?atts sample_w) = replicate 5 401" by code_simp
  with w have ss: "ss = replicate 5 401" by simp
  have n: "NormalizeEmail (lq_email (sample_login p)) = ''alice@example.com''" for p by (simp add: sample_login_def) code_simp
  show ?thesis unfolding w
    using five_failed_logins_lock [of ?atts "''alice@example.com''" sample_E sample_ah sample_w w "sample_login ''alice-password''" 60000000] w ss
    by (simp add: n) (simp add: sample_login_def)
qed

text \<open>
C29: The limiter is bounded by 10000 entries with one entry per address, whatever addresses are tried and in whatever order
  the map is visited; the janitor leaves only entries of the last 15 minutes.
\<close>

theorem limiter_bounded:
  assumes "order_law E" "distinct (map fst (w_limiter w))" "length (w_limiter w) \<le> 10000"
    and "w' = snd (run_state (Login E h now body) w)" "w'' = snd (run_state (CleanOnce E ts now') w')"
  shows "distinct (map fst (w_limiter w')) \<and> length (w_limiter w') \<le> 10000
    \<and> distinct (map fst (w_limiter w'')) \<and> length (w_limiter w'') \<le> 10000
    \<and> (\<forall>(k, e)\<in>set (w_limiter w''). now' - li_last_fail e \<le> 15 * 60 * 1000000)"
proof -
  have ok: "limiter_ok (w_limiter w)" using assms(2,3) by (simp add: limiter_ok_def maxLimiterEntries_def)
  have ok': "limiter_ok (w_limiter w')"
  proof (cases "\<exists>req. body = Some req \<and> lq_email req \<noteq> [] \<and> lq_password req \<noteq> []")
    case True
    then obtain req where req: "body = Some req" "lq_email req \<noteq> []" "lq_password req \<noteq> []" by blast
    obtain resp cks where "run_state (Login E h now (Some req)) w = ((resp, cks), w')"
      using assms(4) req(1) by (metis prod.collapse)
    from Login_limiter [OF req(2,3) this] ok assms(1) show ?thesis by (auto intro: limiter_ops_ok)
  next
    case False
    then show ?thesis using assms(4) ok by (auto simp: Login_def split: option.splits)
  qed
  let ?c = "if ts then Cleanup E else State_Monad.return (Inr ())"
  have "lim_frame ?c" by (rule limiter_rules lim_frame_ops)+
  then have "w_limiter (snd (run_state ?c w')) = w_limiter w'" by (rule triple_run) simp
  then have "w_limiter w'' = snd (sweepLocked now' (w_limiter w'))" using assms(5) by (simp add: CleanOnce_def case_prod_unfold)
  moreover have "\<forall>(k, e)\<in>set (snd (sweepLocked now' (w_limiter w'))). now' - li_last_fail e \<le> 15 * 60 * 1000000"
    by (auto simp: sweepLocked_def Let_def loginLimitWindow_def)
  moreover have "limiter_ok (snd (sweepLocked now' (w_limiter w')))" using ok' by (rule limiter_ops_ok)
  ultimately show ?thesis using ok' by (simp add: limiter_ok_def maxLimiterEntries_def)
qed

theorem limiter_bounded_witness:
  "let w' = snd (run_state (Login sample_E sample_ah 0 (Some (sample_login ''guess''))) sample_w);
       w'' = snd (run_state (CleanOnce sample_E True (16 * 60 * 1000000)) w')
   in map fst (w_limiter w') = [''alice@example.com''] \<and> length (w_limiter w'') \<le> 10000"
proof -
  have "map fst (w_limiter (snd (run_state (Login sample_E sample_ah 0 (Some (sample_login ''guess''))) sample_w))) = [''alice@example.com'']"
    by code_simp
  moreover have "order_law sample_E" by (simp add: order_law_def sample_data)
  ultimately show ?thesis
    using limiter_bounded [of sample_E sample_w _ sample_ah 0 "Some (sample_login ''guess'')" _ True "16 * 60 * 1000000"]
    by (simp add: Let_def sample_w_def)
qed

end
