(* ===== verification/CP_Sessions.thy ===== *)
theory CP_Sessions
  imports CP_Auth_Props
begin

text \<open>
  Access and refresh tokens over the life of a session. The laws assumed of the JWT library and of bcrypt are \<open>jwt_law\<close> (a
  token determines its claims, is rejected once expired, and is accepted before that if it was signed with the same secret) and
  \<open>bcrypt_law\<close> (a password matches its own hash).
\<close>

definition jwt_law :: "externals \<Rightarrow> string \<Rightarrow> bool" where
  "jwt_law E secret \<longleftrightarrow>
     (\<forall>now t c x. jwt_verify E secret now t = Some c \<and> jc_exp c = Some x \<longrightarrow> now < x)
   \<and> (\<forall>now now' t c c'. jwt_verify E secret now t = Some c \<and> jwt_verify E secret now' t = Some c' \<longrightarrow> c' = c)
   \<and> (\<forall>c t. jwt_sign E secret c = Inr t \<longrightarrow> t \<noteq> [] \<and> jwt_hmac E t
        \<and> (\<forall>now. (\<forall>x. jc_exp c = Some x \<longrightarrow> now < x) \<longrightarrow> jwt_verify E secret now t = Some c))"

definition bcrypt_law :: "externals \<Rightarrow> bool" where
  "bcrypt_law E \<longleftrightarrow> (\<forall>p tr. bcrypt_ok E (ext_text E (BcryptHash p # tr)) p)"

lemma jwt_expiry: "jwt_law E secret \<Longrightarrow> jwt_verify E secret now t = Some c \<Longrightarrow> jc_exp c = Some x \<Longrightarrow> now < x"
  unfolding jwt_law_def by blast

lemma jwt_claims: "jwt_law E secret \<Longrightarrow> jwt_verify E secret now t = Some c \<Longrightarrow> jwt_verify E secret now' t = Some c' \<Longrightarrow> c' = c"
  unfolding jwt_law_def by (elim conjE) (drule spec [of _ now], blast)

lemma jwt_signed:
  assumes "jwt_law E secret" "jwt_sign E secret c = Inr t" "jc_exp c = Some x"
  shows "t \<noteq> []" "jwt_hmac E t" "now < x \<Longrightarrow> jwt_verify E secret now t = Some c"
proof -
  from assms(1) have "\<forall>c t. jwt_sign E secret c = Inr t \<longrightarrow> t \<noteq> [] \<and> jwt_hmac E t
        \<and> (\<forall>now. (\<forall>x. jc_exp c = Some x \<longrightarrow> now < x) \<longrightarrow> jwt_verify E secret now t = Some c)"
    unfolding jwt_law_def by (elim conjE)
  with assms(2,3) show "t \<noteq> []" "jwt_hmac E t" "now < x \<Longrightarrow> jwt_verify E secret now t = Some c" by simp_all
qed

section \<open>Queries and successful calls\<close>

lemma query_db: "w_db (snd (run_state (db_call E (query f)) w)) = w_db w"
  using db_call_db [of E "query f" w] by (auto simp: query_def)

lemma query_Inr: "run_state (db_call E (query f)) w = (Inr x, w') \<Longrightarrow> x = f (w_db w) \<and> w_db w' = w_db w"
  by (drule db_call_Inr) (simp add: query_def)

lemma db_call_trace: "run_state (db_call E s) w = (r, w') \<Longrightarrow> w_trace w' = w_trace w"
  using db_call_frame(1) [of E s w] by simp

lemma IsRevoked_Inr: "run_state (IsRevoked E jti) w = (Inr b, w') \<Longrightarrow> b = revoked_row (w_db w) jti \<and> w_db w' = w_db w"
  unfolding IsRevoked_def by (drule query_Inr) simp

lemma user_GetByID_Inr:
  "run_state (user_GetByID E uid) w = (Inr x, w') \<Longrightarrow> x = user_row (w_db w) uid \<and> w_db w' = w_db w"
  unfolding user_GetByID_def by (auto split: prod.splits dest!: query_Inr)

lemma user_row_Some: "user_row d uid = Some u \<Longrightarrow> u \<in> set (users d) \<and> ur_id u = uid"
  unfolding user_row_def by (drule select_one_Some)

lemma user_row_key: "distinct (user_ids d) \<Longrightarrow> u \<in> set (users d) \<Longrightarrow> user_row d (ur_id u) = Some u"
  unfolding user_row_def by (simp add: select_one_key)

lemma jwt_Parse_Some: "jwt_Parse E secret now t = Some c \<longleftrightarrow> jwt_hmac E t \<and> jwt_verify E secret (now div second) t = Some c"
  by (simp add: jwt_Parse_def hmacKeyfunc_def)

text \<open>Whoever passes the middleware.\<close>

lemma jwt_user_Inr:
  assumes "run_state (jwt_user E ts secret now r) w = (Inr u, w')"
  obtains c sub where "request_token r \<noteq> []" "jwt_Parse E secret now (request_token r) = Some c" "jc_sub c = Some sub"
    "uuid_parses E sub" "user_row (w_db w) sub = Some u" "w_db w' = w_db w"
    "\<And>jti. jc_jti c = Some jti \<Longrightarrow> jti \<noteq> [] \<Longrightarrow> ts \<Longrightarrow> \<not> revoked_row (w_db w) jti"
proof -
  obtain c where c: "request_token r \<noteq> []" "jwt_Parse E secret now (request_token r) = Some c"
    using assms by (auto simp: jwt_user_def Let_def split: if_splits option.splits)
  let ?chk = "case jc_jti c of Some jti \<Rightarrow> if jti \<noteq> [] \<and> ts then IsRevoked E jti else State_Monad.return (Inr False)
                | None \<Rightarrow> State_Monad.return (Inr False)"
  obtain rv w1 where rv: "run_state ?chk w = (rv, w1)" by fastforce
  then have "rv = Inr False" and d1: "w_db w1 = w_db w"
    and nr: "\<And>jti. jc_jti c = Some jti \<Longrightarrow> jti \<noteq> [] \<Longrightarrow> ts \<Longrightarrow> \<not> revoked_row (w_db w) jti"
    using assms c by (auto simp: jwt_user_def Let_def split: option.splits if_splits sum.splits dest!: IsRevoked_Inr)
  obtain sub where sub: "jc_sub c = Some sub" "uuid_parses E sub"
    using assms c rv \<open>rv = Inr False\<close> by (auto simp: jwt_user_def Let_def split: option.splits if_splits)
  have "run_state (user_GetByID E sub) w1 = (Inr (Some u), w')"
    using assms c rv \<open>rv = Inr False\<close> sub
    by (auto simp: jwt_user_def Let_def split: option.splits if_splits prod.splits sum.splits)
  then have "user_row (w_db w) sub = Some u" "w_db w' = w_db w" using d1 by (auto dest: user_GetByID_Inr)
  with c sub nr show ?thesis using that by blast
qed

text \<open>The middleware only reads, and refuses with 401 or 500.\<close>

interpretation jwt_reads: effect_logic "\<lambda>w :: world. True" "\<lambda>w w'. w_db w' = w_db w \<and> w_trace w' = w_trace w"
  by unfold_locales auto

lemma jwt_query: "triple (\<lambda>_. True) (\<lambda>w w'. w_db w' = w_db w \<and> w_trace w' = w_trace w) (db_call E (query f)) (\<lambda>_. True)"
  by (rule tripleI) (simp add: query_db)

lemma jwt_user_refusal:
  "triple (\<lambda>_. True) (\<lambda>w w'. w_db w' = w_db w \<and> w_trace w' = w_trace w) (jwt_user E ts secret now r)
     (\<lambda>x. case x of Inl (s, m) \<Rightarrow> s = 401 \<or> s = 500 | Inr u \<Rightarrow> True)"
  unfolding jwt_user_def IsRevoked_def user_GetByID_def
  by (rule jwt_reads.t_control jwt_query TrueI | simp split: sum.split option.split)+

lemma jwt_user_revoked:
  assumes "jwt_Parse E secret now (request_token r) = Some c" "jc_jti c = Some jti" "jti \<noteq> []" "revoked_row (w_db w) jti"
  shows "\<exists>s m. fst (run_state (jwt_user E True secret now r) w) = Inl (s, m)"
proof -
  have "fst (run_state (jwt_user E True secret now r) w) \<noteq> Inr u" for u
    using assms by (metis jwt_user_Inr option.inject prod.collapse)
  then show ?thesis by (metis obj_sumE old.prod.exhaust)
qed

text \<open>A pair of tokens is handed out only when the refresh token has been stored.\<close>

lemma respond_tokens_JSON:
  assumes "run_state (respond_tokens E h now u s m) w = ((JSON st resp, cks), w')"
  shows "st = s"
    and "insert_refresh (ur_id u) (HashToken E (ar_refresh_token resp)) (now + refreshTokenExpiry) (w_db w) = (Inr (), w_db w')"
    and "ar_user resp = toUserView u"
    and "jwt_sign E (ah_jwt_secret h)
       \<lparr>jc_sub = Some (ur_id u), jc_email = Some (ur_email u), jc_jti = Some (ext_text E (NewUUID # w_trace w)),
        jc_exp = Some ((now + accessTokenExpiration) div second), jc_iat = Some (now div second)\<rparr> = Inr (ar_token resp)"
proof -
  let ?tr = "NewUUID # w_trace w"
  let ?c = "\<lparr>jc_sub = Some (ur_id u), jc_email = Some (ur_email u), jc_jti = Some (ext_text E ?tr),
        jc_exp = Some ((now + accessTokenExpiration) div second), jc_iat = Some (now div second)\<rparr>"
  let ?w1 = "w\<lparr>w_trace := ?tr\<rparr>"
  have r: "run_state (issueTokenPair E h now u) w = (Inr resp, w')" "st = s"
    using assms by (auto simp: respond_tokens_def split: prod.splits sum.splits)
  obtain at where at: "jwt_sign E (ah_jwt_secret h) ?c = Inr at"
    using r(1) by (auto simp: issueTokenPair_def generateAccessToken_def split: sum.splits)
  obtain rt w2 where rt: "run_state (GenerateRefreshToken E) ?w1 = (Inr rt, w2)"
    using r(1) at by (auto simp: issueTokenPair_def generateAccessToken_def split: prod.splits sum.splits)
  have d2: "w_db w2 = w_db w" using rt by (auto simp: GenerateRefreshToken_def ext_val_def Let_def split: option.splits prod.splits)
  have cr: "run_state (CreateRefreshToken E (ur_id u) (HashToken E rt) (now + refreshTokenExpiry)) w2 = (Inr (), w')"
    and resp: "resp = \<lparr>ar_token = at, ar_refresh_token = rt, ar_expires_in = accessTokenExpiration div second, ar_user = toUserView u\<rparr>"
    using r(1) at rt by (auto simp: issueTokenPair_def generateAccessToken_def split: prod.splits sum.splits)
  show "st = s" "ar_user resp = toUserView u" "jwt_sign E (ah_jwt_secret h) ?c = Inr (ar_token resp)"
    using r(2) resp at by simp_all
  show "insert_refresh (ur_id u) (HashToken E (ar_refresh_token resp)) (now + refreshTokenExpiry) (w_db w) = (Inr (), w_db w')"
    using db_call_Inr [OF cr [unfolded CreateRefreshToken_def]] resp d2 by (simp add: prod_eq_iff)
qed

interpretation user_rows: effect_logic "\<lambda>w :: world. True" "\<lambda>w w'. users (w_db w') = users (w_db w)"
  by unfold_locales auto

lemma respond_tokens_users:
  "triple (\<lambda>_. True) (\<lambda>w w'. users (w_db w') = users (w_db w)) (respond_tokens E h now u s m) (\<lambda>_. True)"
proof -
  have same: "users (snd (insert_refresh uid th x d)) = users d" for uid th x d by (auto simp: insert_refresh_def)
  have create: "triple (\<lambda>_. True) (\<lambda>w w'. users (w_db w') = users (w_db w)) (CreateRefreshToken E uid th x) (\<lambda>_. True)" for uid th x
    unfolding triple_def CreateRefreshToken_def using db_call_db same by metis
  have other: "triple (\<lambda>_. True) (\<lambda>w w'. users (w_db w') = users (w_db w)) (GenerateRefreshToken E) (\<lambda>_. True)"
    "triple (\<lambda>_. True) (\<lambda>w w'. users (w_db w') = users (w_db w)) (new_uuid E) (\<lambda>_. True)"
    by (auto simp: triple_def GenerateRefreshToken_def ext_val_def Let_def)
  show ?thesis unfolding respond_tokens_def issueTokenPair_def generateAccessToken_def
    by (rule user_rows.t_control create other TrueI)+
qed

lemma insert_refresh_Inr:
  assumes "insert_refresh uid th x d = (Inr (), d')"
  shows "th \<notin> rt_token_hash ` set (refresh_tokens d)" "uid \<in> set (user_ids d)"
    "d' = d\<lparr>refresh_tokens := refresh_tokens d @
        [\<lparr>rt_user_id = uid, rt_token_hash = th, rt_expires_at = x, rt_revoked_at = None\<rparr>]\<rparr>"
  using assms by (auto simp: insert_refresh_def image_iff split: if_splits)

lemma validate_refresh_Inr:
  "fst (validate_refresh th d) = Inr uid \<Longrightarrow> \<exists>t\<in>set (refresh_tokens d). rt_token_hash t = th \<and> rt_user_id t = uid \<and> refresh_valid d t"
  by (auto simp: validate_refresh_def split: option.splits dest: select_one_Some)

text \<open>A refresh token all of whose rows are revoked.\<close>

definition dead :: "string \<Rightarrow> db \<Rightarrow> bool" where
  "dead th d \<longleftrightarrow> (\<forall>t\<in>set (refresh_tokens d). rt_token_hash t = th \<longrightarrow> rt_revoked_at t \<noteq> None)"

lemma select_one_snoc: "(\<And>x. x \<in> set xs \<Longrightarrow> \<not> P x) \<Longrightarrow> select_one P (xs @ [y]) = (if P y then Some y else None)"
  by (induction xs) (auto simp: select_one_def)

text \<open>An update leaves the rows alone that it does not select.\<close>

lemma filter_update_where: "(\<And>r. P r \<Longrightarrow> \<not> S r \<and> \<not> S (f r)) \<Longrightarrow> filter S (update_where P f rs) = filter S rs"
  by (induction rs) (auto simp: update_where_def)

lemma dead_refused: "dead th d \<Longrightarrow> fst (validate_refresh th d) = Inl ErrNoRows"
  by (auto simp: validate_refresh_def dead_def refresh_valid_def select_one_None split: option.splits dest!: select_one_Some)

lemma Refresh_refused:
  assumes "dead (HashToken E (body_or_cookie r body)) (w_db w)"
  shows "http_status (fst (fst (run_state (Refresh E h now r body) w))) \<in> {400, 401}"
proof -
  have "\<exists>e. fst (run_state (ValidateRefreshToken E (HashToken E (body_or_cookie r body))) w) = Inl e"
    using dead_refused [OF assms] by (auto simp: ValidateRefreshToken_def db_call_def Let_def split: prod.splits db_fate.splits)
  then show ?thesis by (auto simp: Refresh_def Let_def split: prod.splits)
qed

lemma revoke_all_dead:
  "snd (revoke_refresh_where P d) = d\<lparr>refresh_tokens := refresh_tokens (snd (revoke_refresh_where P d))\<rparr>"
  "\<forall>t\<in>set (refresh_tokens (snd (revoke_refresh_where P d))). P t \<longrightarrow> rt_revoked_at t \<noteq> None"
  if "\<And>t x. P (t\<lparr>rt_revoked_at := x\<rparr>) = P t"
  using that by (auto simp: revoke_refresh_where_def set_update_where)

lemma GetByEmail_Inr:
  "run_state (GetByEmail E email) w = (Inr x, w') \<Longrightarrow> x = email_row E (w_db w) email \<and> w_db w' = w_db w \<and> w_trace w' = w_trace w"
  unfolding GetByEmail_def by (auto split: prod.splits dest: query_Inr db_call_trace)

lemma email_row_in: "email_row E d email = Some u \<Longrightarrow> u \<in> set (users d) \<and> to_lower (ur_email u) = to_lower email"
proof -
  assume "email_row E d email = Some u"
  then have "u \<in> set (order_by (older E) (filter (\<lambda>u. to_lower (ur_email u) = to_lower email) (users d)))"
    unfolding email_row_def by (cases "order_by (older E) (filter (\<lambda>u. to_lower (ur_email u) = to_lower email) (users d))")
      (simp_all del: set_order_by)
  then show ?thesis by simp
qed

lemma Login_JSON:
  assumes "run_state (Login E h now (Some req)) w = ((JSON st resp, cks), w')"
  obtains u w2 where "email_row E (w_db w) (NormalizeEmail (lq_email req)) = Some u" "bcrypt_ok E (ur_password_hash u) (lq_password req)"
    "run_state (respond_tokens E h now u 200 ''failed to generate tokens'') w2 = ((JSON st resp, cks), w')"
    "w_db w2 = w_db w" "w_trace w2 = w_trace w"
proof -
  let ?email = "NormalizeEmail (lq_email req)"
  let ?w1 = "w\<lparr>w_limiter := snd (limiter_check now ?email (w_limiter w))\<rparr>"
  obtain ru w2 where ru: "run_state (GetByEmail E ?email) ?w1 = (ru, w2)" by fastforce
  have ok: "lq_email req \<noteq> []" "lq_password req \<noteq> []" "fst (limiter_check now ?email (w_limiter w))"
    using assms by (auto simp: Login_def Let_def split: if_splits)
  obtain u where u: "ru = Inr (Some u)" "bcrypt_ok E (ur_password_hash u) (lq_password req)"
    using assms ok ru by (auto simp: Login_def Let_def split: if_splits sum.splits option.splits)
  note g = GetByEmail_Inr [OF ru [unfolded u(1)]]
  let ?w3 = "w2\<lparr>w_limiter := limiter_reset ?email (w_limiter w2)\<rparr>"
  have "run_state (respond_tokens E h now u 200 ''failed to generate tokens'') ?w3 = ((JSON st resp, cks), w')"
    using assms ok ru u by (simp add: Login_def Let_def)
  with g u(2) show ?thesis by (intro that [of u ?w3]) simp_all
qed

section \<open>Properties\<close>

text \<open>
C18: Who passes the middleware: given that the JWT library rejects expired tokens (\<open>jwt_law\<close>), a request to a guarded handler is
  either answered 401 or 500 with the tables unchanged and no outside call made, or the handler runs, on the same tables, as a user who
  exists at that moment, and then the token of the request verifies under the server's own secret with an HMAC method, has not
  expired, carries that user's id as its subject, and its id is not among the revoked ones. Nothing the database does can make it
  otherwise.
\<close>

theorem jwt_auth_sound:
  assumes "jwt_law E secret"
  shows "(\<exists>s m w1. run_state (JWTAuth E True secret now r next) w = (Error s m, w1) \<and> s \<in> {401, 500}
            \<and> w_db w1 = w_db w \<and> w_trace w1 = w_trace w)
    \<or> (\<exists>u c w1. run_state (JWTAuth E True secret now r next) w = run_state (next u) w1
          \<and> w_db w1 = w_db w \<and> w_trace w1 = w_trace w \<and> u \<in> set (users (w_db w))
          \<and> jwt_hmac E (request_token r) \<and> jwt_verify E secret (now div second) (request_token r) = Some c
          \<and> jc_sub c = Some (ur_id u)
          \<and> (case jc_exp c of None \<Rightarrow> True | Some x \<Rightarrow> now div second < x)
          \<and> (case jc_jti c of None \<Rightarrow> True | Some jti \<Rightarrow> jti = [] \<or> \<not> revoked_row (w_db w) jti))"
proof -
  obtain x w1 where x: "run_state (jwt_user E True secret now r) w = (x, w1)" by fastforce
  have kept: "w_db w1 = w_db w" "w_trace w1 = w_trace w" using triple_run [OF jwt_user_refusal [of E True secret now r] TrueI] x by (metis snd_conv)+
  show ?thesis
  proof (cases x)
    case (Inl sm)
    obtain s m where sm: "sm = (s, m)" by fastforce
    have "s \<in> {401, 500}" using triple_val [OF jwt_user_refusal [of E True secret now r] TrueI, of w] by (simp add: x Inl sm)
    then show ?thesis using kept x by (intro disjI1) (auto simp: JWTAuth_def Inl sm)
  next
    case (Inr u)
    from x [unfolded Inr] obtain c where c: "jwt_Parse E secret now (request_token r) = Some c" "jc_sub c = Some (ur_id u)"
        "u \<in> set (users (w_db w))" "\<And>jti. jc_jti c = Some jti \<Longrightarrow> jti \<noteq> [] \<Longrightarrow> \<not> revoked_row (w_db w) jti"
      by (rule jwt_user_Inr) (auto dest: user_row_Some)
    with jwt_expiry [OF assms, of "now div second" "request_token r" c] show ?thesis
      by (intro disjI2 exI [of _ u] exI [of _ c] exI [of _ w1])
        (auto simp: JWTAuth_def x Inr kept jwt_Parse_Some split: option.split)
  qed
qed

definition bearer :: "string \<Rightarrow> http_request" where
  "bearer t = \<lparr>hr_authorization = ''Bearer '' @ t, hr_registration = [], hr_cookie = (\<lambda>_. None)\<rparr>"

lemma request_token_bearer [simp]: "request_token (bearer t) = t"
  by (simp add: request_token_def bearer_def has_prefix_def trim_prefix_def)

lemma sample_jwt_law: "jwt_law sample_E k"
  by (auto simp: jwt_law_def sample_data sample_verify_def sample_sign_def sample_claims_def split: option.splits if_splits)

text \<open>The profile is shown to \<open>alice\<close>, and the same token is refused when its 15 minutes are over.\<close>

theorem jwt_auth_sound_witness:
  "fst (run_state (JWTAuth sample_E True ''secret'' 0 (bearer ''tok'') (\<lambda>u. State_Monad.return (Me (Some u)))) sample_w)
     = JSON 200 (toUserView (sample_user ''alice''))
   \<and> (\<exists>s m. fst (run_state (JWTAuth sample_E True ''secret'' 900000000 (bearer ''tok'') (\<lambda>u. State_Monad.return (Me (Some u)))) sample_w) = Error s m
        \<and> s \<in> {401, 500})"
proof
  show "fst (run_state (JWTAuth sample_E True ''secret'' 0 (bearer ''tok'') (\<lambda>u. State_Monad.return (Me (Some u)))) sample_w)
      = JSON 200 (toUserView (sample_user ''alice''))" by code_simp
next
  have "jwt_verify sample_E ''secret'' (900000000 div second) t = None" for t
    by (simp add: second_def sample_data sample_verify_def)
  with jwt_auth_sound [OF sample_jwt_law, of "''secret''" 900000000 "bearer ''tok''" "\<lambda>u. State_Monad.return (Me (Some u))" sample_w]
  show "\<exists>s m. fst (run_state (JWTAuth sample_E True ''secret'' 900000000 (bearer ''tok'') (\<lambda>u. State_Monad.return (Me (Some u)))) sample_w) = Error s m
      \<and> s \<in> {401, 500}" by auto
qed

text \<open>
The tokens of a login work: as long as the database answers, for the 15 minutes less one second that the access
  token lasts a request with it passes the middleware as the user who logged in, unless its fresh id happens to be listed as
  revoked.
\<close>

theorem login_token_accepted:
  assumes "reliable E" "jwt_law E (ah_jwt_secret h)" "distinct (user_ids (w_db w))" "list_all (uuid_parses E) (user_ids (w_db w))"
    and "run_state (Login E h now (Some req)) w = ((JSON 200 resp, cks), w')"
    and "\<not> revoked_row (w_db w) (ext_text E (NewUUID # w_trace w))"
    and "now' div second < (now + accessTokenExpiration) div second"
  shows "\<exists>u\<in>set (users (w_db w)). ar_user resp = toUserView u \<and> bcrypt_ok E (ur_password_hash u) (lq_password req)
    \<and> fst (run_state (jwt_user E True (ah_jwt_secret h) now' (bearer (ar_token resp))) w') = Inr u"
proof -
  from assms(5) obtain u w2 where u: "email_row E (w_db w) (NormalizeEmail (lq_email req)) = Some u"
      "bcrypt_ok E (ur_password_hash u) (lq_password req)"
    and r: "run_state (respond_tokens E h now u 200 ''failed to generate tokens'') w2 = ((JSON 200 resp, cks), w')"
      "w_db w2 = w_db w" "w_trace w2 = w_trace w" by (rule Login_JSON)
  have mem: "u \<in> set (users (w_db w))" using email_row_in [OF u(1)] by simp
  note t = respond_tokens_JSON [OF r(1)]
  have d': "users (w_db w') = users (w_db w)" "revoked_tokens (w_db w') = revoked_tokens (w_db w)"
    using insert_refresh_Inr(3) [OF t(2)] r(2) by simp_all
  let ?c = "\<lparr>jc_sub = Some (ur_id u), jc_email = Some (ur_email u), jc_jti = Some (ext_text E (NewUUID # w_trace w)),
        jc_exp = Some ((now + accessTokenExpiration) div second), jc_iat = Some (now div second)\<rparr>"
  have p: "jwt_Parse E (ah_jwt_secret h) now' (ar_token resp) = Some ?c" "ar_token resp \<noteq> []"
    using jwt_signed [OF assms(2) t(4)] assms(7) r(3) by (auto simp: jwt_Parse_Some)
  have row: "user_row (w_db w') (ur_id u) = Some u" "uuid_parses E (ur_id u)" "\<not> revoked_row (w_db w') (ext_text E (NewUUID # w_trace w))"
    using user_row_key [OF assms(3) mem] assms(4,6) mem d' by (auto simp: user_row_def revoked_row_def list_all_iff)
  have "fst (run_state (jwt_user E True (ah_jwt_secret h) now' (bearer (ar_token resp))) w') = Inr u"
    using assms(1) p row by (simp add: jwt_user_def Let_def IsRevoked_def user_GetByID_def query_def reliable_call)
  with mem t(3) u(2) show ?thesis by blast
qed

lemma sample_bcrypt_law: "bcrypt_law sample_E"
  by (simp add: bcrypt_law_def sample_data)

theorem login_token_accepted_witness:
  "\<exists>resp cks w' u. run_state (Login sample_E sample_ah 0 (Some (sample_login ''alice-password''))) sample_w = ((JSON 200 resp, cks), w')
     \<and> fst (run_state (jwt_user sample_E True ''secret'' 899000000 (bearer (ar_token resp))) w') = Inr u"
proof -
  let ?run = "run_state (Login sample_E sample_ah 0 (Some (sample_login ''alice-password''))) sample_w"
  have "case fst (fst ?run) of JSON s _ \<Rightarrow> s = 200 | Error _ _ \<Rightarrow> False" by code_simp
  then obtain resp cks w' where r: "?run = ((JSON 200 resp, cks), w')"
    by (cases ?run) (auto split: http.splits)
  have h: "ah_jwt_secret sample_ah = ''secret''" "distinct (user_ids (w_db sample_w))"
      "list_all (uuid_parses sample_E) (user_ids (w_db sample_w))"
      "\<not> revoked_row (w_db sample_w) (ext_text sample_E (NewUUID # w_trace sample_w))"
    by (simp_all add: sample_ah_def auth_NewHandler_def sample_data revoked_row_def)
  have t: "899000000 div second < (0 + accessTokenExpiration) div second" by code_simp
  from login_token_accepted [OF sample_reliable(1) sample_jwt_law h(2,3) r h(4) t] r show ?thesis unfolding h(1) by blast
qed

section \<open>Rotation\<close>

lemma Refresh_JSON:
  assumes "reliable E" "run_state (Refresh E h now r body) w = ((JSON st resp, cks), w')"
  obtains u w2 where "u \<in> set (users (w_db w))"
    "run_state (respond_tokens E h now u 200 ''failed to generate tokens'') w2 = ((JSON st resp, cks), w')"
    "w_db w2 = snd (revoke_refresh_where (\<lambda>t. rt_token_hash t = HashToken E (body_or_cookie r body)) (w_db w))"
    "\<exists>t\<in>set (refresh_tokens (w_db w)). rt_token_hash t = HashToken E (body_or_cookie r body) \<and> rt_user_id t = ur_id u
       \<and> refresh_valid (w_db w) t"
proof -
  let ?th = "HashToken E (body_or_cookie r body)"
  let ?d2 = "snd (revoke_refresh_where (\<lambda>t. rt_token_hash t = ?th) (w_db w))"
  let ?w2 = "w\<lparr>w_db := ?d2, w_db_calls := Suc (Suc (Suc (w_db_calls w)))\<rparr>"
  note ops = Refresh_def Let_def ValidateRefreshToken_def RevokeRefreshToken_def user_GetByID_def query_def reliable_call [OF assms(1)]
  have ne: "body_or_cookie r body \<noteq> []" using assms(2) by (auto simp: Refresh_def)
  obtain uid where uid: "fst (validate_refresh ?th (w_db w)) = Inr uid"
    using assms(2) ne by (cases "fst (validate_refresh ?th (w_db w))") (simp_all add: ops)
  have d1: "snd (validate_refresh ?th (w_db w)) = w_db w" by (simp add: validate_refresh_def)
  obtain u where u: "user_row ?d2 uid = Some u"
    using assms(2) ne uid d1 by (cases "user_row ?d2 uid") (simp_all add: ops)
  have us: "users ?d2 = users (w_db w)" by (simp add: revoke_refresh_where_def)
  show ?thesis
  proof (rule that)
    show "u \<in> set (users (w_db w))" using user_row_Some [OF u] us by simp
    show "run_state (respond_tokens E h now u 200 ''failed to generate tokens'') ?w2 = ((JSON st resp, cks), w')"
      using assms(2) ne uid d1 u by (simp add: ops)
    show "\<exists>t\<in>set (refresh_tokens (w_db w)). rt_token_hash t = ?th \<and> rt_user_id t = ur_id u \<and> refresh_valid (w_db w) t"
      using validate_refresh_Inr [OF uid] conjunct2 [OF user_row_Some [OF u]] by simp
  qed simp
qed

text \<open>
C19: Refresh tokens rotate. As long as the database answers, a successful refresh hands out a new token of the same user
  that is good for 30 days, and the token it was given is never accepted again: not now, not with the clock at any other time,
  and presenting it once more is answered 400 or 401.
\<close>

theorem refresh_rotates:
  assumes "reliable E" "run_state (Refresh E h now r body) w = ((JSON st resp, cks), w')"
  shows "st = 200 \<and> ar_refresh_token resp \<noteq> body_or_cookie r body
    \<and> (\<exists>t\<in>set (refresh_tokens (w_db w)). rt_token_hash t = HashToken E (body_or_cookie r body) \<and> rt_user_id t = uv_id (ar_user resp))
    \<and> http_status (fst (fst (run_state (Refresh E h now' r body) (w'\<lparr>w_db := (w_db w')\<lparr>db_now := t'\<rparr>\<rparr>)))) \<in> {400, 401}
    \<and> (t' < now + refreshTokenExpiry
         \<longrightarrow> fst (validate_refresh (HashToken E (ar_refresh_token resp)) ((w_db w')\<lparr>db_now := t'\<rparr>)) = Inr (uv_id (ar_user resp)))"
proof -
  let ?th = "HashToken E (body_or_cookie r body)" and ?new = "HashToken E (ar_refresh_token resp)"
  let ?d2 = "snd (revoke_refresh_where (\<lambda>t. rt_token_hash t = ?th) (w_db w))"
  from assms obtain u w2 where u: "u \<in> set (users (w_db w))"
      "run_state (respond_tokens E h now u 200 ''failed to generate tokens'') w2 = ((JSON st resp, cks), w')" "w_db w2 = ?d2"
      "\<exists>t\<in>set (refresh_tokens (w_db w)). rt_token_hash t = ?th \<and> rt_user_id t = ur_id u \<and> refresh_valid (w_db w) t"
    by (rule Refresh_JSON)
  note t = respond_tokens_JSON [OF u(2)]
  note i = insert_refresh_Inr [OF t(2) [unfolded u(3)]]
  have "map rt_token_hash (refresh_tokens ?d2) = map rt_token_hash (refresh_tokens (w_db w))"
    by (simp add: revoke_refresh_where_def map_update_where)
  then have hashes: "rt_token_hash ` set (refresh_tokens ?d2) = rt_token_hash ` set (refresh_tokens (w_db w))"
    by (metis list.set_map)
  then have "?th \<in> rt_token_hash ` set (refresh_tokens ?d2)" using u(4) by force
  then have new: "?new \<noteq> ?th" using i(1) by metis
  have "dead ?th ((w_db w')\<lparr>db_now := t'\<rparr>)"
    using i(3) new revoke_all_dead(2) [of "\<lambda>t. rt_token_hash t = ?th" "w_db w"] by (auto simp: dead_def)
  then have "http_status (fst (fst (run_state (Refresh E h now' r body) (w'\<lparr>w_db := (w_db w')\<lparr>db_now := t'\<rparr>\<rparr>)))) \<in> {400, 401}"
    by (intro Refresh_refused) simp
  moreover have "fst (validate_refresh ?new ((w_db w')\<lparr>db_now := t'\<rparr>)) = Inr (ur_id u)" if "t' < now + refreshTokenExpiry"
  proof -
    have "select_one (\<lambda>t. rt_token_hash t = ?new \<and> refresh_valid ((w_db w')\<lparr>db_now := t'\<rparr>) t) (refresh_tokens (w_db w'))
        = Some \<lparr>rt_user_id = ur_id u, rt_token_hash = ?new, rt_expires_at = now + refreshTokenExpiry, rt_revoked_at = None\<rparr>"
      unfolding i(3) using i(1) that by (simp, subst select_one_snoc) (auto simp: refresh_valid_def rev_image_eqI)
    then show ?thesis by (simp add: validate_refresh_def)
  qed
  ultimately show ?thesis using t(1,3) new u(4) by (auto simp: toUserView_def)
qed

definition sample_refresh :: world where
  "sample_refresh = sample_w\<lparr>w_db := sample_db\<lparr>refresh_tokens :=
     [\<lparr>rt_user_id = ''alice'', rt_token_hash = HashToken sample_E ''old'', rt_expires_at = 100, rt_revoked_at = None\<rparr>]\<rparr>\<rparr>"

theorem refresh_rotates_witness:
  "case run_state (Refresh sample_E sample_ah 0 (bearer []) ''old'') sample_refresh of
     ((JSON st resp, _), w') \<Rightarrow> st = 200 \<and> ar_refresh_token resp \<noteq> ''old''
       \<and> http_status (fst (fst (run_state (Refresh sample_E sample_ah 1 (bearer []) ''old'') (w'\<lparr>w_db := (w_db w')\<lparr>db_now := 8\<rparr>\<rparr>)))) \<in> {400, 401}
   | _ \<Rightarrow> False"
proof -
  let ?run = "run_state (Refresh sample_E sample_ah 0 (bearer []) ''old'') sample_refresh"
  have "case fst (fst ?run) of JSON s _ \<Rightarrow> True | Error _ _ \<Rightarrow> False" by code_simp
  then obtain st resp cks w' where r: "?run = ((JSON st resp, cks), w')" by (cases ?run) (auto split: http.splits)
  have "body_or_cookie (bearer []) ''old'' = ''old''" by (simp add: body_or_cookie_def)
  with refresh_rotates [OF sample_reliable(1) r] show ?thesis unfolding r by simp
qed

text \<open>
  Rotation rests on a write whose failure is only logged. When the statement that revokes the old token fails, the request is
  still answered 200 with a new pair, and the old token buys another pair afterwards.
\<close>

theorem refresh_reuse_after_failed_revoke:
  "let E = sample_E\<lparr>db_fate := (\<lambda>n. if n = 1 then Rejected (GoErr ''conn reset'') else Replied)\<rparr>;
       (r1, w1) = run_state (Refresh E sample_ah 0 (bearer []) ''old'') sample_refresh;
       (r2, w2) = run_state (ValidateRefreshToken E (HashToken E ''old'')) w1
   in http_status (fst r1) = 200 \<and> r2 = Inr ''alice''"
  by code_simp

section \<open>The end of a session\<close>

lemma trim_prefix_other: "p \<noteq> [] \<Longrightarrow> has_prefix s p \<Longrightarrow> trim_prefix s p \<noteq> s"
proof -
  assume "p \<noteq> []" "has_prefix s p"
  then have "s \<noteq> []" by (auto simp: has_prefix_def)
  with \<open>p \<noteq> []\<close> have "length (drop (length p) s) < length s" by simp
  then have "drop (length p) s \<noteq> s" by (metis less_irrefl)
  then show ?thesis using \<open>has_prefix s p\<close> by (simp add: trim_prefix_def)
qed

text \<open>The token \<open>Logout\<close> revokes is the one the middleware has accepted.\<close>

lemma logout_token_request: "request_token r \<noteq> [] \<Longrightarrow> logout_token r = request_token r"
  using trim_prefix_other [of "''Bearer ''" "hr_authorization r"]
  by (cases "has_prefix (hr_authorization r) ''Bearer ''")
    (auto simp: logout_token_def request_token_def Let_def trim_prefix_def split: option.splits)

text \<open>
C20: Logging out is final. Under the law of the JWT library and as long as the database answers, the logout of a request whose access
  token has an id and an expiry is answered 200, every row of the refresh token of the request (from the body or the cookie) is revoked,
  and the access token passes the middleware never again: not in any state that any statements of the system (the janitor's
  deletions included) lead to later, as long as the clock of the database has not run ahead of the server's.
\<close>

theorem logout_ends_session:
  assumes "reliable E" "jwt_law E (ah_jwt_secret h)"
    and "run_state (jwt_user E True (ah_jwt_secret h) now r) w = (Inr u, w1)"
    and "jwt_verify E (ah_jwt_secret h) (now div second) (request_token r) = Some c" "jc_jti c = Some jti" "jti \<noteq> []" "jc_exp c = Some x"
    and "run_state (Logout E h now r (Some u) body) w1 = (resp, w2)"
    and "steps_until E now' (w_db w2) (w_db w3)" "db_now (w_db w2) \<le> now'" "request_token r' = request_token r"
  shows "fst resp = JSON 200 ''logged out''
    \<and> (body_or_cookie r body \<noteq> [] \<longrightarrow>
        (\<forall>t\<in>set (refresh_tokens (w_db w2)). rt_token_hash t = HashToken E (body_or_cookie r body) \<longrightarrow> rt_revoked_at t \<noteq> None))
    \<and> (\<exists>s m. fst (run_state (jwt_user E True (ah_jwt_secret h) now' r') w3) = Inl (s, m))"
proof -
  from assms(3) obtain sub where j: "request_token r \<noteq> []" "jwt_Parse E (ah_jwt_secret h) now (request_token r) = Some c"
      "user_row (w_db w) sub = Some u" "w_db w1 = w_db w" "\<not> revoked_row (w_db w) jti"
    by (rule jwt_user_Inr) (use assms(4,5,6) in \<open>auto simp: jwt_Parse_Some\<close>)
  let ?v = "\<lparr>rv_jti = jti, rv_user_id = ur_id u, rv_expires_at = x * second\<rparr>"
  have mem: "ur_id u \<in> set (user_ids (w_db w))" using user_row_Some [OF j(3)] by auto
  have "?v \<in> set (revoked_tokens (w_db w2))"
    using assms(1,5,6,7,8) j mem logout_token_request [OF j(1)]
    by (auto simp: Logout_def Let_def Revoke_def RevokeRefreshToken_def revoke_stmt_def revoked_row_def revoke_refresh_where_def
        reliable_call split: if_splits)
  have refresh: "fst resp = JSON 200 ''logged out''
      \<and> (body_or_cookie r body \<noteq> [] \<longrightarrow> dead (HashToken E (body_or_cookie r body)) (w_db w2))"
  proof -
    obtain y wa where y: "run_state (case jwt_Parse E (ah_jwt_secret h) now (logout_token r) of
        None \<Rightarrow> State_Monad.return (Inr ())
      | Some claims \<Rightarrow> (case jc_jti claims of
            None \<Rightarrow> State_Monad.return (Inr ())
          | Some jti \<Rightarrow> if jti = [] then State_Monad.return (Inr ())
              else Revoke E jti (ur_id u) (case jc_exp claims of Some x \<Rightarrow> x * second | None \<Rightarrow> 0))) w1 = (y, wa)" by fastforce
    show ?thesis
      using assms(8) y revoke_all_dead(2) [of "\<lambda>t. rt_token_hash t = HashToken E (body_or_cookie r body)" "w_db wa"]
      by (auto simp: Logout_def Let_def RevokeRefreshToken_def reliable_call [OF assms(1)] dead_def split: if_splits prod.splits)
  qed
  have "\<exists>s m. fst (run_state (jwt_user E True (ah_jwt_secret h) now' r') w3) = Inl (s, m)"
  proof (cases "jwt_Parse E (ah_jwt_secret h) now' (request_token r)")
    case None
    then show ?thesis using assms(11) by (auto simp: jwt_user_def Let_def)
  next
    case (Some c')
    then have c': "c' = c" "now' div second < x"
      using jwt_claims [OF assms(2,4)] jwt_expiry [OF assms(2)] assms(7) by (auto simp: jwt_Parse_Some)
    then have "now' \<le> rv_expires_at ?v" by (simp add: second_def)
    from revoked_until [OF assms(9,10) \<open>?v \<in> _\<close> this] have "revoked_row (w_db w3) jti" by (force simp: revoked_row_def)
    with Some c' assms(5,6,11) show ?thesis by (metis jwt_user_revoked)
  qed
  with refresh show ?thesis by (simp add: dead_def)
qed

lemma sample_token_claims:
  "jwt_verify sample_E k 0 ''tok'' = Some (sample_claims ''tok'')" "jc_jti (sample_claims t) = Some t" "jc_exp (sample_claims t) = Some 900"
  by (simp_all add: sample_data sample_verify_def sample_claims_def)

text \<open>The sample logs out, the janitor cleans up 800 seconds later, and the token is tried again.\<close>

theorem logout_ends_session_witness:
  "\<exists>u w1 resp w2 w3. run_state (jwt_user sample_E True ''secret'' 0 (bearer ''tok'')) sample_w = (Inr u, w1)
     \<and> run_state (Logout sample_E sample_ah 0 (bearer ''tok'') (Some u) []) w1 = (resp, w2)
     \<and> w3 = snd (run_state (CleanOnce sample_E True 800000000) (w2\<lparr>w_db := (w_db w2)\<lparr>db_now := 800000000\<rparr>\<rparr>))
     \<and> (\<exists>s m. fst (run_state (jwt_user sample_E True ''secret'' 800000000 (bearer ''tok'')) w3) = Inl (s, m))"
proof -
  let ?T = "800000000 :: int"
  have "fst (run_state (jwt_user sample_E True ''secret'' 0 (bearer ''tok'')) sample_w) = Inr (sample_user ''alice'')" by code_simp
  then obtain w1 where w1: "run_state (jwt_user sample_E True ''secret'' 0 (bearer ''tok'')) sample_w = (Inr (sample_user ''alice''), w1)"
    by (cases "run_state (jwt_user sample_E True ''secret'' 0 (bearer ''tok'')) sample_w") simp
  obtain resp w2 where w2: "run_state (Logout sample_E sample_ah 0 (bearer ''tok'') (Some (sample_user ''alice'')) []) w1 = (resp, w2)"
    by fastforce
  let ?v = "w2\<lparr>w_db := (w_db w2)\<lparr>db_now := ?T\<rparr>\<rparr>"
  let ?w3 = "snd (run_state (CleanOnce sample_E True ?T) ?v)"
  have d1: "w_db w1 = sample_db" using w1 by (elim jwt_user_Inr) (simp add: sample_fields)
  have ok: "projects_ok (w_db w1)" by (simp add: d1 sample_inv)
  have s12: "cp_steps sample_E (w_db w1) (w_db w2)"
    using triple_run [OF auth_handlers_steps(4) ok] w2 by (metis snd_conv)
  have "db_now (w_db w2) = db_now sample_db" using sessions_steps [OF s12] d1 by (simp add: sessions_kept_def)
  then have now2: "db_now (w_db w2) \<le> ?T" by (simp add: sample_db_def)
  have "cp_steps sample_E (w_db ?v) (w_db ?w3)"
  proof -
    have "projects_ok (w_db w2)" using projects_ok_steps [OF s12 ok] .
    then have "projects_ok (w_db ?v)" by (simp add: projects_ok_def)
    then show ?thesis by (rule triple_run [OF auth_handlers_steps(6)])
  qed
  then have "steps_until sample_E ?T (w_db ?v) (w_db ?w3)"
  proof (induction rule: rtranclp_induct)
    case (step e f)
    have "cp_steps sample_E (w_db ?v) f" using step(1,2) by (rule rtranclp.rtrancl_into_rtrancl)
    from sessions_steps [OF this] have "db_now f \<le> ?T" by (simp add: sessions_kept_def)
    with step show ?case by (auto intro: Stmt rtranclp.rtrancl_into_rtrancl)
  qed simp
  moreover have "steps_until sample_E ?T (w_db w2) (w_db ?v)" by (rule r_into_rtranclp) (simp add: Tick)
  ultimately have until: "steps_until sample_E ?T (w_db w2) (w_db ?w3)" by (meson rtranclp_trans)
  have h: "ah_jwt_secret sample_ah = ''secret''" by (simp add: sample_ah_def auth_NewHandler_def)
  have "\<exists>s m. fst (run_state (jwt_user sample_E True (ah_jwt_secret sample_ah) ?T (bearer ''tok'')) ?w3) = Inl (s, m)"
    by (rule logout_ends_session [OF sample_reliable(1) sample_jwt_law _ _ _ _ _ w2 until now2, where c = "sample_claims ''tok''" and jti = "''tok''", THEN conjunct2, THEN conjunct2])
      (use w1 h in \<open>simp_all add: sample_token_claims second_def\<close>)
  with w1 w2 h show ?thesis by auto
qed

section \<open>Passwords\<close>

text \<open>
C21: Changing the password ends every other session of the user. Over a database that answers, in which no two users have the same id,
  and with a bcrypt that accepts the password it has hashed, when the request of a stored user is answered with a new pair of tokens,
  the old password was the right one, the new one has at least 12 characters and opens the account, every refresh token of the user but the one just handed out is revoked, and the
  tokens and passwords of the other users are as before.
\<close>

theorem password_change_ends_other_sessions:
  assumes "reliable E" "bcrypt_law E" "distinct (user_ids (w_db w))" "u \<in> set (users (w_db w))"
    and "run_state (ChangePassword E h now (Some u) (Some (old, new))) w = ((JSON st resp, cks), w')"
  shows "bcrypt_ok E (ur_password_hash u) old \<and> 12 \<le> length new
    \<and> (case user_row (w_db w') (ur_id u) of None \<Rightarrow> False | Some v \<Rightarrow> bcrypt_ok E (ur_password_hash v) new)
    \<and> (\<forall>t\<in>set (refresh_tokens (w_db w')). rt_user_id t = ur_id u \<longrightarrow>
         rt_revoked_at t \<noteq> None \<or> rt_token_hash t = HashToken E (ar_refresh_token resp))
    \<and> filter (\<lambda>t. rt_user_id t \<noteq> ur_id u) (refresh_tokens (w_db w')) = filter (\<lambda>t. rt_user_id t \<noteq> ur_id u) (refresh_tokens (w_db w))
    \<and> filter (\<lambda>v. ur_id v \<noteq> ur_id u) (users (w_db w')) = filter (\<lambda>v. ur_id v \<noteq> ur_id u) (users (w_db w))"
proof -
  let ?tr = "BcryptHash new # w_trace w"
  let ?d1 = "snd (update_password_stmt (ur_id u) (ext_text E ?tr) (w_db w))"
  let ?d2 = "snd (revoke_refresh_where (\<lambda>t. rt_user_id t = ur_id u) ?d1)"
  have g: "bcrypt_ok E (ur_password_hash u) old" "12 \<le> length new" "old \<noteq> []" "new \<noteq> []" "ext_reply E ?tr = None"
    using assms(5) by (auto simp: ChangePassword_def minPasswordLen_def ext_val_def Let_def split: if_splits option.splits)
  obtain w2 where r: "run_state (respond_tokens E h now u 200 ''password updated but failed to generate new tokens'') w2
      = ((JSON st resp, cks), w')" "w_db w2 = ?d2"
    using assms(1,5) g
    by (simp add: ChangePassword_def minPasswordLen_def ext_val_def Let_def UpdatePassword_def RevokeAllUserRefreshTokens_def
        reliable_call update_password_stmt_def revoke_refresh_where_def)
  note i = insert_refresh_Inr [OF respond_tokens_JSON(2) [OF r(1), unfolded r(2)]]
  have us: "users (w_db w') = users ?d1" using i(3) by (simp add: revoke_refresh_where_def)
  have "u\<lparr>ur_password_hash := ext_text E ?tr, ur_updated_at := db_now (w_db w)\<rparr> \<in> set (users ?d1)"
    using assms(4) by (force simp: update_password_stmt_def set_update_where)
  moreover have "distinct (user_ids ?d1)" using assms(3) by (simp add: update_password_stmt_def map_update_where)
  ultimately have row: "user_row (w_db w') (ur_id u) = Some (u\<lparr>ur_password_hash := ext_text E ?tr, ur_updated_at := db_now (w_db w)\<rparr>)"
    using user_row_key [of ?d1] us by (fastforce simp: user_row_def)
  have "\<forall>t\<in>set (refresh_tokens (w_db w')). rt_user_id t = ur_id u \<longrightarrow>
         rt_revoked_at t \<noteq> None \<or> rt_token_hash t = HashToken E (ar_refresh_token resp)"
    using i(3) revoke_all_dead(2) [of "\<lambda>t. rt_user_id t = ur_id u" ?d1] by auto
  moreover have "filter (\<lambda>t. rt_user_id t \<noteq> ur_id u) (refresh_tokens (w_db w')) = filter (\<lambda>t. rt_user_id t \<noteq> ur_id u) (refresh_tokens (w_db w))"
    using i(3) by (simp add: revoke_refresh_where_def update_password_stmt_def) (rule filter_update_where, simp)
  moreover have "filter (\<lambda>v. ur_id v \<noteq> ur_id u) (users (w_db w')) = filter (\<lambda>v. ur_id v \<noteq> ur_id u) (users (w_db w))"
    unfolding us by (simp add: update_password_stmt_def filter_update_where)
  ultimately show ?thesis using g(1,2) row assms(2) by (simp add: bcrypt_law_def)
qed

theorem password_change_ends_other_sessions_witness:
  "case run_state (ChangePassword sample_E sample_ah 0 (Some (sample_user ''alice'')) (Some (''alice-password'', ''correct horse''))) sample_refresh of
     ((JSON _ resp, _), w') \<Rightarrow> list_all (\<lambda>t. rt_user_id t \<noteq> ''alice'' \<or> rt_revoked_at t \<noteq> None
          \<or> rt_token_hash t = HashToken sample_E (ar_refresh_token resp)) (refresh_tokens (w_db w'))
   | _ \<Rightarrow> False"
proof -
  let ?run = "run_state (ChangePassword sample_E sample_ah 0 (Some (sample_user ''alice'')) (Some (''alice-password'', ''correct horse''))) sample_refresh"
  have "case fst (fst ?run) of JSON s _ \<Rightarrow> True | Error _ _ \<Rightarrow> False" by code_simp
  then obtain st resp cks w' where r: "?run = ((JSON st resp, cks), w')" by (cases ?run) (auto split: http.splits)
  have h: "distinct (user_ids (w_db sample_refresh))" "sample_user ''alice'' \<in> set (users (w_db sample_refresh))"
    by (simp_all add: sample_refresh_def sample_db_def sample_user_def)
  have "ur_id (sample_user ''alice'') = ''alice''" by (simp add: sample_user_def)
  with password_change_ends_other_sessions [OF sample_reliable(1) sample_bcrypt_law h r] show ?thesis
    unfolding r by (auto simp: list_all_iff)
qed

section \<open>Registration\<close>

lemma Register_created:
  assumes "run_state (Register E h now r (Some req)) w = ((resp, cks), w')" "users (w_db w') \<noteq> users (w_db w)"
  obtains addr uid where "ah_registration_token h = [] \<or>
      (if rr_registration_token req = [] then hr_registration r else rr_registration_token req) = ah_registration_token h"
    "mail_parse E (rr_email req) = Some addr" "12 \<le> length (rr_password req)"
    "users (w_db w') = users (w_db w) @
       [\<lparr>ur_id = uid, ur_email = NormalizeEmail addr, ur_password_hash = ext_text E (BcryptHash (rr_password req) # w_trace w),
         ur_display_name = rr_display_name req, ur_created_at = db_now (w_db w), ur_updated_at = db_now (w_db w)\<rparr>]"
    "uid \<notin> set (user_ids (w_db w))" "NormalizeEmail addr \<notin> ur_email ` set (users (w_db w))"
proof -
  let ?tr = "BcryptHash (rr_password req) # w_trace w"
  let ?w1 = "w\<lparr>w_trace := ?tr\<rparr>"
  have g: "ah_registration_token h = [] \<or>
      (if rr_registration_token req = [] then hr_registration r else rr_registration_token req) = ah_registration_token h"
    using assms by (auto simp: Register_def split: if_splits)
  obtain addr where a: "mail_parse E (rr_email req) = Some addr"
    using assms g by (cases "mail_parse E (rr_email req)") (auto simp: Register_def split: if_splits)
  have p: "12 \<le> length (rr_password req)" "ext_reply E ?tr = None"
    using assms g a by (auto simp: Register_def minPasswordLen_def ext_val_def Let_def split: if_splits option.splits)
  let ?s = "insert_user E (NormalizeEmail addr) (ext_text E ?tr) (rr_display_name req)"
  obtain ru w2 where c: "run_state (db_call E ?s) ?w1 = (ru, w2)" by fastforce
  have d2: "w_db w2 = w_db w \<or> w_db w2 = snd (?s (w_db w))" using db_call_db [of E ?s ?w1] c by simp
  have us': "users (w_db w') = users (w_db w2)"
  proof (cases ru)
    case (Inl e)
    then have "w' = w2"
      using assms(1) g a p c by (auto simp: Register_def minPasswordLen_def ext_val_def Let_def user_Create_def wrap_err_def split: if_splits)
    then show ?thesis by simp
  next
    case (Inr u)
    then have "run_state (respond_tokens E h now u 201 ''failed to generate tokens'') w2 = ((resp, cks), w')"
      using assms(1) g a p c by (auto simp: Register_def minPasswordLen_def ext_val_def Let_def user_Create_def wrap_err_def split: if_splits)
    moreover have "triple (\<lambda>_. True) (\<lambda>w w'. users (w_db w') = users (w_db w)) (respond_tokens E h now u 201 ''failed to generate tokens'') (\<lambda>_. True)"
      by (rule respond_tokens_users)
    ultimately show ?thesis by (auto simp: triple_def dest: spec [of _ w2])
  qed
  with d2 assms(2) have "users (w_db w') = users (snd (?s (w_db w)))" by auto
  then show ?thesis
    using assms(2) by (intro that [OF g a p(1), of "gen_uuid E (uuid_ctr (w_db w))"]) (auto simp: insert_user_def Let_def split: if_splits)
qed

text \<open>
  A new account appears only through an open gate: if a registration adds a user, the registration token was right (or
  none is configured), the password has at least 12 bytes, exactly one user was added, under the normalised address, with an
  id and an address no other user has.
\<close>

theorem registration_gated:
  assumes "run_state (Register E h now r (Some req)) w = ((resp, cks), w')" "users (w_db w') \<noteq> users (w_db w)"
  shows "(ah_registration_token h = [] \<or> rr_registration_token req = ah_registration_token h
       \<or> rr_registration_token req = [] \<and> hr_registration r = ah_registration_token h)
    \<and> 12 \<le> length (rr_password req)
    \<and> (\<exists>addr u. mail_parse E (rr_email req) = Some addr \<and> users (w_db w') = users (w_db w) @ [u]
         \<and> ur_email u = NormalizeEmail addr \<and> ur_email u \<notin> ur_email ` set (users (w_db w)) \<and> ur_id u \<notin> ur_id ` set (users (w_db w)))"
  using assms by (rule Register_created) (auto split: if_splits)

definition sample_registration :: registerRequest where
  "sample_registration = \<lparr>rr_email = ''Carol@Example.com'', rr_password = ''carol-password'', rr_display_name = ''Carol'', rr_registration_token = ''invite''\<rparr>"

theorem registration_gated_witness:
  "let w' = snd (run_state (Register sample_E (auth_NewHandler ''secret'' ''invite'' True) 0 (bearer []) (Some sample_registration)) sample_w)
   in map ur_email (users (w_db w')) = [''alice@example.com'', ''bob@example.com'', ''carol@example.com'']
      \<and> (\<exists>u. users (w_db w') = users (w_db sample_w) @ [u])"
proof -
  let ?run = "run_state (Register sample_E (auth_NewHandler ''secret'' ''invite'' True) 0 (bearer []) (Some sample_registration)) sample_w"
  have m: "map ur_email (users (w_db (snd ?run))) = [''alice@example.com'', ''bob@example.com'', ''carol@example.com'']" by code_simp
  then have "users (w_db (snd ?run)) \<noteq> users (w_db sample_w)" by (auto simp: sample_data)
  moreover obtain resp cks w' where "?run = ((resp, cks), w')" by (metis prod.collapse)
  ultimately show ?thesis using registration_gated m by (metis (no_types, lifting) snd_conv)
qed

definition legacy_w :: world where
  "legacy_w = sample_w\<lparr>w_db := sample_db\<lparr>users := [(sample_user ''dave'')\<lparr>ur_email := ''Carol@Example.com''\<rparr>]\<rparr>\<rparr>"

text \<open>
  The address is unique only as it is spelled. Next to an account stored before addresses were normalised, a registration of
  the same address creates a second account, and that account can never be logged in to: the older one is found instead and its
  password is asked for.
\<close>

theorem registration_behind_legacy_account:
  "let w1 = snd (run_state (Register sample_E sample_ah 0 (bearer []) (Some sample_registration)) legacy_w);
       r2 = fst (run_state (Login sample_E sample_ah 0 (Some \<lparr>lq_email = ''carol@example.com'', lq_password = ''carol-password''\<rparr>)) w1)
   in map ur_email (users (w_db w1)) = [''Carol@Example.com'', ''carol@example.com'']
      \<and> fst r2 = Error 401 ''invalid email or password''"
  by code_simp

end
