(* ===== verification/CP_Caddy.thy ===== *)
theory CP_Caddy
  imports CP_Wireguard
begin

text \<open>
  The routes of the reverse proxy (\<open>src/internal/caddy\<close>): the client of Caddy's admin API, and the reconciliation that runs at startup. The
  server is outside the sources: a client operation is a computation on its unknown state \<open>'s\<close>, through the exchange \<open>send\<close> of a
  request for an error or a status, a body and the routes the body decodes to. The other components call the operations of the
  client as the outside calls \<open>AddRoute\<close> and \<open>RemoveRoute\<close>; \<open>caddy_served\<close> says that these calls are this client on that server.
\<close>

section \<open>The client\<close>

record caddy_client =
  cc_base_url :: string
  cc_server_name :: string
  cc_upstream_port :: string
  cc_domain :: string

record caddyRoute =
  cr_id :: string
  cr_match :: "string list list"
  cr_handle :: "(string \<times> string list) list"
  cr_terminal :: bool

datatype caddy_request =
    CaddyPost string caddyRoute
  | CaddyDelete string
  | CaddyGet string

record caddy_reply =
  cy_status :: int
  cy_body :: string
  cy_routes :: "caddyRoute list option"

type_synonym 's caddy_send = "caddy_request \<Rightarrow> ('s, caddy_reply res) state"

definition trim_right_char :: "char \<Rightarrow> string \<Rightarrow> string" where
  "trim_right_char c s = rev (dropWhile (\<lambda>x. x = c) (rev s))"

definition caddy_NewClient :: "string \<Rightarrow> string \<Rightarrow> string \<Rightarrow> caddy_client" where
  "caddy_NewClient baseURL serverName domain =
     \<lparr>cc_base_url = trim_right_char CHR ''/'' baseURL, cc_server_name = (if serverName = [] then ''srv1'' else serverName),
      cc_upstream_port = ''80'', cc_domain = (if domain = [] then ''example.com'' else domain)\<rparr>"

definition WithUpstreamPort :: "string \<Rightarrow> caddy_client \<Rightarrow> caddy_client" where
  "WithUpstreamPort port c = (if port \<noteq> [] then c\<lparr>cc_upstream_port := port\<rparr> else c)"

definition routeID :: "string \<Rightarrow> string" where
  "routeID subdomain = ''tenant_'' @ subdomain"

definition buildRoute :: "caddy_client \<Rightarrow> string \<Rightarrow> string \<Rightarrow> caddyRoute" where
  "buildRoute c subdomain targetIP =
     \<lparr>cr_id = routeID subdomain, cr_match = [[subdomain @ ''.'' @ cc_domain c]],
      cr_handle = [(''reverse_proxy'', [targetIP @ '':'' @ cc_upstream_port c])], cr_terminal = True\<rparr>"

definition readErrorBody :: "caddy_reply \<Rightarrow> string" where
  "readErrorBody resp =
     (let snippet = trim_space (take 200 (cy_body resp))
      in ''status '' @ string_of_int (cy_status resp) @ (if snippet = [] then [] else '': '' @ snippet))"

definition routes_url :: "caddy_client \<Rightarrow> string" where
  "routes_url c = cc_base_url c @ ''/config/apps/http/servers/'' @ cc_server_name c @ ''/routes''"

definition route_url :: "caddy_client \<Rightarrow> string \<Rightarrow> string" where
  "route_url c subdomain = cc_base_url c @ ''/id/'' @ routeID subdomain"

text \<open>A request is sent only when its URL parses; \<open>act\<close> names the operation in the errors.\<close>

definition caddy_do ::
  "externals \<Rightarrow> 's caddy_send \<Rightarrow> string \<Rightarrow> string \<Rightarrow> caddy_request \<Rightarrow> (caddy_reply \<Rightarrow> 'a res) \<Rightarrow> ('s, 'a res) state" where
  "caddy_do E send url act req k =
     (case url_parse E url of
        None \<Rightarrow> State_Monad.return (Inl (Wrap ''caddy: create request'' (GoErr ''url'')))
      | Some _ \<Rightarrow> do {
          r \<leftarrow> send req;
          State_Monad.return (case r of Inl e \<Rightarrow> Inl (Wrap (''caddy: '' @ act) e) | Inr resp \<Rightarrow> k resp) })"

definition not_2xx :: "caddy_reply \<Rightarrow> bool" where
  "not_2xx resp \<longleftrightarrow> cy_status resp < 200 \<or> 300 \<le> cy_status resp"

definition caddy_AddRoute :: "externals \<Rightarrow> caddy_client \<Rightarrow> 's caddy_send \<Rightarrow> string \<Rightarrow> string \<Rightarrow> ('s, unit res) state" where
  "caddy_AddRoute E c send subdomain targetIP =
     (let act = ''add route '' @ go_quote subdomain
      in caddy_do E send (routes_url c) act (CaddyPost (routes_url c) (buildRoute c subdomain targetIP)) (\<lambda>resp.
           if not_2xx resp then Inl (GoErr (''caddy: '' @ act @ '': '' @ readErrorBody resp)) else Inr ()))"

definition caddy_RemoveRoute :: "externals \<Rightarrow> caddy_client \<Rightarrow> 's caddy_send \<Rightarrow> string \<Rightarrow> ('s, unit res) state" where
  "caddy_RemoveRoute E c send subdomain =
     (let act = ''remove route '' @ go_quote subdomain
      in caddy_do E send (route_url c subdomain) act (CaddyDelete (route_url c subdomain)) (\<lambda>resp.
           if cy_status resp = 404 then Inr ()
           else if not_2xx resp then Inl (GoErr (''caddy: '' @ act @ '': '' @ readErrorBody resp)) else Inr ()))"

definition route_target :: "caddyRoute \<Rightarrow> string" where
  "route_target r =
     (case cr_handle r of
        (_, dial # _) # _ \<Rightarrow> (case split_last CHR '':'' dial of Some (ip, _) \<Rightarrow> if ip \<noteq> [] then ip else dial | None \<Rightarrow> dial)
      | _ \<Rightarrow> [])"

definition tenant_routes :: "caddyRoute list \<Rightarrow> (string \<times> string) list" where
  "tenant_routes rs = map (\<lambda>r. (drop 7 (cr_id r), route_target r)) (filter (\<lambda>r. has_prefix (cr_id r) ''tenant_'') rs)"

definition ListRoutes :: "externals \<Rightarrow> caddy_client \<Rightarrow> 's caddy_send \<Rightarrow> ('s, (string \<times> string) list res) state" where
  "ListRoutes E c send =
     caddy_do E send (routes_url c) ''list routes'' (CaddyGet (routes_url c)) (\<lambda>resp.
       if not_2xx resp then Inl (GoErr (''caddy: list routes: '' @ readErrorBody resp))
       else (case cy_routes resp of
           None \<Rightarrow> Inl (Wrap ''caddy: decode routes'' (GoErr ''json''))
         | Some rs \<Rightarrow> Inr (tenant_routes rs)))"

text \<open>\<open>UpsertRoute\<close> and the loop of the reconciliation, over the two operations they call.\<close>

definition UpsertRoute :: "(string \<Rightarrow> ('s, unit res) state) \<Rightarrow> (string \<Rightarrow> string \<Rightarrow> ('s, unit res) state) \<Rightarrow> string \<Rightarrow> string \<Rightarrow> ('s, unit res) state" where
  "UpsertRoute remove add subdomain targetIP = do {
     r \<leftarrow> remove subdomain;
     case r of
       Inl e \<Rightarrow> State_Monad.return (Inl (Wrap (''caddy: upsert route '' @ go_quote subdomain @ '': delete failed'') e))
     | Inr _ \<Rightarrow> do {
         a \<leftarrow> add subdomain targetIP;
         State_Monad.return (wrap_err (''caddy: upsert route '' @ go_quote subdomain @ '': add failed'') a) } }"

section \<open>The reconciliation\<close>

record ReconcileResult =
  re_success :: nat
  re_failed :: nat

fun reconcile_routes :: "(string \<Rightarrow> string \<Rightarrow> ('s, unit res) state) \<Rightarrow> (string \<times> string) list \<Rightarrow> ReconcileResult \<Rightarrow> ('s, ReconcileResult) state" where
  "reconcile_routes upsert [] res = State_Monad.return res"
| "reconcile_routes upsert ((subdomain, ip) # ts) res = do {
     r \<leftarrow> upsert subdomain ip;
     reconcile_routes upsert ts
       (case r of Inl _ \<Rightarrow> res\<lparr>re_failed := Suc (re_failed res)\<rparr> | Inr _ \<Rightarrow> res\<lparr>re_success := Suc (re_success res)\<rparr>) }"

definition Reconcile :: "externals \<Rightarrow> ReconcileResult res cp" where
  "Reconcile E = do {
     r \<leftarrow> ListActiveWithIP E;
     case r of
       Inl e \<Rightarrow> State_Monad.return (Inl (Wrap ''caddy: list active tenants'' e))
     | Inr ts \<Rightarrow> do {
         res \<leftarrow> reconcile_routes (UpsertRoute (\<lambda>s. ext E (RemoveRoute s)) (\<lambda>s ip. ext E (AddRoute s ip))) ts
                  \<lparr>re_success = 0, re_failed = 0\<rparr>;
         State_Monad.return (Inr res) } }"

section \<open>What the reconciliation leaves behind\<close>

text \<open>
  Caddy's admin API, as documented: a route posted to the list of a server is appended to it when the answer is 2xx; deleting an id
  removes the routes that have it when the answer is 2xx, and 404 says that there was none. Any other answer and a lost one leave open
  whether the request has taken effect. \<open>routes\<close> is the list of routes of the server.
\<close>

definition reply_status :: "caddy_reply res \<Rightarrow> int" where
  "reply_status r = (case r of Inl _ \<Rightarrow> 0 | Inr resp \<Rightarrow> cy_status resp)"

definition caddy_api :: "caddy_client \<Rightarrow> 's caddy_send \<Rightarrow> ('s \<Rightarrow> caddyRoute list) \<Rightarrow> bool" where
  "caddy_api c send routes \<longleftrightarrow>
     (\<forall>r s. let (reply, s') = run_state (send (CaddyPost (routes_url c) r)) s
        in routes s' = routes s @ [r] \<or> routes s' = routes s \<and> \<not> (200 \<le> reply_status reply \<and> reply_status reply < 300))
   \<and> (\<forall>sub s. let (reply, s') = run_state (send (CaddyDelete (route_url c sub))) s
        in routes s' = filter (\<lambda>r. cr_id r \<noteq> routeID sub) (routes s)
           \<or> routes s' = routes s \<and> \<not> (200 \<le> reply_status reply \<and> reply_status reply < 300) \<and> reply_status reply \<noteq> 404)"

text \<open>The outside calls \<open>AddRoute\<close> and \<open>RemoveRoute\<close> are the client's operations on the server, whose state after the calls made so
  far is \<open>srv\<close>.\<close>

definition caddy_served :: "externals \<Rightarrow> caddy_client \<Rightarrow> 's caddy_send \<Rightarrow> (ext_call list \<Rightarrow> 's) \<Rightarrow> bool" where
  "caddy_served E c send srv \<longleftrightarrow>
     (\<forall>sub tr. run_state (caddy_RemoveRoute E c send sub) (srv tr)
        = (case ext_reply E (RemoveRoute sub # tr) of None \<Rightarrow> Inr () | Some e \<Rightarrow> Inl e, srv (RemoveRoute sub # tr)))
   \<and> (\<forall>sub ip tr. run_state (caddy_AddRoute E c send sub ip) (srv tr)
        = (case ext_reply E (AddRoute sub ip # tr) of None \<Rightarrow> Inr () | Some e \<Rightarrow> Inl e, srv (AddRoute sub ip # tr)))"

lemma caddy_RemoveRoute_api:
  assumes "caddy_api c send routes" "run_state (caddy_RemoveRoute E c send sub) s = (x, s')"
  shows "routes s' = filter (\<lambda>r. cr_id r \<noteq> routeID sub) (routes s) \<or> routes s' = routes s \<and> x \<noteq> Inr ()"
proof -
  obtain reply s1 where p: "run_state (send (CaddyDelete (route_url c sub))) s = (reply, s1)" by fastforce
  have "routes s1 = filter (\<lambda>r. cr_id r \<noteq> routeID sub) (routes s)
      \<or> routes s1 = routes s \<and> \<not> (200 \<le> reply_status reply \<and> reply_status reply < 300) \<and> reply_status reply \<noteq> 404"
    using assms(1) p unfolding caddy_api_def by (auto simp: Let_def dest!: spec [of _ sub] spec [of _ s])
  then show ?thesis using assms(2)
    by (auto simp: caddy_RemoveRoute_def caddy_do_def Let_def p not_2xx_def reply_status_def split: option.splits sum.splits if_splits)
qed

lemma caddy_AddRoute_api:
  assumes "caddy_api c send routes" "run_state (caddy_AddRoute E c send sub ip) s = (x, s')"
  shows "routes s' = routes s @ [buildRoute c sub ip] \<or> routes s' = routes s \<and> x \<noteq> Inr ()"
proof -
  let ?r = "buildRoute c sub ip"
  obtain reply s1 where p: "run_state (send (CaddyPost (routes_url c) ?r)) s = (reply, s1)" by fastforce
  have "routes s1 = routes s @ [?r] \<or> routes s1 = routes s \<and> \<not> (200 \<le> reply_status reply \<and> reply_status reply < 300)"
    using assms(1) p unfolding caddy_api_def by (auto simp: Let_def dest!: spec [of _ ?r] spec [of _ s])
  then show ?thesis using assms(2)
    by (auto simp: caddy_AddRoute_def caddy_do_def Let_def p not_2xx_def reply_status_def split: option.splits sum.splits if_splits)
qed

abbreviation upsert_call :: "externals \<Rightarrow> string \<Rightarrow> string \<Rightarrow> unit res cp" where
  "upsert_call E \<equiv> UpsertRoute (\<lambda>s. ext E (RemoveRoute s)) (\<lambda>s ip. ext E (AddRoute s ip))"

text \<open>The calls for a subdomain, and whether one of those among \<open>new\<close>, made after \<open>old\<close>, has failed.\<close>

definition route_call :: "string \<Rightarrow> ext_call \<Rightarrow> bool" where
  "route_call sub c = (case c of RemoveRoute s \<Rightarrow> s = sub | AddRoute s _ \<Rightarrow> s = sub | _ \<Rightarrow> False)"

fun route_failed :: "externals \<Rightarrow> string \<Rightarrow> ext_call list \<Rightarrow> ext_call list \<Rightarrow> bool" where
  "route_failed E sub [] old = False"
| "route_failed E sub (c # new) old = (route_call sub c \<and> ext_reply E (c # new @ old) \<noteq> None \<or> route_failed E sub new old)"

lemma route_failed_append: "route_failed E sub (b @ a) old = (route_failed E sub b (a @ old) \<or> route_failed E sub a old)"
  by (induction b) auto

lemma route_failed_others: "\<forall>c\<in>set new. \<not> route_call sub c \<Longrightarrow> \<not> route_failed E sub new old"
  by (induction new) auto

lemma upsert_effect:
  assumes "caddy_api c send routes" "caddy_served E c send srv" "run_state (upsert_call E sub ip) w = (r, w')"
  shows "\<exists>new. w_trace w' = new @ w_trace w \<and> (\<forall>x\<in>set new. route_call sub x)
    \<and> (route_failed E sub new (w_trace w) \<longleftrightarrow> r \<noteq> Inr ())
    \<and> (r = Inr () \<longrightarrow> filter (\<lambda>x. cr_id x = routeID sub) (routes (srv (w_trace w'))) = [buildRoute c sub ip])
    \<and> filter (\<lambda>x. cr_id x \<noteq> routeID sub) (routes (srv (w_trace w'))) = filter (\<lambda>x. cr_id x \<noteq> routeID sub) (routes (srv (w_trace w)))"
proof -
  let ?rm = "RemoveRoute sub # w_trace w" and ?add = "AddRoute sub ip # RemoveRoute sub # w_trace w"
  have id: "cr_id (buildRoute c sub ip) = routeID sub" by (simp add: buildRoute_def)
  have rm: "routes (srv ?rm) = filter (\<lambda>r. cr_id r \<noteq> routeID sub) (routes (srv (w_trace w)))
      \<or> routes (srv ?rm) = routes (srv (w_trace w)) \<and> ext_reply E ?rm \<noteq> None"
    using caddy_RemoveRoute_api [OF assms(1), of E sub "srv (w_trace w)"] assms(2)
    by (auto simp: caddy_served_def split: option.splits)
  have add: "routes (srv ?add) = routes (srv ?rm) @ [buildRoute c sub ip] \<or> routes (srv ?add) = routes (srv ?rm) \<and> ext_reply E ?add \<noteq> None"
    using caddy_AddRoute_api [OF assms(1), of E sub ip "srv ?rm"] assms(2) by (auto simp: caddy_served_def split: option.splits)
  show ?thesis
  proof (cases "ext_reply E ?rm")
    case (Some e)
    then show ?thesis using assms(3) rm
      by (intro exI [of _ "[RemoveRoute sub]"]) (auto simp: UpsertRoute_def ext_def Let_def route_call_def)
  next
    case None
    with assms(3) have w': "w_trace w' = ?add" "r \<noteq> Inr () \<longleftrightarrow> ext_reply E ?add \<noteq> None"
      by (auto simp: UpsertRoute_def ext_def Let_def wrap_err_def split: option.splits)
    show ?thesis unfolding w'
      by (rule exI [of _ "[AddRoute sub ip, RemoveRoute sub]"]) (use None rm add id w'(2) in \<open>auto simp: route_call_def\<close>)
  qed
qed

lemma filter_filter_keep: "(\<And>x. P x \<Longrightarrow> Q x) \<Longrightarrow> filter Q xs = filter Q ys \<Longrightarrow> filter P xs = filter P ys"
proof -
  assume "\<And>x. P x \<Longrightarrow> Q x" "filter Q xs = filter Q ys"
  then have "filter P (filter Q xs) = filter P (filter Q ys)" "\<And>zs. filter P (filter Q zs) = filter P zs"
    by (simp_all add: filter_filter) (metis (no_types, lifting) filter_cong)
  then show ?thesis by simp
qed

lemma reconcile_effect:
  assumes "caddy_api c send routes" "caddy_served E c send srv" "distinct (map fst ts)"
    and "run_state (reconcile_routes (upsert_call E) ts res) w = (res', w')"
  shows "\<exists>new. w_trace w' = new @ w_trace w \<and> (\<forall>x\<in>set new. \<exists>t\<in>set ts. route_call (fst t) x)
    \<and> res' = \<lparr>re_success = re_success res + length (filter (\<lambda>t. \<not> route_failed E (fst t) new (w_trace w)) ts),
              re_failed = re_failed res + length (filter (\<lambda>t. route_failed E (fst t) new (w_trace w)) ts)\<rparr>
    \<and> (\<forall>t\<in>set ts. \<not> route_failed E (fst t) new (w_trace w)
         \<longrightarrow> filter (\<lambda>x. cr_id x = routeID (fst t)) (routes (srv (w_trace w'))) = [buildRoute c (fst t) (snd t)])
    \<and> filter (\<lambda>x. cr_id x \<notin> routeID ` set (map fst ts)) (routes (srv (w_trace w')))
      = filter (\<lambda>x. cr_id x \<notin> routeID ` set (map fst ts)) (routes (srv (w_trace w)))"
  using assms(3,4)
proof (induction ts arbitrary: res w)
  case Nil
  then show ?case by simp
next
  case (Cons t ts)
  obtain sub ip where t: "t = (sub, ip)" by fastforce
  let ?ids = "routeID ` set (map fst ts)"
  obtain r w1 where u: "run_state (upsert_call E sub ip) w = (r, w1)" by fastforce
  from upsert_effect [OF assms(1,2) u] obtain a where a: "w_trace w1 = a @ w_trace w" "\<forall>x\<in>set a. route_call sub x"
    "route_failed E sub a (w_trace w) \<longleftrightarrow> r \<noteq> Inr ()"
    "r = Inr () \<longrightarrow> filter (\<lambda>x. cr_id x = routeID sub) (routes (srv (w_trace w1))) = [buildRoute c sub ip]"
    "filter (\<lambda>x. cr_id x \<noteq> routeID sub) (routes (srv (w_trace w1))) = filter (\<lambda>x. cr_id x \<noteq> routeID sub) (routes (srv (w_trace w)))"
    by blast
  let ?res = "case r of Inl _ \<Rightarrow> res\<lparr>re_failed := Suc (re_failed res)\<rparr> | Inr _ \<Rightarrow> res\<lparr>re_success := Suc (re_success res)\<rparr>"
  have run: "run_state (reconcile_routes (upsert_call E) ts ?res) w1 = (res', w')" using Cons.prems(2) u by (simp add: t)
  from Cons.prems(1) have d: "distinct (map fst ts)" "sub \<notin> fst ` set ts" by (simp_all add: t)
  from Cons.IH [OF d(1) run] a(1) obtain b where b: "w_trace w' = b @ a @ w_trace w" "\<forall>x\<in>set b. \<exists>t\<in>set ts. route_call (fst t) x"
    "res' = \<lparr>re_success = re_success ?res + length (filter (\<lambda>t. \<not> route_failed E (fst t) b (a @ w_trace w)) ts),
              re_failed = re_failed ?res + length (filter (\<lambda>t. route_failed E (fst t) b (a @ w_trace w)) ts)\<rparr>"
    "\<forall>t\<in>set ts. \<not> route_failed E (fst t) b (a @ w_trace w)
         \<longrightarrow> filter (\<lambda>x. cr_id x = routeID (fst t)) (routes (srv (w_trace w'))) = [buildRoute c (fst t) (snd t)]"
    "filter (\<lambda>x. cr_id x \<notin> ?ids) (routes (srv (w_trace w'))) = filter (\<lambda>x. cr_id x \<notin> ?ids) (routes (srv (w_trace w1)))"
    by auto
  have one: "route_call s x \<Longrightarrow> route_call s' x \<Longrightarrow> s = s'" for s s' x by (auto simp: route_call_def split: ext_call.splits)
  have "\<not> route_failed E sub b (a @ w_trace w)" by (rule route_failed_others) (use b(2) d(2) one in blast)
  then have fsub: "route_failed E sub (b @ a) (w_trace w) \<longleftrightarrow> r \<noteq> Inr ()" using a(3) by (simp add: route_failed_append)
  have fts: "route_failed E (fst u) (b @ a) (w_trace w) = route_failed E (fst u) b (a @ w_trace w)" if "u \<in> set ts" for u
  proof -
    have "\<not> route_failed E (fst u) a (w_trace w)" by (rule route_failed_others) (use a(2) that d(2) one in force)
    then show ?thesis by (simp add: route_failed_append)
  qed
  have nid: "routeID sub \<notin> ?ids" using d(2) by (auto simp: routeID_def)
  have own: "filter (\<lambda>x. cr_id x = routeID sub) (routes (srv (w_trace w'))) = filter (\<lambda>x. cr_id x = routeID sub) (routes (srv (w_trace w1)))"
    by (rule filter_filter_keep [OF _ b(5)]) (use nid in simp)
  have rest: "filter (\<lambda>x. cr_id x \<notin> routeID ` set (map fst (t # ts))) (routes (srv (w_trace w')))
      = filter (\<lambda>x. cr_id x \<notin> routeID ` set (map fst (t # ts))) (routes (srv (w_trace w)))"
    by (rule trans [OF filter_filter_keep [OF _ b(5)] filter_filter_keep [OF _ a(5)]]) (simp_all add: t)
  have count: "filter (\<lambda>t. \<not> route_failed E (fst t) (b @ a) (w_trace w)) ts = filter (\<lambda>t. \<not> route_failed E (fst t) b (a @ w_trace w)) ts"
    "filter (\<lambda>t. route_failed E (fst t) (b @ a) (w_trace w)) ts = filter (\<lambda>t. route_failed E (fst t) b (a @ w_trace w)) ts"
    using fts by (auto intro: filter_cong)
  show ?case
  proof (intro exI [of _ "b @ a"] conjI)
    show "w_trace w' = (b @ a) @ w_trace w" using b(1) by simp
    show "\<forall>x\<in>set (b @ a). \<exists>t\<in>set (t # ts). route_call (fst t) x" using a(2) b(2) by (auto simp: t)
    show "res' = \<lparr>re_success = re_success res + length (filter (\<lambda>t. \<not> route_failed E (fst t) (b @ a) (w_trace w)) (t # ts)),
              re_failed = re_failed res + length (filter (\<lambda>t. route_failed E (fst t) (b @ a) (w_trace w)) (t # ts))\<rparr>"
      using b(3) fsub by (auto simp: t count split: sum.splits)
    show "\<forall>u\<in>set (t # ts). \<not> route_failed E (fst u) (b @ a) (w_trace w)
         \<longrightarrow> filter (\<lambda>x. cr_id x = routeID (fst u)) (routes (srv (w_trace w'))) = [buildRoute c (fst u) (snd u)]"
      using b(4) fts fsub a(4) own by (simp add: t)
    show "filter (\<lambda>x. cr_id x \<notin> routeID ` set (map fst (t # ts))) (routes (srv (w_trace w')))
      = filter (\<lambda>x. cr_id x \<notin> routeID ` set (map fst (t # ts))) (routes (srv (w_trace w)))" by (rule rest)
  qed
qed

text \<open>The tenants the reconciliation is about, with their addresses.\<close>

definition routed :: "db \<Rightarrow> (string \<times> string) list" where
  "routed d = map (\<lambda>t. (tn_subdomain t, case_option [] id (tn_lxc_ip t))) (filter (\<lambda>t. tn_status t = Active \<and> has_ip t) (tenants d))"

lemma routed_distinct:
  assumes "tenants_ok d"
  shows "distinct (map fst (routed d))"
proof -
  let ?ts = "filter (\<lambda>t. tn_status t = Active \<and> has_ip t) (tenants d)"
  have ids: "distinct (map tn_id (tenants d))" using assms by (simp add: tenants_ok_def)
  have "inj_on tn_subdomain (set ?ts)"
  proof (rule inj_onI)
    fix t u
    assume t: "t \<in> set ?ts" "u \<in> set ?ts" "tn_subdomain t = tn_subdomain u"
    then have "live t" "live u" "t \<in> set (tenants d)" "u \<in> set (tenants d)" by (auto simp: live_def)
    with t(3) assms have "tn_id t = tn_id u" unfolding tenants_ok_def by blast
    with t ids show "t = u" by (auto simp: distinct_map inj_on_def)
  qed
  moreover have "distinct ?ts" using ids by (auto simp: distinct_map)
  moreover have "map fst (routed d) = map tn_subdomain ?ts" by (simp add: routed_def comp_def)
  ultimately show ?thesis by (simp add: distinct_map)
qed

text \<open>The routes a working server lists are read back as they were built.\<close>

lemma tenant_routes_round_trip:
  assumes "CHR '':'' \<notin> set (cc_upstream_port c)" "\<forall>t\<in>set ts. snd t \<noteq> []"
  shows "tenant_routes (map (\<lambda>(sub, ip). buildRoute c sub ip) ts) = ts"
  using assms by (induction ts)
    (auto simp: tenant_routes_def buildRoute_def routeID_def route_target_def has_prefix_def split_last_append)

text \<open>
C28: One run of the reconciliation, over a Caddy that keeps to its documented API (\<open>caddy_api\<close>, \<open>caddy_served\<close>), with no two live
  tenants of the same subdomain. When the tenants cannot be listed, nothing is asked of Caddy. Otherwise every active tenant that has an
  address and for which neither call has failed is counted as a success, and the server then has exactly one route with its id, from its
  subdomain to that address; the others are counted as failed; and the routes with all other ids are left as they were, the
  routes of tenants that are gone among them. The database is not changed.
\<close>

theorem reconcile_routes_active_tenants:
  assumes "tenants_ok (w_db w)" "caddy_api c send routes" "caddy_served E c send srv"
    and "run_state (Reconcile E) w = (r, w')"
  shows "w_db w' = w_db w
    \<and> (case r of
         Inl _ \<Rightarrow> w_trace w' = w_trace w
       | Inr res \<Rightarrow> \<exists>new. w_trace w' = new @ w_trace w
           \<and> re_success res = length (filter (\<lambda>(sub, ip). \<not> route_failed E sub new (w_trace w)) (routed (w_db w)))
           \<and> re_failed res = length (filter (\<lambda>(sub, ip). route_failed E sub new (w_trace w)) (routed (w_db w)))
           \<and> (\<forall>(sub, ip)\<in>set (routed (w_db w)). \<not> route_failed E sub new (w_trace w)
                \<longrightarrow> filter (\<lambda>x. cr_id x = routeID sub) (routes (srv (w_trace w'))) = [buildRoute c sub ip])
           \<and> filter (\<lambda>x. cr_id x \<notin> routeID ` set (map fst (routed (w_db w)))) (routes (srv (w_trace w')))
             = filter (\<lambda>x. cr_id x \<notin> routeID ` set (map fst (routed (w_db w)))) (routes (srv (w_trace w))))"
proof -
  obtain l w1 where l: "run_state (ListActiveWithIP E) w = (l, w1)" by fastforce
  then have w1: "w_trace w1 = w_trace w" "w_db w1 = w_db w" and lr: "\<And>ts. l = Inr ts \<Longrightarrow> ts = routed (w_db w)"
    by (auto simp: ListActiveWithIP_def listActiveWithIP_def toActiveTenants_def query_def routed_def db_call_def Let_def wrap_err_def comp_def
        split: prod.splits db_fate.splits sum.splits)
  show ?thesis
  proof (cases l)
    case (Inl e)
    with l w1 assms(4) show ?thesis by (auto simp: Reconcile_def)
  next
    case (Inr ts)
    let ?loop = "run_state (reconcile_routes (upsert_call E) (routed (w_db w)) \<lparr>re_success = 0, re_failed = 0\<rparr>) w1"
    obtain res where run: "?loop = (res, w')" "r = Inr res"
      using assms(4) l Inr lr [OF Inr] by (cases ?loop) (auto simp: Reconcile_def)
    have "w_db (snd (run_state (reconcile_routes (upsert_call E) ts res) v)) = w_db v" for ts res v
      by (induction ts arbitrary: res v) (auto simp: UpsertRoute_def ext_def Let_def case_prod_unfold split: sum.splits option.splits)
    from this [of "routed (w_db w)" "\<lparr>re_success = 0, re_failed = 0\<rparr>" w1] have "w_db w' = w_db w" using run(1) w1 by simp
    with reconcile_effect [OF assms(2,3) routed_distinct [OF assms(1)] run(1)] show ?thesis
      unfolding run(2) w1 by (auto simp: case_prod_unfold)
  qed
qed

text \<open>A server that does what it is told, with a route of a tenant that is gone; one tenant of the sample has an address.\<close>

fun obedient :: "caddyRoute list caddy_send" where
  "obedient (CaddyPost u r) = State (\<lambda>s. (Inr \<lparr>cy_status = 200, cy_body = [], cy_routes = None\<rparr>, s @ [r]))"
| "obedient (CaddyDelete u) = State (\<lambda>s.
     (Inr \<lparr>cy_status = (if list_ex (\<lambda>r. ''/id/'' @ cr_id r = u) s then 200 else 404), cy_body = [], cy_routes = None\<rparr>,
      filter (\<lambda>r. ''/id/'' @ cr_id r \<noteq> u) s))"
| "obedient (CaddyGet u) = State (\<lambda>s. (Inr \<lparr>cy_status = 200, cy_body = [], cy_routes = Some s\<rparr>, s))"

definition sample_caddy :: caddy_client where
  "sample_caddy = caddy_NewClient [] [] []"

fun sample_routes :: "ext_call list \<Rightarrow> caddyRoute list" where
  "sample_routes [] = [buildRoute sample_caddy ''gone'' ''10.10.10.9'']"
| "sample_routes (AddRoute sub ip # tr) = sample_routes tr @ [buildRoute sample_caddy sub ip]"
| "sample_routes (RemoveRoute sub # tr) = filter (\<lambda>r. cr_id r \<noteq> routeID sub) (sample_routes tr)"
| "sample_routes (c # tr) = sample_routes tr"

definition routed_w :: world where
  "routed_w = sample_w\<lparr>w_db := sample_db\<lparr>tenants := [(sample_tenant ''t1'' Active (Some 101) None)\<lparr>tn_lxc_ip := Some ''10.10.10.5''\<rparr>]\<rparr>\<rparr>"

lemma sample_caddy_laws:
  "caddy_api sample_caddy obedient id" "caddy_served sample_E sample_caddy obedient sample_routes"
proof -
  show "caddy_api sample_caddy obedient id"
    by (simp add: caddy_api_def routes_url_def route_url_def sample_caddy_def caddy_NewClient_def trim_right_char_def)
  show "caddy_served sample_E sample_caddy obedient sample_routes"
    by (auto simp: caddy_served_def caddy_RemoveRoute_def caddy_AddRoute_def caddy_do_def not_2xx_def Let_def sample_E_def
      routes_url_def route_url_def sample_caddy_def caddy_NewClient_def trim_right_char_def)
qed

lemma sample_routes_reached: "\<not> route_failed sample_E sub new old"
  by (induction new) (simp_all add: sample_fields)

theorem reconcile_routes_active_tenants_witness:
  "fst (run_state (Reconcile sample_E) routed_w) = Inr \<lparr>re_success = 1, re_failed = 0\<rparr>
   \<and> filter (\<lambda>x. cr_id x = routeID ''t1'') (sample_routes (w_trace (snd (run_state (Reconcile sample_E) routed_w))))
      = [buildRoute sample_caddy ''t1'' ''10.10.10.5'']"
proof -
  let ?run = "run_state (Reconcile sample_E) routed_w"
  have t: "tenants_ok (w_db routed_w)" by (simp add: routed_w_def tenants_ok_def)
  have r: "routed (w_db routed_w) = [(''t1'', ''10.10.10.5'')]"
    by (simp_all add: routed_w_def routed_def has_ip_def sample_tenant_def sample_w_def)
  have "case fst ?run of Inl _ \<Rightarrow> False | Inr _ \<Rightarrow> True" by code_simp
  then obtain res where res: "fst ?run = Inr res" by (cases "fst ?run") auto
  then have "?run = (Inr res, snd ?run)" by (metis prod.collapse)
  from reconcile_routes_active_tenants [OF t sample_caddy_laws this] res show ?thesis
    by (cases res) (auto simp: r sample_routes_reached)
qed

end
