(* ===== verification/CP_Admin_Auth_Props.thy ===== *)
theory CP_Admin_Auth_Props
  imports CP_Admin_Auth
begin

text \<open>
  What the sign-in of the administrators guarantees (\<open>src/internal/admin\<close>): how long a session lasts, that a login needs a challenge that
  was opened for it and uses it up, that passkeys are registered only by somebody who is signed in or knows the setup token,
  and that the last passkey is not deleted.
\<close>

section \<open>Sessions\<close>

definition session_law :: "login_lib \<Rightarrow> bool" where
  "session_law L \<longleftrightarrow> (\<forall>uid exp data. la_marshal L uid exp = Some data \<longrightarrow> la_unmarshal L data = Some (uid, exp))"

lemma setSessionCookie_InrE:
  assumes "gcm_law E" "rand_law E" "session_law (aa_lib A)" "fst (run_state (setSessionCookie E A t) w) = Inr c"
  obtains data where "Decrypt E (ck_value c) (aa_encryption_key A) = Inr data" "ck_value c \<noteq> []"
    "la_unmarshal (aa_lib A) data = Some (''admin'', t + sessionMaxAge)"
proof -
  from assms(4) obtain data v where data: "la_marshal (aa_lib A) ''admin'' (t + sessionMaxAge) = Some data"
    and v: "fst (run_state (Encrypt E data (aa_encryption_key A)) w) = Inr v"
    and c: "c = admin_cookie v (sessionMaxAge div second)"
    by (auto simp: setSessionCookie_def split: option.splits prod.splits sum.splits)
  have cv: "ck_value c = v" by (simp add: c admin_cookie_def)
  from v have "v \<noteq> []"
  proof (rule Encrypt_InrE)
    fix key
    assume h: "v = hex_encode (ext_text E (RandRead 12 # w_trace w) @ gcm_seal E key (ext_text E (RandRead 12 # w_trace w)) data)"
    have "length (ext_text E (RandRead 12 # w_trace w)) = 12" using assms(2) by (simp add: rand_law_def)
    then obtain a s where "ext_text E (RandRead 12 # w_trace w) = a # s" by (cases "ext_text E (RandRead 12 # w_trace w)") auto
    with h show "v \<noteq> []" by simp
  qed
  moreover have "Decrypt E v (aa_encryption_key A) = Inr data" using Decrypt_Encrypt [OF assms(1,2) v] .
  moreover have "la_unmarshal (aa_lib A) data = Some (''admin'', t + sessionMaxAge)"
    using assms(3) data by (auto simp: session_law_def)
  ultimately show thesis using that cv by simp
qed

text \<open>
  C11: A session lasts eight hours: the cookie set at time \<open>t\<close> lets a request through until then and is refused, and cleared, afterwards;
  nothing on the server can end it earlier.
\<close>

theorem admin_session_lifetime:
  assumes "gcm_law E" "rand_law E" "session_law (aa_lib A)"
    and "fst (run_state (setSessionCookie E A t) w) = Inr c" "hr_cookie r sessionCookieName = Some (ck_value c)"
  shows "requireAuth E A now r next =
      (if now \<le> t + sessionMaxAge then next else State_Monad.return (SeeOther ''/admin/login'', [clearSessionCookie]))
    \<and> isAuthenticated E A now r = (now < t + sessionMaxAge)"
proof -
  obtain data where d: "Decrypt E (ck_value c) (aa_encryption_key A) = Inr data" "ck_value c \<noteq> []"
      "la_unmarshal (aa_lib A) data = Some (''admin'', t + sessionMaxAge)"
    by (rule setSessionCookie_InrE [OF assms(1-4)])
  show ?thesis unfolding requireAuth_def isAuthenticated_def assms(5) by (simp add: d not_less)
qed

text \<open>A sample library: the JSON is the number of hours in unary, and the browser's answer has to repeat the challenge.\<close>

definition sample_passkey :: "string \<Rightarrow> wa_credential" where
  "sample_passkey i = \<lparr>wc_id = i, wc_public_key = ''key'', wc_attestation = ''none'', wc_transports = [], wc_aaguid = [], wc_sign_count = 1\<rparr>"

definition hour :: int where
  "hour = 3600 * second"

definition sample_login_lib :: login_lib where
  "sample_login_lib = \<lparr>la_marshal = (\<lambda>uid exp. if uid = ''admin'' \<and> 0 \<le> exp \<and> exp mod hour = 0 then Some (replicate (nat (exp div hour)) (CHR ''I'')) else None),
     la_unmarshal = (\<lambda>s. Some (''admin'', int (length s) * hour)),
     la_finish_register = (\<lambda>uid creds session body. if body = session then Some (sample_passkey ''k'') else None),
     la_finish_login = (\<lambda>session body. if body = session then Some (\<lambda>uid creds. find (\<lambda>c. wc_id c = ''k'') creds) else None)\<rparr>"

definition sample_aa :: admin_auth where
  "sample_aa = \<lparr>aa_encryption_key = replicate 64 (CHR ''0''), aa_setup_token = ''setup'', aa_lib = sample_login_lib\<rparr>"

definition with_session :: "string \<Rightarrow> http_request" where
  "with_session v = \<lparr>hr_authorization = [], hr_registration = [], hr_cookie = [sessionCookieName \<mapsto> v]\<rparr>"

lemma sample_session_law: "session_law (aa_lib sample_aa)"
  by (auto simp: session_law_def sample_aa_def sample_login_lib_def hour_def second_def split: if_splits)

lemma sample_session: "\<exists>c. fst (run_state (setSessionCookie sample_E sample_aa 0) sample_w) = Inr c"
proof -
  have k: "gcm_key (replicate 64 (CHR ''0'')) = Inr (replicate 32 (CHR 0x00))" by code_simp
  have m: "\<exists>d. la_marshal (aa_lib sample_aa) ''admin'' (0 + sessionMaxAge) = Some d"
    by (simp add: sample_aa_def sample_login_lib_def sessionMaxAge_def hour_def second_def)
  then obtain d where d: "la_marshal (aa_lib sample_aa) ''admin'' (0 + sessionMaxAge) = Some d" ..
  show ?thesis unfolding setSessionCookie_def d
    by (simp add: Encrypt_def sample_aa_def k ext_val_def sample_fields Let_def)
qed

theorem admin_session_lifetime_witness:
  "\<exists>c. fst (run_state (setSessionCookie sample_E sample_aa 0) sample_w) = Inr c
     \<and> isAuthenticated sample_E sample_aa (7 * hour) (with_session (ck_value c))
     \<and> \<not> isAuthenticated sample_E sample_aa (8 * hour) (with_session (ck_value c))"
proof -
  obtain c where c: "fst (run_state (setSessionCookie sample_E sample_aa 0) sample_w) = Inr c" using sample_session ..
  have r: "hr_cookie (with_session (ck_value c)) sessionCookieName = Some (ck_value c)" by (simp add: with_session_def)
  have "isAuthenticated sample_E sample_aa now (with_session (ck_value c)) = (now < 0 + sessionMaxAge)" for now
    using admin_session_lifetime [OF sample_laws sample_session_law c r] by blast
  with c show ?thesis by (simp add: sessionMaxAge_def hour_def second_def)
qed

section \<open>Logins\<close>

lemma login_query: "run_state (ListCredentials E) w = (Inr creds, w') \<Longrightarrow> set creds = cw_credential ` set (credentials (w_db w)) \<and> w_db w' = w_db w"
  unfolding ListCredentials_def by (drule db_call_Inr) (auto simp: query_def by_creation_def)

lemma GetSession_used:
  "run_state (GetSession now token flow) w = (g, w') \<Longrightarrow> w_challenges w' token = None \<and> w_db w' = w_db w"
  by (auto simp: GetSession_def split: option.splits)

lemma GetSession_SomeE:
  assumes "run_state (GetSession now token flow) w = (Some d, w')"
  obtains c where "w_challenges w token = Some c" "ch_flow c = flow" "now \<le> ch_expires c" "d = ch_data c"
  using assms by (auto simp: GetSession_def split: option.splits if_splits)

text \<open>After the challenge has been taken out the login touches the challenges no more.\<close>

interpretation kept: effect_logic "\<lambda>_. True" "\<lambda>w w'. w_challenges w' = w_challenges w"
  by unfold_locales simp_all

lemma kept_challenges:
  "triple (\<lambda>_. True) (\<lambda>w w'. w_challenges w' = w_challenges w) (db_call E s) (\<lambda>_. True)"
  "triple (\<lambda>_. True) (\<lambda>w w'. w_challenges w' = w_challenges w) (ext_val E v c) (\<lambda>_. True)"
  by (simp_all add: triple_def)

lemma login_rest_kept:
  "triple (\<lambda>_. True) (\<lambda>w w'. w_challenges w' = w_challenges w) (passkey_of E A session body) (\<lambda>_. True)"
  "triple (\<lambda>_. True) (\<lambda>w w'. w_challenges w' = w_challenges w) (UpdateSignCount E i n) (\<lambda>_. True)"
  "triple (\<lambda>_. True) (\<lambda>w w'. w_challenges w' = w_challenges w) (sign_in E A now m) (\<lambda>_. True)"
  unfolding passkey_of_def ListCredentials_def UpdateSignCount_def sign_in_def setSessionCookie_def Encrypt_def
  by (rule kept.t_control kept_challenges TrueI)+

lemma kept_run:
  "triple (\<lambda>_. True) (\<lambda>w w'. w_challenges w' = w_challenges w) m V \<Longrightarrow> run_state m w = (x, w')
    \<Longrightarrow> w_challenges w' = w_challenges w"
  by (auto simp: triple_def dest: spec [of _ w])

lemma passkey_of_SomeE:
  assumes "run_state (passkey_of E A session body) w = (Some p, w')"
  obtains decide creds where "la_finish_login (aa_lib A) session body = Some decide"
    "set creds = cw_credential ` set (credentials (w_db w))" "decide (NewAdminUser E (aa_encryption_key A)) creds = Some p"
proof -
  from assms obtain decide where d: "la_finish_login (aa_lib A) session body = Some decide"
    by (cases "la_finish_login (aa_lib A) session body") (auto simp: passkey_of_def)
  obtain x w1 where x: "run_state (ListCredentials E) w = (x, w1)" by fastforce
  with assms d obtain creds where "x = Inr creds" "decide (NewAdminUser E (aa_encryption_key A)) creds = Some p"
    by (cases x) (auto simp: passkey_of_def)
  with login_query [of E w creds w1] x d show thesis by (auto intro!: that)
qed

text \<open>The endpoints that anybody can reach.\<close>

datatype passkey_event =
    PkLoginPage int http_request
  | PkRegisterBegin int http_request string
  | PkRegisterFinish int http_request string string
  | PkLoginBegin int
  | PkLoginFinish int string string

fun run_passkey :: "externals \<Rightarrow> admin_auth \<Rightarrow> passkey_event \<Rightarrow> world \<Rightarrow> world" where
  "run_passkey E A (PkLoginPage now r) w = snd (run_state (loginPage E A now r) w)"
| "run_passkey E A (PkRegisterBegin now r setup) w = snd (run_state (registerBegin E A now r setup) w)"
| "run_passkey E A (PkRegisterFinish now r token body) w = snd (run_state (registerFinish E A now r token body) w)"
| "run_passkey E A (PkLoginBegin now) w = snd (run_state (loginBegin E now) w)"
| "run_passkey E A (PkLoginFinish now token body) w = snd (run_state (loginFinish E A now token body) w)"

definition run_passkeys :: "externals \<Rightarrow> admin_auth \<Rightarrow> passkey_event list \<Rightarrow> world \<Rightarrow> world" where
  "run_passkeys E A evs w = fold (run_passkey E A) evs w"

text \<open>A challenge of the flow \<open>login\<close> that is open after a request was open before it, or has been opened by it with property \<open>P\<close>.\<close>

definition opened :: "(challenge \<Rightarrow> bool) \<Rightarrow> world \<Rightarrow> world \<Rightarrow> bool" where
  "opened P w w' \<longleftrightarrow> (\<forall>k c. w_challenges w' k = Some c \<longrightarrow> ch_flow c = ''login'' \<longrightarrow> w_challenges w k = Some c \<or> P c)"

interpretation opened: effect_logic "\<lambda>_. True" "opened P" for P
  by unfold_locales (auto simp: opened_def)

abbreviation opens :: "(challenge \<Rightarrow> bool) \<Rightarrow> 'a cp \<Rightarrow> bool" where
  "opens P m \<equiv> triple (\<lambda>_. True) (opened P) m (\<lambda>_. True)"

lemma opens_calls: "opens P (db_call E s)" "opens P (ext_val E v x)"
  by (simp_all add: triple_def opened_def)

lemma opens_challenges:
  "opens P (GetSession now token flow)"
  "(flow = ''login'' \<Longrightarrow> \<forall>d. P \<lparr>ch_data = d, ch_expires = x, ch_flow = flow\<rparr>) \<Longrightarrow> opens P (SetSession E now flow d x)"
  unfolding SetSession_def admin_generateToken_def
  by (simp add: triple_def opened_def GetSession_def split: option.split)
    (rule opened.t_control opens_calls TrueI tripleI | simp add: opened_def live_challenges_def split: option.splits if_splits)+

lemma opens_reads:
  "opens P (ListCredentials E)" "opens P (HasCredentials E)" "opens P (UpdateSignCount E i n)" "opens P (AddCredential E c)"
  unfolding ListCredentials_def HasCredentials_def UpdateSignCount_def AddCredential_def
  by (rule opens_calls)+

lemma opens_parts: "opens P (sign_in E A now m)" "opens P (passkey_of E A sd body)"
  unfolding sign_in_def setSessionCookie_def Encrypt_def passkey_of_def
  by (rule opened.t_control opens_calls opens_reads TrueI)+

fun opened_by :: "passkey_event \<Rightarrow> challenge \<Rightarrow> bool" where
  "opened_by (PkLoginBegin t) c = (ch_expires c = t + challengeTTL)"
| "opened_by _ c = False"

lemma opens_run: "opened (opened_by ev) w (run_passkey E A ev w)"
proof -
  have "opens (opened_by (PkLoginPage now r)) (loginPage E A now r)"
    "opens (opened_by (PkRegisterBegin now r s)) (registerBegin E A now r s)"
    "opens (opened_by (PkRegisterFinish now r tok body)) (registerFinish E A now r tok body)"
    "opens (opened_by (PkLoginBegin now)) (loginBegin E now)"
    "opens (opened_by (PkLoginFinish now tok body)) (loginFinish E A now tok body)" for now r s tok body
    unfolding loginPage_def registerBegin_def registerFinish_def loginBegin_def open_challenge_def loginFinish_def
    by (rule opened.t_control opens_reads opens_parts opens_calls opens_challenges TrueI | simp)+
  then show ?thesis by (cases ev) (simp_all add: triple_def)
qed

lemma opens_runs:
  assumes "w_challenges (run_passkeys E A evs w) k = Some c" "ch_flow c = ''login''"
  shows "w_challenges w k = Some c \<or> (\<exists>t. PkLoginBegin t \<in> set evs \<and> ch_expires c = t + challengeTTL)"
  using assms(1)
proof (induction evs arbitrary: w)
  case (Cons ev evs)
  from Cons.prems have "w_challenges (run_passkeys E A evs (run_passkey E A ev w)) k = Some c" by (simp add: run_passkeys_def)
  from Cons.IH [OF this] show ?case
  proof (elim disjE)
    assume "w_challenges (run_passkey E A ev w) k = Some c"
    with opens_run [of ev w E A] assms(2) show ?thesis by (cases ev) (auto simp: opened_def)
  qed auto
qed (simp add: run_passkeys_def)

text \<open>
  C10: A login needs a fresh challenge: after any requests to the public endpoints since a start with no open challenge, a login
  succeeds only with the token of a login challenge that is still open and was opened by one of those requests no more than five
  minutes (300 seconds) before, and with an answer that the library accepts for that very challenge and the stored passkeys; and the
  challenge is then used up: the same token is refused from then on, whatever answer comes with it.
\<close>

theorem login_needs_fresh_challenge:
  assumes "w_challenges w0 = Map.empty" "w = run_passkeys E A evs w0"
    and "run_state (loginFinish E A now token body) w = ((JSON st (), cookies), w')"
  shows "(\<exists>c t decide creds p. w_challenges w token = Some c \<and> ch_flow c = ''login''
            \<and> PkLoginBegin t \<in> set evs \<and> now \<le> t + 300 * second
            \<and> la_finish_login (aa_lib A) (ch_data c) body = Some decide
            \<and> set creds = cw_credential ` set (credentials (w_db w))
            \<and> decide (NewAdminUser E (aa_encryption_key A)) creds = Some p)
       \<and> run_state (loginFinish E A now2 token body2) w' = ((Error 400 ''no pending login'', []), w')"
proof -
  have t: "token \<noteq> []" using assms(3) by (auto simp: loginFinish_def)
  obtain g w1 where g: "run_state (GetSession now token ''login'') w = (g, w1)" by fastforce
  with assms(3) t obtain session where s: "g = Some session" by (cases g) (auto simp: loginFinish_def)
  from g s obtain c where c: "w_challenges w token = Some c" "ch_flow c = ''login''" "now \<le> ch_expires c" "session = ch_data c"
    by (auto elim: GetSession_SomeE)
  from opens_runs [of E A evs w0 token c] c(1,2) assms(1,2) obtain b where "PkLoginBegin b \<in> set evs" "ch_expires c = b + challengeTTL"
    by auto
  with c(3) have b: "PkLoginBegin b \<in> set evs" "now \<le> b + 300 * second" by (simp_all add: challengeTTL_def)
  obtain x w2 where x: "run_state (passkey_of E A session body) w1 = (x, w2)" by fastforce
  with assms(3) t g s obtain p where p: "x = Some p" by (cases x) (auto simp: loginFinish_def)
  obtain y w3 where y: "run_state (UpdateSignCount E (wc_id p) (wc_sign_count p)) w2 = (y, w3)" by fastforce
  have z: "run_state (sign_in E A now ''authenticated but failed to create session'') w3 = ((JSON st (), cookies), w')"
    using assms(3) t g s x p y by (simp add: loginFinish_def)
  have "w_challenges w' token = None"
    using kept_run [OF login_rest_kept(1) x] kept_run [OF login_rest_kept(2) y] kept_run [OF login_rest_kept(3) z] GetSession_used [OF g] by simp
  then have again: "run_state (loginFinish E A now2 token body2) w' = ((Error 400 ''no pending login'', []), w')"
    using t by (simp add: loginFinish_def GetSession_def)
  show ?thesis using passkey_of_SomeE [OF x [unfolded p]] GetSession_used [OF g] c b again by metis
qed

text \<open>One passkey is stored, a login begins a minute before the first hour is over, and the browser's answer repeats the challenge at the hour.\<close>

definition passkey_w :: world where
  "passkey_w = sample_w\<lparr>w_db := sample_db\<lparr>credentials := [\<lparr>cw_id = ''k1'', cw_credential = sample_passkey ''k'', cw_created_at = 1\<rparr>]\<rparr>\<rparr>"

definition sample_login :: world where
  "sample_login = run_passkeys sample_E sample_aa [PkLoginBegin (hour - 60 * second)] passkey_w"

definition sample_token :: string where
  "sample_token = (case fst (run_state (loginBegin sample_E (hour - 60 * second)) passkey_w) of JSON _ (_, token) \<Rightarrow> token | _ \<Rightarrow> [])"

theorem login_needs_fresh_challenge_witness:
  "\<exists>cookies w'. run_state (loginFinish sample_E sample_aa hour sample_token ''https://pay'') sample_login = ((JSON 200 (), cookies), w')
     \<and> run_state (loginFinish sample_E sample_aa (hour + 1) sample_token ''https://pay'') w' = ((Error 400 ''no pending login'', []), w')"
proof -
  let ?run = "run_state (loginFinish sample_E sample_aa hour sample_token ''https://pay'') sample_login"
  have "fst (fst ?run) = JSON 200 ()" by code_simp
  then have r: "?run = ((JSON 200 (), snd (fst ?run)), snd ?run)" by (metis prod.collapse)
  have "w_challenges passkey_w = Map.empty" by (simp add: passkey_w_def sample_w_def)
  from login_needs_fresh_challenge [OF this sample_login_def r, of "hour + 1" "''https://pay''"] r show ?thesis by blast
qed

section \<open>Registrations\<close>

text \<open>Who comes to the public endpoints without a session and without the setup token.\<close>

fun stranger :: "externals \<Rightarrow> admin_auth \<Rightarrow> passkey_event \<Rightarrow> bool" where
  "stranger E A (PkRegisterBegin now r setup) = (\<not> isAuthenticated E A now r \<and> (aa_setup_token A = [] \<or> setup \<noteq> aa_setup_token A))"
| "stranger E A _ = True"

definition passkeys :: "world \<Rightarrow> (string \<times> string \<times> string) list" where
  "passkeys w = map (\<lambda>x. (cw_id x, wc_id (cw_credential x), wc_public_key (cw_credential x))) (credentials (w_db w))"

definition no_registration :: "world \<Rightarrow> bool" where
  "no_registration w \<longleftrightarrow> (\<forall>k c. w_challenges w k = Some c \<longrightarrow> ch_flow c \<noteq> ''register'')"

definition passkeys_kept :: "world \<Rightarrow> world \<Rightarrow> bool" where
  "passkeys_kept w w' \<longleftrightarrow> passkeys w' = passkeys w \<and> (no_registration w \<longrightarrow> no_registration w')"

interpretation outside: effect_logic no_registration passkeys_kept
  by unfold_locales (auto simp: passkeys_kept_def)

abbreviation outside_triple :: "'a cp \<Rightarrow> bool" where
  "outside_triple m \<equiv> triple no_registration passkeys_kept m (\<lambda>_. True)"

lemma outside_stmt:
  assumes "\<And>d. map (\<lambda>x. (cw_id x, wc_id (cw_credential x), wc_public_key (cw_credential x))) (credentials (snd (s d)))
      = map (\<lambda>x. (cw_id x, wc_id (cw_credential x), wc_public_key (cw_credential x))) (credentials d)"
  shows "outside_triple (db_call E s)"
proof (rule tripleI)
  fix w
  have "passkeys (snd (run_state (db_call E s) w)) = passkeys w"
    unfolding passkeys_def using db_call_db [of E s w] assms [of "w_db w"] by auto
  then show "passkeys_kept w (snd (run_state (db_call E s) w)) \<and> True" by (simp add: passkeys_kept_def no_registration_def)
qed

lemma outside_query: "outside_triple (db_call E (query f))"
  by (rule outside_stmt) (simp add: query_def)

lemma outside_ext_val: "outside_triple (ext_val E v c)"
  by (rule tripleI) (simp add: passkeys_kept_def no_registration_def passkeys_def)

lemma outside_reads [io_rules]:
  "outside_triple (ListCredentials E)" "outside_triple (HasCredentials E)" "outside_triple (UpdateSignCount E i n)"
  unfolding ListCredentials_def HasCredentials_def UpdateSignCount_def
  by (rule outside_query, rule outside_query, rule outside_stmt)
    (auto simp: sign_count_stmt_def update_where_def split: sum.split)

lemma outside_SetSession: "outside_triple (SetSession E now ''login'' d x)"
  unfolding SetSession_def admin_generateToken_def
  by (rule outside.t_control outside_ext_val TrueI tripleI
    | simp add: passkeys_kept_def no_registration_def passkeys_def live_challenges_def split: option.splits if_splits)+

lemma outside_GetSession: "triple no_registration passkeys_kept (GetSession now token flow) (\<lambda>x. flow = ''register'' \<longrightarrow> x = None)"
  by (rule tripleI) (auto simp: GetSession_def passkeys_kept_def no_registration_def passkeys_def split: option.split)

lemma outside_login_get: "outside_triple (GetSession now token flow)"
  by (rule triple_weaken [OF outside_GetSession]) simp

lemma outside_sign_in [io_rules]: "outside_triple (sign_in E A now m)" "outside_triple (passkey_of E A sd body)"
  unfolding sign_in_def setSessionCookie_def Encrypt_def passkey_of_def
  by (rule outside.t_control io_rules outside_ext_val TrueI)+

lemma outside_public:
  "outside_triple (loginPage E A now r)" "outside_triple (loginBegin E now)" "outside_triple (loginFinish E A now token body)"
  unfolding loginPage_def loginBegin_def open_challenge_def loginFinish_def
  by (rule outside.t_control io_rules outside_ext_val outside_SetSession outside_login_get TrueI)+

lemma outside_no_challenge:
  "triple no_registration passkeys_kept (State_Monad.return y) V \<Longrightarrow> triple no_registration passkeys_kept
      (State_Monad.bind (GetSession now token ''register'') (\<lambda>rg. case rg of None \<Rightarrow> State_Monad.return y | Some sd \<Rightarrow> k sd)) V"
  by (rule outside.t_bind [OF outside_GetSession]) auto

lemma outside_registerFinish: "outside_triple (registerFinish E A now r token body)"
  unfolding registerFinish_def by (rule outside_no_challenge outside.t_control io_rules TrueI)+

lemma outside_registerBegin:
  assumes "stranger E A (PkRegisterBegin now r setup)"
  shows "outside_triple (registerBegin E A now r setup)"
proof -
  have "registerBegin E A now r setup = do {
     h \<leftarrow> HasCredentials E;
     State_Monad.return (case h of
         Inl _ \<Rightarrow> Error 500 ''internal error''
       | Inr has \<Rightarrow> if has then Error 403 ''forbidden''
           else if aa_setup_token A = [] then Error 403 ''setup token required for first registration''
           else Error 403 ''invalid setup token'') }"
    unfolding registerBegin_def by (rule arg_cong [where f = "State_Monad.bind _"]) (use assms in \<open>auto simp: fun_eq_iff split: sum.split\<close>)
  then show ?thesis by (simp only:) (rule outside.t_control io_rules TrueI)+
qed

lemma outside_run: "stranger E A ev \<Longrightarrow> no_registration w \<Longrightarrow> passkeys_kept w (run_passkey E A ev w)"
  by (cases ev)
    (simp_all only: run_passkey.simps, (rule triple_run [OF outside_public(1)] triple_run [OF outside_public(2)] triple_run [OF outside_public(3)]
        triple_run [OF outside_registerFinish] triple_run [OF outside_registerBegin] | assumption)+)

text \<open>
  C9: Strangers cannot register a passkey: as long as nobody begins a registration with a valid session, or with the setup token while
  there is none, no sequence of requests to the public endpoints adds, removes or replaces a passkey, whatever the library accepts,
  whatever tokens and answers are sent and whichever statements fail.
\<close>

theorem strangers_cannot_register:
  assumes "no_registration w" "list_all (stranger E A) evs"
  shows "passkeys (run_passkeys E A evs w) = passkeys w"
proof -
  have "passkeys_kept w (run_passkeys E A evs w)"
    using assms
  proof (induction evs arbitrary: w)
    case (Cons ev evs)
    then have k: "passkeys_kept w (run_passkey E A ev w)" by (intro outside_run) simp_all
    with Cons.prems have "no_registration (run_passkey E A ev w)" by (simp add: passkeys_kept_def)
    with Cons.IH Cons.prems(2) have "passkeys_kept (run_passkey E A ev w) (run_passkeys E A evs (run_passkey E A ev w))" by simp
    with k show ?case by (simp add: run_passkeys_def) (rule outside.R_trans)
  qed (simp add: run_passkeys_def passkeys_kept_def)
  then show ?thesis by (simp add: passkeys_kept_def)
qed

definition stranger_requests :: "passkey_event list" where
  "stranger_requests = [PkRegisterBegin 0 (with_session []) ''guess'', PkRegisterFinish 1 (with_session []) ''tok'' ''challenge'',
     PkLoginBegin 2, PkLoginFinish 3 ''tok'' ''challenge'']"

theorem strangers_cannot_register_witness:
  "passkeys (run_passkeys sample_E sample_aa stranger_requests passkey_w) = [(''k1'', ''k'', ''key'')]"
proof -
  have n: "no_registration passkey_w" by (simp add: no_registration_def passkey_w_def sample_w_def)
  have st: "list_all (stranger sample_E sample_aa) stranger_requests"
    by (simp add: stranger_requests_def isAuthenticated_def with_session_def sample_aa_def)
  have "passkeys passkey_w = [(''k1'', ''k'', ''key'')]" by (simp add: passkeys_def passkey_w_def sample_passkey_def)
  then show ?thesis using strangers_cannot_register [OF n st] by simp
qed

section \<open>The last passkey\<close>

lemma query_frame: "w_db (snd (run_state (db_call E (query f)) w)) = w_db w"
  using db_call_db [of E "query f" w] by (simp add: query_def)

lemma length_by_creation [simp]: "length (by_creation d) = length (credentials d)"
  by (simp add: by_creation_def)

lemma delete_leaves_one:
  assumes "distinct (map cw_id cs)" "1 < length cs"
  shows "filter (\<lambda>x. cw_id x \<noteq> cid) cs \<noteq> []"
proof -
  from assms(2) obtain a b rest where "cs = a # b # rest" by (cases cs; cases "tl cs") auto
  with assms(1) have "cw_id a \<noteq> cid \<or> cw_id b \<noteq> cid" by auto
  with \<open>cs = a # b # rest\<close> show ?thesis by auto
qed

text \<open>
  Deleting a passkey through the settings page never removes the last one, whatever fails or loses its reply: without a passkey anybody
  with the setup token could register.
\<close>

theorem last_passkey_stays:
  assumes "distinct (map cw_id (credentials (w_db w)))" "credentials (w_db w) \<noteq> []"
  shows "credentials (w_db (snd (run_state (deleteCredential E cid) w))) \<noteq> []"
proof (cases "ValidUUID E cid")
  case True
  obtain x w1 where x: "run_state (ListCredentialInfos E) w = (x, w1)" by fastforce
  then have w1: "w_db w1 = w_db w" unfolding ListCredentialInfos_def by (metis query_frame snd_conv)
  show ?thesis
  proof (cases x)
    case (Inr infos)
    with x have len: "length infos = length (credentials (w_db w))"
      unfolding ListCredentialInfos_def by (auto dest!: db_call_Inr simp: query_def)
    have "credentials (w_db (snd (run_state (DeleteCredential E cid) w1))) \<noteq> []" if "1 < length infos"
      using db_call_db [of E "delete_credential cid" w1] delete_leaves_one [OF assms(1), of cid] that len w1 assms(2)
      by (auto simp: DeleteCredential_def delete_credential_def)
    then show ?thesis using x Inr True w1 assms(2)
      by (cases "length infos \<le> 1") (auto simp: deleteCredential_def split_def)
  qed (use x True w1 assms(2) in \<open>simp add: deleteCredential_def\<close>)
qed (simp add: deleteCredential_def assms(2))

theorem last_passkey_stays_witness:
  "credentials (w_db (snd (run_state (deleteCredential sample_E ''k1'') passkey_w))) \<noteq> []"
  by (rule last_passkey_stays) (simp_all add: passkey_w_def)

text \<open>Two deletions that both count before either deletes leave no passkey.\<close>

lemma racing_deletions_leave_no_passkey:
  assumes "map cw_id (credentials d) = [a, b]"
  shows "credentials (snd (delete_credential b (snd (delete_credential a d)))) = []"
  using assms by (auto simp: delete_credential_def filter_empty_conv)

end
