(* ===== verification/CP_Config.thy ===== *)
theory CP_Config
  imports CP_Sample
begin

text \<open>
  The configuration (\<open>src/internal/config/config.go\<close>): the environment is the function \<open>os.Getenv\<close>, which gives the empty
  string for a variable that is not set. Durations are nanoseconds. \<open>time.ParseDuration\<close> goes through floating-point numbers and is a
  parameter, \<open>parse\<close>; a negative or zero answer of it is possible.
\<close>

record config =
  cf_database_url :: string
  cf_listen_addr :: string
  cf_log_level :: string
  cf_api_token :: string
  cf_encryption_key :: string
  cf_webauthn_rpid :: string
  cf_webauthn_origin :: string
  cf_setup_token :: string
  cf_jwt_secret :: string
  cf_registration_token :: string
  cf_cookie_secure :: bool
  cf_cors_origins :: "string list"
  cf_wg_hub_public_key :: string
  cf_wg_hub_endpoint :: string
  cf_wg_network_cidr :: string
  cf_caddy_admin_url :: string
  cf_caddy_server_name :: string
  cf_caddy_domain :: string
  cf_poller_interval :: int
  cf_janitor_interval :: int
  cf_ssh_key_path :: string
  cf_lxc_bridge :: string
  cf_tenant_mount_root :: string
  cf_tenant_app_dir :: string
  cf_caddy_upstream_port :: string
  cf_ssh_user :: string
  cf_ssh_port :: string
  cf_wg_interface :: string
  cf_wg_dns_addr :: string
  cf_wg_keepalive :: int
  cf_free_radio_repo_url :: string
  cf_free_radio_repo_branch :: string
  cf_sso_domain :: string
  cf_sso_scheme :: string
  cf_stripe_secret_key :: string
  cf_stripe_webhook_secret :: string
  cf_stripe_prices :: "(string \<times> string) list"

type_synonym env = "string \<Rightarrow> string"

section \<open>Single variables\<close>

definition requireEnv :: "env \<Rightarrow> string \<Rightarrow> string res" where
  "requireEnv getenv key =
     (let v = getenv key
      in if v = [] then Inl (GoErr (''required environment variable '' @ key @ '' is not set'')) else Inr v)"

definition getEnv :: "env \<Rightarrow> string \<Rightarrow> string \<Rightarrow> string" where
  "getEnv getenv key fallback = (let v = getenv key in if v \<noteq> [] then v else fallback)"

definition parseCORSOrigins :: "string \<Rightarrow> string list" where
  "parseCORSOrigins raw =
     (if raw = [] then [''http://localhost:5173'', ''http://localhost:5174'']
      else filter (\<lambda>o'. o' \<noteq> []) (map trim_space (split_on CHR '','' raw)))"

text \<open>The product of two 64-bit integers wraps.\<close>

definition mul64 :: "int \<Rightarrow> int \<Rightarrow> int" where
  "mul64 a b = (a * b + 2 ^ 63) mod 2 ^ 64 - 2 ^ 63"

definition go_second :: int where
  "go_second = 1000000000"

definition parseDuration :: "(string \<Rightarrow> int option) \<Rightarrow> env \<Rightarrow> string \<Rightarrow> int \<Rightarrow> int" where
  "parseDuration parse getenv key fallback =
     (let v = getenv key
      in if v = [] then fallback
         else (case (case parse v of Some d \<Rightarrow> if 0 < d then Some d else None | None \<Rightarrow> None) of
             Some d \<Rightarrow> d
           | None \<Rightarrow>
               (case atoi v of
                  Some sec \<Rightarrow> if 0 < sec then mul64 sec go_second else fallback
                | None \<Rightarrow> fallback)))"

definition parseBool :: "env \<Rightarrow> string \<Rightarrow> bool \<Rightarrow> bool" where
  "parseBool getenv key fallback =
     (if getenv key = [] then fallback
      else (let v = to_lower (trim_space (getenv key))
            in if v \<in> set [''true'', ''1'', ''yes''] then True
               else if v \<in> set [''false'', ''0'', ''no''] then False
               else fallback))"

definition stripe_tiers :: "(string \<times> string) list" where
  "stripe_tiers = [(''starter'', ''STRIPE_PRICE_STARTER''), (''pro'', ''STRIPE_PRICE_PRO''), (''studio'', ''STRIPE_PRICE_STUDIO'')]"

text \<open>The map from tiers to prices, in one of the orders of the loop.\<close>

definition parseStripePrices :: "env \<Rightarrow> (string \<times> string) list" where
  "parseStripePrices getenv = filter (\<lambda>(tier, v). v \<noteq> []) (map (\<lambda>(tier, envKey). (tier, getenv envKey)) stripe_tiers)"

definition parseInt :: "env \<Rightarrow> string \<Rightarrow> int \<Rightarrow> int" where
  "parseInt getenv key fallback =
     (if getenv key = [] then fallback
      else (case atoi (getenv key) of Some n \<Rightarrow> if 0 < n then n else fallback | None \<Rightarrow> fallback))"

section \<open>Load\<close>

definition config_of :: "(string \<Rightarrow> int option) \<Rightarrow> env \<Rightarrow> string \<Rightarrow> string \<Rightarrow> string \<Rightarrow> string \<Rightarrow> config" where
  "config_of parse getenv dbURL apiToken encKey jwtSecret =
     \<lparr>cf_database_url = dbURL,
      cf_listen_addr = getEnv getenv ''LISTEN_ADDR'' ''127.0.0.1:8080'',
      cf_log_level = getEnv getenv ''LOG_LEVEL'' ''info'',
      cf_api_token = apiToken,
      cf_encryption_key = encKey,
      cf_webauthn_rpid = getenv ''WEBAUTHN_RPID'',
      cf_webauthn_origin = getenv ''WEBAUTHN_ORIGIN'',
      cf_setup_token = getenv ''SETUP_TOKEN'',
      cf_jwt_secret = jwtSecret,
      cf_registration_token = getenv ''REGISTRATION_TOKEN'',
      cf_cookie_secure = parseBool getenv ''COOKIE_SECURE'' True,
      cf_cors_origins = parseCORSOrigins (getenv ''CORS_ORIGINS''),
      cf_wg_hub_public_key = getenv ''WG_HUB_PUBLIC_KEY'',
      cf_wg_hub_endpoint = getenv ''WG_HUB_ENDPOINT'',
      cf_wg_network_cidr = getEnv getenv ''WG_NETWORK_CIDR'' ''10.10.0.0/24'',
      cf_caddy_admin_url = getenv ''CADDY_ADMIN_URL'',
      cf_caddy_server_name = getEnv getenv ''CADDY_SERVER_NAME'' ''srv1'',
      cf_caddy_domain = getEnv getenv ''CADDY_DOMAIN'' ''example.com'',
      cf_poller_interval = parseDuration parse getenv ''POLLER_INTERVAL'' (10 * go_second),
      cf_janitor_interval = parseDuration parse getenv ''AUTH_JANITOR_INTERVAL'' (3600 * go_second),
      cf_ssh_key_path = getEnv getenv ''SSH_KEY_PATH'' ''/root/.ssh/id_ed25519'',
      cf_lxc_bridge = getEnv getenv ''LXC_BRIDGE'' ''vmbr0'',
      cf_tenant_mount_root = getEnv getenv ''TENANT_MOUNT_ROOT'' ''/mnt/tenants'',
      cf_tenant_app_dir = getEnv getenv ''TENANT_APP_DIR'' ''/root/freeRadio'',
      cf_caddy_upstream_port = getEnv getenv ''CADDY_UPSTREAM_PORT'' ''80'',
      cf_ssh_user = getEnv getenv ''SSH_USER'' ''root'',
      cf_ssh_port = getEnv getenv ''SSH_PORT'' ''22'',
      cf_wg_interface = getEnv getenv ''WG_INTERFACE'' ''wg0'',
      cf_wg_dns_addr = getEnv getenv ''WG_DNS_ADDR'' ''10.10.0.1'',
      cf_wg_keepalive = parseInt getenv ''WG_KEEPALIVE_SECONDS'' 25,
      cf_free_radio_repo_url = getenv ''FREERADIO_REPO_URL'',
      cf_free_radio_repo_branch = getEnv getenv ''FREERADIO_REPO_BRANCH'' ''dev'',
      cf_sso_domain = getEnv getenv ''SSO_DOMAIN'' ''example.com'',
      cf_sso_scheme = getEnv getenv ''SSO_SCHEME'' ''https'',
      cf_stripe_secret_key = getenv ''STRIPE_SECRET_KEY'',
      cf_stripe_webhook_secret = getenv ''STRIPE_WEBHOOK_SECRET'',
      cf_stripe_prices = parseStripePrices getenv\<rparr>"

definition Load :: "(string \<Rightarrow> int option) \<Rightarrow> env \<Rightarrow> config res" where
  "Load parse getenv =
     (case requireEnv getenv ''DATABASE_URL'' of
        Inl e \<Rightarrow> Inl e
      | Inr dbURL \<Rightarrow>
          (case requireEnv getenv ''API_TOKEN'' of
             Inl e \<Rightarrow> Inl e
           | Inr apiToken \<Rightarrow>
               (case requireEnv getenv ''ENCRYPTION_KEY'' of
                  Inl e \<Rightarrow> Inl e
                | Inr encKey \<Rightarrow>
                    (case requireEnv getenv ''JWT_SECRET'' of
                       Inl e \<Rightarrow> Inl e
                     | Inr jwtSecret \<Rightarrow> Inr (config_of parse getenv dbURL apiToken encKey jwtSecret)))))"

section \<open>What a loaded configuration is\<close>

lemma getEnv_nonempty: "fallback \<noteq> [] \<Longrightarrow> getEnv getenv key fallback \<noteq> []"
  by (simp add: getEnv_def Let_def)

lemma parseInt_positive: "0 < fallback \<Longrightarrow> 0 < parseInt getenv key fallback"
  by (simp add: parseInt_def split: option.split)

lemma mul64_exact: "- (2 ^ 63) \<le> a * b \<Longrightarrow> a * b < 2 ^ 63 \<Longrightarrow> mul64 a b = a * b"
  by (simp add: mul64_def)

text \<open>A number of seconds is an interval of that length as long as it is below 292 years in nanoseconds.\<close>

lemma parseDuration_positive:
  assumes "0 < fallback" "\<And>n. atoi (getenv key) = Some n \<Longrightarrow> n \<le> 9223372036"
  shows "0 < parseDuration parse getenv key fallback"
proof -
  have "0 < mul64 n go_second" if n: "atoi (getenv key) = Some n" "0 < n" for n
    using assms(2) [OF n(1)] n(2) by (subst mul64_exact) (simp_all add: go_second_def)
  then show ?thesis using assms(1) by (simp add: parseDuration_def Let_def split: option.split)
qed

text \<open>Beyond that the interval is negative, which \<open>time.NewTicker\<close> answers with a panic.\<close>

lemma long_interval_wraps:
  assumes "getenv key = string_of_nat 10000000000"
  shows "parseDuration (\<lambda>_. None) getenv key fallback < 0"
proof -
  have "atoi (string_of_nat 10000000000) = Some 10000000000" using atoi_string_of_nat [of 10000000000] by simp
  moreover have "mul64 10000000000 go_second < 0" by (simp add: mul64_def go_second_def)
  ultimately show ?thesis using assms by (simp add: parseDuration_def Let_def)
qed

lemma dropWhile_trim_right: "dropWhile is_space t = t \<Longrightarrow> dropWhile is_space (trim_right t) = trim_right t"
proof (cases "trim_right t")
  case (Cons c u)
  assume t: "dropWhile is_space t = t"
  have "t = rev (dropWhile is_space (rev t)) @ rev (takeWhile is_space (rev t))"
    by (metis rev_append rev_rev_ident takeWhile_dropWhile_id)
  with Cons have "t = c # u @ rev (takeWhile is_space (rev t))" by (simp add: trim_right_def)
  with t Cons show ?thesis by (metis dropWhile_eq_Cons_conv dropWhile.simps(2))
qed simp

lemma trim_space_idem: "trim_space (trim_space s) = trim_space s"
  by (simp add: trim_space_def dropWhile_trim_right dropWhile_idem) (simp add: trim_right_def dropWhile_idem)

lemma requireEnv_cases:
  "requireEnv getenv key = (if getenv key = [] then Inl (GoErr (''required environment variable '' @ key @ '' is not set'')) else Inr (getenv key))"
  by (simp add: requireEnv_def Let_def)

definition required_vars :: "string list" where
  "required_vars = [''DATABASE_URL'', ''API_TOKEN'', ''ENCRYPTION_KEY'', ''JWT_SECRET'']"

lemma Load_cases:
  "Load parse getenv = (case filter (\<lambda>v. getenv v = []) required_vars of
      v # _ \<Rightarrow> Inl (GoErr (''required environment variable '' @ v @ '' is not set''))
    | [] \<Rightarrow> Inr (config_of parse getenv (getenv ''DATABASE_URL'') (getenv ''API_TOKEN'') (getenv ''ENCRYPTION_KEY'') (getenv ''JWT_SECRET'')))"
  by (simp add: Load_def requireEnv_cases required_vars_def)

definition short_interval :: "env \<Rightarrow> string \<Rightarrow> bool" where
  "short_interval getenv key \<longleftrightarrow> (case atoi (getenv key) of Some n \<Rightarrow> n \<le> 9223372036 | None \<Rightarrow> True)"

lemma short_interval_positive: "short_interval getenv key \<Longrightarrow> 0 < fallback \<Longrightarrow> 0 < parseDuration parse getenv key fallback"
  by (rule parseDuration_positive) (auto simp: short_interval_def)

lemma cors_origins_trimmed: "list_all (\<lambda>u. u \<noteq> [] \<and> trim_space u = u) (parseCORSOrigins raw)"
proof (cases "raw = []")
  case True
  have "trim_space ''http://localhost:5173'' = ''http://localhost:5173''" "trim_space ''http://localhost:5174'' = ''http://localhost:5174''"
    by (simp_all add: trim_space_def trim_right_def is_space_def)
  then show ?thesis by (simp add: parseCORSOrigins_def True)
next
  case False
  then show ?thesis by (auto simp: parseCORSOrigins_def list_all_iff trim_space_idem)
qed

lemma stripe_prices_sound:
  "list_all (\<lambda>(tier, v). tier \<in> fst ` set stripe_tiers \<and> v \<noteq> []) (parseStripePrices getenv)"
  "distinct (map fst (parseStripePrices getenv))"
  by (auto simp: parseStripePrices_def stripe_tiers_def)

lemmas config_facts = cors_origins_trimmed stripe_prices_sound getEnv_nonempty parseInt_positive

text \<open>
  C38: Loading either fails and names a required variable that is not set, or gives a configuration in which the API token, the keys and
  the database URL are present, every setting with a default is non-empty and the keepalive positive, the CORS origins are non-empty and
  trimmed, prices exist only for the three paid tiers, once each and non-empty, and the two intervals are positive unless they
  were given as more seconds than fit into 64 bits of nanoseconds.
\<close>

theorem Load_outcome:
  "case Load parse getenv of
     Inl e \<Rightarrow> (\<exists>v\<in>set required_vars. getenv v = [] \<and> e = GoErr (''required environment variable '' @ v @ '' is not set''))
   | Inr c \<Rightarrow> list_all (\<lambda>v. getenv v \<noteq> []) required_vars
       \<and> cf_database_url c = getenv ''DATABASE_URL'' \<and> cf_api_token c = getenv ''API_TOKEN''
       \<and> cf_encryption_key c = getenv ''ENCRYPTION_KEY'' \<and> cf_jwt_secret c = getenv ''JWT_SECRET''
       \<and> list_all (\<lambda>f. f c \<noteq> []) [cf_listen_addr, cf_log_level, cf_wg_network_cidr, cf_caddy_server_name, cf_caddy_domain, cf_ssh_key_path,
           cf_lxc_bridge, cf_tenant_mount_root, cf_tenant_app_dir, cf_caddy_upstream_port, cf_ssh_user, cf_ssh_port, cf_wg_interface,
           cf_wg_dns_addr, cf_free_radio_repo_branch, cf_sso_domain, cf_sso_scheme]
       \<and> 0 < cf_wg_keepalive c
       \<and> list_all (\<lambda>u. u \<noteq> [] \<and> trim_space u = u) (cf_cors_origins c)
       \<and> list_all (\<lambda>(tier, v). tier \<in> fst ` set stripe_tiers \<and> v \<noteq> []) (cf_stripe_prices c)
       \<and> distinct (map fst (cf_stripe_prices c))
       \<and> (if short_interval getenv ''POLLER_INTERVAL'' then 0 < cf_poller_interval c else True)
       \<and> (if short_interval getenv ''AUTH_JANITOR_INTERVAL'' then 0 < cf_janitor_interval c else True)"
proof (cases "filter (\<lambda>v. getenv v = []) required_vars")
  case Nil
  then have "list_all (\<lambda>v. getenv v \<noteq> []) required_vars" by (simp add: filter_empty_conv list_all_iff)
  then show ?thesis unfolding Load_cases Nil
    by (simp add: config_of_def config_facts short_interval_positive go_second_def)
next
  case (Cons v vs)
  then have "v \<in> set (filter (\<lambda>v. getenv v = []) required_vars)" by (simp del: filter_set set_filter)
  then have "v \<in> set required_vars" "getenv v = []" by simp_all
  then show ?thesis unfolding Load_cases Cons by auto
qed

end
