(* ===== verification/CP_Json.thy ===== *)
theory CP_Json
  imports CP_Sample
begin

text \<open>
  JSON as \<open>encoding/json\<close> reads it into the structs of \<open>src/internal/proxmox\<close> and \<open>src/internal/billing\<close>: the tree, where a number is its
  literal and an object has each key once, spelled as in the struct tags, and how a field of each type is decoded.
\<close>

datatype json = JNull | JBool bool | JNum string | JStr string | JArr "json list" | JObj "(string \<times> json) list"

text \<open>How a field is decoded: \<open>None\<close> is a value of the wrong type, a missing field and \<open>null\<close> leave the zero value.\<close>

definition json_string :: "json option \<Rightarrow> string option" where
  "json_string j = (case j of None \<Rightarrow> Some [] | Some JNull \<Rightarrow> Some [] | Some (JStr s) \<Rightarrow> Some s | _ \<Rightarrow> None)"

definition json_int :: "json option \<Rightarrow> int option" where
  "json_int j = (case j of None \<Rightarrow> Some 0 | Some JNull \<Rightarrow> Some 0 | Some (JNum n) \<Rightarrow> atoi n | _ \<Rightarrow> None)"

text \<open>A floating-point number is kept as its literal.\<close>

definition json_float :: "json option \<Rightarrow> string option" where
  "json_float j = (case j of None \<Rightarrow> Some ''0'' | Some JNull \<Rightarrow> Some ''0'' | Some (JNum n) \<Rightarrow> Some n | _ \<Rightarrow> None)"

definition json_list :: "(json \<Rightarrow> 'a option) \<Rightarrow> json \<Rightarrow> 'a list option" where
  "json_list f j = (case j of JNull \<Rightarrow> Some [] | JArr xs \<Rightarrow> those (map f xs) | _ \<Rightarrow> None)"

definition json_fields :: "json \<Rightarrow> (string \<times> json) list option" where
  "json_fields j = (case j of JNull \<Rightarrow> Some [] | JObj fs \<Rightarrow> Some fs | _ \<Rightarrow> None)"

text \<open>A nested struct: a missing one and \<open>null\<close> leave it zero, which reads like the object without fields.\<close>

definition json_struct :: "json option \<Rightarrow> (string \<times> json) list option" where
  "json_struct j = (case j of None \<Rightarrow> Some [] | Some v \<Rightarrow> json_fields v)"

text \<open>A slice of structs, and a map from strings to strings.\<close>

definition json_slice :: "(json \<Rightarrow> 'a option) \<Rightarrow> json option \<Rightarrow> 'a list option" where
  "json_slice f j = (case j of None \<Rightarrow> Some [] | Some v \<Rightarrow> json_list f v)"

definition json_string_map :: "json option \<Rightarrow> (string \<times> string) list option" where
  "json_string_map j = Option.bind (json_struct j)
     (\<lambda>fs. those (map (\<lambda>(k, v). map_option (Pair k) (json_string (Some v))) fs))"

end
