(* ===== verification/CP_Stripe_Events.thy ===== *)
theory CP_Stripe_Events
  imports CP_Billing CP_Json
begin

text \<open>
  The events of Stripe as they arrive (\<open>src/internal/billing/stripe.go\<close>, \<open>handler.go\<close>): the type and the JSON of the object, decoded field by
  field. \<open>verify\<close> is \<open>webhook.ConstructEvent\<close>: it checks the signature and gives the type and the object.
\<close>

section \<open>Decoding\<close>

definition stripe_decoded :: "string \<Rightarrow> 'a option \<Rightarrow> 'a res" where
  "stripe_decoded what r = (case r of None \<Rightarrow> Inl (Wrap (''parse '' @ what) (GoErr ''json'')) | Some x \<Rightarrow> Inr x)"

definition unmarshal_checkout :: "json \<Rightarrow> CheckoutSessionData option" where
  "unmarshal_checkout j = Option.bind (json_fields j) (\<lambda>fs. Option.bind (json_struct (map_of fs ''customer_details'')) (\<lambda>ds.
     case (json_string (map_of fs ''customer''), json_string (map_of fs ''subscription''), json_string (map_of ds ''email''),
           json_string_map (map_of fs ''metadata'')) of
       (Some cu, Some su, Some em, Some md) \<Rightarrow>
         Some \<lparr>cd_customer_id = cu, cd_subscription_id = su, cd_customer_email = em, cd_metadata = md\<rparr>
     | _ \<Rightarrow> None))"

definition ParseCheckoutSession :: "json \<Rightarrow> CheckoutSessionData res" where
  "ParseCheckoutSession data = stripe_decoded ''checkout session'' (unmarshal_checkout data)"

definition item_price :: "json \<Rightarrow> string option" where
  "item_price j = Option.bind (json_fields j) (\<lambda>fs. Option.bind (json_struct (map_of fs ''price'')) (\<lambda>ps. json_string (map_of ps ''id'')))"

definition unmarshal_subscription :: "json \<Rightarrow> raw_subscription option" where
  "unmarshal_subscription j = Option.bind (json_fields j) (\<lambda>fs. Option.bind (json_struct (map_of fs ''items'')) (\<lambda>ms.
     case (json_string (map_of fs ''id''), json_string (map_of fs ''customer''), json_string (map_of fs ''status''),
           json_slice item_price (map_of ms ''data'')) of
       (Some i, Some cu, Some st, Some ps) \<Rightarrow> Some \<lparr>rs_id = i, rs_customer = cu, rs_status = st, rs_prices = ps\<rparr>
     | _ \<Rightarrow> None))"

record InvoiceData =
  in_customer_id :: string
  in_customer_email :: string
  in_amount_due :: int
  in_currency :: string

definition unmarshal_invoice :: "json \<Rightarrow> InvoiceData option" where
  "unmarshal_invoice j = Option.bind (json_fields j) (\<lambda>fs.
     case (json_string (map_of fs ''customer''), json_string (map_of fs ''customer_email''), json_int (map_of fs ''amount_due''),
           json_string (map_of fs ''currency'')) of
       (Some cu, Some em, Some am, Some cy) \<Rightarrow> Some \<lparr>in_customer_id = cu, in_customer_email = em, in_amount_due = am, in_currency = cy\<rparr>
     | _ \<Rightarrow> None)"

definition ParseInvoice :: "json \<Rightarrow> InvoiceData res" where
  "ParseInvoice data = stripe_decoded ''invoice'' (unmarshal_invoice data)"

section \<open>Dispatch\<close>

definition EventCheckoutCompleted :: string where
  "EventCheckoutCompleted = ''checkout.session.completed''"

definition EventSubscriptionUpdated :: string where
  "EventSubscriptionUpdated = ''customer.subscription.updated''"

definition EventSubscriptionDeleted :: string where
  "EventSubscriptionDeleted = ''customer.subscription.deleted''"

definition EventInvoicePaymentFailed :: string where
  "EventInvoicePaymentFailed = ''invoice.payment_failed''"

text \<open>An invoice is only logged, whether it can be read or not.\<close>

definition stripe_event_of :: "string \<Rightarrow> json \<Rightarrow> stripe_event" where
  "stripe_event_of ty raw =
     (if ty = EventCheckoutCompleted then CheckoutCompleted (unmarshal_checkout raw)
      else if ty = EventSubscriptionUpdated then SubscriptionUpdated (unmarshal_subscription raw)
      else if ty = EventSubscriptionDeleted then SubscriptionDeleted (unmarshal_subscription raw)
      else if ty = EventInvoicePaymentFailed then InvoicePaymentFailed
      else OtherEvent ty)"

definition VerifyWebhook :: "(string \<Rightarrow> string \<Rightarrow> string \<Rightarrow> (string \<times> json) res) \<Rightarrow> billing_service \<Rightarrow> string \<Rightarrow> string \<Rightarrow> (string \<times> json) res" where
  "VerifyWebhook verify s payload signature = wrap_err ''verify webhook signature'' (verify payload signature (bs_webhook_secret s))"

text \<open>The webhook over a verified event, as \<open>Webhook\<close> takes it.\<close>

definition construct_event :: "(string \<Rightarrow> string \<Rightarrow> string \<Rightarrow> (string \<times> json) res) \<Rightarrow> string \<Rightarrow> string \<Rightarrow> string \<Rightarrow> stripe_event option" where
  "construct_event verify payload signature secret =
     (case verify payload signature secret of Inl _ \<Rightarrow> None | Inr (ty, raw) \<Rightarrow> Some (stripe_event_of ty raw))"

section \<open>What the events mean\<close>

text \<open>The objects of the fields that are read, and back.\<close>

definition strings_json :: "(string \<times> string) list \<Rightarrow> json" where
  "strings_json m = JObj (map (\<lambda>kv. (fst kv, JStr (snd kv))) m)"

definition prices_json :: "string list \<Rightarrow> json" where
  "prices_json ps = JArr (map (\<lambda>p. JObj [(''price'', JObj [(''id'', JStr p)])]) ps)"

definition checkout_json :: "CheckoutSessionData \<Rightarrow> json" where
  "checkout_json d = JObj [(''customer'', JStr (cd_customer_id d)), (''subscription'', JStr (cd_subscription_id d)),
     (''customer_details'', JObj [(''email'', JStr (cd_customer_email d))]), (''metadata'', strings_json (cd_metadata d))]"

definition subscription_json :: "raw_subscription \<Rightarrow> json" where
  "subscription_json r = JObj [(''id'', JStr (rs_id r)), (''customer'', JStr (rs_customer r)), (''status'', JStr (rs_status r)),
     (''items'', JObj [(''data'', prices_json (rs_prices r))])]"

lemmas json_decoders = json_fields_def json_struct_def json_string_def

lemma those_map_Some [simp]: "those (map (\<lambda>x. Some (f x)) xs) = Some (map f xs)"
  by (induction xs) simp_all

lemma strings_round_trip [simp]: "json_string_map (Some (strings_json m)) = Some m"
  by (simp add: json_string_map_def strings_json_def json_decoders comp_def split_def)

lemma prices_round_trip [simp]: "json_slice item_price (Some (prices_json ps)) = Some ps"
  by (simp add: json_slice_def prices_json_def json_list_def item_price_def json_decoders comp_def)

lemma checkout_round_trip: "unmarshal_checkout (checkout_json d) = Some d"
  by (simp add: unmarshal_checkout_def checkout_json_def json_decoders)

lemma subscription_round_trip: "unmarshal_subscription (subscription_json r) = Some r"
  by (simp add: unmarshal_subscription_def subscription_json_def json_decoders)

text \<open>A customer or a subscription that Stripe sends expanded, as an object, is not read.\<close>

lemma expanded_customer_unread: "map_of fs ''customer'' = Some (JObj xs) \<Longrightarrow> unmarshal_checkout (JObj fs) = None \<and> unmarshal_subscription (JObj fs) = None"
  by (auto simp: unmarshal_checkout_def unmarshal_subscription_def json_fields_def json_string_def Option.bind_eq_None_conv split: option.splits)

definition readable :: "string \<Rightarrow> json \<Rightarrow> bool" where
  "readable ty raw \<longleftrightarrow> (ty = EventCheckoutCompleted \<and> unmarshal_checkout raw \<noteq> None)
     \<or> (ty \<in> {EventSubscriptionUpdated, EventSubscriptionDeleted} \<and> unmarshal_subscription raw \<noteq> None)"

text \<open>
  C35: An event that cannot succeed on a retry is acknowledged: a verified event of an unknown type, or whose object does not decode, is answered
  200 and changes nothing, and calls nothing; a delivery without a valid signature is answered 400 and changes nothing.
\<close>

theorem useless_deliveries_change_nothing:
  assumes "case verify payload signature (bs_webhook_secret s) of Inl e \<Rightarrow> True | Inr (ty, raw) \<Rightarrow> \<not> readable ty raw"
  shows "run_state (Webhook E (Some s) (construct_event verify) (Some payload) signature) w
     = (if signature = [] then Error 400 ''missing Stripe-Signature header''
        else if isl (verify payload signature (bs_webhook_secret s)) then Error 400 ''invalid webhook signature'' else JSON 200 (), w)"
proof (cases "verify payload signature (bs_webhook_secret s)")
  case (Inl e)
  then show ?thesis by (simp add: Webhook_def construct_event_def)
next
  case (Inr x)
  obtain ty raw where x: "x = (ty, raw)" by fastforce
  have none: "handleCheckoutCompleted E None = State_Monad.return (Inr ())" "handleSubscriptionUpdated E s None = State_Monad.return (Inr ())"
      "handleSubscriptionDeleted E None = State_Monad.return (Inr ())"
    by (simp_all add: handleCheckoutCompleted_def handleSubscriptionUpdated_def handleSubscriptionDeleted_def)
  have "\<not> readable ty raw" using assms by (simp add: Inr x)
  then have "handle_event E s (stripe_event_of ty raw) = State_Monad.return (Inr ())"
    by (auto simp: handle_event_def stripe_event_of_def readable_def none)
  then show ?thesis using Inr x by (simp add: Webhook_def construct_event_def)
qed

definition sample_verify_event :: "string \<Rightarrow> string \<Rightarrow> string \<Rightarrow> (string \<times> json) res" where
  "sample_verify_event payload signature secret =
     (if signature = secret then Inr (payload, JObj [(''customer'', JObj [(''id'', JStr ''cus'')])]) else Inl (GoErr ''signature''))"

definition sample_billing :: billing_service where
  "sample_billing = NewService ''whsec'' []"

theorem useless_deliveries_change_nothing_witness:
  "run_state (Webhook sample_E (Some sample_billing) (construct_event sample_verify_event) (Some EventCheckoutCompleted) ''whsec'') sample_w
     = (JSON 200 (), sample_w)"
proof -
  have v: "sample_verify_event EventCheckoutCompleted ''whsec'' (bs_webhook_secret sample_billing)
      = Inr (EventCheckoutCompleted, JObj [(''customer'', JObj [(''id'', JStr ''cus'')])])"
    by (simp add: sample_verify_event_def sample_billing_def NewService_def)
  have "\<not> readable EventCheckoutCompleted (JObj [(''customer'', JObj [(''id'', JStr ''cus'')])])"
    using expanded_customer_unread [of "[(''customer'', JObj [(''id'', JStr ''cus'')])]" "[(''id'', JStr ''cus'')]"] by (simp add: readable_def)
  then show ?thesis
    using useless_deliveries_change_nothing [of sample_verify_event EventCheckoutCompleted "''whsec''" sample_billing sample_E sample_w] v
    by simp
qed

end
