(* ===== verification/CP_Server.thy ===== *)
theory CP_Server
  imports CP_System CP_Sessions CP_Wg_Handlers CP_Stations CP_Caddy CP_Admin_Routes CP_Admin_Auth_Props CP_Config CP_Stripe_Events
begin

text \<open>
  The HTTP server (\<open>src/internal/server/server.go\<close>): which middleware stands before which handler, and the work that runs beside the
  requests. An event of a run is a request with its headers and the server's time, a job, a pass of the janitor or the poller, a task of the
  start-up, or the passing of the database's time. The routes of the tenants, nodes, projects and of billing are the events of
  \<open>CP_System\<close>; the user those events carry is the one the middleware puts in the context. Rate limits, CORS and static files
  are not modelled.
\<close>

section \<open>Middleware and routes\<close>

definition bearerAuth :: "string \<Rightarrow> http_request \<Rightarrow> 'a http cp \<Rightarrow> 'a http cp" where
  "bearerAuth token r next =
     (let authHeader = hr_authorization r
      in if authHeader = [] then State_Monad.return (Error 401 ''missing authorization header'')
         else if \<not> has_prefix authHeader ''Bearer '' then State_Monad.return (Error 401 ''invalid authorization header format'')
         else if trim_prefix authHeader ''Bearer '' \<noteq> token then State_Monad.return (Error 401 ''invalid token'')
         else next)"

record site =
  si_core :: system
  si_api_token :: string
  si_auth :: auth_handler
  si_wg :: "wg_handler option"
  si_stations :: station_handler
  si_caddy :: bool
  si_mapped4 :: "string \<Rightarrow> ipv4 option"
  si_admin :: admin_handler
  si_csrf :: "http_request \<Rightarrow> bool"

datatype route =
    Core event
  | Healthz
  | AuthRegister "registerRequest option"
  | AuthLogin "loginRequest option"
  | AuthRefresh string
  | AuthMe
  | AuthLogout string
  | AuthPassword "(string \<times> string) option"
  | StationList "string \<Rightarrow> string"
  | StationGenres
  | StationGet string
  | StationCreate "create_station_request option"
  | StationUpdate string "update_station_request option"
  | StationDelete string
  | PeerList string
  | PeerCreate "CreatePeerRequest option"
  | PeerGet string
  | PeerUpdate string "UpdatePeerRequest option"
  | PeerDelete string
  | PeerEnable string
  | PeerDisable string
  | PeerConfig string
  | PeerQR string
  | AdminUI admin_route

datatype guard = Open | ApiToken | UserToken | AdminSession

text \<open>Jobs and the clock are events of \<open>CP_System\<close> but no routes.\<close>

fun is_route :: "route \<Rightarrow> bool" where
  "is_route (Core (EvRunJob i)) = False"
| "is_route (Core (EvTime now)) = False"
| "is_route _ = True"

fun event_guard :: "event \<Rightarrow> guard" where
  "event_guard (EvUserList u) = UserToken"
| "event_guard (EvUserGet u tid) = UserToken"
| "event_guard (EvUserCreate u b) = UserToken"
| "event_guard (EvUserDelete u tid) = UserToken"
| "event_guard (EvUserSuspend u tid) = UserToken"
| "event_guard (EvUserResume u tid) = UserToken"
| "event_guard (EvUserSSO now u tid) = UserToken"
| "event_guard (EvCheckout u b) = UserToken"
| "event_guard (EvPortal u b) = UserToken"
| "event_guard (EvBillingStatus u) = UserToken"
| "event_guard (EvWebhook b sg) = Open"
| "event_guard _ = ApiToken"

fun guard_of :: "route \<Rightarrow> guard" where
  "guard_of (Core ev) = event_guard ev"
| "guard_of AuthMe = UserToken"
| "guard_of (AuthLogout b) = UserToken"
| "guard_of (AuthPassword b) = UserToken"
| "guard_of (StationCreate b) = ApiToken"
| "guard_of (StationUpdate sid b) = ApiToken"
| "guard_of (StationDelete sid) = ApiToken"
| "guard_of (PeerList ty) = ApiToken"
| "guard_of (PeerCreate b) = ApiToken"
| "guard_of (PeerGet pid) = ApiToken"
| "guard_of (PeerUpdate pid b) = ApiToken"
| "guard_of (PeerDelete pid) = ApiToken"
| "guard_of (PeerEnable pid) = ApiToken"
| "guard_of (PeerDisable pid) = ApiToken"
| "guard_of (PeerConfig pid) = ApiToken"
| "guard_of (PeerQR pid) = ApiToken"
| "guard_of (AdminUI a) = (if admin_public a then Open else AdminSession)"
| "guard_of _ = Open"

text \<open>The routes behind the CSRF check.\<close>

fun needs_csrf :: "route \<Rightarrow> bool" where
  "needs_csrf (AdminUI a) = csrf_protected a"
| "needs_csrf _ = False"

text \<open>What a handler finds in the context: the id of the user, and the e-mail where billing asks for it.\<close>

fun in_context :: "user option \<Rightarrow> event \<Rightarrow> event" where
  "in_context u (EvUserList _) = EvUserList (map_option ur_id u)"
| "in_context u (EvUserGet _ tid) = EvUserGet (map_option ur_id u) tid"
| "in_context u (EvUserCreate _ b) = EvUserCreate (map_option ur_id u) b"
| "in_context u (EvUserDelete _ tid) = EvUserDelete (map_option ur_id u) tid"
| "in_context u (EvUserSuspend _ tid) = EvUserSuspend (map_option ur_id u) tid"
| "in_context u (EvUserResume _ tid) = EvUserResume (map_option ur_id u) tid"
| "in_context u (EvUserSSO now _ tid) = EvUserSSO now (map_option ur_id u) tid"
| "in_context u (EvCheckout _ b) = EvCheckout (map_option (\<lambda>x. (ur_id x, ur_email x)) u) b"
| "in_context u (EvPortal _ b) = EvPortal (map_option ur_id u) b"
| "in_context u (EvBillingStatus _) = EvBillingStatus (map_option ur_id u)"
| "in_context u ev = ev"

abbreviation reply_status :: "'a reply cp \<Rightarrow> unit http cp" where
  "reply_status m \<equiv> State_Monad.bind m (\<lambda>r. State_Monad.return (JSON (http_status (fst r)) ()))"

abbreviation plain_status :: "'a http cp \<Rightarrow> unit http cp" where
  "plain_status m \<equiv> State_Monad.bind m (\<lambda>r. State_Monad.return (JSON (http_status r) ()))"

definition status_http :: "nat cp \<Rightarrow> unit http cp" where
  "status_http m = State_Monad.bind m (\<lambda>st. State_Monad.return (JSON st ()))"

text \<open>\<open>Healthz\<close> pings the database.\<close>

definition Ping :: "externals \<Rightarrow> string http cp" where
  "Ping E = do {
     r \<leftarrow> db_call E (query (\<lambda>_. ()));
     State_Monad.return (case r of Inl _ \<Rightarrow> Error 503 ''database unreachable'' | Inr _ \<Rightarrow> JSON 200 ''ok'') }"

lemma csrf_guards:
  "guard_of rt = ApiToken \<Longrightarrow> needs_csrf rt = False" "guard_of rt = UserToken \<Longrightarrow> needs_csrf rt = False"
  by (cases rt; simp split: if_splits)+

definition on_wg :: "site \<Rightarrow> (wg_handler \<Rightarrow> 'a http cp) \<Rightarrow> unit http cp" where
  "on_wg S f = (case si_wg S of None \<Rightarrow> State_Monad.return (Error 404 []) | Some h \<Rightarrow> plain_status (f h))"

fun handle :: "externals \<Rightarrow> site \<Rightarrow> int \<Rightarrow> http_request \<Rightarrow> user option \<Rightarrow> route \<Rightarrow> unit http cp" where
  "handle E S now r u (Core ev) = State_Monad.bind (perform E (si_core S) (in_context u ev)) (\<lambda>st. State_Monad.return (JSON st ()))"
| "handle E S now r u Healthz = plain_status (Ping E)"
| "handle E S now r u (AuthRegister b) = reply_status (Register E (si_auth S) now r b)"
| "handle E S now r u (AuthLogin b) = reply_status (Login E (si_auth S) now b)"
| "handle E S now r u (AuthRefresh b) = reply_status (Refresh E (si_auth S) now r b)"
| "handle E S now r u AuthMe = State_Monad.return (JSON (http_status (Me u)) ())"
| "handle E S now r u (AuthLogout b) = reply_status (Logout E (si_auth S) now r u b)"
| "handle E S now r u (AuthPassword b) = reply_status (ChangePassword E (si_auth S) now u b)"
| "handle E S now r u (StationList q) = plain_status (station_h_List E (si_stations S) q)"
| "handle E S now r u StationGenres = plain_status (Genres E)"
| "handle E S now r u (StationGet slug) = plain_status (station_h_GetBySlug E (si_stations S) slug)"
| "handle E S now r u (StationCreate b) = plain_status (station_h_Create E (si_stations S) b)"
| "handle E S now r u (StationUpdate sid b) = plain_status (station_h_Update E (si_stations S) sid b)"
| "handle E S now r u (StationDelete sid) = plain_status (station_h_Delete E (si_stations S) sid)"
| "handle E S now r u (PeerList ty) = on_wg S (\<lambda>h. ListPeers E ty)"
| "handle E S now r u (PeerCreate b) = on_wg S (\<lambda>h. handler_CreatePeer E h b)"
| "handle E S now r u (PeerGet pid) = on_wg S (\<lambda>h. GetPeer E pid)"
| "handle E S now r u (PeerUpdate pid b) = on_wg S (\<lambda>h. UpdatePeer E h pid b)"
| "handle E S now r u (PeerDelete pid) = on_wg S (\<lambda>h. DeletePeer E h pid)"
| "handle E S now r u (PeerEnable pid) = on_wg S (\<lambda>h. EnablePeer E h pid)"
| "handle E S now r u (PeerDisable pid) = on_wg S (\<lambda>h. DisablePeer E h pid)"
| "handle E S now r u (PeerConfig pid) = on_wg S (\<lambda>h. GetPeerConfig E h pid)"
| "handle E S now r u (PeerQR pid) = on_wg S (\<lambda>h. GetPeerQR E h pid)"
| "handle E S now r u (AdminUI a) = status_http (admin_handle E (si_admin S) now r a)"

definition serve :: "externals \<Rightarrow> site \<Rightarrow> int \<Rightarrow> http_request \<Rightarrow> route \<Rightarrow> unit http cp" where
  "serve E S now r rt =
     (if \<not> is_route rt then State_Monad.return (Error 404 [])
      else if needs_csrf rt \<and> \<not> si_csrf S r then State_Monad.return (Error 400 ''Bad Request'')
      else case guard_of rt of
        Open \<Rightarrow> handle E S now r None rt
      | ApiToken \<Rightarrow> bearerAuth (si_api_token S) r (handle E S now r None rt)
      | UserToken \<Rightarrow> JWTAuth E True (ah_jwt_secret (si_auth S)) now r (\<lambda>u. handle E S now r (Some u) rt)
      | AdminSession \<Rightarrow> status_http (with_admin E (si_admin S) now r
          (State_Monad.bind (handle E S now r None rt) (\<lambda>x. State_Monad.return (http_status x)))))"

section \<open>Runs\<close>

datatype site_event =
    Request int http_request route
  | RunJob nat
  | JanitorPass int
  | PollPass int
  | StartCaddy
  | StartWireGuard
  | Clock int

fun advance :: "externals \<Rightarrow> site \<Rightarrow> site_event \<Rightarrow> world \<Rightarrow> world" where
  "advance E S (Request now r rt) w = snd (run_state (serve E S now r rt) w)"
| "advance E S (RunJob i) w = snd (run_state (perform E (si_core S) (EvRunJob i)) w)"
| "advance E S (JanitorPass now) w = snd (run_state (CleanOnce E True now) w)"
| "advance E S (PollPass now) w = snd (run_state (poll E (si_mapped4 S) False now) w)"
| "advance E S StartCaddy w = (if si_caddy S then snd (run_state (Reconcile E) w) else w)"
| "advance E S StartWireGuard w = (case si_wg S of None \<Rightarrow> w | Some h \<Rightarrow> snd (run_state (SyncPeers E (wh_service h)) w))"
| "advance E S (Clock now) w = snd (run_state (perform E (si_core S) (EvTime now)) w)"

fun run_site :: "externals \<Rightarrow> site \<Rightarrow> site_event list \<Rightarrow> world \<Rightarrow> world" where
  "run_site E S [] w = w"
| "run_site E S (ev # evs) w = run_site E S evs (advance E S ev w)"

fun sane_event :: "site_event \<Rightarrow> bool" where
  "sane_event (Request now r (Core ev)) = sane ev"
| "sane_event _ = True"

section \<open>Every event is a sequence of steps\<close>

lemma sane_in_context [simp]: "sane (in_context u ev) = sane ev"
  by (cases ev) simp_all

lemma is_route_in_context: "is_route (Core ev) \<Longrightarrow> in_context u ev \<noteq> EvTime now"
  by (cases ev) simp_all

lemma Ping_steps [io_rules]: "cp_triple E (Ping E) (\<lambda>_. True)"
  unfolding Ping_def by (rule cp_rules cp_query)+

lemma on_wg_steps [io_rules]: "(\<And>h. cp_triple E (f h) (\<lambda>_. True)) \<Longrightarrow> cp_triple E (on_wg S f) (\<lambda>_. True)"
  unfolding on_wg_def by (rule cp_rules | assumption)+

lemma status_http_steps [io_rules]: "cp_triple E m (\<lambda>_. True) \<Longrightarrow> cp_triple E (status_http m) (\<lambda>_. True)"
  unfolding status_http_def by (rule cp_rules | assumption)+

lemma handle_steps:
  assumes "is_route rt" "sane_event (Request now r rt)"
  shows "cp_triple E (handle E S now r u rt) (\<lambda>_. True)"
proof (cases rt)
  case (Core ev)
  with assms have "cp_triple E (perform E (si_core S) (in_context u ev)) (\<lambda>_. True)"
    by (intro perform_steps) (simp_all add: is_route_in_context)
  then show ?thesis unfolding Core handle.simps by (rule steps.t_seq) (rule cp_rules)+
qed (simp_all only: handle.simps, (rule cp_rules io_rules)+)

lemma bearerAuth_steps: "cp_triple E m (\<lambda>_. True) \<Longrightarrow> cp_triple E (bearerAuth token r m) (\<lambda>_. True)"
  unfolding bearerAuth_def by (rule cp_rules | assumption)+

lemma serve_steps:
  assumes "sane_event (Request now r rt)"
  shows "cp_triple E (serve E S now r rt) (\<lambda>_. True)"
proof (cases "is_route rt \<and> \<not> (needs_csrf rt \<and> \<not> si_csrf S r)")
  case True
  note h = handle_steps [OF conjunct1 [OF True] assms]
  have a: "cp_triple E (status_http (with_admin E (si_admin S) now r
      (State_Monad.bind (handle E S now r None rt) (\<lambda>x. State_Monad.return (http_status x))))) (\<lambda>_. True)"
    by (rule cp_rules io_rules h)+
  have c: "(needs_csrf rt \<and> \<not> si_csrf S r) = False" "(\<not> is_route rt) = False" using True by simp_all
  show ?thesis unfolding serve_def c if_False
    by (cases "guard_of rt") (simp_all add: a h bearerAuth_steps JWTAuth_steps)
next
  case False
  then have "\<exists>st m. serve E S now r rt = State_Monad.return (Error st m)" unfolding serve_def by auto
  then show ?thesis by (elim exE) (simp only:, rule cp_rules, rule TrueI)
qed

lemma Reconcile_steps [io_rules]: "cp_triple E (Reconcile E) (\<lambda>_. True)"
proof -
  have "cp_triple E (upsert_call E sub ip) (\<lambda>_. True)" for sub ip unfolding UpsertRoute_def by (rule cp_rules cp_ext)+
  then have "cp_triple E (reconcile_routes (upsert_call E) ts res) (\<lambda>_. True)" for ts res
    by (induction "upsert_call E" ts res rule: reconcile_routes.induct) (simp_all only: reconcile_routes.simps, (rule cp_rules | assumption | simp)+)
  then show ?thesis unfolding Reconcile_def by (intro steps.t_control io_rules) auto
qed

lemma cp_run: "cp_triple E m (\<lambda>_. True) \<Longrightarrow> projects_ok (w_db w) \<Longrightarrow> cp_steps E (w_db w) (w_db (snd (run_state m w)))"
  by (rule triple_run [where R = "rel_db (cp_steps E)" and I = "on_db projects_ok"]) auto

lemma advance_steps:
  assumes "sane_event ev" "projects_ok (w_db w)"
  shows "sys_steps E (w_db w) (w_db (advance E S ev w)) \<and> projects_ok (w_db (advance E S ev w))"
proof (cases "\<exists>now. ev = Clock now")
  case True
  then show ?thesis using perform_sys_steps [of "EvTime _" w] assms(2) by auto
next
  case False
  have "cp_steps E (w_db w) (w_db (advance E S ev w))"
  proof (cases ev)
    case (RunJob i)
    show ?thesis unfolding RunJob advance.simps by (rule cp_run [OF perform_steps]) (simp_all add: assms(2))
  next
    case (Request now r rt)
    then show ?thesis using assms by (auto intro!: cp_run serve_steps)
  qed (use False assms(2) in \<open>auto intro!: cp_run io_rules split: option.split\<close>)
  then show ?thesis using assms(2) by (auto intro: cp_sys_steps projects_ok_steps)
qed

lemma run_site_steps:
  "list_all sane_event evs \<Longrightarrow> projects_ok (w_db w) \<Longrightarrow> sys_steps E (w_db w) (w_db (run_site E S evs w))"
proof (induction evs arbitrary: w)
  case (Cons ev evs)
  then show ?case using advance_steps [of ev w E S] by (auto intro: rtranclp_trans)
qed simp

section \<open>Properties of every run\<close>

text \<open>A sample site with its API token, and a day on it: a user signs in, makes a station and loses it; the API token is tried.\<close>

definition sample_admin :: admin_handler where
  "sample_admin = \<lparr>ad_auth = sample_aa, ad_audit = True, ad_prov = th_prov (sy_tenants sample_system), ad_wg = None\<rparr>"

definition sample_site :: site where
  "sample_site = \<lparr>si_core = sample_system, si_api_token = ''token'', si_auth = auth_NewHandler ''secret'' [] True, si_wg = None,
     si_stations = \<lparr>sh_audit = True, sh_poller = True, sh_tenants = True\<rparr>, si_caddy = True, si_mapped4 = (\<lambda>_. None), si_admin = sample_admin, si_csrf = (\<lambda>_. True)\<rparr>"

definition no_header :: http_request where
  "no_header = \<lparr>hr_authorization = [], hr_registration = [], hr_cookie = (\<lambda>_. None)\<rparr>"

definition site_day :: "site_event list" where
  "site_day = [StartCaddy, Request 0 (bearer ''tok'') (Core (EvUserCreate None (Some sample_request))), Clock 8, RunJob 0, PollPass 9,
     Request 10 (bearer ''tok'') (Core (EvUserSuspend None ''t1'')), Request 11 no_header (Core (EvTenantDelete ''t3'')),
     Request 12 (bearer ''token'') (Core (EvTenantDelete ''t4'')), JanitorPass 13,
     Request 14 no_header (AdminUI (ATenantSuspend ''t1'')), Request 15 no_header (AdminUI (ARegisterBegin ''setup''))]"

lemma site_day_sane: "list_all sane_event site_day"
  by (simp add: site_day_def)

text \<open>
  C2: In every state the server reaches from one that satisfies the invariant \<open>db_inv\<close> of the tables, without a request of the API that
  creates or updates a project with a negative amount of RAM (\<open>sane_event\<close>), in whatever order the requests, jobs, webhooks, poller and janitor passes and start-up
  tasks come, whoever sends the requests and whichever database statements and outside calls fail or lose their reply: no node has less
  than zero or more than its total RAM allocated, no two tenants that are not deleted share a name or
  a subdomain, tenant ids are unique, and every tenant (deleted ones too) refers to a node and a project that
  exist. The condition on the requests is needed: the handlers accept a negative amount (\<open>negative_ram_is_accepted\<close>).
\<close>

theorem site_states_sound:
  assumes "db_inv (w_db w)" and "list_all sane_event evs"
    and d: "d = w_db (run_site E S evs w)"
  shows "(\<forall>n\<in>set (nodes d). 0 \<le> nd_allocated_ram_mb n \<and> nd_allocated_ram_mb n \<le> nd_total_ram_mb n)
    \<and> distinct (map tn_id (tenants d))
    \<and> (\<forall>t\<in>set (tenants d). \<forall>u\<in>set (tenants d). tn_id t \<noteq> tn_id u \<and> tn_status t \<noteq> Deleted \<and> tn_status u \<noteq> Deleted
         \<longrightarrow> tn_name t \<noteq> tn_name u \<and> tn_subdomain t \<noteq> tn_subdomain u)
    \<and> (\<forall>t\<in>set (tenants d). tn_node_id t \<in> nd_id ` set (nodes d) \<and> tn_project_id t \<in> pr_id ` set (projects d))"
proof -
  have "projects_ok (w_db w)" using assms(1) by (simp add: db_inv_def)
  from db_inv_sys_steps [OF run_site_steps [OF assms(2) this] assms(1)] have "db_inv d" by (simp add: d)
  then have "nodes_ok d" "tenants_ok d" "refs_ok d" by (auto simp: db_inv_def)
  then show ?thesis
    unfolding nodes_ok_def node_ok_def tenants_ok_def refs_ok_def live_def by (simp add: image_iff)
qed

theorem site_states_sound_witness:
  "db_inv (w_db sample_w) \<and> list_all sane_event site_day
   \<and> list_all (\<lambda>n. nd_allocated_ram_mb n \<le> nd_total_ram_mb n) (nodes (w_db (run_site sample_E sample_site site_day sample_w)))"
  using site_states_sound [of sample_w site_day _ sample_E sample_site] site_day_sane sample_inv(1)
  by (simp add: sample_fields(1)) (simp add: list_all_iff)

text \<open>
  C17: The history of a tenant in every run of the server that begins with no project of negative RAM and in which no request of the API
  creates or updates one with a negative amount (\<open>sane_event\<close>): its row never disappears, its id, project, node, subdomain and
  owner never change, its status has moved only along the arrows of the life cycle, and a tenant that is
  deleted stays deleted.
\<close>

theorem site_tenant_history:
  assumes "projects_ok (w_db w)" and "list_all sane_event evs" and "t \<in> set (tenants (w_db w))"
  shows "\<exists>t'\<in>set (tenants (w_db (run_site E S evs w))).
           tn_id t' = tn_id t \<and> tn_project_id t' = tn_project_id t \<and> tn_node_id t' = tn_node_id t
           \<and> tn_subdomain t' = tn_subdomain t \<and> tn_owner_id t' = tn_owner_id t
           \<and> status_step\<^sup>*\<^sup>* (tn_status t) (tn_status t')
           \<and> (tn_status t = Deleted \<longrightarrow> tn_status t' = Deleted)"
  using rows_sys_steps [OF run_site_steps [OF assms(2,1)] assms(3)] deleted_steps
  unfolding evolved_def by blast

theorem site_tenant_history_witness:
  "\<exists>t'\<in>set (tenants (w_db (run_site sample_E sample_site site_day sample_w))).
     tn_id t' = ''t4'' \<and> tn_node_id t' = ''n1'' \<and> status_step\<^sup>*\<^sup>* Errored (tn_status t')"
  using site_tenant_history [of sample_w site_day "sample_tenant ''t4'' Errored None None" sample_E sample_site]
  by (auto simp: sample_simps site_day_sane sample_t4)

section \<open>Who is let in\<close>

lemma bearer_prefix: "has_prefix h ''Bearer '' \<Longrightarrow> trim_prefix h ''Bearer '' = t \<Longrightarrow> h = ''Bearer '' @ t"
  by (metis append_take_drop_id has_prefix_def trim_prefix_def)

lemma bearerAuth_refused:
  assumes "hr_authorization r \<noteq> ''Bearer '' @ token"
  shows "\<exists>m. run_state (bearerAuth token r next) w = (Error 401 m, w)"
proof -
  from assms bearer_prefix [of "hr_authorization r" token]
  have "hr_authorization r = [] \<or> \<not> has_prefix (hr_authorization r) ''Bearer '' \<or> trim_prefix (hr_authorization r) ''Bearer '' \<noteq> token"
    by blast
  then show ?thesis by (simp only: bearerAuth_def Let_def split: if_split) auto
qed

interpretation calm: effect_logic "\<lambda>_. True" untouched
  by unfold_locales (auto simp: untouched_def)

lemma calm_query: "triple (\<lambda>_. True) untouched (db_call E (query f)) (\<lambda>_. True)"
  using db_call_db [of E "query f"] by (auto simp: triple_def untouched_def query_def)

definition jwt_verdict :: "(nat \<times> string) + user \<Rightarrow> bool" where
  "jwt_verdict x \<longleftrightarrow> (case x of Inl (s, m) \<Rightarrow> s \<in> {401, 500} | Inr u \<Rightarrow> True)"

lemma jwt_user_calm: "triple (\<lambda>_. True) untouched (jwt_user E ts secret now r) jwt_verdict"
  unfolding jwt_user_def IsRevoked_def user_GetByID_def
  by (rule calm.t_control calm_query TrueI | simp add: jwt_verdict_def split: sum.split option.split)+

lemma jwt_user_frame: "run_state (jwt_user E ts secret now r) w = (x, w') \<Longrightarrow> untouched w w' \<and> jwt_verdict x"
  using triple_run [OF jwt_user_calm] triple_val [OF jwt_user_calm] by (metis fst_conv snd_conv)


lemma untouched_refl: "untouched w w"
  by (simp add: untouched_def)

text \<open>
  C7: Nobody gets past the middleware without credentials. A request for a route of the administrators' API that does not carry exactly the
  API token is answered 401; one for a page of the admin UI without a valid session is sent to the login page, or refused for its CSRF token; one
  for a route of a user whose token \<open>JWTAuth\<close> does not accept is answered 401 or 500; and what is no route is answered 404. In all these
  cases neither the tables nor the outside systems nor the jobs are touched.
\<close>

theorem unauthenticated_requests_do_nothing:
  assumes "run_state (serve E S now r rt) w = (resp, w')"
    and "is_route rt \<longrightarrow> (guard_of rt = ApiToken \<and> hr_authorization r \<noteq> ''Bearer '' @ si_api_token S)
      \<or> (guard_of rt = AdminSession \<and> \<not> session_ok E (ad_auth (si_admin S)) now r)
      \<or> (guard_of rt = UserToken \<and> (\<forall>u. fst (run_state (jwt_user E True (ah_jwt_secret (si_auth S)) now r) w) \<noteq> Inr u))"
  shows "untouched w w' \<and> http_status resp \<in> (if \<not> is_route rt then {404} else if guard_of rt = ApiToken then {401}
      else if guard_of rt = AdminSession then {303, 400} else {401, 500})"
proof (cases "is_route rt")
  case False
  then show ?thesis using assms(1) by (auto simp: serve_def untouched_refl)
next
  case True
  with assms(2) consider (api) "guard_of rt = ApiToken" "hr_authorization r \<noteq> ''Bearer '' @ si_api_token S"
    | (admin) "guard_of rt = AdminSession" "\<not> session_ok E (ad_auth (si_admin S)) now r"
    | (user) "guard_of rt = UserToken" "\<forall>u. fst (run_state (jwt_user E True (ah_jwt_secret (si_auth S)) now r) w) \<noteq> Inr u"
    by blast
  then show ?thesis
  proof cases
    case api
    from bearerAuth_refused [OF api(2)] obtain m where
      "run_state (bearerAuth (si_api_token S) r (handle E S now r None rt)) w = (Error 401 m, w)" by blast
    then show ?thesis using assms(1) True by (auto simp: serve_def untouched_refl api(1) csrf_guards)
  next
    case admin
    then show ?thesis using assms(1) True
      by (cases "si_csrf S r") (auto simp: serve_def with_admin_refused status_http_def untouched_refl split: if_splits)
  next
    case user
    obtain x w1 where x: "run_state (jwt_user E True (ah_jwt_secret (si_auth S)) now r) w = (x, w1)" by fastforce
    with user(2) obtain s m where "x = Inl (s, m)" by (cases x) auto
    with jwt_user_frame [OF x] x assms(1) True user(1) csrf_guards(2) [OF user(1)] show ?thesis
      by (auto simp: serve_def JWTAuth_def jwt_verdict_def)
  qed
qed

theorem unauthenticated_requests_do_nothing_witness:
  "untouched sample_w (snd (run_state (serve sample_E sample_site 11 no_header (AdminUI (ATenantSuspend ''t1''))) sample_w))"
proof -
  let ?run = "run_state (serve sample_E sample_site 11 no_header (AdminUI (ATenantSuspend ''t1''))) sample_w"
  have "guard_of (AdminUI (ATenantSuspend ''t1'')) = AdminSession" "\<not> session_ok sample_E (ad_auth (si_admin sample_site)) 11 no_header"
    by (simp_all add: session_ok_def no_header_def)
  then show ?thesis using unauthenticated_requests_do_nothing [of sample_E sample_site 11 no_header "AdminUI (ATenantSuspend ''t1'')" sample_w "fst ?run" "snd ?run"]
    by (simp only: prod.collapse) blast
qed

section \<open>The server of a configuration\<close>

text \<open>
  \<open>New\<close>: what the configuration makes of the parts. The parameters are the libraries: whether the SSH key can be used, how a
  Stripe webhook is verified and read, how IPv6 prefixes and QR codes are written, and the passkeys.
\<close>

record libraries =
  lb_ssh_key :: "string \<Rightarrow> bool"
  lb_webhooks :: "string \<Rightarrow> string \<Rightarrow> string \<Rightarrow> (string \<times> json) res"
  lb_text6 :: "prefix \<Rightarrow> string \<times> string"
  lb_qr :: "string \<Rightarrow> string res"
  lb_mapped4 :: "string \<Rightarrow> ipv4 option"
  lb_login :: login_lib
  lb_csrf :: "http_request \<Rightarrow> bool"

definition server_provisioner :: "libraries \<Rightarrow> config \<Rightarrow> provisioner_cfg" where
  "server_provisioner L c =
     (let p1 = WithStationCreator (cf_caddy_domain c) (New (cf_encryption_key c));
          p2 = (if cf_ssh_key_path c \<noteq> [] \<and> lb_ssh_key L (cf_ssh_key_path c) then WithSSHClient p1 else p1);
          p3 = WithTopology (cf_lxc_bridge c) (cf_tenant_mount_root c) (cf_tenant_app_dir c) p2;
          p4 = (if cf_free_radio_repo_url c \<noteq> [] then WithFreeRadioRepo (cf_free_radio_repo_url c) (cf_free_radio_repo_branch c) p3 else p3)
      in if cf_caddy_admin_url c \<noteq> [] then WithCaddyClient p4 else p4)"

definition server_wireguard :: "libraries \<Rightarrow> config \<Rightarrow> wg_handler option" where
  "server_wireguard L c =
     (if cf_wg_hub_public_key c = [] then None
      else Some \<lparr>wh_service = WithKeepalive (cf_wg_keepalive c) (WithDNSAddr (cf_wg_dns_addr c) (WithInterface (cf_wg_interface c)
                    (wg_NewService (cf_encryption_key c) (cf_wg_hub_public_key c) (cf_wg_hub_endpoint c) (cf_wg_network_cidr c)))),
                 wh_audit = True, wh_text6 = lb_text6 L, wh_qr = lb_qr L\<rparr>)"

definition server_New :: "libraries \<Rightarrow> config \<Rightarrow> site" where
  "server_New L c =
     (let prov = server_provisioner L c; th = \<lparr>th_audit = True, th_prov = prov\<rparr>; wg = server_wireguard L c
      in \<lparr>si_core = \<lparr>sy_tenants = th, sy_users = NewUserHandler th (cf_sso_domain c) (cf_sso_scheme c),
            sy_nodes = \<lparr>nh_audit = True, nh_encryption_key = cf_encryption_key c, nh_provisioner = True\<rparr>,
            sy_billing = (if cf_stripe_secret_key c \<noteq> [] then Some (NewService (cf_stripe_webhook_secret c) (cf_stripe_prices c)) else None),
            sy_webhooks = construct_event (lb_webhooks L), sy_audit = True\<rparr>,
          si_api_token = cf_api_token c,
          si_auth = auth_NewHandler (cf_jwt_secret c) (cf_registration_token c) (cf_cookie_secure c),
          si_wg = wg,
          si_stations = \<lparr>sh_audit = True, sh_poller = True, sh_tenants = True\<rparr>,
          si_caddy = (cf_caddy_admin_url c \<noteq> []),
          si_mapped4 = lb_mapped4 L,
          si_admin = \<lparr>ad_auth = \<lparr>aa_encryption_key = cf_encryption_key c, aa_setup_token = cf_setup_token c, aa_lib = lb_login L\<rparr>,
            ad_audit = True, ad_prov = prov, ad_wg = wg\<rparr>,
          si_csrf = lb_csrf L\<rparr>)"

text \<open>A loaded configuration has an API token, so no request gets through with an empty one.\<close>

lemma loaded_server_has_token:
  assumes "Load parse getenv = Inr c"
  shows "si_api_token (server_New L c) = getenv ''API_TOKEN'' \<and> si_api_token (server_New L c) \<noteq> []"
proof -
  have "cf_api_token c = getenv ''API_TOKEN''" "list_all (\<lambda>v. getenv v \<noteq> []) required_vars"
    using assms by (auto simp: Load_cases config_of_def filter_empty_conv list_all_iff split: list.splits)
  then show ?thesis by (simp add: server_New_def Let_def required_vars_def)
qed

end
