(* ===== verification/CP_Isolation.thy ===== *)
theory CP_Isolation
  imports CP_Server
begin

text \<open>
  Whose tenants a request can touch. \<open>others uid\<close> is what the table of tenants holds for everybody but the user \<open>uid\<close>, and
  \<open>owns uid tid\<close> says that no row with the id \<open>tid\<close> belongs to somebody else. Every statement of the user's handlers keeps both,
  so the handlers do, whatever each statement and call returns.
\<close>

named_theorems own_rules \<open>operations on the tenants of one user\<close>

definition others :: "string \<Rightarrow> db \<Rightarrow> tenant list" where
  "others uid d = filter (\<lambda>t. tn_owner_id t \<noteq> Some uid) (tenants d)"

definition owns :: "string \<Rightarrow> string \<Rightarrow> db \<Rightarrow> bool" where
  "owns uid tid d \<longleftrightarrow> (\<forall>t\<in>set (tenants d). tn_id t = tid \<longrightarrow> tn_owner_id t = Some uid)"

abbreviation same_others :: "string \<Rightarrow> db \<Rightarrow> db \<Rightarrow> bool" where
  "same_others uid d d' \<equiv> others uid d' = others uid d"

lemma owns_stable: "same_others uid d d' \<Longrightarrow> owns uid tid d \<Longrightarrow> owns uid tid d'"
proof -
  assume a: "same_others uid d d'" "owns uid tid d"
  show "owns uid tid d'" unfolding owns_def
  proof (intro ballI impI, rule ccontr)
    fix t
    assume "t \<in> set (tenants d')" "tn_id t = tid" "tn_owner_id t \<noteq> Some uid"
    then have "t \<in> set (others uid d')" by (simp add: others_def)
    then have "t \<in> set (others uid d)" using a(1) by simp
    with a(2) \<open>tn_id t = tid\<close> show False by (auto simp: owns_def others_def)
  qed
qed

interpretation own: db_logic "owns uid tid" "same_others uid" for uid tid
  by unfold_locales (auto intro: owns_stable)

abbreviation own_triple :: "string \<Rightarrow> string \<Rightarrow> 'a cp \<Rightarrow> bool" where
  "own_triple uid tid m \<equiv> triple (on_db (owns uid tid)) (rel_db (same_others uid)) m (\<lambda>_. True)"

lemma own_stmt: "(\<And>d. owns uid tid d \<Longrightarrow> same_others uid d (snd (s d))) \<Longrightarrow> own_triple uid tid (db_call E s)"
  by (rule triple_weaken [OF own.t_stmt [where V = "\<lambda>_. True"]]) auto

lemma own_other_tables: "(\<And>d. tenants (snd (s d)) = tenants d) \<Longrightarrow> own_triple uid tid (db_call E s)"
  by (rule own_stmt) (simp add: others_def)

lemma own_query: "own_triple uid tid (db_call E (query f))"
  by (rule own_other_tables) (simp add: query_def)

text \<open>An update of the rows of \<open>tid\<close> that keeps their owner.\<close>

lemma same_others_update:
  assumes "owns uid tid d" "\<And>t. P t \<Longrightarrow> tn_id t = tid" "\<And>t. tn_owner_id (f t) = tn_owner_id t"
  shows "same_others uid d (snd (update_tenants P f d))"
proof -
  have "filter (\<lambda>t. tn_owner_id t \<noteq> Some uid) (update_where P (\<lambda>t. (f t)\<lparr>tn_updated_at := db_now d\<rparr>) ts)
      = filter (\<lambda>t. tn_owner_id t \<noteq> Some uid) ts" if "set ts \<subseteq> set (tenants d)" for ts
    using that assms by (induction ts) (auto simp: update_where_def owns_def)
  then show ?thesis by (simp add: others_def tenants_update_tenants)
qed

lemma own_move:
  "(\<And>t. P t \<Longrightarrow> tn_id t = tid) \<Longrightarrow> (\<And>t. tn_owner_id (f t) = tn_owner_id t)
   \<Longrightarrow> own_triple uid tid (exec_rows E m e (update_tenants P f))"
  unfolding exec_rows_def by (intro own.t_control own_stmt same_others_update TrueI)

lemma own_statuses [own_rules]:
  "own_triple uid tid (SetSuspended E tid)" "own_triple uid tid (SetResumed E tid)" "own_triple uid tid (SetDeleting E tid)"
  "own_triple uid tid (SetDeleted E tid)" "own_triple uid tid (SetError E tid m)"
  unfolding SetSuspended_def SetResumed_def SetDeleting_def SetDeleted_def SetError_def
  by (rule own_move, auto simp: cas_def)+

lemma own_ram [own_rules]: "own_triple uid tid (ReserveRAM E nid r)" "own_triple uid tid (ReleaseRAM E nid r)"
  unfolding ReserveRAM_def ReleaseRAM_def
  by (rule own.t_control own_other_tables TrueI
    | auto simp: reserve_ram_def release_ram_def update_node_def Let_def split: option.split sum.split)+

lemma own_reads [own_rules]:
  "own_triple uid tid (tenant_GetByID E i)" "own_triple uid tid (ListByOwnerID E u)" "own_triple uid tid (CountByOwnerID E u)"
  "own_triple uid tid (GetBillingByOwnerID E u)" "own_triple uid tid (node_GetByID E i)"
  "own_triple uid tid (node_GetEncryptedTokenByID E i)" "own_triple uid tid (node_GetLeastLoaded E r)"
  "own_triple uid tid (project_GetByID E i)" "own_triple uid tid (project_GetDefault E)"
  unfolding tenant_GetByID_def ListByOwnerID_def CountByOwnerID_def GetBillingByOwnerID_def node_GetByID_def
    node_GetEncryptedTokenByID_def node_GetLeastLoaded_def project_GetByID_def project_GetDefault_def
  by (rule own.t_control own_query own_other_tables TrueI | simp add: least_loaded_def Let_def)+

lemma own_audit [own_rules]: "own_triple uid tid (audit_Log E a ty i x)"
  unfolding audit_Log_def by (rule own.t_control own_other_tables TrueI | simp add: insert_audit_def Let_def)+

lemma own_pure: "(\<And>w. w_db (snd (run_state m w)) = w_db w) \<Longrightarrow> own_triple uid tid m"
  by (simp add: triple_def)

lemma own_client [own_rules]:
  "own_triple uid tid (cached_client nid)" "own_triple uid tid (store_client nid c)" "own_triple uid tid (Provision t n p s r)"
  by (auto intro!: own_pure simp: cached_client_def store_client_def Provision_def)

text \<open>The rules in the order they are tried.\<close>

lemmas own_control = own.t_control own.t_ext own.t_ext_val TrueI

lemma own_getClient [own_rules]: "own_triple uid tid (getClient E cfg nid)"
  unfolding getClient_def by (rule own_control own_rules)+

lemma own_containers [own_rules]:
  "own_triple uid tid (provisioner_Suspend E cfg nid l)" "own_triple uid tid (provisioner_Resume E cfg nid l)"
  "own_triple uid tid (stop_and_wait E c l)" "own_triple uid tid (delete_container E c l)"
  unfolding provisioner_Suspend_def provisioner_Resume_def stop_and_wait_def delete_container_def by (rule own_control own_rules)+

lemma own_Deprovision [own_rules]: "own_triple uid tid (Deprovision E cfg tid nid sub l ram)"
  unfolding Deprovision_def by (rule own_control own_rules)+

lemma own_log [own_rules]:
  "own_triple uid tid (log_if E on a ty i x)" "own_triple uid tid (lifecycle_audit E s a i x)"
  unfolding log_if_def lifecycle_audit_def by (rule own_control own_rules)+

lemma own_lifecycle_Delete [own_rules]: "tn_id t = tid \<Longrightarrow> own_triple uid tid (lifecycle_Delete E s t u)"
  unfolding lifecycle_Delete_def tear_down_def by (simp only: , (rule own_control own_rules)+)

lemma own_do [own_rules]:
  "own_triple uid tid (do_suspend E h tid t x)" "own_triple uid tid (do_resume E h tid t x)"
  "tn_id t = tid \<Longrightarrow> own_triple uid tid (do_delete E h t u)"
  unfolding do_suspend_def do_resume_def do_delete_def by (rule own_control own_rules | assumption)+

text \<open>A new tenant of the user.\<close>

lemma own_CreateWithOwner [own_rules]: "own_triple uid tid (CreateWithOwner E req uid)"
  unfolding CreateWithOwner_def
proof (rule own.t_seq)
  show "own_triple uid tid (db_call E (insert_tenant E req (Some uid)))"
    by (rule own_stmt) (auto simp: insert_tenant_def others_def Let_def)
qed (rule own_control)+

lemma own_lifecycle_Create [own_rules]:
  "cr_owner_id params = uid \<Longrightarrow> uid \<noteq> [] \<Longrightarrow> own_triple uid tid (lifecycle_Create E s params u)"
  unfolding lifecycle_Create_def createRecord_def by (simp only: if_False, (rule own_control own_rules)+)

section \<open>The routes of a user\<close>

lemma own_auth_stmt: "auth_stmt s \<Longrightarrow> own_triple uid tid (db_call E s)"
  by (rule own_other_tables) (simp add: auth_stmt_def)

lemma own_auth [own_rules]:
  "own_triple uid tid (user_GetByID E i)" "own_triple uid tid (UpdatePassword E i h)" "own_triple uid tid (Revoke E jti i x)"
  "own_triple uid tid (GenerateRefreshToken E)" "own_triple uid tid (CreateRefreshToken E i h x)"
  "own_triple uid tid (RevokeRefreshToken E h)" "own_triple uid tid (RevokeAllUserRefreshTokens E i)"
  unfolding user_GetByID_def UpdatePassword_def Revoke_def GenerateRefreshToken_def CreateRefreshToken_def RevokeRefreshToken_def
    RevokeAllUserRefreshTokens_def
  by (rule own_control own_query own_auth_stmt auth_stmts)+

lemma own_tokens [own_rules]: "own_triple uid tid (respond_tokens E h now u s m)"
  unfolding respond_tokens_def issueTokenPair_def generateAccessToken_def new_uuid_def
  by (rule own_control own_rules own_pure | simp add: Let_def)+

lemma own_account [own_rules]:
  "own_triple uid tid (Logout E h now r cu v)" "own_triple uid tid (ChangePassword E h now cu b)"
  unfolding Logout_def ChangePassword_def by (rule own_control own_rules)+

lemma own_billing [own_rules]:
  "own_triple uid tid (CreateCheckout E svc cu cb)" "own_triple uid tid (CreatePortal E svc pu pb)" "own_triple uid tid (billing_Status E svc su)"
  unfolding CreateCheckout_def CreateCheckoutSession_def CreatePortal_def CreateCustomerPortalSession_def billing_Status_def
  by (rule own_control own_rules)+

lemma own_user_reads [own_rules]:
  "own_triple uid tid (user_h_List E cu)" "uid \<noteq> [] \<Longrightarrow> own_triple uid tid (user_h_Create E uh (Some uid) b)"
  unfolding user_h_List_def user_h_Create_def as_user_def option.case by (rule own_control own_rules | simp)+

lemma own_with_tenant:
  assumes "distinct (map tn_id (tenants (w_db w)))" "\<And>t. tn_id t = tid \<Longrightarrow> own_triple uid tid (k uid t)"
  shows "same_others uid (w_db w) (w_db (snd (run_state (with_own_tenant E (Some uid) tid k) w)))"
proof -
  obtain g w1 where g: "run_state (tenant_GetByID E tid) w = (g, w1)" by fastforce
  note q = GetByID_run [OF g]
  show ?thesis
  proof (cases "\<exists>t. ValidUUID E tid \<and> g = Inr (Some t) \<and> tn_owner_id t = Some uid")
    case True
    then obtain t where t: "ValidUUID E tid" "g = Inr (Some t)" "tn_owner_id t = Some uid" by blast
    with q have row: "tenant_row (w_db w) tid = Some t" by auto
    from tenant_row_in [OF this] have mem: "t \<in> set (tenants (w_db w))" "tn_id t = tid" by auto
    have "owns uid tid (w_db w1)" unfolding owns_def
    proof (intro ballI impI)
      fix v
      assume "v \<in> set (tenants (w_db w1))" "tn_id v = tid"
      with mem assms(1) q have "v = t" by (auto simp: distinct_map inj_on_def)
      then show "tn_owner_id v = Some uid" using t by simp
    qed
    moreover have "w_db w1 = w_db w" using q by simp
    ultimately show ?thesis using triple_run [OF assms(2) [OF mem(2)], of w1] t g
      by (simp add: with_own_tenant_def as_user_def with_tenant_def)
  next
    case False
    then show ?thesis using q g
      by (cases g) (auto simp: with_own_tenant_def as_user_def with_tenant_def split: option.split)
  qed
qed

lemma own_run:
  assumes "\<And>tid. own_triple uid tid m"
  shows "same_others uid (w_db w) (w_db (snd (run_state m w)))"
proof -
  obtain tid where "tid \<notin> set (map tn_id (tenants (w_db w)))"
    using ex_new_if_finite [OF infinite_UNIV_listI finite_set] by blast
  then have "owns uid tid (w_db w)" by (auto simp: owns_def)
  from triple_run [OF assms this] show ?thesis .
qed

lemma user_event_isolated:
  assumes "event_guard ev = UserToken" "ur_id u \<noteq> []" "distinct (map tn_id (tenants (w_db w)))"
  shows "same_others (ur_id u) (w_db w) (w_db (snd (run_state (perform E S (in_context (Some u) ev)) w)))"
proof -
  have st: "w_db (snd (run_state (State_Monad.bind m (\<lambda>r. State_Monad.return (http_status r))) w)) = w_db (snd (run_state m w))" for m :: "'a http cp"
    by (simp add: case_prod_unfold)
  note own = own_with_tenant [OF assms(3)]
  show ?thesis
  proof (cases ev)
    case (EvUserGet v tid)
    then show ?thesis unfolding EvUserGet in_context.simps perform.simps user_h_Get_def option.map st by (intro own) (rule own_control)+
  next
    case (EvUserDelete v tid)
    then show ?thesis unfolding EvUserDelete in_context.simps perform.simps user_h_Delete_def option.map st by (intro own own_rules)
  next
    case (EvUserSuspend v tid)
    then show ?thesis unfolding EvUserSuspend in_context.simps perform.simps user_h_Suspend_def option.map st by (intro own own_rules)
  next
    case (EvUserResume v tid)
    then show ?thesis unfolding EvUserResume in_context.simps perform.simps user_h_Resume_def option.map st by (intro own own_rules)
  next
    case (EvUserSSO now v tid)
    then show ?thesis unfolding EvUserSSO in_context.simps perform.simps user_h_SSOToken_def option.map st by (intro own) (rule own_control)+
  qed (use assms in \<open>simp_all only: in_context.simps perform.simps option.map st event_guard.simps guard.distinct\<close>,
      (intro own_run own_rules | assumption)+)
qed

text \<open>
  C6: A signed-in user can change no tenant of anybody else. Whatever a request with a user's token asks for, through every route that takes
  such a token, whatever the database and the other systems answer: the rows of all tenants that are not the user's, those
  without an owner among them, are afterwards exactly what they were, and none has been added or taken away.
\<close>

theorem user_requests_touch_own_tenants:
  assumes "guard_of rt = UserToken" "run_state (jwt_user E True (ah_jwt_secret (si_auth S)) now r) w = (Inr u, w1)"
    and "ur_id u \<noteq> []" "distinct (map tn_id (tenants (w_db w)))" "run_state (serve E S now r rt) w = (resp, w')"
  shows "filter (\<lambda>t. tn_owner_id t \<noteq> Some (ur_id u)) (tenants (w_db w')) = filter (\<lambda>t. tn_owner_id t \<noteq> Some (ur_id u)) (tenants (w_db w))"
proof (cases "is_route rt")
  case False
  then show ?thesis using assms(5) by (auto simp: serve_def)
next
  case True
  have db: "w_db w1 = w_db w" using jwt_user_frame [OF assms(2)] by (simp add: untouched_def)
  have w': "w' = snd (run_state (handle E S now r (Some u) rt) w1)"
    using assms(1,2,5) True by (simp add: serve_def JWTAuth_def csrf_guards(2) [OF assms(1)])
  have "same_others (ur_id u) (w_db w1) (w_db w')"
  proof (cases rt)
    case (Core ev)
    then show ?thesis unfolding w' using user_event_isolated [of ev u w1 E "si_core S"] assms(1,3,4) db
      by (simp add: case_prod_unfold)
  next
    case (AdminUI a)
    then show ?thesis using assms(1) by (simp split: if_splits)
  qed (use assms(1) in \<open>simp_all only: w' handle.simps guard_of.simps guard.distinct\<close>, (rule own_run own_control own_rules)+)
  then show ?thesis by (simp add: others_def db)
qed

theorem user_requests_touch_own_tenants_witness:
  "filter (\<lambda>t. tn_owner_id t \<noteq> Some ''alice'')
     (tenants (w_db (snd (run_state (serve sample_E sample_site 10 (bearer ''tok'') (Core (EvUserSuspend None ''t1''))) sample_w))))
   = [sample_tenant ''t2'' Provisioning None (Some ''bob''), sample_tenant ''t3'' Suspended (Some 103) None,
      sample_tenant ''t4'' Errored None None]"
proof -
  let ?jwt = "run_state (jwt_user sample_E True (ah_jwt_secret (si_auth sample_site)) 10 (bearer ''tok'')) sample_w"
  have "fst ?jwt = Inr (sample_user ''alice'')" by code_simp
  then obtain w1 where j: "?jwt = (Inr (sample_user ''alice''), w1)" by (metis prod.collapse)
  have u: "ur_id (sample_user ''alice'') = ''alice''" by (simp add: sample_user_def)
  have d: "distinct (map tn_id (tenants (w_db sample_w)))" by code_simp
  have f: "filter (\<lambda>t. tn_owner_id t \<noteq> Some ''alice'') (tenants (w_db sample_w))
      = [sample_tenant ''t2'' Provisioning None (Some ''bob''), sample_tenant ''t3'' Suspended (Some 103) None,
         sample_tenant ''t4'' Errored None None]" by (simp add: sample_w_def sample_db_def sample_tenant_def)
  have g: "guard_of (Core (EvUserSuspend None ''t1'')) = UserToken" by simp
  obtain resp w' where r: "run_state (serve sample_E sample_site 10 (bearer ''tok'') (Core (EvUserSuspend None ''t1''))) sample_w = (resp, w')"
    by fastforce
  from user_requests_touch_own_tenants [OF g j _ d r] show ?thesis by (simp add: u f r)
qed

end
