(* ===== verification/CP_Proxmox.thy ===== *)
theory CP_Proxmox
  imports CP_Caddy CP_Json
begin

text \<open>
  The client of the Proxmox API (\<open>src/internal/proxmox\<close>): the envelope of a response, the cached node name, the operations on containers
  and the wait for a task. The server and the connection are outside the sources: a request is one \<open>send\<close>, a computation on
  the unknown state of the far side.
\<close>

section \<open>The envelope\<close>

datatype px_body =
    Unread go_error
  | NotJson go_error
  | Envelope "json option" "(string \<times> string) list"

record px_reply =
  pr_code :: int
  pr_reason :: string
  pr_content :: px_body

text \<open>\<open>decodeResponse\<close>; the body is cut off at 10 MB before it is parsed. \<open>zero\<close> is what the output holds when there is no data.\<close>

definition decodeResponse :: "(json \<Rightarrow> 'a option) \<Rightarrow> 'a \<Rightarrow> px_reply \<Rightarrow> 'a res" where
  "decodeResponse decode zero resp =
     (case pr_content resp of
        Unread e \<Rightarrow> Inl (Wrap ''read response body'' e)
      | NotJson e \<Rightarrow>
          if pr_code resp < 200 \<or> 300 \<le> pr_code resp then Inl (APIError (pr_code resp) (pr_reason resp) [])
          else Inl (Wrap ''decode response envelope'' e)
      | Envelope data errs \<Rightarrow>
          if pr_code resp < 200 \<or> 300 \<le> pr_code resp then Inl (APIError (pr_code resp) (pr_reason resp) errs)
          else if errs \<noteq> [] then Inl (APIError (pr_code resp) (pr_reason resp) errs)
          else (case data of
              None \<Rightarrow> Inr zero
            | Some j \<Rightarrow> (case decode j of None \<Rightarrow> Inl (Wrap ''decode response data'' (GoErr ''json'')) | Some x \<Rightarrow> Inr x)))"

section \<open>Requests\<close>

record px_request =
  rq_method :: string
  rq_url :: string
  rq_body :: "string option"

type_synonym 's px_send = "px_request \<Rightarrow> ('s, px_reply res) state"

text \<open>The client: where it sends to, and the node name it has found or been given.\<close>

record 's px =
  px_base_url :: string
  px_node :: string
  px_far :: 's

definition px_NewClient :: "string \<Rightarrow> string \<Rightarrow> 's \<Rightarrow> 's px" where
  "px_NewClient baseURL nodeName far = \<lparr>px_base_url = trim_right_char CHR ''/'' baseURL, px_node = nodeName, px_far = far\<rparr>"

definition apiURL :: "string \<Rightarrow> string \<Rightarrow> string" where
  "apiURL base path = base @ ''/api2/json/'' @ dropWhile (\<lambda>c. c = CHR ''/'') path"

fun text_before :: "string \<Rightarrow> string \<Rightarrow> bool" where
  "text_before [] t = True"
| "text_before (a # s) [] = False"
| "text_before (a # s) (b # t) = (code a < code b \<or> (a = b \<and> text_before s t))"

text \<open>\<open>url.Values.Encode\<close>: sorted by key.\<close>

definition encode_params :: "(string \<times> string) list \<Rightarrow> string" where
  "encode_params ps =
     strings_join ''&'' (map (\<lambda>(k, v). QueryEscape k @ ''='' @ QueryEscape v) (order_by (\<lambda>a b. text_before (fst a) (fst b)) ps))"

definition px_do :: "externals \<Rightarrow> 's px_send \<Rightarrow> string \<Rightarrow> (string \<Rightarrow> string) \<Rightarrow> string option \<Rightarrow> (px_reply \<Rightarrow> 'a res) \<Rightarrow> ('s px, 'a res) state" where
  "px_do E send meth url body k = State (\<lambda>c.
     case url_parse E (url (px_base_url c)) of
       None \<Rightarrow> (Inl (Wrap ''create request'' (GoErr ''url'')), c)
     | Some _ \<Rightarrow>
         (let (r, far) = run_state (send \<lparr>rq_method = meth, rq_url = url (px_base_url c), rq_body = body\<rparr>) (px_far c)
          in (case r of Inl e \<Rightarrow> Inl (Wrap ''execute request'' e) | Inr resp \<Rightarrow> k resp, c\<lparr>px_far := far\<rparr>)))"

definition px_get :: "externals \<Rightarrow> 's px_send \<Rightarrow> string \<Rightarrow> (json \<Rightarrow> 'a option) \<Rightarrow> 'a \<Rightarrow> ('s px, 'a res) state" where
  "px_get E send path decode zero = px_do E send ''GET'' (\<lambda>base. apiURL base path) None (decodeResponse decode zero)"

definition px_body_of :: "(string \<times> string) list \<Rightarrow> string option" where
  "px_body_of params = (if params \<noteq> [] then Some (encode_params params) else None)"

definition px_post :: "externals \<Rightarrow> 's px_send \<Rightarrow> string \<Rightarrow> (string \<times> string) list \<Rightarrow> ('s px, string res) state" where
  "px_post E send path params =
     px_do E send ''POST'' (\<lambda>base. apiURL base path) (px_body_of params) (decodeResponse (\<lambda>j. json_string (Some j)) [])"

definition px_delete :: "externals \<Rightarrow> 's px_send \<Rightarrow> string \<Rightarrow> (string \<times> string) list \<Rightarrow> ('s px, string res) state" where
  "px_delete E send path params =
     px_do E send ''DELETE'' (\<lambda>base. apiURL base path @ (if params \<noteq> [] then ''?'' @ encode_params params else [])) None
       (decodeResponse (\<lambda>j. json_string (Some j)) [])"

definition px_put :: "externals \<Rightarrow> 's px_send \<Rightarrow> string \<Rightarrow> (string \<times> string) list \<Rightarrow> ('s px, unit res) state" where
  "px_put E send path params =
     px_do E send ''PUT'' (\<lambda>base. apiURL base path) (px_body_of params) (decodeResponse (\<lambda>_. Some ()) ())"

section \<open>The node\<close>

definition node_entry :: "json \<Rightarrow> string option" where
  "node_entry j = Option.bind (json_fields j) (\<lambda>fs. json_string (map_of fs ''node''))"

definition discoverNodeName :: "externals \<Rightarrow> 's px_send \<Rightarrow> ('s px, string res) state" where
  "discoverNodeName E send = do {
     r \<leftarrow> px_get E send ''nodes'' (json_list node_entry) [];
     State_Monad.return (case r of
         Inl e \<Rightarrow> Inl (Wrap ''discover node name'' e)
       | Inr [] \<Rightarrow> Inl (GoErr ''discover node name: no nodes found'')
       | Inr (n # _) \<Rightarrow> Inr n) }"

definition set_node :: "string \<Rightarrow> ('s px, unit) state" where
  "set_node n = State (\<lambda>c. ((), c\<lparr>px_node := n\<rparr>))"

definition resolveNode :: "externals \<Rightarrow> 's px_send \<Rightarrow> ('s px, string res) state" where
  "resolveNode E send = do {
     c \<leftarrow> State_Monad.get;
     if px_node c \<noteq> [] then State_Monad.return (Inr (px_node c))
     else do {
       r \<leftarrow> discoverNodeName E send;
       case r of
         Inl e \<Rightarrow> State_Monad.return (Inl e)
       | Inr name \<Rightarrow> do {
           _ \<leftarrow> set_node name;
           State_Monad.return (Inr name) } } }"

definition NodeName :: "externals \<Rightarrow> 's px_send \<Rightarrow> ('s px, string res) state" where
  "NodeName E send = resolveNode E send"

definition with_node :: "externals \<Rightarrow> 's px_send \<Rightarrow> string \<Rightarrow> (string \<Rightarrow> ('s px, 'a res) state) \<Rightarrow> ('s px, 'a res) state" where
  "with_node E send act k = do {
     rn \<leftarrow> resolveNode E send;
     case rn of
       Inl e \<Rightarrow> State_Monad.return (Inl e)
     | Inr node \<Rightarrow> do {
         r \<leftarrow> k node;
         State_Monad.return (wrap_err act r) } }"

record node_status =
  ns_cpu :: string
  ns_memory_total :: int
  ns_memory_used :: int
  ns_memory_free :: int
  ns_uptime :: int
  ns_kernel :: string
  ns_pve :: string

definition node_status_of :: "json \<Rightarrow> node_status option" where
  "node_status_of j = Option.bind (json_fields j) (\<lambda>fs.
     Option.bind (case map_of fs ''memory'' of None \<Rightarrow> Some [] | Some m \<Rightarrow> json_fields m) (\<lambda>ms.
       case (json_float (map_of fs ''cpu''), json_int (map_of ms ''total''), json_int (map_of ms ''used''), json_int (map_of ms ''free''),
             json_int (map_of fs ''uptime''), json_string (map_of fs ''kversion''), json_string (map_of fs ''pveversion'')) of
         (Some cpu, Some mtot, Some used, Some free, Some up, Some kv, Some pv) \<Rightarrow>
           Some \<lparr>ns_cpu = cpu, ns_memory_total = mtot, ns_memory_used = used, ns_memory_free = free, ns_uptime = up,
                 ns_kernel = kv, ns_pve = pv\<rparr>
       | _ \<Rightarrow> None))"

definition zero_status :: node_status where
  "zero_status = \<lparr>ns_cpu = ''0'', ns_memory_total = 0, ns_memory_used = 0, ns_memory_free = 0, ns_uptime = 0, ns_kernel = [], ns_pve = []\<rparr>"

definition GetNodeStatus :: "externals \<Rightarrow> 's px_send \<Rightarrow> ('s px, node_status res) state" where
  "GetNodeStatus E send = with_node E send ''get node status'' (\<lambda>node.
     px_get E send (''nodes/'' @ node @ ''/status'') node_status_of zero_status)"

text \<open>The next free id is a string or a number; \<open>raw\<close> is missing when the response has no data.\<close>

definition parse_next_id :: "json option \<Rightarrow> int res" where
  "parse_next_id raw =
     (case raw of
        None \<Rightarrow> Inl (GoErr ''get next id: unexpected data format: '')
      | Some j \<Rightarrow>
          (case json_int (Some j) of
             Some i \<Rightarrow> Inr i
           | None \<Rightarrow>
               (case json_string (Some j) of
                  None \<Rightarrow> Inl (GoErr ''get next id: unexpected data format'')
                | Some s \<Rightarrow> (case atoi s of
                      None \<Rightarrow> Inl (Wrap (''get next id: parse '' @ go_quote s) (GoErr ''strconv.Atoi''))
                    | Some i \<Rightarrow> Inr i))))"

definition px_GetNextID :: "externals \<Rightarrow> 's px_send \<Rightarrow> ('s px, int res) state" where
  "px_GetNextID E send = do {
     r \<leftarrow> px_get E send ''cluster/nextid'' (\<lambda>j. Some (Some j)) None;
     State_Monad.return (case r of Inl e \<Rightarrow> Inl (Wrap ''get next id'' e) | Inr raw \<Rightarrow> parse_next_id raw) }"

section \<open>Containers\<close>

record container =
  ct_vmid :: int
  ct_label :: string
  ct_state :: string
  ct_cpu :: string
  ct_mem :: int
  ct_maxmem :: int
  ct_disk :: int
  ct_maxdisk :: int
  ct_uptime :: int
  ct_template :: int

definition container_of :: "json \<Rightarrow> container option" where
  "container_of j = Option.bind (json_fields j) (\<lambda>fs.
     case (json_int (map_of fs ''vmid''), json_string (map_of fs ''name''), json_string (map_of fs ''status''), json_float (map_of fs ''cpu''),
           json_int (map_of fs ''mem''), json_int (map_of fs ''maxmem''), json_int (map_of fs ''disk''), json_int (map_of fs ''maxdisk''),
           json_int (map_of fs ''uptime''), json_int (map_of fs ''template'')) of
       (Some v, Some n, Some st, Some cpu, Some m, Some mm, Some d, Some md, Some up, Some tpl) \<Rightarrow>
         Some \<lparr>ct_vmid = v, ct_label = n, ct_state = st, ct_cpu = cpu, ct_mem = m, ct_maxmem = mm, ct_disk = d, ct_maxdisk = md,
               ct_uptime = up, ct_template = tpl\<rparr>
     | _ \<Rightarrow> None)"

definition ListContainers :: "externals \<Rightarrow> 's px_send \<Rightarrow> ('s px, container list res) state" where
  "ListContainers E send = with_node E send ''list containers'' (\<lambda>node.
     px_get E send (''nodes/'' @ node @ ''/lxc'') (json_list container_of) [])"

text \<open>The status of one container has the fields of the list and the ones below.\<close>

record container_status = container +
  cs_cpus :: int
  cs_swap :: int
  cs_maxswap :: int
  cs_pid :: int
  cs_lock :: string

definition extend_status :: "container \<Rightarrow> int \<Rightarrow> int \<Rightarrow> int \<Rightarrow> int \<Rightarrow> string \<Rightarrow> container_status" where
  "extend_status c cpus sw msw pid lock =
     \<lparr>ct_vmid = ct_vmid c, ct_label = ct_label c, ct_state = ct_state c, ct_cpu = ct_cpu c, ct_mem = ct_mem c, ct_maxmem = ct_maxmem c,
      ct_disk = ct_disk c, ct_maxdisk = ct_maxdisk c, ct_uptime = ct_uptime c, ct_template = ct_template c,
      cs_cpus = cpus, cs_swap = sw, cs_maxswap = msw, cs_pid = pid, cs_lock = lock\<rparr>"

definition container_status_of :: "json \<Rightarrow> container_status option" where
  "container_status_of j = Option.bind (json_fields j) (\<lambda>fs.
     case (container_of j, json_int (map_of fs ''cpus''), json_int (map_of fs ''swap''), json_int (map_of fs ''maxswap''),
           json_int (map_of fs ''pid''), json_string (map_of fs ''lock'')) of
       (Some c, Some cpus, Some sw, Some msw, Some pid, Some lock) \<Rightarrow> Some (extend_status c cpus sw msw pid lock)
     | _ \<Rightarrow> None)"

definition zero_container :: container_status where
  "zero_container = the (container_status_of JNull)"

definition GetContainerStatus :: "externals \<Rightarrow> 's px_send \<Rightarrow> int \<Rightarrow> ('s px, container_status res) state" where
  "GetContainerStatus E send vmid = with_node E send ''get container status'' (\<lambda>node.
     px_get E send (''nodes/'' @ node @ ''/lxc/'' @ string_of_int vmid @ ''/status/current'') container_status_of zero_container)"

record CloneOptions =
  co_new_id :: int
  co_hostname :: string
  co_description :: string
  co_full :: bool
  co_storage :: string
  co_pool :: string

record task =
  ta_upid :: string
  ta_node :: string

definition clone_params :: "CloneOptions \<Rightarrow> (string \<times> string) list" where
  "clone_params opts = [(''newid'', string_of_int (co_new_id opts))]
     @ (if co_hostname opts \<noteq> [] then [(''hostname'', co_hostname opts)] else [])
     @ (if co_description opts \<noteq> [] then [(''description'', co_description opts)] else [])
     @ (if co_full opts then [(''full'', ''1'')] else [])
     @ (if co_storage opts \<noteq> [] then [(''storage'', co_storage opts)] else [])
     @ (if co_pool opts \<noteq> [] then [(''pool'', co_pool opts)] else [])"

definition lxc_path :: "string \<Rightarrow> int \<Rightarrow> string \<Rightarrow> string" where
  "lxc_path node vmid rest = ''nodes/'' @ node @ ''/lxc/'' @ string_of_int vmid @ rest"

text \<open>The operations that start a task: the answer is the id of the task.\<close>

definition start_task :: "(string \<Rightarrow> ('s px, string res) state) \<Rightarrow> string \<Rightarrow> ('s px, task res) state" where
  "start_task call node = do {
     r \<leftarrow> call node;
     State_Monad.return (case r of Inl e \<Rightarrow> Inl e | Inr upid \<Rightarrow> Inr \<lparr>ta_upid = upid, ta_node = node\<rparr>) }"

definition px_CloneContainer :: "externals \<Rightarrow> 's px_send \<Rightarrow> int \<Rightarrow> CloneOptions \<Rightarrow> ('s px, task res) state" where
  "px_CloneContainer E send templateID opts =
     (if co_new_id opts < 100
      then State_Monad.return (Inl (GoErr (''clone container: NewID must be >= 100, got '' @ string_of_int (co_new_id opts))))
      else with_node E send ''clone container''
             (start_task (\<lambda>node. px_post E send (lxc_path node templateID ''/clone'') (clone_params opts))))"

definition px_StartContainer :: "externals \<Rightarrow> 's px_send \<Rightarrow> int \<Rightarrow> ('s px, task res) state" where
  "px_StartContainer E send vmid = with_node E send ''start container''
     (start_task (\<lambda>node. px_post E send (lxc_path node vmid ''/status/start'') []))"

definition px_StopContainer :: "externals \<Rightarrow> 's px_send \<Rightarrow> int \<Rightarrow> ('s px, task res) state" where
  "px_StopContainer E send vmid = with_node E send ''stop container''
     (start_task (\<lambda>node. px_post E send (lxc_path node vmid ''/status/stop'') []))"

definition ShutdownContainer :: "externals \<Rightarrow> 's px_send \<Rightarrow> int \<Rightarrow> int \<Rightarrow> ('s px, task res) state" where
  "ShutdownContainer E send vmid timeout = with_node E send ''shutdown container''
     (start_task (\<lambda>node. px_post E send (lxc_path node vmid ''/status/shutdown'')
        (if 0 < timeout then [(''timeout'', string_of_int timeout)] else [])))"

definition px_ConfigureNetwork :: "externals \<Rightarrow> 's px_send \<Rightarrow> int \<Rightarrow> string \<Rightarrow> ('s px, unit res) state" where
  "px_ConfigureNetwork E send vmid net0Value = with_node E send ''configure network'' (\<lambda>node.
     px_put E send (lxc_path node vmid ''/config'') [(''net0'', net0Value)])"

definition px_ConfigureMountPoints :: "externals \<Rightarrow> 's px_send \<Rightarrow> int \<Rightarrow> (string \<times> string) list \<Rightarrow> ('s px, unit res) state" where
  "px_ConfigureMountPoints E send vmid mounts = with_node E send ''configure mount points'' (\<lambda>node.
     px_put E send (lxc_path node vmid ''/config'') mounts)"

definition px_DeleteContainer :: "externals \<Rightarrow> 's px_send \<Rightarrow> int \<Rightarrow> bool \<Rightarrow> ('s px, task res) state" where
  "px_DeleteContainer E send vmid force = with_node E send ''delete container''
     (start_task (\<lambda>node. px_delete E send (lxc_path node vmid []) (if force then [(''force'', ''1'')] else [])))"

section \<open>Waiting for a task\<close>

text \<open>Times are in milliseconds.\<close>

definition defaultPollInterval :: nat where
  "defaultPollInterval = 2000"

definition defaultTimeout :: nat where
  "defaultTimeout = 300000"

record task_status =
  tk_status :: string
  tk_exit :: string
  tk_type :: string

definition task_status_of :: "json \<Rightarrow> task_status option" where
  "task_status_of j = Option.bind (json_fields j) (\<lambda>fs.
     case (json_string (map_of fs ''status''), json_string (map_of fs ''exitstatus''), json_string (map_of fs ''type''),
           json_string (map_of fs ''id''), json_string (map_of fs ''node''), json_int (map_of fs ''pid''), json_int (map_of fs ''starttime'')) of
       (Some st, Some ex, Some ty, Some _, Some _, Some _, Some _) \<Rightarrow> Some \<lparr>tk_status = st, tk_exit = ex, tk_type = ty\<rparr>
     | _ \<Rightarrow> None)"

text \<open>\<open>url.PathEscape\<close>: the characters a path segment may hold stay, the colon among them.\<close>

definition path_escape_char :: "char \<Rightarrow> string" where
  "path_escape_char c =
     (if is_upper c \<or> is_lower c \<or> is_digit c \<or> c \<in> set ''-_.~$&+=:@'' then [c]
      else [CHR ''%'', upper_hex (code c div 16), upper_hex (code c mod 16)])"

definition PathEscape :: "string \<Rightarrow> string" where
  "PathEscape s = concat (map path_escape_char s)"

definition getStatus :: "externals \<Rightarrow> 's px_send \<Rightarrow> task \<Rightarrow> ('s px, task_status res) state" where
  "getStatus E send t = px_get E send (''nodes/'' @ ta_node t @ ''/tasks/'' @ PathEscape (ta_upid t) @ ''/status'') task_status_of
     \<lparr>tk_status = [], tk_exit = [], tk_type = []\<rparr>"

text \<open>
  The loop of \<open>Wait\<close>. A poll starts at \<open>now\<close>, counted from the call, and takes \<open>took i\<close>; one that outlasts the timeout fails with
  the context. The ticker fires at every multiple of \<open>interval\<close> and keeps at most one tick that was missed; \<open>k\<close> is the last tick
  that is used up. \<open>cancelled i\<close> says whether the caller's own context is done when the loop waits after poll \<open>i\<close>. When the
  timeout and a tick come together the timeout is taken; Go may also poll once more, which then fails with the context.
\<close>

lemma tick_used: "k < t div i \<Longrightarrow> \<not> m \<le> t \<Longrightarrow> m - t div i < m - (k :: nat)"
  using div_le_dividend [of t i] by linarith

lemma tick_next: "\<not> m \<le> i + k * i \<Longrightarrow> 0 < i \<Longrightarrow> m - Suc k < m - (k :: nat)"
proof -
  assume "\<not> m \<le> i + k * i" "0 < i"
  moreover from this have "k \<le> k * i" by simp
  ultimately show ?thesis by linarith
qed

function wait_loop :: "('w, task_status res) state \<Rightarrow> (nat \<Rightarrow> nat) \<Rightarrow> (nat \<Rightarrow> bool) \<Rightarrow> string \<Rightarrow> nat \<Rightarrow> nat \<Rightarrow> nat \<Rightarrow> nat \<Rightarrow> nat \<Rightarrow> ('w, unit res) state" where
  "wait_loop status took cancelled upid interval timeout i now k = do {
     r \<leftarrow> status;
     let after = now + took i;
     let fired = after div interval;
     let wake = (if k < fired then after else (k + 1) * interval);
     case (if timeout \<le> after then Inl (Wrap ''execute request'' (Sentinel ''context deadline exceeded'')) else r) of
       Inl e \<Rightarrow> State_Monad.return (Inl (Wrap (''poll task '' @ upid) e))
     | Inr st \<Rightarrow>
         if tk_status st = ''stopped'' then
           State_Monad.return (if tk_exit st = ''OK'' then Inr () else Inl (TaskError upid (tk_exit st) (tk_type st)))
         else if cancelled i \<or> timeout \<le> wake \<or> interval = 0
         then State_Monad.return (Inl (Wrap (''wait for task '' @ upid) (Sentinel ''context done'')))
         else wait_loop status took cancelled upid interval timeout (Suc i) wake (if k < fired then fired else Suc k) }"
  by pat_completeness auto
termination
  by (relation "measure (\<lambda>(status, took, cancelled, upid, interval, timeout, i, now, k). timeout - k)")
    (auto intro: tick_used tick_next)

declare wait_loop.simps [simp del]

definition task_Wait :: "externals \<Rightarrow> 's px_send \<Rightarrow> (nat \<Rightarrow> nat) \<Rightarrow> (nat \<Rightarrow> bool) \<Rightarrow> task \<Rightarrow> ('s px, unit res) state" where
  "task_Wait E send took cancelled t =
     wait_loop (getStatus E send t) took cancelled (ta_upid t) defaultPollInterval defaultTimeout 0 0 0"

section \<open>What the client guarantees\<close>

text \<open>A computation with the list of its results, the last one first.\<close>

definition logged :: "('w, 'a) state \<Rightarrow> ('w \<times> 'a list, 'a) state" where
  "logged m = State (\<lambda>(w, log). let (x, w') = run_state m w in (x, w', x # log))"

definition still_running :: "task_status res \<Rightarrow> bool" where
  "still_running r = (case r of Inl _ \<Rightarrow> False | Inr st \<Rightarrow> tk_status st \<noteq> ''stopped'')"

definition ended_ok :: "task_status res \<Rightarrow> bool" where
  "ended_ok r = (case r of Inl _ \<Rightarrow> False | Inr st \<Rightarrow> tk_status st = ''stopped'' \<and> tk_exit st = ''OK'')"

definition failed_as :: "task_status res \<Rightarrow> string \<Rightarrow> string \<Rightarrow> bool" where
  "failed_as r ex ty =
     (case r of Inl _ \<Rightarrow> False | Inr st \<Rightarrow> tk_status st = ''stopped'' \<and> tk_exit st = ex \<and> tk_type st = ty \<and> ex \<noteq> ''OK'')"

text \<open>When the answer to the poll number \<open>n\<close> after this one arrives: the ticker keeps one tick that fires during a request.\<close>

fun arrival :: "(nat \<Rightarrow> nat) \<Rightarrow> nat \<Rightarrow> nat \<Rightarrow> nat \<Rightarrow> nat \<Rightarrow> nat \<Rightarrow> nat" where
  "arrival took interval i now k 0 = now + took i"
| "arrival took interval i now k (Suc n) =
     (let after = now + took i; fired = after div interval
      in arrival took interval (Suc i) (if k < fired then after else (k + 1) * interval) (if k < fired then fired else Suc k) n)"

lemma wait_loop_polls:
  assumes "0 < interval" "run_state (wait_loop (logged m) took cancelled upid interval timeout i now k) (w, log) = (res, w', log')"
  shows "\<exists>x mid. log' = x # mid @ log \<and> list_all still_running mid
    \<and> length mid \<le> (timeout - 1) div interval - k
    \<and> (res = Inr () \<longleftrightarrow> ended_ok x \<and> arrival took interval i now k (length mid) < timeout)
    \<and> (\<forall>ex ty. res = Inl (TaskError upid ex ty) \<longleftrightarrow> failed_as x ex ty \<and> arrival took interval i now k (length mid) < timeout)"
  using assms
proof (induction "logged m" took cancelled upid interval timeout i now k arbitrary: w log rule: wait_loop.induct)
  case (1 took cancelled upid interval timeout i now k)
  let ?after = "now + took i"
  let ?fired = "?after div interval"
  let ?wake = "if k < ?fired then ?after else (k + 1) * interval"
  let ?k = "if k < ?fired then ?fired else Suc k"
  obtain x w1 where x: "run_state m w = (x, w1)" by fastforce
  have l: "run_state (logged m) (w, log) = (x, w1, x # log)" by (simp add: logged_def x)
  show ?case
  proof (cases "\<exists>st. x = Inr st \<and> \<not> timeout \<le> ?after \<and> tk_status st \<noteq> ''stopped'' \<and> \<not> (cancelled i \<or> timeout \<le> ?wake \<or> interval = 0)")
    case True
    then obtain st where st: "x = Inr st" "\<not> timeout \<le> ?after" "tk_status st \<noteq> ''stopped''" "\<not> (cancelled i \<or> timeout \<le> ?wake \<or> interval = 0)"
      by blast
    have r: "run_state (wait_loop (logged m) took cancelled upid interval timeout (Suc i) ?wake ?k) (w1, x # log) = (res, w', log')"
      using 1(3) st by (subst (asm) wait_loop.simps) (simp add: l Let_def)
    from 1(1) [OF refl refl refl _ st(3,4) 1(2) r] st obtain y mid where y: "log' = y # mid @ x # log" "list_all still_running mid"
        "length mid \<le> (timeout - 1) div interval - ?k"
        "res = Inr () \<longleftrightarrow> ended_ok y \<and> arrival took interval (Suc i) ?wake ?k (length mid) < timeout"
        "\<forall>ex ty. res = Inl (TaskError upid ex ty) \<longleftrightarrow> failed_as y ex ty \<and> arrival took interval (Suc i) ?wake ?k (length mid) < timeout"
      by auto
    have a: "arrival took interval i now k (length (mid @ [x])) = arrival took interval (Suc i) ?wake ?k (length mid)"
      by (simp add: Let_def)
    have "?k * interval \<le> ?wake" by simp
    then have "?k * interval \<le> timeout - 1" using st(4) by linarith
    then have "?k \<le> (timeout - 1) div interval" using 1(2) by (simp add: less_eq_div_iff_mult_less_eq)
    moreover have "k < ?k" by simp
    ultimately have "length (mid @ [x]) \<le> (timeout - 1) div interval - k" using y(3) by simp
    moreover have "list_all still_running (mid @ [x])" using y(2) st by (simp add: still_running_def)
    ultimately show ?thesis using y(1,4,5) by (intro exI [of _ y] exI [of _ "mid @ [x]"]) (simp only: a, simp)
  next
    case False
    then have "log' = x # log \<and> (res = Inr () \<longleftrightarrow> ended_ok x \<and> ?after < timeout)
        \<and> (\<forall>ex ty. res = Inl (TaskError upid ex ty) \<longleftrightarrow> failed_as x ex ty \<and> ?after < timeout)"
      using 1(3) by (subst (asm) wait_loop.simps) (auto simp: l Let_def ended_ok_def failed_as_def split: sum.splits if_splits)
    then show ?thesis by (intro exI [of _ x] exI [of _ "[]"]) simp
  qed
qed

text \<open>Logging does not change the run.\<close>

lemma wait_loop_logged:
  "\<exists>log'. run_state (wait_loop (logged m) took cancelled upid interval timeout i now k) (w, log)
     = (fst (run_state (wait_loop m took cancelled upid interval timeout i now k) w),
        snd (run_state (wait_loop m took cancelled upid interval timeout i now k) w), log')"
proof (induction m took cancelled upid interval timeout i now k arbitrary: w log rule: wait_loop.induct)
  case (1 m took cancelled upid interval timeout i now k)
  obtain x w1 where x: "run_state m w = (x, w1)" by fastforce
  have l: "run_state (logged m) (w, log) = (x, w1, x # log)" by (simp add: logged_def x)
  show ?case
    apply (subst wait_loop.simps)
    apply (subst (2 3) wait_loop.simps)
    using 1 [OF refl refl refl] by (auto simp: l x Let_def split: sum.split)
qed

text \<open>
  C40: Waiting for a Proxmox task always ends: whatever the API answers and however long it takes, \<open>Wait\<close> asks for the status between once and
  150 times and goes on only while the task is neither stopped nor in error. It reports success exactly when the last answer, arriving
  before the timeout, is that the task has stopped with \<open>OK\<close>, and the task's error exactly when it is that the task has stopped with that
  other exit status.
\<close>

theorem task_wait_bounded:
  "\<exists>log. run_state (wait_loop (logged (getStatus E send t)) took cancelled (ta_upid t) defaultPollInterval defaultTimeout 0 0 0) (c, [])
        = (fst (run_state (task_Wait E send took cancelled t) c), snd (run_state (task_Wait E send took cancelled t) c), log)
    \<and> 1 \<le> length log \<and> length log \<le> 150 \<and> list_all still_running (tl log)
    \<and> (fst (run_state (task_Wait E send took cancelled t) c) = Inr ()
        \<longleftrightarrow> ended_ok (hd log) \<and> arrival took defaultPollInterval 0 0 0 (length log - 1) < defaultTimeout)
    \<and> (\<forall>ex ty. fst (run_state (task_Wait E send took cancelled t) c) = Inl (TaskError (ta_upid t) ex ty)
        \<longleftrightarrow> failed_as (hd log) ex ty \<and> arrival took defaultPollInterval 0 0 0 (length log - 1) < defaultTimeout)"
proof -
  let ?loop = "\<lambda>m. wait_loop m took cancelled (ta_upid t) defaultPollInterval defaultTimeout 0 0 0"
  let ?res = "fst (run_state (task_Wait E send took cancelled t) c)"
  obtain log where log: "run_state (?loop (logged (getStatus E send t))) (c, []) = (?res, snd (run_state (task_Wait E send took cancelled t) c), log)"
    using wait_loop_logged [of "getStatus E send t" took cancelled "ta_upid t" defaultPollInterval defaultTimeout 0 0 0 c "[]"]
    unfolding task_Wait_def by blast
  have p: "0 < defaultPollInterval" by (simp add: defaultPollInterval_def)
  have n: "(defaultTimeout - 1) div defaultPollInterval - 0 = 149" by (simp add: defaultPollInterval_def defaultTimeout_def)
  from wait_loop_polls [OF p log] obtain x mid where m: "log = x # mid" "list_all still_running mid" "length mid \<le> 149"
      "?res = Inr () \<longleftrightarrow> ended_ok x \<and> arrival took defaultPollInterval 0 0 0 (length mid) < defaultTimeout"
      "\<forall>ex ty. ?res = Inl (TaskError (ta_upid t) ex ty)
        \<longleftrightarrow> failed_as x ex ty \<and> arrival took defaultPollInterval 0 0 0 (length mid) < defaultTimeout"
    unfolding n by auto
  show ?thesis unfolding log by (intro exI [of _ log]) (use m in \<open>simp add: m(1)\<close>)
qed

text \<open>The comment at \<open>getStatus\<close> says that the colons of a task id must be encoded; \<open>url.PathEscape\<close> leaves them.\<close>

lemma task_id_colons_stay: "PathEscape ''UPID:pve:1/2'' = ''UPID:pve:1%2F2''"
  by code_simp

text \<open>Once the node name is known no request is made for it again, and a success has found one.\<close>

lemma resolveNode_cached: "px_node c \<noteq> [] \<Longrightarrow> run_state (resolveNode E send) c = (Inr (px_node c), c)"
  by (simp add: resolveNode_def)

lemma resolveNode_Inr: "run_state (resolveNode E send) c = (Inr n, c') \<Longrightarrow> px_node c' = n"
  by (auto simp: resolveNode_def set_node_def split: if_splits sum.splits prod.splits)

text \<open>A next id of \<open>null\<close> is read as 0, which \<open>CloneContainer\<close> refuses without asking the server.\<close>

lemma null_next_id: "parse_next_id (Some JNull) = Inr 0"
  by (simp add: parse_next_id_def json_int_def)

lemma small_clone_refused:
  "co_new_id opts < 100 \<Longrightarrow> \<exists>e. run_state (px_CloneContainer E send tpl opts) c = (Inl e, c)"
  by (simp add: px_CloneContainer_def)

text \<open>Answers that come in a fixed order; the state counts them.\<close>

definition answers :: "(nat \<Rightarrow> 'a) \<Rightarrow> (nat, 'a) state" where
  "answers f = State (\<lambda>j. (f j, Suc j))"

lemma wait_loop_returns:
  assumes "i \<le> n" "n < 150" "\<And>j. took j < 2000" "\<And>j. \<not> cancelled j" "\<And>j. j < n \<Longrightarrow> still_running (f j)" "ended_ok (f n)"
  shows "run_state (wait_loop (answers f) took cancelled upid 2000 300000 i (i * 2000) i) i = (Inr (), Suc n)"
  using assms(1)
proof (induction "n - i" arbitrary: i)
  case 0
  then have i: "i = n" by simp
  obtain st where "f n = Inr st" "tk_status st = ''stopped''" "tk_exit st = ''OK''"
    using assms(6) by (auto simp: ended_ok_def split: sum.splits)
  moreover have "\<not> 300000 \<le> n * 2000 + took n" using assms(2) assms(3) [of n] by linarith
  ultimately show ?case by (subst wait_loop.simps) (simp add: i answers_def Let_def)
next
  case (Suc d)
  then have i: "i < n" by simp
  obtain st where st: "f i = Inr st" "tk_status st \<noteq> ''stopped''"
    using assms(5) [OF i] by (auto simp: still_running_def split: sum.splits)
  have "i + 1 \<le> 149" using i assms(2) by linarith
  then have "(i + 1) * 2000 \<le> 149 * 2000" by (rule mult_le_mono1)
  then have t: "\<not> 300000 \<le> i * 2000 + took i" "\<not> 300000 \<le> (i + 1) * 2000" using assms(3) [of i] by simp_all
  have f: "(i * 2000 + took i) div 2000 = i" using assms(3) [of i] by simp
  have "run_state (wait_loop (answers f) took cancelled upid 2000 300000 (Suc i) (Suc i * 2000) (Suc i)) (Suc i) = (Inr (), Suc n)"
    using Suc by (intro Suc.hyps(1)) auto
  then show ?case using st t assms(4) by (subst wait_loop.simps) (simp add: answers_def Let_def f)
qed

text \<open>
  A task that finishes in time is seen to finish: if the API answers each request within two seconds, the caller does not cancel, and the
  task is reported stopped with \<open>OK\<close> by the n-th of the first 150 answers after being reported as running, then \<open>Wait\<close> returns success after
  exactly that many requests.
\<close>

theorem task_wait_returns:
  assumes "n < 150" "\<And>j. took j < defaultPollInterval" "\<And>j. \<not> cancelled j" "\<And>j. j < n \<Longrightarrow> still_running (f j)" "ended_ok (f n)"
  shows "run_state (wait_loop (answers f) took cancelled upid defaultPollInterval defaultTimeout 0 0 0) 0 = (Inr (), Suc n)"
  using wait_loop_returns [of 0 n took cancelled f upid] assms by (simp add: defaultPollInterval_def defaultTimeout_def)

theorem task_wait_returns_witness:
  "run_state (wait_loop (answers (\<lambda>j. Inr \<lparr>tk_status = (if j < 2 then ''running'' else ''stopped''), tk_exit = ''OK'', tk_type = ''vzclone''\<rparr>))
     (\<lambda>_. 40) (\<lambda>_. False) ''UPID'' defaultPollInterval defaultTimeout 0 0 0) 0 = (Inr (), 3)"
  using task_wait_returns [of 2 "\<lambda>_. 40" "\<lambda>_. False" "\<lambda>j. Inr \<lparr>tk_status = (if j < 2 then ''running'' else ''stopped''), tk_exit = ''OK'', tk_type = ''vzclone''\<rparr>" "''UPID''"]
  by (simp add: defaultPollInterval_def still_running_def ended_ok_def)

end
