(* ===== verification/CP_Ssh_Session.thy ===== *)
theory CP_Ssh_Session
  imports CP_Sshexec
begin

text \<open>
  One remote command (\<open>execCommand\<close> of \<open>src/internal/sshexec/client.go\<close>): the connection, the handshake, the session and the race between
  the command and the end of the context. The answers of the network and of the SSH library are a parameter; the result comes with
  the list of what was done, in order, the deferred calls included.
\<close>

section \<open>The session\<close>

datatype ssh_action =
    Dial string
  | CloseConn
  | Handshake string
  | OpenSession
  | RunCommand string
  | SignalKill
  | CloseSession
  | AwaitRun
  | CloseClient

text \<open>
  The answers: \<open>None\<close> is success. \<open>an_run\<close> is the outcome of the command when it ends before the context, and \<open>None\<close> when the context
  ends first, with the error \<open>an_ctx\<close>.
\<close>

record ssh_answers =
  an_dial :: "go_error option"
  an_handshake :: "go_error option"
  an_session :: "go_error option"
  an_run :: "go_error option option"
  an_ctx :: go_error

definition dialAddr :: "ssh_client \<Rightarrow> string \<Rightarrow> string" where
  "dialAddr c host = (if CHR '':'' \<in> set host then ''['' @ host @ '']:'' @ ssh_port c else host @ '':'' @ ssh_port c)"

definition execCommand :: "ssh_answers \<Rightarrow> ssh_client \<Rightarrow> string \<Rightarrow> string \<Rightarrow> unit res \<times> ssh_action list" where
  "execCommand a c sshHost fullCommand =
     (let dial = [Dial (dialAddr c sshHost)]; shake = dial @ [Handshake (ssh_user c)]; session = shake @ [OpenSession];
          run = session @ [RunCommand fullCommand]; deferred = [CloseSession, CloseClient]
      in case an_dial a of
           Some e \<Rightarrow> (Inl (Wrap ''ssh dial'' e), dial)
         | None \<Rightarrow> (case an_handshake a of
             Some e \<Rightarrow> (Inl (Wrap ''ssh handshake'' e), shake @ [CloseConn])
           | None \<Rightarrow> (case an_session a of
               Some e \<Rightarrow> (Inl (Wrap ''ssh session'' e), session @ [CloseClient])
             | None \<Rightarrow> (case an_run a of
                 None \<Rightarrow> (Inl (an_ctx a), run @ [SignalKill, CloseSession, AwaitRun] @ deferred)
               | Some None \<Rightarrow> (Inr (), run @ deferred)
               | Some (Some e) \<Rightarrow> (Inl e, run @ deferred)))))"

section \<open>Nothing stays open\<close>

text \<open>
  Whatever fails, a connection that was opened is closed at the end, the client's after its session; the command is run at most once, and
  success means that it was run and ended without an error before the context did.
\<close>

lemma exec_closes_all:
  assumes "execCommand a c host cmd = (r, acts)"
  shows "(an_dial a = None \<longrightarrow> last acts \<in> {CloseConn, CloseClient})
    \<and> (OpenSession \<in> set acts \<and> an_session a = None \<longrightarrow> CloseSession \<in> set (dropWhile (\<lambda>x. x \<noteq> OpenSession) acts))
    \<and> filter (\<lambda>x. \<exists>s. x = RunCommand s) acts \<in> {[], [RunCommand cmd]}
    \<and> (r = Inr () \<longleftrightarrow> RunCommand cmd \<in> set acts \<and> an_run a = Some None)"
  using assms unfolding execCommand_def Let_def
  by (cases "an_dial a"; cases "an_handshake a"; cases "an_session a"; cases "an_run a"; cases "the (an_run a)") auto

lemma exec_cancelled:
  assumes "an_dial a = None" "an_handshake a = None" "an_session a = None" "an_run a = None"
  shows "fst (execCommand a c host cmd) = Inl (an_ctx a) \<and> SignalKill \<in> set (snd (execCommand a c host cmd))"
  using assms by (simp add: execCommand_def Let_def)

end
