(* ===== verification/CP_Admin_View.thy ===== *)
theory CP_Admin_View
  imports CP_Admin_Routes CP_Stations "HOL-Library.Signed_Division"
begin

text \<open>
  The templates of the admin UI (\<open>src/internal/admin/templates.go\<close>): the functions the pages call, how the embedded files are put together at the
  start, and how a page is written. \<open>html/template\<close> and the embedded files are parameters; a template is what the library makes of texts.
\<close>

section \<open>The functions of the templates\<close>

definition tmpl_sub :: "int \<Rightarrow> int \<Rightarrow> int" where
  "tmpl_sub a b = int64_add a (- b)"

definition tmpl_add :: "int \<Rightarrow> int \<Rightarrow> int" where
  "tmpl_add a b = int64_add a b"

fun join_with :: "string \<Rightarrow> string list \<Rightarrow> string" where
  "join_with sep [] = []"
| "join_with sep [s] = s"
| "join_with sep (s # ss) = s @ sep @ join_with sep ss"

definition joinInts :: "int list \<Rightarrow> string" where
  "joinInts xs = join_with '', '' (map string_of_int xs)"

definition freeRAM :: "node \<Rightarrow> int" where
  "freeRAM n = nd_total_ram_mb n - nd_allocated_ram_mb n"

text \<open>Go's division truncates towards zero; the columns have 32 bits, so the product does not overflow an \<open>int\<close>.\<close>

definition ramPercent :: "node \<Rightarrow> int" where
  "ramPercent n = (if nd_total_ram_mb n = 0 then 0 else (nd_allocated_ram_mb n * 100) sdiv nd_total_ram_mb n)"

definition ramColor :: "node \<Rightarrow> string" where
  "ramColor n =
     (if nd_total_ram_mb n = 0 then ''green''
      else let pct = (nd_allocated_ram_mb n * 100) sdiv nd_total_ram_mb n
        in if 90 < pct then ''red'' else if 70 < pct then ''orange'' else ''green'')"

definition derefInt :: "int option \<Rightarrow> int" where
  "derefInt p = (case p of None \<Rightarrow> 0 | Some i \<Rightarrow> i)"

definition derefStr :: "string option \<Rightarrow> string" where
  "derefStr p = (case p of None \<Rightarrow> [] | Some s \<Rightarrow> s)"

section \<open>Putting the templates together\<close>

record 't template_lib =
  tl_read :: "string \<Rightarrow> string res"
  tl_glob :: "string \<Rightarrow> string list res"
  tl_new :: "string \<Rightarrow> 't"
  tl_parse :: "'t \<Rightarrow> string \<Rightarrow> 't res"

record 't templates =
  tp_pages :: "string \<rightharpoonup> 't"
  tp_standalone :: "string \<rightharpoonup> 't"

definition pageNames :: "string list" where
  "pageNames = [''dashboard'', ''nodes'', ''projects'', ''tenants'', ''node_detail'', ''project_detail'', ''tenant_detail'', ''audit'',
     ''settings'', ''network'', ''peer_detail'']"

definition standaloneNames :: "string list" where
  "standaloneNames = [''login'']"

fun read_partials :: "'t template_lib \<Rightarrow> string list \<Rightarrow> string res" where
  "read_partials L [] = Inr []"
| "read_partials L (p # ps) =
     (case tl_read L p of
        Inl e \<Rightarrow> Inl (Wrap (''read partial '' @ p) e)
      | Inr data \<Rightarrow> (case read_partials L ps of Inl e \<Rightarrow> Inl e | Inr rest \<Rightarrow> Inr (data @ rest)))"

text \<open>A page is the layout, the partials and its own file, parsed into one template set in this order.\<close>

definition parse_page :: "'t template_lib \<Rightarrow> string \<Rightarrow> string \<Rightarrow> string \<Rightarrow> 't res" where
  "parse_page L layout partials name =
     (case tl_read L (''templates/'' @ name @ ''.html'') of
        Inl e \<Rightarrow> Inl (Wrap (''read page '' @ name) e)
      | Inr pageData \<Rightarrow> (case tl_parse L (tl_new L []) layout of
          Inl e \<Rightarrow> Inl (Wrap (''parse layout for '' @ name) e)
        | Inr t1 \<Rightarrow> (case tl_parse L t1 partials of
            Inl e \<Rightarrow> Inl (Wrap (''parse partials for '' @ name) e)
          | Inr t2 \<Rightarrow> (case tl_parse L t2 pageData of
              Inl e \<Rightarrow> Inl (Wrap (''parse page '' @ name) e)
            | Inr t3 \<Rightarrow> Inr t3))))"

definition parse_standalone :: "'t template_lib \<Rightarrow> string \<Rightarrow> 't res" where
  "parse_standalone L name =
     (case tl_read L (''templates/'' @ name @ ''.html'') of
        Inl e \<Rightarrow> Inl (Wrap (''read standalone '' @ name) e)
      | Inr data \<Rightarrow> (case tl_parse L (tl_new L name) data of
          Inl e \<Rightarrow> Inl (Wrap (''parse standalone '' @ name) e)
        | Inr t \<Rightarrow> Inr t))"

fun parse_all :: "(string \<Rightarrow> 't res) \<Rightarrow> string list \<Rightarrow> (string \<rightharpoonup> 't) \<Rightarrow> (string \<rightharpoonup> 't) res" where
  "parse_all parse [] m = Inr m"
| "parse_all parse (n # ns) m = (case parse n of Inl e \<Rightarrow> Inl e | Inr t \<Rightarrow> parse_all parse ns (m(n \<mapsto> t)))"

definition ParseTemplates :: "'t template_lib \<Rightarrow> 't templates res" where
  "ParseTemplates L =
     (case tl_read L ''templates/layout.html'' of
        Inl e \<Rightarrow> Inl (Wrap ''read layout'' e)
      | Inr layout \<Rightarrow> (case tl_glob L ''templates/partials/*.html'' of
          Inl e \<Rightarrow> Inl (Wrap ''glob partials'' e)
        | Inr files \<Rightarrow> (case read_partials L files of
            Inl e \<Rightarrow> Inl e
          | Inr partials \<Rightarrow> (case parse_all (parse_page L layout partials) pageNames Map.empty of
              Inl e \<Rightarrow> Inl e
            | Inr pages \<Rightarrow> (case tl_parse L (tl_new L []) partials of
                Inl e \<Rightarrow> Inl (Wrap ''parse standalone partials'' e)
              | Inr pt \<Rightarrow> (case parse_all (parse_standalone L) standaloneNames Map.empty of
                  Inl e \<Rightarrow> Inl e
                | Inr sa \<Rightarrow> Inr \<lparr>tp_pages = pages(''partials'' \<mapsto> pt), tp_standalone = sa\<rparr>))))))"

section \<open>Writing a page\<close>

text \<open>
  A page is executed into a buffer first: either the whole body is written, as HTML, or nothing is and the error is returned. \<open>run\<close> is
  \<open>ExecuteTemplate\<close> with the name of the template, and \<open>Execute\<close> without.
\<close>

definition RenderPage :: "('t \<Rightarrow> string option \<Rightarrow> 'd \<Rightarrow> string res) \<Rightarrow> 't templates \<Rightarrow> string \<Rightarrow> 'd \<Rightarrow> string res" where
  "RenderPage run t name data =
     (case tp_pages t name of
        None \<Rightarrow> Inl (GoErr (''unknown page: '' @ name))
      | Some tmpl \<Rightarrow> wrap_err (''execute '' @ name) (run tmpl (Some ''layout'') data))"

definition RenderPartial :: "('t \<Rightarrow> string option \<Rightarrow> 'd \<Rightarrow> string res) \<Rightarrow> 't templates \<Rightarrow> string \<Rightarrow> 'd \<Rightarrow> string res" where
  "RenderPartial run t name data =
     (case tp_pages t ''partials'' of
        None \<Rightarrow> Inl (GoErr ''partials not loaded'')
      | Some tmpl \<Rightarrow> wrap_err (''execute partial '' @ name) (run tmpl (Some name) data))"

definition RenderStandalone :: "('t \<Rightarrow> string option \<Rightarrow> 'd \<Rightarrow> string res) \<Rightarrow> 't templates \<Rightarrow> string \<Rightarrow> 'd \<Rightarrow> string res" where
  "RenderStandalone run t name data =
     (case tp_standalone t name of
        None \<Rightarrow> Inl (GoErr (''unknown standalone page: '' @ name))
      | Some tmpl \<Rightarrow> wrap_err (''execute standalone '' @ name) (run tmpl None data))"

section \<open>Every page is there\<close>

lemma parse_all_dom: "parse_all parse ns m = Inr m' \<Longrightarrow> dom m' = dom m \<union> set ns"
  by (induction ns arbitrary: m) (auto split: sum.splits)

text \<open>After a successful start no handler asks for a page that is not known: rendering fails only where the library does.\<close>

lemma templates_complete:
  assumes "ParseTemplates L = Inr t"
  shows "dom (tp_pages t) = set pageNames \<union> {''partials''} \<and> dom (tp_standalone t) = set standaloneNames"
proof -
  from assms obtain layout partials pages pt sa where
    "parse_all (parse_page L layout partials) pageNames Map.empty = Inr pages"
    "parse_all (parse_standalone L) standaloneNames Map.empty = Inr sa" "t = \<lparr>tp_pages = pages(''partials'' \<mapsto> pt), tp_standalone = sa\<rparr>"
    by (auto simp: ParseTemplates_def split: sum.splits)
  then show ?thesis by (auto dest!: parse_all_dom)
qed

lemma known_page_renders:
  assumes "ParseTemplates L = Inr t" "name \<in> set pageNames"
  obtains tmpl where "RenderPage run t name data = wrap_err (''execute '' @ name) (run tmpl (Some ''layout'') data)"
proof -
  from templates_complete [OF assms(1)] assms(2) have "name \<in> dom (tp_pages t)" by blast
  then obtain tmpl where "tp_pages t name = Some tmpl" by (auto simp: dom_def)
  then show thesis by (intro that [of tmpl]) (simp add: RenderPage_def)
qed

section \<open>The gauge of a node\<close>

text \<open>On the books the invariant describes, the gauge of a node is a percentage and its free memory is not negative.\<close>

lemma sdiv_nonneg: "0 \<le> a \<Longrightarrow> 0 < b \<Longrightarrow> (a :: int) sdiv b = a div b"
  by (cases "a = 0") (simp_all add: signed_divide_int_def)

lemma ram_gauge:
  assumes "node_ok n"
  shows "0 \<le> freeRAM n" "0 \<le> ramPercent n" "ramPercent n \<le> 100"
proof -
  from assms have b: "0 \<le> nd_allocated_ram_mb n" "nd_allocated_ram_mb n \<le> nd_total_ram_mb n" by (simp_all add: node_ok_def)
  then show "0 \<le> freeRAM n" by (simp add: freeRAM_def)
  have "(nd_allocated_ram_mb n * 100) div nd_total_ram_mb n \<le> 100" if "0 < nd_total_ram_mb n"
    using that b zdiv_mono1 [of "nd_allocated_ram_mb n * 100" "nd_total_ram_mb n * 100" "nd_total_ram_mb n"] by simp
  moreover have "0 \<le> (nd_allocated_ram_mb n * 100) div nd_total_ram_mb n" if "0 < nd_total_ram_mb n"
    using that b by (simp add: pos_imp_zdiv_nonneg_iff)
  ultimately show "0 \<le> ramPercent n" "ramPercent n \<le> 100" using b by (auto simp: ramPercent_def sdiv_nonneg)
qed

text \<open>The colour follows the percentage.\<close>

lemma ramColor_of_percent:
  "ramColor n = (if 90 < ramPercent n then ''red'' else if 70 < ramPercent n then ''orange'' else ''green'')"
  by (simp add: ramColor_def ramPercent_def Let_def)

end
