(* ===== verification/CP_Machine.thy ===== *)
theory CP_Machine
  imports CP_Prelude
begin

text \<open>
  Machines whose steps are events: a step gives \<open>None\<close> where its event cannot happen, and a run is a list of events. The locale holds the
  inductions that the process, the pool of jobs and the client cache share.
\<close>

locale step_machine =
  fixes step :: "'s \<Rightarrow> 'e \<Rightarrow> 's option"
    and run :: "'s \<Rightarrow> 'e list \<Rightarrow> 's option"
  assumes run_Nil: "run s [] = Some s"
    and run_Cons: "run s (e # es) = (case step s e of None \<Rightarrow> None | Some t \<Rightarrow> run t es)"
begin

lemma run_ConsE:
  assumes "run s (e # es) = Some t"
  obtains u where "step s e = Some u" "run u es = Some t"
  using assms by (auto simp: run_Cons split: option.splits)

lemma run_append: "run s (es @ fs) = (case run s es of None \<Rightarrow> None | Some t \<Rightarrow> run t fs)"
  by (induction es arbitrary: s) (auto simp: run_Nil run_Cons split: option.split)

lemma run_snocE:
  assumes "run s (es @ [e]) = Some t"
  obtains u where "run s es = Some u" "step u e = Some t"
  using assms by (auto simp: run_append run_Nil run_Cons split: option.splits)

text \<open>An invariant of the steps whose events are allowed.\<close>

lemma run_preserves:
  assumes "I s" "list_all ok es" "run s es = Some t" "\<And>s e t. I s \<Longrightarrow> ok e \<Longrightarrow> step s e = Some t \<Longrightarrow> I t"
  shows "I t"
  using assms(1-3)
proof (induction es arbitrary: s)
  case (Cons e es)
  from Cons.prems(3) obtain u where "step s e = Some u" "run u es = Some t" by (rule run_ConsE)
  with Cons assms(4) show ?case by auto
qed (simp add: run_Nil)

text \<open>An invariant that also speaks of the events so far.\<close>

lemma run_history:
  assumes "P [] s" "run s es = Some t" "\<And>es s e t. P es s \<Longrightarrow> step s e = Some t \<Longrightarrow> P (es @ [e]) t"
  shows "P es t"
  using assms(2)
proof (induction es arbitrary: t rule: rev_induct)
  case (snoc e es)
  from snoc.prems obtain u where "run s es = Some u" "step u e = Some t" by (rule run_snocE)
  with snoc.IH assms(3) show ?case by blast
qed (use assms(1) in \<open>simp add: run_Nil\<close>)

text \<open>A measure that every allowed step lowers by one counts the steps of a run.\<close>

lemma run_length:
  assumes "I s" "list_all ok es" "run s es = Some t"
    and "\<And>s e t. I s \<Longrightarrow> ok e \<Longrightarrow> step s e = Some t \<Longrightarrow> I t \<and> m s = Suc (m t)"
  shows "m s = length es + m t"
  using assms(1-3)
proof (induction es arbitrary: s)
  case (Cons e es)
  from Cons.prems(3) obtain u where u: "step s e = Some u" "run u es = Some t" by (rule run_ConsE)
  with assms(4) Cons.prems have "I u" "m s = Suc (m u)" by auto
  with Cons.IH [OF _ _ u(2)] Cons.prems(2) show ?case by simp
qed (simp add: run_Nil)

end

end
