(* ===== verification/CP_Process.thy ===== *)
theory CP_Process
  imports CP_Provisioner CP_Config CP_Machine
begin

text \<open>
  The process as a state machine: the pool of provisioning goroutines (\<open>src/internal/provisioner/provisioner.go\<close>), the loops of the poller and
  the janitor (\<open>src/internal/station/poller.go\<close>, \<open>src/internal/auth/janitor.go\<close>), the database at start (\<open>src/internal/database\<close>), and \<open>main\<close>
  with its graceful shutdown (\<open>src/cmd/server/main.go\<close>). What a job or a pass does to the tables is the matter of other theories; here
  only the control counts: where each goroutine stands, the wait groups, the semaphore. A step function gives \<open>None\<close> where the
  event cannot happen; a run is a list of events, so every schedule of the goroutines is one.
\<close>

section \<open>The pool of provisioning jobs\<close>

text \<open>
  Where the goroutine of \<open>Provision\<close> stands: before the channel \<open>sem\<close>, inside \<open>doProvision\<close>, or past the deferred release of its
  slot, with a panic to recover from (\<open>True\<close>) or without.
\<close>

datatype job_phase = Queued | Working | Leaving bool

record pool =
  po_wg :: nat
  po_sem :: nat
  po_jobs :: "(provision_job \<times> job_phase) list"

definition empty_pool :: pool where
  "empty_pool = \<lparr>po_wg = 0, po_sem = 0, po_jobs = []\<rparr>"

datatype pool_event =
    Spawn provision_job
  | Acquire nat
  | EndWork nat bool
  | Finish nat

definition job_at :: "pool \<Rightarrow> nat \<Rightarrow> job_phase option" where
  "job_at p i = (if i < length (po_jobs p) then Some (snd (po_jobs p ! i)) else None)"

definition set_phase :: "nat \<Rightarrow> job_phase \<Rightarrow> pool \<Rightarrow> pool" where
  "set_phase i ph p = p\<lparr>po_jobs := (po_jobs p)[i := (fst (po_jobs p ! i), ph)]\<rparr>"

definition remove_at :: "nat \<Rightarrow> 'a list \<Rightarrow> 'a list" where
  "remove_at i xs = take i xs @ drop (Suc i) xs"

fun pool_step :: "pool \<Rightarrow> pool_event \<Rightarrow> pool option" where
  "pool_step p (Spawn j) = Some (p\<lparr>po_wg := po_wg p + 1, po_jobs := po_jobs p @ [(j, Queued)]\<rparr>)"
| "pool_step p (Acquire i) =
     (if job_at p i = Some Queued \<and> po_sem p < maxConcurrentJobs
      then Some ((set_phase i Working p)\<lparr>po_sem := po_sem p + 1\<rparr>) else None)"
| "pool_step p (EndWork i panicking) =
     (if job_at p i = Some Working
      then Some ((set_phase i (Leaving panicking) p)\<lparr>po_sem := po_sem p - 1\<rparr>) else None)"
| "pool_step p (Finish i) =
     (if job_at p i \<in> {Some (Leaving False), Some (Leaving True)}
      then Some (p\<lparr>po_wg := po_wg p - 1, po_jobs := remove_at i (po_jobs p)\<rparr>) else None)"

text \<open>What \<open>Shutdown\<close> waits for.\<close>

definition pool_idle :: "pool \<Rightarrow> bool" where
  "pool_idle p \<longleftrightarrow> po_wg p = 0"

fun pool_run :: "pool \<Rightarrow> pool_event list \<Rightarrow> pool option" where
  "pool_run p [] = Some p"
| "pool_run p (e # es) = (case pool_step p e of None \<Rightarrow> None | Some q \<Rightarrow> pool_run q es)"

interpretation jobs: step_machine pool_step pool_run
  by unfold_locales simp_all

text \<open>The deferred recovery from a panic of \<open>doProvision\<close>, before \<open>wg.Done\<close>.\<close>

definition panic_recovered :: "externals \<Rightarrow> provision_job \<Rightarrow> unit cp" where
  "panic_recovered E j = setError E (job_tenant j) (job_node j) (job_ram_mb j) ''provisioning failed: internal panic''"

section \<open>The loops of the poller and the janitor\<close>

text \<open>
  Both loops have the same shape: \<open>wg.Add(1)\<close>, a first pass, the ticker, then a pass per tick until the context is cancelled. The
  goroutine exists before it runs (\<open>Scheduled\<close>). \<open>time.NewTicker\<close> panics on an interval that is not positive, which nothing recovers.
\<close>

datatype loop_phase = Scheduled | FirstPass | Idle | Pass | Gone | Broken

record loop =
  lo_phase :: loop_phase
  lo_wg :: nat
  lo_cancelled :: bool

datatype loop_event = Start | PassDone | Tick | SeeCancel

definition new_loop :: loop where
  "new_loop = \<lparr>lo_phase = Scheduled, lo_wg = 0, lo_cancelled = False\<rparr>"

fun loop_step :: "int \<Rightarrow> loop \<Rightarrow> loop_event \<Rightarrow> loop option" where
  "loop_step interval l Start =
     (if lo_phase l = Scheduled then Some (l\<lparr>lo_phase := FirstPass, lo_wg := lo_wg l + 1\<rparr>) else None)"
| "loop_step interval l PassDone =
     (if lo_phase l = FirstPass
      then (if 0 < interval then Some (l\<lparr>lo_phase := Idle\<rparr>) else Some (l\<lparr>lo_phase := Broken, lo_wg := lo_wg l - 1\<rparr>))
      else if lo_phase l = Pass then Some (l\<lparr>lo_phase := Idle\<rparr>) else None)"
| "loop_step interval l Tick = (if lo_phase l = Idle then Some (l\<lparr>lo_phase := Pass\<rparr>) else None)"
| "loop_step interval l SeeCancel =
     (if lo_phase l = Idle \<and> lo_cancelled l then Some (l\<lparr>lo_phase := Gone, lo_wg := lo_wg l - 1\<rparr>) else None)"

definition cancel :: "loop \<Rightarrow> loop" where
  "cancel l = l\<lparr>lo_cancelled := True\<rparr>"

section \<open>The process\<close>

text \<open>
  \<open>Serving\<close> is the \<open>select\<close> on the signal and the error channel; then \<open>main\<close> waits for the poller, for the janitor and for the
  provisioner, and shuts the HTTP server down. The requests being served are counted apart by whether they have started their
  provisioning job; a request starts at most one.
\<close>

datatype main_phase = Serving | StopPoller | StopJanitor | StopProvisioner | StopServer | Exited nat

record process =
  ps_main :: main_phase
  ps_pool :: pool
  ps_poller :: loop
  ps_janitor :: loop
  ps_fresh :: nat
  ps_served :: nat
  ps_prov_done :: bool

record intervals =
  iv_poller :: int
  iv_janitor :: int

definition started :: process where
  "started = \<lparr>ps_main = Serving, ps_pool = empty_pool, ps_poller = new_loop, ps_janitor = new_loop,
     ps_fresh = 0, ps_served = 0, ps_prov_done = False\<rparr>"

datatype process_event =
    Arrive
  | StartJob provision_job
  | Answer bool
  | InPool pool_event
  | InPoller loop_event
  | InJanitor loop_event
  | Signal
  | ListenFails
  | PollerWaited
  | JanitorWaited
  | PoolWaited
  | ProvDone
  | ProvTimeout
  | ServerDrained
  | ShutdownTimeout

fun is_spawn :: "pool_event \<Rightarrow> bool" where
  "is_spawn (Spawn j) = True"
| "is_spawn _ = False"

definition exited :: "process \<Rightarrow> bool" where
  "exited s = (case ps_main s of Exited n \<Rightarrow> True | _ \<Rightarrow> False)"

text \<open>A loop that breaks ends the process with Go's exit status for a panic, 2.\<close>

definition with_loop :: "(loop \<Rightarrow> process) \<Rightarrow> loop option \<Rightarrow> process option" where
  "with_loop upd r = (case r of None \<Rightarrow> None
     | Some l \<Rightarrow> Some (if lo_phase l = Broken then (upd l)\<lparr>ps_main := Exited 2\<rparr> else upd l))"

fun main_step :: "intervals \<Rightarrow> process \<Rightarrow> process_event \<Rightarrow> process option" where
  "main_step iv s Arrive =
     (if ps_main s \<noteq> StopServer then Some (s\<lparr>ps_fresh := ps_fresh s + 1\<rparr>) else None)"
| "main_step iv s (StartJob j) =
     (if 0 < ps_fresh s
      then map_option (\<lambda>p. s\<lparr>ps_pool := p, ps_fresh := ps_fresh s - 1, ps_served := ps_served s + 1\<rparr>) (pool_step (ps_pool s) (Spawn j))
      else None)"
| "main_step iv s (Answer fresh) =
     (if fresh then (if 0 < ps_fresh s then Some (s\<lparr>ps_fresh := ps_fresh s - 1\<rparr>) else None)
      else (if 0 < ps_served s then Some (s\<lparr>ps_served := ps_served s - 1\<rparr>) else None))"
| "main_step iv s (InPool e) =
     (if is_spawn e then None else map_option (\<lambda>p. s\<lparr>ps_pool := p\<rparr>) (pool_step (ps_pool s) e))"
| "main_step iv s (InPoller e) = with_loop (\<lambda>l. s\<lparr>ps_poller := l\<rparr>) (loop_step (iv_poller iv) (ps_poller s) e)"
| "main_step iv s (InJanitor e) = with_loop (\<lambda>l. s\<lparr>ps_janitor := l\<rparr>) (loop_step (iv_janitor iv) (ps_janitor s) e)"
| "main_step iv s Signal =
     (if ps_main s = Serving then Some (s\<lparr>ps_main := StopPoller, ps_poller := cancel (ps_poller s)\<rparr>) else None)"
| "main_step iv s ListenFails = (if ps_main s = Serving then Some (s\<lparr>ps_main := Exited 1\<rparr>) else None)"
| "main_step iv s PollerWaited =
     (if ps_main s = StopPoller \<and> lo_wg (ps_poller s) = 0
      then Some (s\<lparr>ps_main := StopJanitor, ps_janitor := cancel (ps_janitor s)\<rparr>) else None)"
| "main_step iv s JanitorWaited =
     (if ps_main s = StopJanitor \<and> lo_wg (ps_janitor s) = 0 then Some (s\<lparr>ps_main := StopProvisioner\<rparr>) else None)"
| "main_step iv s PoolWaited =
     (if ps_main s \<in> {StopProvisioner, StopServer} \<and> pool_idle (ps_pool s) \<and> \<not> ps_prov_done s
      then Some (s\<lparr>ps_prov_done := True\<rparr>) else None)"
| "main_step iv s ProvDone =
     (if ps_main s = StopProvisioner \<and> ps_prov_done s then Some (s\<lparr>ps_main := StopServer\<rparr>) else None)"
| "main_step iv s ProvTimeout = (if ps_main s = StopProvisioner then Some (s\<lparr>ps_main := StopServer\<rparr>) else None)"
| "main_step iv s ServerDrained =
     (if ps_main s = StopServer \<and> ps_fresh s = 0 \<and> ps_served s = 0 then Some (s\<lparr>ps_main := Exited 0\<rparr>) else None)"
| "main_step iv s ShutdownTimeout = (if ps_main s = StopServer then Some (s\<lparr>ps_main := Exited 1\<rparr>) else None)"

text \<open>Nothing runs after the process has ended.\<close>

definition process_step :: "intervals \<Rightarrow> process \<Rightarrow> process_event \<Rightarrow> process option" where
  "process_step iv s e = (if exited s then None else main_step iv s e)"

fun run_process :: "intervals \<Rightarrow> process \<Rightarrow> process_event list \<Rightarrow> process option" where
  "run_process iv s [] = Some s"
| "run_process iv s (e # es) = (case process_step iv s e of None \<Rightarrow> None | Some t \<Rightarrow> run_process iv t es)"

interpretation control: step_machine "process_step iv" "run_process iv" for iv
  by unfold_locales simp_all

section \<open>The start\<close>

text \<open>\<open>strings.Replace\<close> with the limit 1: the leftmost occurrence.\<close>

fun replace_first :: "string \<Rightarrow> string \<Rightarrow> string \<Rightarrow> string" where
  "replace_first old new [] = (if old = [] then new else [])"
| "replace_first old new (c # s) =
     (if has_prefix (c # s) old then new @ drop (length old) (c # s) else c # replace_first old new s)"

text \<open>The library behind the pool: parsing the URL, creating the pool, the ping; whether the pool has been closed again is the second component.\<close>

record ('c, 'p) pool_lib =
  pl_parse :: "string \<Rightarrow> 'c res"
  pl_new :: "'c \<Rightarrow> 'p res"
  pl_ping :: "'p \<Rightarrow> unit res"

definition Connect :: "('c, 'p) pool_lib \<Rightarrow> string \<Rightarrow> 'p res \<times> bool" where
  "Connect L databaseURL =
     (case pl_parse L databaseURL of
        Inl e \<Rightarrow> (Inl (Wrap ''parse database url'' e), False)
      | Inr config \<Rightarrow> (case pl_new L config of
          Inl e \<Rightarrow> (Inl (Wrap ''create pool'' e), False)
        | Inr pool \<Rightarrow> (case pl_ping L pool of
            Inl e \<Rightarrow> (Inl (Wrap ''ping database'' e), True)
          | Inr _ \<Rightarrow> (Inr pool, False))))"

definition migrate_url :: "string \<Rightarrow> string" where
  "migrate_url databaseURL = replace_first ''postgres://'' ''pgx5://'' (replace_first ''postgresql://'' ''pgx5://'' databaseURL)"

definition ErrNoChange :: go_error where
  "ErrNoChange = Sentinel ''no change''"

text \<open>The migration library: its source and its instance for a URL, and the outcome of \<open>Up\<close>.\<close>

record 'm migrate_lib =
  mg_source :: "unit res"
  mg_new :: "string \<Rightarrow> 'm res"
  mg_up :: "'m \<Rightarrow> unit res"

definition Migrate :: "'m migrate_lib \<Rightarrow> string \<Rightarrow> unit res" where
  "Migrate L databaseURL =
     (case mg_source L of
        Inl e \<Rightarrow> Inl (Wrap ''create migration source'' e)
      | Inr _ \<Rightarrow> (case mg_new L (migrate_url databaseURL) of
          Inl e \<Rightarrow> Inl (Wrap ''create migrate instance'' e)
        | Inr m \<Rightarrow> (case mg_up L m of
            Inl e \<Rightarrow> if e = ErrNoChange then Inr () else Inl (Wrap ''run migrations'' e)
          | Inr _ \<Rightarrow> Inr ())))"

datatype log_level = LevelDebug | LevelInfo | LevelWarn | LevelError

definition log_level_of :: "string \<Rightarrow> log_level" where
  "log_level_of s = (if s = ''debug'' then LevelDebug else if s = ''warn'' then LevelWarn
     else if s = ''error'' then LevelError else LevelInfo)"

text \<open>
  \<open>main\<close> up to the loops: the exit status, or the log level, the intervals and what \<open>server.New\<close> made of the pool and the configuration.
\<close>

definition main_start :: "(string \<Rightarrow> int option) \<Rightarrow> env \<Rightarrow> ('c, 'p) pool_lib \<Rightarrow> 'm migrate_lib \<Rightarrow> ('p \<Rightarrow> config \<Rightarrow> 's res)
    \<Rightarrow> nat + (log_level \<times> intervals \<times> 's)" where
  "main_start parse getenv PL ML new_server =
     (case Load parse getenv of
        Inl _ \<Rightarrow> Inl 1
      | Inr cfg \<Rightarrow> (case fst (Connect PL (cf_database_url cfg)) of
          Inl _ \<Rightarrow> Inl 1
        | Inr pool \<Rightarrow> (case Migrate ML (cf_database_url cfg) of
            Inl _ \<Rightarrow> Inl 1
          | Inr _ \<Rightarrow> (case new_server pool cfg of
              Inl _ \<Rightarrow> Inl 1
            | Inr srv \<Rightarrow> Inr (log_level_of (cf_log_level cfg),
                \<lparr>iv_poller = cf_poller_interval cfg, iv_janitor = cf_janitor_interval cfg\<rparr>, srv)))))"

end
