(* ===== verification/CP_Process_Props.thy ===== *)
theory CP_Process_Props
  imports CP_Process
begin

text \<open>
  What the process guarantees: at most ten provisioning jobs work at a time and all of them come to an end, a shutdown can always be
  completed, and what an orderly shutdown leaves unfinished (\<open>src/cmd/server/main.go\<close>, \<open>src/internal/provisioner/provisioner.go\<close>).
\<close>

section \<open>The books of the pool\<close>

definition working :: "pool \<Rightarrow> nat" where
  "working p = length (filter (\<lambda>x. snd x = Working) (po_jobs p))"

definition pool_ok :: "pool \<Rightarrow> bool" where
  "pool_ok p \<longleftrightarrow> po_wg p = length (po_jobs p) \<and> po_sem p = working p \<and> po_sem p \<le> maxConcurrentJobs"

text \<open>The steps a goroutine still has to make.\<close>

fun phase_work :: "job_phase \<Rightarrow> nat" where
  "phase_work Queued = 3"
| "phase_work Working = 2"
| "phase_work (Leaving b) = 1"

definition pool_work :: "pool \<Rightarrow> nat" where
  "pool_work p = sum_list (map (\<lambda>x. phase_work (snd x)) (po_jobs p))"

lemma job_split:
  assumes "job_at p i = Some ph"
  obtains xs j ys where "po_jobs p = xs @ (j, ph) # ys" "length xs = i"
proof -
  from assms have i: "i < length (po_jobs p)" "snd (po_jobs p ! i) = ph" by (auto simp: job_at_def split: if_splits)
  show thesis
  proof (rule that)
    show "po_jobs p = take i (po_jobs p) @ (fst (po_jobs p ! i), ph) # drop (Suc i) (po_jobs p)"
      using i id_take_nth_drop by fastforce
  qed (use i in simp)
qed

lemma set_phase_split:
  "po_jobs p = xs @ (j, ph) # ys \<Longrightarrow> length xs = i \<Longrightarrow> po_jobs (set_phase i ph' p) = xs @ (j, ph') # ys"
  by (auto simp: set_phase_def list_update_append nth_append)

lemma remove_at_split: "length xs = i \<Longrightarrow> remove_at i (xs @ y # ys) = xs @ ys"
  by (auto simp: remove_at_def)

lemmas pool_books = pool_ok_def working_def pool_work_def

lemma set_phase_books [simp]: "po_wg (set_phase i ph p) = po_wg p" "po_sem (set_phase i ph p) = po_sem p"
  by (simp_all add: set_phase_def)

lemma pool_step_ok:
  assumes "pool_ok p" "pool_step p e = Some q"
  shows "pool_ok q \<and> (\<not> is_spawn e \<longrightarrow> pool_work p = Suc (pool_work q))"
proof (cases e)
  case (Spawn j)
  with assms show ?thesis by (auto simp: pool_books)
next
  case (Acquire i)
  with assms(2) have a: "job_at p i = Some Queued" "po_sem p < maxConcurrentJobs"
      "q = (set_phase i Working p)\<lparr>po_sem := po_sem p + 1\<rparr>"
    by (auto split: if_splits)
  from a(1) obtain xs j ys where s: "po_jobs p = xs @ (j, Queued) # ys" "length xs = i" by (rule job_split)
  show ?thesis using assms(1) a(2) Acquire by (auto simp: a(3) pool_books s set_phase_split [OF s])
next
  case (EndWork i b)
  with assms(2) have a: "job_at p i = Some Working" "q = (set_phase i (Leaving b) p)\<lparr>po_sem := po_sem p - 1\<rparr>"
    by (auto split: if_splits)
  from a(1) obtain xs j ys where s: "po_jobs p = xs @ (j, Working) # ys" "length xs = i" by (rule job_split)
  show ?thesis using assms(1) EndWork by (auto simp: a(2) pool_books s set_phase_split [OF s])
next
  case (Finish i)
  with assms(2) have a: "job_at p i = Some (Leaving False) \<or> job_at p i = Some (Leaving True)"
      "q = p\<lparr>po_wg := po_wg p - 1, po_jobs := remove_at i (po_jobs p)\<rparr>"
    by (auto split: if_splits)
  from a(1) obtain b where "job_at p i = Some (Leaving b)" by blast
  then obtain xs j ys where s: "po_jobs p = xs @ (j, Leaving b) # ys" "length xs = i" by (rule job_split)
  show ?thesis using assms(1) Finish by (auto simp: a(2) pool_books s remove_at_split [OF s(2)])
qed

lemma pool_run_ok: "pool_ok p \<Longrightarrow> pool_run p es = Some q \<Longrightarrow> pool_ok q"
  by (rule jobs.run_preserves [where ok = "\<lambda>_. True"]) (auto simp: list_all_iff dest: pool_step_ok)

lemma empty_pool_ok: "pool_ok empty_pool"
  by (simp add: pool_books empty_pool_def)

text \<open>The earliest job that can make a step, and its step.\<close>

fun phase_event :: "nat \<Rightarrow> job_phase \<Rightarrow> pool_event" where
  "phase_event i Queued = Acquire i"
| "phase_event i Working = EndWork i False"
| "phase_event i (Leaving b) = Finish i"

lemma pool_progress:
  assumes "pool_ok p" "po_jobs p \<noteq> []"
  shows "\<exists>e q. \<not> is_spawn e \<and> pool_step p e = Some q"
proof (cases "\<exists>x\<in>set (po_jobs p). snd x \<noteq> Queued")
  case True
  then obtain i where i: "i < length (po_jobs p)" "snd (po_jobs p ! i) \<noteq> Queued" by (metis in_set_conv_nth)
  then show ?thesis
    by (intro exI [of _ "phase_event i (snd (po_jobs p ! i))"]) (cases "snd (po_jobs p ! i)"; auto simp: job_at_def)
next
  case False
  then have "working p = 0" by (auto simp: working_def filter_empty_conv)
  with assms(1) have "po_sem p < maxConcurrentJobs" by (simp add: pool_ok_def maxConcurrentJobs_def)
  moreover from False assms(2) have "job_at p 0 = Some Queued" by (cases "po_jobs p") (auto simp: job_at_def)
  ultimately show ?thesis by (intro exI [of _ "Acquire 0"]) simp
qed

lemma pool_schedule_length:
  "\<lbrakk>pool_ok p; pool_run p es = Some q; list_all (\<lambda>e. \<not> is_spawn e) es\<rbrakk> \<Longrightarrow> pool_work p = length es + pool_work q"
  by (rule jobs.run_length [where I = pool_ok and ok = "\<lambda>e. \<not> is_spawn e"]) (auto dest: pool_step_ok)

lemma pool_work_0: "pool_work p = 0 \<longleftrightarrow> po_jobs p = []"
proof
  assume "pool_work p = 0"
  moreover have "phase_work ph \<noteq> 0" for ph by (cases ph) simp_all
  ultimately show "po_jobs p = []" by (cases "po_jobs p") (auto simp: pool_work_def)
qed (simp add: pool_work_def)

text \<open>
  C14: Provisioning jobs come to an end. However the jobs were started, at most ten work at a time and the wait group counts exactly the
  unfinished ones; once no new job is started, every schedule takes at most three steps per job, and as long as a job is left some
  goroutine can go on: no schedule ends in a deadlock on the semaphore.
\<close>

theorem pool_jobs_end:
  assumes "pool_run empty_pool es = Some p"
  shows "working p \<le> maxConcurrentJobs \<and> po_wg p = length (po_jobs p) \<and> pool_work p \<le> 3 * length (po_jobs p)
    \<and> (\<forall>fs q. list_all (\<lambda>e. \<not> is_spawn e) fs \<and> pool_run p fs = Some q \<longrightarrow>
          length fs + pool_work q = pool_work p
          \<and> (po_jobs q = [] \<or> (\<exists>e. \<not> is_spawn e \<and> pool_step q e \<noteq> None)))"
proof -
  have ok: "pool_ok p" using pool_run_ok [OF empty_pool_ok assms] .
  have "phase_work ph \<le> 3" for ph by (cases ph) simp_all
  then have w: "pool_work p \<le> 3 * length (po_jobs p)" unfolding pool_work_def
    using sum_list_mono [of "po_jobs p" "\<lambda>x. phase_work (snd x)" "\<lambda>_. 3"] by (simp add: sum_list_triv)
  have "length fs + pool_work q = pool_work p \<and> (po_jobs q = [] \<or> (\<exists>e. \<not> is_spawn e \<and> pool_step q e \<noteq> None))"
    if "list_all (\<lambda>e. \<not> is_spawn e) fs" "pool_run p fs = Some q" for fs q
    using pool_schedule_length [OF ok that(2,1)] pool_progress [OF pool_run_ok [OF ok that(2)]] by force
  then show ?thesis using ok w by (auto simp: pool_ok_def)
qed

definition two_jobs :: "pool_event list" where
  "two_jobs = [Spawn sample_job, Spawn sample_job, Acquire 1]"

definition two_jobs_ended :: "pool_event list" where
  "two_jobs_ended = [EndWork 1 True, Acquire 0, Finish 1, EndWork 0 False, Finish 0]"

lemmas sample_pool = two_jobs_def two_jobs_ended_def empty_pool_def job_at_def set_phase_def remove_at_def maxConcurrentJobs_def

theorem pool_jobs_end_witness:
  "\<exists>p. pool_run empty_pool two_jobs = Some p \<and> po_wg p = 2 \<and> length two_jobs_ended = pool_work p"
proof -
  obtain p where p: "pool_run empty_pool two_jobs = Some p" "pool_run p two_jobs_ended = Some empty_pool" "length (po_jobs p) = 2"
    by (simp add: sample_pool)
  moreover have "list_all (\<lambda>e. \<not> is_spawn e) two_jobs_ended" "pool_work empty_pool = 0"
    by (simp_all add: two_jobs_ended_def empty_pool_def pool_work_def)
  ultimately show ?thesis using pool_jobs_end [OF p(1)] by fastforce
qed

text \<open>
  A panic that comes after the activation, while the station or the route is set up, is recovered by \<open>setError\<close>: the tenant stays active, because
  \<open>SetError\<close> does not apply to it, but its RAM is returned to the node.
\<close>

lemma panic_after_activation:
  "let w' = snd (run_state (panic_recovered sample_E (sample_job\<lparr>job_tenant := ''t1''\<rparr>)) sample_w)
   in map_option tn_status (tenant_row (w_db w') ''t1'') = Some Active \<and> node_cap (w_db w') ''n1'' = Some (6144 - 1536, 8192)"
  by code_simp

section \<open>The books of the process\<close>

definition loop_ok :: "loop \<Rightarrow> bool" where
  "loop_ok l \<longleftrightarrow> lo_wg l = (if lo_phase l \<in> {FirstPass, Idle, Pass} then 1 else 0)"

definition process_ok :: "process \<Rightarrow> bool" where
  "process_ok s \<longleftrightarrow> pool_ok (ps_pool s) \<and> loop_ok (ps_poller s) \<and> loop_ok (ps_janitor s)
     \<and> (lo_phase (ps_poller s) = Broken \<or> lo_phase (ps_janitor s) = Broken \<longrightarrow> exited s)"

lemma loop_step_ok: "loop_ok l \<Longrightarrow> loop_step iv l e = Some k \<Longrightarrow> loop_ok k"
  by (cases e) (auto simp: loop_ok_def split: if_splits)

lemma cancel_simps [simp]: "lo_phase (cancel l) = lo_phase l" "lo_wg (cancel l) = lo_wg l" "lo_cancelled (cancel l)" "loop_ok (cancel l) = loop_ok l"
  by (simp_all add: cancel_def loop_ok_def)

lemma with_loop_SomeE:
  assumes "with_loop upd r = Some t"
  obtains (broken) l where "r = Some l" "lo_phase l = Broken" "t = (upd l)\<lparr>ps_main := Exited 2\<rparr>"
    | (going) l where "r = Some l" "lo_phase l \<noteq> Broken" "t = upd l"
  using assms by (auto simp: with_loop_def split: option.splits if_splits)

lemma process_step_main: "process_step iv s e = Some t \<Longrightarrow> main_step iv s e = Some t \<and> \<not> exited s"
  by (simp add: process_step_def split: if_splits)

lemma exited_simps [simp]:
  "exited (s\<lparr>ps_main := Exited n\<rparr>)" "exited (s\<lparr>ps_pool := p\<rparr>) = exited s" "exited (s\<lparr>ps_poller := l\<rparr>) = exited s"
  "exited (s\<lparr>ps_janitor := l\<rparr>) = exited s"
  by (simp_all add: exited_def)

lemma main_step_ok:
  assumes "process_ok s" "\<not> exited s" "main_step iv s e = Some t"
  shows "process_ok t"
  using assms
proof (cases e)
  case (InPoller x)
  with assms show ?thesis by (auto simp: process_ok_def elim!: with_loop_SomeE dest: loop_step_ok)
next
  case (InJanitor x)
  with assms show ?thesis by (auto simp: process_ok_def elim!: with_loop_SomeE dest: loop_step_ok)
next
  case (StartJob j)
  with assms show ?thesis using pool_step_ok [of "ps_pool s" "Spawn j"] by (auto simp: process_ok_def split: if_splits)
qed (auto simp: process_ok_def dest: pool_step_ok split: if_splits)

lemma started_ok: "process_ok started"
  by (simp add: process_ok_def started_def empty_pool_ok loop_ok_def new_loop_def)

text \<open>An invariant that also speaks of the events so far.\<close>

lemma run_invariant:
  assumes "P [] started"
    and "\<And>es e s t. \<lbrakk>P es s; process_ok s; \<not> exited s; main_step iv s e = Some t\<rbrakk> \<Longrightarrow> P (es @ [e]) t"
    and "run_process iv started es = Some s"
  shows "P es s \<and> process_ok s"
proof (rule control.run_history [OF _ assms(3)])
  show "P [] started \<and> process_ok started" using assms(1) started_ok by simp
qed (use assms(2) main_step_ok in \<open>blast dest: process_step_main\<close>)

section \<open>What a shutdown leaves unfinished\<close>

definition after :: "process_event \<Rightarrow> process_event list \<Rightarrow> process_event list" where
  "after x es = dropWhile (\<lambda>e. e \<noteq> x) es"

lemma after_Nil [simp]: "after x [] = []"
  by (simp add: after_def)

lemma after_snoc: "after x (es @ [e]) = (if x \<in> set es then after x es @ [e] else if e = x then [e] else [])"
  by (auto simp: after_def dropWhile_append dropWhile_append3 intro!: dropWhile_append1 dropWhile_append2)

lemma after_absent: "x \<notin> set es \<Longrightarrow> after x es = []"
  by (auto simp: after_def dropWhile_eq_Nil_conv)

lemma in_after_snoc: "y \<in> set (after x (es @ [e])) \<longleftrightarrow> y \<in> set (after x es) \<or> (e = y \<and> (x \<in> set es \<or> e = x))"
proof (cases "x \<in> set es")
  case False
  then have "after x es = []" by (rule after_absent)
  with False show ?thesis unfolding after_snoc by (cases "e = x") auto
qed (simp add: after_snoc disj_commute eq_commute)

fun starts_job :: "process_event \<Rightarrow> bool" where
  "starts_job (StartJob j) = True"
| "starts_job _ = False"

definition late_starts :: "process_event list \<Rightarrow> nat" where
  "late_starts es = length (filter starts_job (after PoolWaited es))"

lemma late_starts_simps [simp]:
  "late_starts [] = 0"
  "late_starts (es @ [e]) = late_starts es + (if PoolWaited \<in> set es \<and> starts_job e then 1 else 0)"
  by (auto simp: late_starts_def after_snoc after_absent)

definition jobs_accounted :: "process_event list \<Rightarrow> process \<Rightarrow> bool" where
  "jobs_accounted es s \<longleftrightarrow> (ps_prov_done s \<longleftrightarrow> PoolWaited \<in> set es)
     \<and> (ps_prov_done s \<longrightarrow> length (po_jobs (ps_pool s)) \<le> late_starts es)
     \<and> (ps_main s \<in> {StopServer, Exited 0} \<and> ProvTimeout \<notin> set es \<longrightarrow> ps_prov_done s)
     \<and> (ps_main s = Exited 0 \<longrightarrow> ps_fresh s = 0 \<and> ps_served s = 0)"

lemma pool_step_length:
  "pool_step p e = Some q \<Longrightarrow> length (po_jobs q) \<le> length (po_jobs p) + (if is_spawn e then 1 else 0)"
  by (cases e) (auto simp: set_phase_def remove_at_def split: if_splits)

lemma jobs_accounted_step:
  assumes "jobs_accounted es s" "process_ok s" "\<not> exited s" "main_step iv s e = Some t"
  shows "jobs_accounted (es @ [e]) t"
  using assms
proof (cases e)
  case (InPool x)
  with assms show ?thesis by (auto simp: jobs_accounted_def dest!: pool_step_length split: if_splits)
next
  case (InPoller x)
  with assms show ?thesis by (auto simp: jobs_accounted_def elim!: with_loop_SomeE)
next
  case (InJanitor x)
  with assms show ?thesis by (auto simp: jobs_accounted_def elim!: with_loop_SomeE)
next
  case PoolWaited
  with assms have "po_jobs (ps_pool s) = []" "t = s\<lparr>ps_prov_done := True\<rparr>"
    by (auto simp: process_ok_def pool_ok_def pool_idle_def split: if_splits)
  with PoolWaited assms(1) show ?thesis by (auto simp: jobs_accounted_def)
qed (auto simp: jobs_accounted_def exited_def split: if_splits)

text \<open>How far \<open>main\<close> has come with an orderly shutdown.\<close>

fun stage :: "main_phase \<Rightarrow> nat" where
  "stage Serving = 0"
| "stage StopPoller = 1"
| "stage StopJanitor = 2"
| "stage StopProvisioner = 3"
| "stage StopServer = 4"
| "stage (Exited n) = (if n = 0 then 5 else 0)"

text \<open>A loop that has not been started after its cancellation is not in a pass once \<open>main\<close> has waited for it.\<close>

definition at_rest :: "loop \<Rightarrow> bool" where
  "at_rest l \<longleftrightarrow> lo_phase l \<in> {Scheduled, Gone}"

definition loops_accounted :: "process_event list \<Rightarrow> process \<Rightarrow> bool" where
  "loops_accounted es s \<longleftrightarrow> (1 \<le> stage (ps_main s) \<longrightarrow> Signal \<in> set es)
     \<and> (2 \<le> stage (ps_main s) \<longrightarrow> InPoller Start \<in> set (after Signal es) \<or> at_rest (ps_poller s))
     \<and> (3 \<le> stage (ps_main s) \<longrightarrow> InJanitor Start \<in> set (after Signal es) \<or> at_rest (ps_janitor s))"

lemma loop_at_rest: "loop_step iv l e = Some k \<Longrightarrow> e \<noteq> Start \<Longrightarrow> \<not> at_rest l"
  by (cases e) (auto simp: at_rest_def split: if_splits)

lemma at_rest_cancel [simp]: "at_rest (cancel l) = at_rest l"
  by (simp add: at_rest_def)

lemma loop_wg_0: "loop_ok l \<Longrightarrow> lo_wg l = 0 \<Longrightarrow> lo_phase l \<noteq> Broken \<Longrightarrow> at_rest l"
  by (cases "lo_phase l") (auto simp: loop_ok_def at_rest_def)

lemma not_broken: "process_ok s \<Longrightarrow> \<not> exited s \<Longrightarrow> lo_phase (ps_poller s) \<noteq> Broken \<and> lo_phase (ps_janitor s) \<noteq> Broken"
  by (auto simp: process_ok_def)

lemma loops_accounted_step:
  assumes "loops_accounted es s" "process_ok s" "\<not> exited s" "main_step iv s e = Some t"
  shows "loops_accounted (es @ [e]) t"
proof (cases e)
  case (InPoller x)
  from assms(4) [unfolded InPoller main_step.simps] show ?thesis
  proof (cases rule: with_loop_SomeE)
    case (going l)
    with assms(1) loop_at_rest [OF going(1)] InPoller show ?thesis
      by (cases "x = Start") (auto simp: loops_accounted_def in_after_snoc)
  qed (simp add: loops_accounted_def)
next
  case (InJanitor x)
  from assms(4) [unfolded InJanitor main_step.simps] show ?thesis
  proof (cases rule: with_loop_SomeE)
    case (going l)
    with assms(1) loop_at_rest [OF going(1)] InJanitor show ?thesis
      by (cases "x = Start") (auto simp: loops_accounted_def in_after_snoc)
  qed (simp add: loops_accounted_def)
next
  case PollerWaited
  with assms not_broken [OF assms(2,3)] loop_wg_0 [of "ps_poller s"] show ?thesis
    by (auto simp: loops_accounted_def process_ok_def split: if_splits)
next
  case JanitorWaited
  with assms not_broken [OF assms(2,3)] loop_wg_0 [of "ps_janitor s"] show ?thesis
    by (auto simp: loops_accounted_def process_ok_def in_after_snoc split: if_splits)
qed (use assms(1,4) in \<open>auto simp: loops_accounted_def in_after_snoc split: if_splits\<close>)

text \<open>
  C12: What an orderly shutdown leaves behind. When the process has exited with status 0, every request has been answered; unless the wait for
  the provisioner timed out, at most those jobs are unfinished that requests started after that wait; and neither the poller nor the
  janitor is in a pass unless its goroutine first ran after the signal.
\<close>

theorem shutdown_leaves:
  assumes "run_process iv started es = Some s" "ps_main s = Exited 0"
  shows "ps_fresh s = 0 \<and> ps_served s = 0
    \<and> (ProvTimeout \<in> set es \<or> length (po_jobs (ps_pool s)) \<le> late_starts es)
    \<and> (InPoller Start \<in> set (after Signal es) \<or> at_rest (ps_poller s))
    \<and> (InJanitor Start \<in> set (after Signal es) \<or> at_rest (ps_janitor s))"
proof -
  have "jobs_accounted [] started" by (simp add: jobs_accounted_def started_def empty_pool_def)
  then have "jobs_accounted es s" using jobs_accounted_step assms(1) by (rule run_invariant [THEN conjunct1])
  moreover have "loops_accounted [] started" by (simp add: loops_accounted_def started_def)
  then have "loops_accounted es s" using loops_accounted_step assms(1) by (rule run_invariant [THEN conjunct1])
  ultimately show ?thesis using assms(2) by (auto simp: jobs_accounted_def loops_accounted_def)
qed

definition minute :: int where
  "minute = 60000000000"

definition sample_iv :: intervals where
  "sample_iv = \<lparr>iv_poller = minute, iv_janitor = minute\<rparr>"

text \<open>Both loops running, one request in progress, then the signal: the poller and the janitor end.\<close>

definition loops_stopped :: "process_event list" where
  "loops_stopped = [InPoller Start, InPoller PassDone, InJanitor Start, InJanitor PassDone, Arrive, Signal, InPoller SeeCancel, PollerWaited,
     InJanitor SeeCancel, JanitorWaited]"

text \<open>The request starts its job before the provisioner is waited for, or after.\<close>

definition job_in_time :: "process_event list" where
  "job_in_time = loops_stopped @ [StartJob sample_job, InPool (Acquire 0), InPool (EndWork 0 False), Answer False, InPool (Finish 0),
     PoolWaited, ProvDone, ServerDrained]"

definition job_too_late :: "process_event list" where
  "job_too_late = loops_stopped @ [PoolWaited, StartJob sample_job, InPool (Acquire 0), ProvDone, Answer False, ServerDrained]"

lemmas sample_runs = job_in_time_def job_too_late_def loops_stopped_def sample_iv_def started_def empty_pool_def new_loop_def cancel_def
  process_step_def exited_def with_loop_def job_at_def set_phase_def remove_at_def pool_idle_def maxConcurrentJobs_def minute_def

lemma job_in_time_run:
  "\<exists>s. run_process sample_iv started job_in_time = Some s \<and> ps_main s = Exited 0 \<and> ps_pool s = empty_pool"
  by (simp add: sample_runs)

text \<open>
  The HTTP server is shut down after the provisioner, so a request may still start a job when the provisioner has already been reported
  finished: the process exits with status 0 while that job is at work.
\<close>

lemma job_outlives_shutdown:
  "\<exists>s. run_process sample_iv started job_too_late = Some s \<and> ps_main s = Exited 0 \<and> working (ps_pool s) = 1 \<and> ProvTimeout \<notin> set job_too_late"
  by (simp add: sample_runs working_def)

text \<open>\<open>wg.Add(1)\<close> stands inside the goroutine, so \<open>Wait\<close> returns at once when the goroutine has not run yet; its first pass comes later.\<close>

lemma pass_outlives_wait:
  "\<exists>s. run_process sample_iv started [Signal, PollerWaited, JanitorWaited, PoolWaited, ProvDone, InPoller Start, ServerDrained] = Some s
     \<and> ps_main s = Exited 0 \<and> lo_phase (ps_poller s) = FirstPass"
  by (simp add: sample_runs)

theorem shutdown_leaves_witness:
  "\<exists>s. run_process sample_iv started job_in_time = Some s \<and> ps_served s = 0"
proof -
  obtain s where s: "run_process sample_iv started job_in_time = Some s" "ps_main s = Exited 0" using job_in_time_run by blast
  with shutdown_leaves [OF s] show ?thesis by blast
qed

section \<open>A shutdown can be completed\<close>

definition positive :: "intervals \<Rightarrow> bool" where
  "positive iv \<longleftrightarrow> 0 < iv_poller iv \<and> 0 < iv_janitor iv"

text \<open>With positive intervals no ticker panics, and the loops \<open>main\<close> waits for have been cancelled.\<close>

definition stopping_ok :: "intervals \<Rightarrow> process_event list \<Rightarrow> process \<Rightarrow> bool" where
  "stopping_ok iv es s \<longleftrightarrow> (positive iv \<longrightarrow> ps_main s \<noteq> Exited 2)
     \<and> (1 \<le> stage (ps_main s) \<longrightarrow> lo_cancelled (ps_poller s)) \<and> (2 \<le> stage (ps_main s) \<longrightarrow> lo_cancelled (ps_janitor s))"

lemma loop_step_cancelled: "loop_step iv l e = Some k \<Longrightarrow> lo_cancelled k = lo_cancelled l"
  by (cases e) (auto split: if_splits)

lemma loop_step_broken: "loop_step iv l e = Some k \<Longrightarrow> lo_phase k = Broken \<Longrightarrow> \<not> 0 < iv"
  by (cases e) (auto split: if_splits)

lemma stopping_ok_step:
  assumes "stopping_ok iv es s" "process_ok s" "\<not> exited s" "main_step iv s e = Some t"
  shows "stopping_ok iv (es @ [e]) t"
proof (cases e)
  case (InPoller x)
  from assms(4) [unfolded InPoller main_step.simps] assms(1) show ?thesis
    by (cases rule: with_loop_SomeE) (auto simp: stopping_ok_def positive_def dest: loop_step_cancelled loop_step_broken)
next
  case (InJanitor x)
  from assms(4) [unfolded InJanitor main_step.simps] assms(1) show ?thesis
    by (cases rule: with_loop_SomeE) (auto simp: stopping_ok_def positive_def dest: loop_step_cancelled loop_step_broken)
qed (use assms(1,4) in \<open>auto simp: stopping_ok_def split: if_splits\<close>)

lemma reached_ok:
  assumes "run_process iv started es = Some s"
  shows "process_ok s" "stopping_ok iv es s"
proof -
  have "stopping_ok iv [] started" by (simp add: stopping_ok_def started_def)
  then have "stopping_ok iv es s \<and> process_ok s" using stopping_ok_step assms by (rule run_invariant)
  then show "process_ok s" "stopping_ok iv es s" by simp_all
qed

text \<open>What is left to do, when the poller and the janitor that have not run yet are left alone and no further request arrives.\<close>

fun loop_work :: "loop_phase \<Rightarrow> nat" where
  "loop_work FirstPass = 2"
| "loop_work Pass = 2"
| "loop_work Idle = 1"
| "loop_work _ = 0"

definition shutdown_work :: "process \<Rightarrow> nat" where
  "shutdown_work s = pool_work (ps_pool s) + ps_fresh s + ps_served s + loop_work (lo_phase (ps_poller s)) + loop_work (lo_phase (ps_janitor s))
     + (5 - stage (ps_main s)) + (if ps_prov_done s then 0 else 1)"

fun forced :: "process_event \<Rightarrow> bool" where
  "forced ProvTimeout = True"
| "forced ShutdownTimeout = True"
| "forced ListenFails = True"
| "forced _ = False"

definition advances :: "intervals \<Rightarrow> process \<Rightarrow> bool" where
  "advances iv s \<longleftrightarrow> (\<exists>e t. \<not> forced e \<and> main_step iv s e = Some t \<and> shutdown_work s = Suc (shutdown_work t)
     \<and> (ps_main t = Exited 0 \<longrightarrow> po_jobs (ps_pool t) = []))"

lemma advancesI:
  "\<lbrakk>main_step iv s e = Some t; \<not> forced e; shutdown_work s = Suc (shutdown_work t); ps_main t = Exited 0 \<longrightarrow> po_jobs (ps_pool t) = []\<rbrakk>
   \<Longrightarrow> advances iv s"
  unfolding advances_def by blast

lemma advances_by:
  assumes "\<not> forced e"
    and "case main_step iv s e of None \<Rightarrow> False
      | Some t \<Rightarrow> shutdown_work s = Suc (shutdown_work t) \<and> (ps_main t = Exited 0 \<longrightarrow> po_jobs (ps_pool t) = [])"
  shows "advances iv s"
  using assms unfolding advances_def by (auto split: option.splits)

lemma pool_advances:
  assumes "process_ok s" "\<not> exited s" "po_jobs (ps_pool s) \<noteq> []"
  shows "advances iv s"
proof -
  have ok: "pool_ok (ps_pool s)" using assms(1) by (simp add: process_ok_def)
  from pool_progress [OF ok assms(3)] obtain e q where e: "\<not> is_spawn e" "pool_step (ps_pool s) e = Some q" by blast
  with pool_step_ok [OF ok e(2)] show ?thesis
    by (intro advancesI [of iv s "InPool e" "s\<lparr>ps_pool := q\<rparr>"]) (use assms(2) in \<open>simp_all add: shutdown_work_def exited_def split: main_phase.splits\<close>)
qed

text \<open>A cancelled loop that is running can go on, towards its end.\<close>

lemma loop_progress:
  assumes "loop_ok l" "lo_wg l \<noteq> 0" "lo_cancelled l" "0 < iv"
  shows "\<exists>e k. loop_step iv l e = Some k \<and> lo_phase k \<noteq> Broken \<and> loop_work (lo_phase l) = Suc (loop_work (lo_phase k))"
  using assms
  by (intro exI [of _ "if lo_phase l = Idle then SeeCancel else PassDone"]) (cases "lo_phase l"; auto simp: loop_ok_def)

lemma loops_advance:
  assumes "positive iv" "process_ok s" "\<not> exited s"
    and "lo_wg (ps_poller s) \<noteq> 0 \<and> lo_cancelled (ps_poller s) \<or> lo_wg (ps_janitor s) \<noteq> 0 \<and> lo_cancelled (ps_janitor s)"
  shows "advances iv s"
  using assms(4)
proof
  assume "lo_wg (ps_poller s) \<noteq> 0 \<and> lo_cancelled (ps_poller s)"
  then obtain e k where "loop_step (iv_poller iv) (ps_poller s) e = Some k" "lo_phase k \<noteq> Broken"
      "loop_work (lo_phase (ps_poller s)) = Suc (loop_work (lo_phase k))"
    using loop_progress [of "ps_poller s" "iv_poller iv"] assms(1,2) unfolding positive_def process_ok_def by blast
  then show ?thesis
    by (intro advancesI [of iv s "InPoller e" "s\<lparr>ps_poller := k\<rparr>"])
      (use assms(3) in \<open>simp_all add: with_loop_def shutdown_work_def exited_def split: main_phase.splits\<close>)
next
  assume "lo_wg (ps_janitor s) \<noteq> 0 \<and> lo_cancelled (ps_janitor s)"
  then obtain e k where "loop_step (iv_janitor iv) (ps_janitor s) e = Some k" "lo_phase k \<noteq> Broken"
      "loop_work (lo_phase (ps_janitor s)) = Suc (loop_work (lo_phase k))"
    using loop_progress [of "ps_janitor s" "iv_janitor iv"] assms(1,2) unfolding positive_def process_ok_def by blast
  then show ?thesis
    by (intro advancesI [of iv s "InJanitor e" "s\<lparr>ps_janitor := k\<rparr>"])
      (use assms(3) in \<open>simp_all add: with_loop_def shutdown_work_def exited_def split: main_phase.splits\<close>)
qed

lemma loop_rests: "loop_ok l \<Longrightarrow> lo_wg l = 0 \<Longrightarrow> loop_work (lo_phase (cancel l)) = 0"
  by (cases "lo_phase l") (simp_all add: loop_ok_def)

lemma shutdown_progress:
  assumes "positive iv" "process_ok s" "stopping_ok iv es s" "\<not> exited s"
  shows "advances iv s"
proof (cases "po_jobs (ps_pool s) = []")
  case True
  then have idle: "pool_idle (ps_pool s)" using assms(2) by (simp add: pool_idle_def process_ok_def pool_ok_def)
  show ?thesis
  proof (cases "ps_main s")
    case Serving
    then show ?thesis by (intro advances_by [of Signal]) (simp_all add: shutdown_work_def)
  next
    case StopPoller
    show ?thesis
    proof (cases "lo_wg (ps_poller s) = 0")
      case True
      with StopPoller show ?thesis by (intro advances_by [of PollerWaited]) (simp_all add: shutdown_work_def)
    qed (use assms StopPoller in \<open>auto simp: stopping_ok_def intro!: loops_advance\<close>)
  next
    case StopJanitor
    show ?thesis
    proof (cases "lo_wg (ps_janitor s) = 0")
      case True
      with StopJanitor show ?thesis by (intro advances_by [of JanitorWaited]) (simp_all add: shutdown_work_def)
    qed (use assms StopJanitor in \<open>auto simp: stopping_ok_def intro!: loops_advance\<close>)
  next
    case StopProvisioner
    show ?thesis
    proof (cases "ps_prov_done s")
      case True
      with StopProvisioner show ?thesis by (intro advances_by [of ProvDone]) (simp_all add: shutdown_work_def)
    next
      case False
      with StopProvisioner idle show ?thesis by (intro advances_by [of PoolWaited]) (simp_all add: shutdown_work_def)
    qed
  next
    case StopServer
    consider "0 < ps_fresh s" | "0 < ps_served s" | "ps_fresh s = 0" "ps_served s = 0" by blast
    then show ?thesis
    proof cases
      case 1
      with StopServer show ?thesis by (intro advances_by [of "Answer True"]) (simp_all add: shutdown_work_def)
    next
      case 2
      with StopServer show ?thesis by (intro advances_by [of "Answer False"]) (simp_all add: shutdown_work_def)
    next
      case 3
      with StopServer True show ?thesis by (intro advances_by [of ServerDrained]) (simp_all add: shutdown_work_def)
    qed
  qed (use assms(4) in \<open>simp add: exited_def\<close>)
qed (use assms in \<open>simp add: pool_advances\<close>)

lemma unforced_exit:
  assumes "main_step iv s e = Some t" "\<not> exited s" "\<not> forced e" "exited t"
  shows "ps_main t = Exited 0 \<or> ps_main t = Exited 2"
proof (cases e)
  case (InPoller x)
  from assms(1) [unfolded InPoller main_step.simps] assms(2,4) show ?thesis by (cases rule: with_loop_SomeE) auto
next
  case (InJanitor x)
  from assms(1) [unfolded InJanitor main_step.simps] assms(2,4) show ?thesis by (cases rule: with_loop_SomeE) auto
qed (use assms in \<open>auto simp: exited_def split: if_splits\<close>)

lemma shutdown_completes:
  assumes "positive iv" "process_ok s" "stopping_ok iv es s" "\<not> exited s"
  shows "\<exists>fs t. run_process iv s fs = Some t \<and> length fs \<le> shutdown_work s \<and> list_all (\<lambda>e. \<not> forced e) fs
    \<and> ps_main t = Exited 0 \<and> po_jobs (ps_pool t) = []"
  using assms(2-4)
proof (induction "shutdown_work s" arbitrary: s es)
  case (Suc n)
  from shutdown_progress [OF assms(1) Suc.prems] obtain e t where e: "\<not> forced e" "main_step iv s e = Some t"
      "shutdown_work s = Suc (shutdown_work t)" "ps_main t = Exited 0 \<longrightarrow> po_jobs (ps_pool t) = []"
    unfolding advances_def by blast
  have ok: "process_ok t" "stopping_ok iv (es @ [e]) t"
    using main_step_ok [OF Suc.prems(1,3) e(2)] stopping_ok_step [OF Suc.prems(2,1,3) e(2)] by simp_all
  have step: "process_step iv s e = Some t" using e(2) Suc.prems(3) by (simp add: process_step_def)
  show ?case
  proof (cases "exited t")
    case True
    with unforced_exit [OF e(2) Suc.prems(3) e(1)] ok(2) assms(1) have "ps_main t = Exited 0" by (auto simp: stopping_ok_def)
    then show ?thesis using e step by (intro exI [of _ "[e]"] exI [of _ t]) simp
  next
    case False
    with Suc.hyps(1) [of t "es @ [e]"] Suc.hyps(2) e(3) ok obtain fs u where "run_process iv t fs = Some u" "length fs \<le> shutdown_work t"
        "list_all (\<lambda>e. \<not> forced e) fs" "ps_main u = Exited 0" "po_jobs (ps_pool u) = []" by auto
    then show ?thesis using e step by (intro exI [of _ "e # fs"] exI [of _ u]) simp
  qed
next
  case 0
  from shutdown_progress [OF assms(1) 0(2-4)] 0(1) show ?case by (auto simp: advances_def)
qed

text \<open>
  C13: A shutdown can always be completed. With positive intervals no panic of a ticker ends the process, and from every state it reaches
  there is a schedule, without a further request and without any timeout or failure, in which it answers its requests, finishes
  all provisioning jobs and exits with status 0; it has no more steps than there is work left.
\<close>

theorem shutdown_can_complete:
  assumes "0 < iv_poller iv" "0 < iv_janitor iv" "run_process iv started es = Some s"
  shows "ps_main s \<noteq> Exited 2 \<and> (exited s \<or> (\<exists>fs t. run_process iv s fs = Some t \<and> length fs \<le> shutdown_work s
    \<and> list_all (\<lambda>e. \<not> forced e) fs \<and> ps_main t = Exited 0 \<and> po_jobs (ps_pool t) = []))"
proof -
  have iv: "positive iv" using assms(1,2) by (simp add: positive_def)
  show ?thesis using reached_ok [OF assms(3)] shutdown_completes [OF iv] iv by (auto simp: stopping_ok_def)
qed

theorem shutdown_can_complete_witness:
  "\<exists>s fs t. run_process sample_iv started loops_stopped = Some s \<and> ps_fresh s = 1
     \<and> run_process sample_iv s fs = Some t \<and> ps_main t = Exited 0 \<and> po_jobs (ps_pool t) = []"
proof -
  obtain s where s: "run_process sample_iv started loops_stopped = Some s" "ps_fresh s = 1" "\<not> exited s"
    by (simp add: sample_runs)
  from shutdown_can_complete [OF _ _ s(1)] s(2,3) obtain fs t
    where "run_process sample_iv s fs = Some t" "ps_main t = Exited 0" "po_jobs (ps_pool t) = []"
    by (auto simp: sample_iv_def minute_def)
  then show ?thesis using s(1,2) by blast
qed

section \<open>The start\<close>

text \<open>A loop whose interval is not positive ends the process after its first pass.\<close>

lemma bad_interval_ends_process:
  assumes "iv_poller iv \<le> 0"
  shows "map_option ps_main (run_process iv started [InPoller Start, InPoller PassDone]) = Some (Exited 2)"
  using assms by (simp add: sample_runs)

text \<open>A number of seconds in \<open>POLLER_INTERVAL\<close> that does not fit into 64 bits of nanoseconds does so.\<close>

lemma long_interval_ends_process:
  assumes "main_start (\<lambda>_. None) getenv PL ML new_server = Inr (l, iv, srv)" "getenv ''POLLER_INTERVAL'' = string_of_nat 10000000000"
  shows "map_option ps_main (run_process iv started [InPoller Start, InPoller PassDone]) = Some (Exited 2)"
proof -
  from assms(1) obtain c where c: "Load (\<lambda>_. None) getenv = Inr c" "iv = \<lparr>iv_poller = cf_poller_interval c, iv_janitor = cf_janitor_interval c\<rparr>"
    by (auto simp: main_start_def split: sum.splits)
  from c(1) have "cf_poller_interval c = parseDuration (\<lambda>_. None) getenv ''POLLER_INTERVAL'' (10 * go_second)"
    by (auto simp: Load_cases config_of_def split: list.splits)
  with long_interval_wraps [of getenv "''POLLER_INTERVAL''"] assms(2) have "iv_poller iv < 0" by (simp add: c(2))
  then show ?thesis by (intro bad_interval_ends_process) simp
qed

text \<open>The process serves only with a configuration, a database that answered the ping, and a schema that is up to date.\<close>

lemma main_start_serves:
  assumes "main_start parse getenv PL ML new_server = Inr (l, iv, srv)"
  obtains c pool where "Load parse getenv = Inr c" "Connect PL (cf_database_url c) = (Inr pool, False)" "pl_ping PL pool = Inr ()"
    "Migrate ML (cf_database_url c) = Inr ()" "new_server pool c = Inr srv"
proof -
  from assms obtain c pool where c: "Load parse getenv = Inr c" "fst (Connect PL (cf_database_url c)) = Inr pool"
      "Migrate ML (cf_database_url c) = Inr ()" "new_server pool c = Inr srv"
    by (auto simp: main_start_def split: sum.splits)
  from c(2) have "Connect PL (cf_database_url c) = (Inr pool, False)" "pl_ping PL pool = Inr ()"
    by (auto simp: Connect_def split: sum.splits)
  with c show thesis by (intro that)
qed

text \<open>A failed ping closes the pool, and only that.\<close>

lemma Connect_closes: "snd (Connect PL u) \<longleftrightarrow> (\<exists>c pool e. pl_parse PL u = Inr c \<and> pl_new PL c = Inr pool \<and> pl_ping PL pool = Inl e)"
  by (auto simp: Connect_def split: sum.splits)

lemma replace_first_prefix: "old \<noteq> [] \<Longrightarrow> replace_first old new (old @ s) = new @ s"
  by (cases old) (simp_all add: has_prefix_def)

text \<open>Both documented schemes become the one of the migration library, as long as \<open>postgres://\<close> does not occur again.\<close>

fun occurs :: "string \<Rightarrow> string \<Rightarrow> bool" where
  "occurs old [] = (old = [])"
| "occurs old (c # s) = (has_prefix (c # s) old \<or> occurs old s)"

lemma replace_first_absent: "\<not> occurs old s \<Longrightarrow> replace_first old new s = s"
  by (induction s) auto

lemma migrate_url_schemes:
  assumes "\<not> occurs ''postgres://'' s" "\<not> occurs ''postgresql://'' s"
  shows "migrate_url (''postgresql://'' @ s) = ''pgx5://'' @ s" "migrate_url (''postgres://'' @ s) = ''pgx5://'' @ s"
proof -
  have "\<not> occurs ''postgres://'' (''pgx5://'' @ s)" "\<not> occurs ''postgresql://'' (''postgres://'' @ s)"
    using assms by (simp_all add: has_prefix_def)
  then show "migrate_url (''postgresql://'' @ s) = ''pgx5://'' @ s" "migrate_url (''postgres://'' @ s) = ''pgx5://'' @ s"
    unfolding migrate_url_def by (simp_all only: replace_first_absent replace_first_prefix list.distinct not_False_eq_True)
qed

end
