(* ===== verification/CP_Start.thy ===== *)
theory CP_Start
  imports CP_Server CP_Admin_View CP_Process_Props
begin

text \<open>
  From the environment to the serving process: \<open>New\<close> with its error paths (\<open>src/internal/server/server.go\<close>) inside the start of \<open>main\<close>
  (\<open>src/cmd/server/main.go\<close>), and what a started process guarantees.
\<close>

section \<open>The middleware of all routes\<close>

record cors_options =
  co_origins :: "string list"
  co_methods :: "string list"
  co_headers :: "string list"
  co_credentials :: bool
  co_max_age :: int

definition cors_of :: "config \<Rightarrow> cors_options" where
  "cors_of c = \<lparr>co_origins = cf_cors_origins c, co_methods = [''GET'', ''POST'', ''PUT'', ''DELETE'', ''OPTIONS''],
     co_headers = [''Authorization'', ''Content-Type''], co_credentials = True, co_max_age = 300\<rparr>"

definition quoted :: "string \<Rightarrow> string" where
  "quoted s = squote # s @ [squote]"

definition security_headers :: "(string \<times> string) list" where
  "security_headers =
     [(''X-Frame-Options'', ''DENY''),
      (''X-Content-Type-Options'', ''nosniff''),
      (''Referrer-Policy'', ''strict-origin-when-cross-origin''),
      (''Strict-Transport-Security'', ''max-age=63072000; includeSubDomains''),
      (''Content-Security-Policy'',
        ''default-src '' @ quoted ''self'' @ ''; script-src '' @ quoted ''self'' @ ''; style-src '' @ quoted ''self'' @ '' ''
          @ quoted ''unsafe-inline'' @ ''; img-src '' @ quoted ''self'' @ '' data:'')]"

text \<open>The headers are set before the handler runs, so every answer carries them; a handler can only set others beside them.\<close>

definition securityHeaders :: "'a cp \<Rightarrow> ((string \<times> string) list \<times> 'a) cp" where
  "securityHeaders next = do { r \<leftarrow> next; State_Monad.return (security_headers, r) }"

section \<open>The relying party\<close>

definition rp_id :: "config \<Rightarrow> string" where
  "rp_id c = (if cf_webauthn_rpid c = [] then ''localhost'' else cf_webauthn_rpid c)"

definition rp_origin :: "config \<Rightarrow> string" where
  "rp_origin c = (if cf_webauthn_origin c = [] then ''https://'' @ rp_id c else cf_webauthn_origin c)"

section \<open>New, with its errors\<close>

text \<open>
  \<open>webauthn.New\<close> takes the id, the display name and the origins; the templates are parsed by \<open>admin.NewHandler\<close>. The pool is used by
  the stores only, whose statements are the model's.
\<close>

definition New_server :: "(string \<Rightarrow> string \<Rightarrow> string list \<Rightarrow> unit res) \<Rightarrow> 't template_lib \<Rightarrow> libraries \<Rightarrow> 'p \<Rightarrow> config
    \<Rightarrow> (site \<times> 't templates \<times> cors_options) res" where
  "New_server new_webauthn T L pool c =
     (case new_webauthn (rp_id c) ''Control Plane'' [rp_origin c] of
        Inl e \<Rightarrow> Inl (Wrap ''webauthn'' e)
      | Inr _ \<Rightarrow> (case ParseTemplates T of
          Inl e \<Rightarrow> Inl (Wrap ''admin handler'' e)
        | Inr t \<Rightarrow> Inr (server_New L c, t, cors_of c)))"

text \<open>The whole start.\<close>

definition start_server where
  "start_server parse getenv PL ML new_webauthn T L = main_start parse getenv PL ML (New_server new_webauthn T L)"

section \<open>What a started process guarantees\<close>

lemma Load_required:
  assumes "Load parse getenv = Inr c"
  shows "list_all (\<lambda>v. getenv v \<noteq> []) required_vars" "c = config_of parse getenv (getenv ''DATABASE_URL'') (getenv ''API_TOKEN'')
      (getenv ''ENCRYPTION_KEY'') (getenv ''JWT_SECRET'')"
  using assms by (auto simp: Load_cases filter_empty_conv list_all_iff split: list.splits)

lemma server_New_secrets:
  "si_api_token (server_New L c) = cf_api_token c" "ah_jwt_secret (si_auth (server_New L c)) = cf_jwt_secret c"
  "aa_encryption_key (ad_auth (si_admin (server_New L c))) = cf_encryption_key c"
  by (simp_all add: server_New_def Let_def auth_NewHandler_def)

lemma start_server_InrE:
  assumes "start_server parse getenv PL ML new_webauthn T L = Inr (l, iv, S, t, co)"
  obtains c pool where "Load parse getenv = Inr c" "fst (Connect PL (cf_database_url c)) = Inr pool" "Migrate ML (cf_database_url c) = Inr ()"
    "ParseTemplates T = Inr t" "S = server_New L c" "iv = \<lparr>iv_poller = cf_poller_interval c, iv_janitor = cf_janitor_interval c\<rparr>"
  using assms by (auto simp: start_server_def main_start_def New_server_def split: sum.splits)

lemma start_server_Inl:
  assumes "start_server parse getenv PL ML new_webauthn T L = Inl st"
  shows "st = 1 \<and> (isl (Load parse getenv) \<or> (\<exists>c. Load parse getenv = Inr c
      \<and> (isl (fst (Connect PL (cf_database_url c))) \<or> isl (Migrate ML (cf_database_url c)) \<or> isl (ParseTemplates T)
          \<or> isl (new_webauthn (rp_id c) ''Control Plane'' [rp_origin c]))))"
  using assms by (auto simp: start_server_def main_start_def New_server_def split: sum.splits)

lemma loaded_intervals:
  assumes "Load parse getenv = Inr c"
  shows "short_interval getenv ''POLLER_INTERVAL'' \<Longrightarrow> 0 < cf_poller_interval c"
    "short_interval getenv ''AUTH_JANITOR_INTERVAL'' \<Longrightarrow> 0 < cf_janitor_interval c"
  unfolding Load_required(2) [OF assms] by (simp_all add: config_of_def short_interval_positive go_second_def)

text \<open>
  C39: The process starts or says why not. The start-up, before the server listens, ends the process only with status 1 and only when a required variable is missing, the database cannot be reached
  or migrated, or the templates or the relying party are refused; otherwise it serves with the three secrets of the environment,
  none of them empty, on a database that answered the ping and is migrated, with every page of the admin UI at hand, and
  with positive intervals unless one was given as more seconds than fit.
\<close>

theorem start_outcome:
  "case start_server parse getenv PL ML new_webauthn T L of
     Inl st \<Rightarrow> st = 1 \<and> (isl (Load parse getenv) \<or> (\<exists>c. Load parse getenv = Inr c
         \<and> (isl (fst (Connect PL (cf_database_url c))) \<or> isl (Migrate ML (cf_database_url c)) \<or> isl (ParseTemplates T)
             \<or> isl (new_webauthn (rp_id c) ''Control Plane'' [rp_origin c]))))
   | Inr (l, iv, S, t, co) \<Rightarrow> list_all (\<lambda>v. getenv v \<noteq> []) required_vars
       \<and> si_api_token S = getenv ''API_TOKEN'' \<and> ah_jwt_secret (si_auth S) = getenv ''JWT_SECRET''
       \<and> aa_encryption_key (ad_auth (si_admin S)) = getenv ''ENCRYPTION_KEY''
       \<and> \<not> isl (fst (Connect PL (getenv ''DATABASE_URL''))) \<and> Migrate ML (getenv ''DATABASE_URL'') = Inr ()
       \<and> set pageNames \<subseteq> dom (tp_pages t) \<and> set standaloneNames \<subseteq> dom (tp_standalone t)
       \<and> (if short_interval getenv ''POLLER_INTERVAL'' then 0 < iv_poller iv else True)
       \<and> (if short_interval getenv ''AUTH_JANITOR_INTERVAL'' then 0 < iv_janitor iv else True)"
proof (cases "start_server parse getenv PL ML new_webauthn T L")
  case (Inl st)
  then show ?thesis using start_server_Inl [OF Inl] by simp
next
  case (Inr x)
  obtain l iv S t co where x: "x = (l, iv, S, t, co)" by (metis prod_cases5)
  from Inr [unfolded x] show ?thesis
  proof (rule start_server_InrE)
    fix c pool
    assume s: "Load parse getenv = Inr c" "fst (Connect PL (cf_database_url c)) = Inr pool" "Migrate ML (cf_database_url c) = Inr ()"
      "ParseTemplates T = Inr t" "S = server_New L c" "iv = \<lparr>iv_poller = cf_poller_interval c, iv_janitor = cf_janitor_interval c\<rparr>"
    from Load_required(2) [OF s(1)] have f: "cf_database_url c = getenv ''DATABASE_URL''" "cf_api_token c = getenv ''API_TOKEN''"
      "cf_jwt_secret c = getenv ''JWT_SECRET''" "cf_encryption_key c = getenv ''ENCRYPTION_KEY''" by (simp_all add: config_of_def)
    show ?thesis unfolding Inr x sum.case prod.case s(5,6) server_New_secrets f intervals.select_convs
      using Load_required(1) [OF s(1)] s(2,3) [unfolded f] templates_complete [OF s(4)] loaded_intervals [OF s(1)] by (simp add: subset_insertI)
  qed
qed

end
