(* ===== verification/CP_Client_Cache.thy ===== *)
theory CP_Client_Cache
  imports CP_Provisioner CP_Machine
begin

text \<open>
  The cache of Proxmox clients under concurrency (\<open>getClient\<close> and \<open>InvalidateClient\<close> of \<open>src/internal/provisioner/provisioner.go\<close>, the node
  update of \<open>src/internal/node/handler.go\<close>): any number of goroutines ask for the client of one node while its URL and API token are updated.
  Every access to the database and to the map is a step of its own; other nodes share the lock only.
\<close>

section \<open>The steps\<close>

text \<open>
  Where a call of \<open>getClient\<close> stands: before the read lock, past it without a client, past the write lock and the second look at the map,
  with the URL of \<open>GetByID\<close>, with the token as well, or returned. A client is the pair of URL and token it was made of.
\<close>

datatype getter = Asking | Missed | Rechecked | HasUrl string | HasBoth string string | Returned "(string \<times> string) option"

text \<open>Where an update stands: before its statement, with the new values; committed, with the invalidation to come; done.\<close>

datatype updater = Updating "string option" "string option" | Committed | Updated

record cache_state =
  cs_row :: "string \<times> string"
  cs_client :: "(string \<times> string) option"
  cs_writer :: "nat option"
  cs_getters :: "getter list"
  cs_updaters :: "updater list"

datatype cache_event =
    NewGetter
  | NewUpdate "string option" "string option"
  | FastPath nat
  | LockAndRecheck nat
  | ReadNode nat
  | ReadToken nat
  | StoreClient nat
  | GiveUp nat
  | CommitUpdate nat
  | LoseReply nat
  | InvalidateCached nat

definition getter_at :: "cache_state \<Rightarrow> nat \<Rightarrow> getter option" where
  "getter_at s i = (if i < length (cs_getters s) then Some (cs_getters s ! i) else None)"

definition updater_at :: "cache_state \<Rightarrow> nat \<Rightarrow> updater option" where
  "updater_at s k = (if k < length (cs_updaters s) then Some (cs_updaters s ! k) else None)"

definition set_getter :: "nat \<Rightarrow> getter \<Rightarrow> cache_state \<Rightarrow> cache_state" where
  "set_getter i g s = s\<lparr>cs_getters := (cs_getters s)[i := g]\<rparr>"

definition set_updater :: "nat \<Rightarrow> updater \<Rightarrow> cache_state \<Rightarrow> cache_state" where
  "set_updater k u s = s\<lparr>cs_updaters := (cs_updaters s)[k := u]\<rparr>"

definition updated_row :: "string option \<Rightarrow> string option \<Rightarrow> string \<times> string \<Rightarrow> string \<times> string" where
  "updated_row url tok row = ((case url of None \<Rightarrow> fst row | Some u \<Rightarrow> u), (case tok of None \<Rightarrow> snd row | Some t \<Rightarrow> t))"

text \<open>
  A reader gets the read lock when no writer holds the lock; \<open>InvalidateClient\<close> takes the lock, deletes and releases it in one step, since
  nothing else can happen to the map in between. The handler invalidates only when the update carries a token and its statement returns.
\<close>

fun cache_step :: "cache_state \<Rightarrow> cache_event \<Rightarrow> cache_state option" where
  "cache_step s NewGetter = Some (s\<lparr>cs_getters := cs_getters s @ [Asking]\<rparr>)"
| "cache_step s (NewUpdate url tok) = Some (s\<lparr>cs_updaters := cs_updaters s @ [Updating url tok]\<rparr>)"
| "cache_step s (FastPath i) =
     (if getter_at s i = Some Asking \<and> cs_writer s = None
      then Some (set_getter i (case cs_client s of Some c \<Rightarrow> Returned (Some c) | None \<Rightarrow> Missed) s) else None)"
| "cache_step s (LockAndRecheck i) =
     (if getter_at s i = Some Missed \<and> cs_writer s = None
      then (case cs_client s of
              Some c \<Rightarrow> Some (set_getter i (Returned (Some c)) s)
            | None \<Rightarrow> Some ((set_getter i Rechecked s)\<lparr>cs_writer := Some i\<rparr>)) else None)"
| "cache_step s (ReadNode i) =
     (if getter_at s i = Some Rechecked then Some (set_getter i (HasUrl (fst (cs_row s))) s) else None)"
| "cache_step s (ReadToken i) =
     (case getter_at s i of Some (HasUrl u) \<Rightarrow> Some (set_getter i (HasBoth u (snd (cs_row s))) s) | _ \<Rightarrow> None)"
| "cache_step s (StoreClient i) =
     (case getter_at s i of
        Some (HasBoth u t) \<Rightarrow> Some ((set_getter i (Returned (Some (u, t))) s)\<lparr>cs_client := Some (u, t), cs_writer := None\<rparr>)
      | _ \<Rightarrow> None)"
| "cache_step s (GiveUp i) =
     (case getter_at s i of
        Some Rechecked \<Rightarrow> Some ((set_getter i (Returned None) s)\<lparr>cs_writer := None\<rparr>)
      | Some (HasUrl u) \<Rightarrow> Some ((set_getter i (Returned None) s)\<lparr>cs_writer := None\<rparr>)
      | Some (HasBoth u t) \<Rightarrow> Some ((set_getter i (Returned None) s)\<lparr>cs_writer := None\<rparr>)
      | _ \<Rightarrow> None)"
| "cache_step s (CommitUpdate k) =
     (case updater_at s k of
        Some (Updating url tok) \<Rightarrow>
          Some ((set_updater k (if tok = None then Updated else Committed) s)\<lparr>cs_row := updated_row url tok (cs_row s)\<rparr>)
      | _ \<Rightarrow> None)"
| "cache_step s (LoseReply k) =
     (case updater_at s k of
        Some (Updating url tok) \<Rightarrow> Some ((set_updater k Updated s)\<lparr>cs_row := updated_row url tok (cs_row s)\<rparr>)
      | _ \<Rightarrow> None)"
| "cache_step s (InvalidateCached k) =
     (if updater_at s k = Some Committed \<and> cs_writer s = None
      then Some ((set_updater k Updated s)\<lparr>cs_client := None\<rparr>) else None)"

fun cache_run :: "cache_state \<Rightarrow> cache_event list \<Rightarrow> cache_state option" where
  "cache_run s [] = Some s"
| "cache_run s (e # es) = (case cache_step s e of None \<Rightarrow> None | Some t \<Rightarrow> cache_run t es)"

interpretation cache: step_machine cache_step cache_run
  by unfold_locales simp_all

definition cold_cache :: "string \<times> string \<Rightarrow> cache_state" where
  "cold_cache row = \<lparr>cs_row = row, cs_client = None, cs_writer = None, cs_getters = [], cs_updaters = []\<rparr>"

section \<open>The lock\<close>

fun holding :: "getter \<Rightarrow> bool" where
  "holding Rechecked = True"
| "holding (HasUrl u) = True"
| "holding (HasBoth u t) = True"
| "holding _ = False"

text \<open>Only the goroutine that holds the lock is past the second look.\<close>

definition locked_ok :: "cache_state \<Rightarrow> bool" where
  "locked_ok s \<longleftrightarrow> (\<forall>i < length (cs_getters s). holding (cs_getters s ! i) \<longrightarrow> cs_writer s = Some i)"

section \<open>Nothing stale stays\<close>

definition pending :: "cache_state \<Rightarrow> bool" where
  "pending s \<longleftrightarrow> Committed \<in> set (cs_updaters s)"

text \<open>The values a goroutine under the lock, and the map, have are those of the row, or an invalidation is to come.\<close>

fun seen_fresh :: "bool \<Rightarrow> string \<times> string \<Rightarrow> getter \<Rightarrow> bool" where
  "seen_fresh urls row (HasUrl u) = (\<not> urls \<or> u = fst row)"
| "seen_fresh urls row (HasBoth u t) = (t = snd row \<and> (\<not> urls \<or> u = fst row))"
| "seen_fresh urls row _ = True"

definition fresh_ok :: "bool \<Rightarrow> cache_state \<Rightarrow> bool" where
  "fresh_ok urls s \<longleftrightarrow> pending s \<or> (list_all (seen_fresh urls (cs_row s)) (cs_getters s)
     \<and> (case cs_client s of None \<Rightarrow> True | Some (u, t) \<Rightarrow> t = snd (cs_row s) \<and> (\<not> urls \<or> u = fst (cs_row s))))"

text \<open>What the theorem asks of a run: no reply to an update is lost, and, for the URL, every update carries a token.\<close>

fun answered :: "bool \<Rightarrow> cache_event \<Rightarrow> bool" where
  "answered urls (LoseReply k) = False"
| "answered urls (NewUpdate url tok) = (urls \<longrightarrow> tok \<noteq> None)"
| "answered urls _ = True"

definition updates_ok :: "bool \<Rightarrow> cache_state \<Rightarrow> bool" where
  "updates_ok urls s \<longleftrightarrow> urls \<longrightarrow> (\<forall>url. Updating url None \<notin> set (cs_updaters s))"

lemma set_getter_simps [simp]:
  "cs_row (set_getter i g s) = cs_row s" "cs_client (set_getter i g s) = cs_client s" "cs_writer (set_getter i g s) = cs_writer s"
  "cs_updaters (set_getter i g s) = cs_updaters s" "cs_getters (set_getter i g s) = (cs_getters s)[i := g]"
  by (simp_all add: set_getter_def)

lemma set_updater_simps [simp]:
  "cs_row (set_updater k u s) = cs_row s" "cs_client (set_updater k u s) = cs_client s" "cs_writer (set_updater k u s) = cs_writer s"
  "cs_getters (set_updater k u s) = cs_getters s" "cs_updaters (set_updater k u s) = (cs_updaters s)[k := u]"
  by (simp_all add: set_updater_def)

lemma getter_at_Some: "getter_at s i = Some g \<Longrightarrow> i < length (cs_getters s) \<and> cs_getters s ! i = g"
  by (auto simp: getter_at_def split: if_splits)

lemma updater_at_Some: "updater_at s k = Some u \<Longrightarrow> k < length (cs_updaters s) \<and> cs_updaters s ! k = u"
  by (auto simp: updater_at_def split: if_splits)

lemma list_all_update: "list_all P xs \<Longrightarrow> P x \<Longrightarrow> list_all P (xs[i := x])"
  using set_update_subset_insert [of xs i x] by (auto simp: list_all_iff)

lemma pending_set_getter [simp]: "pending (set_getter i g s) = pending s"
  by (simp add: pending_def)

lemma pending_upds [simp]:
  "pending (s\<lparr>cs_client := c\<rparr>) = pending s" "pending (s\<lparr>cs_writer := w\<rparr>) = pending s" "pending (s\<lparr>cs_getters := g\<rparr>) = pending s"
  "pending (s\<lparr>cs_row := r\<rparr>) = pending s"
  by (simp_all add: pending_def)

lemma commit_pending: "k < length (cs_updaters s) \<Longrightarrow> pending (set_updater k Committed s)"
  by (simp add: pending_def set_update_memI)

lemma still_pending:
  assumes "pending s" "k < length (cs_updaters s)" "cs_updaters s ! k \<noteq> Committed"
  shows "pending (set_updater k u s)"
proof -
  from assms(1) obtain j where j: "j < length (cs_updaters s)" "cs_updaters s ! j = Committed" by (auto simp: pending_def in_set_conv_nth)
  with assms(3) have "(cs_updaters s)[k := u] ! j = Committed" by (metis nth_list_update_neq)
  with j(1) show ?thesis by (auto simp: pending_def in_set_conv_nth)
qed

lemma nth_updated: "j < length xs \<Longrightarrow> xs[i := x] ! j = (if i = j then x else xs ! j)"
  by simp

text \<open>A step of a goroutine under the lock, and one that takes the lock.\<close>

lemma locked_update:
  assumes "locked_ok s" "holding g \<longrightarrow> cs_writer s = Some i"
  shows "locked_ok (set_getter i g s)"
  using assms by (auto simp: locked_ok_def nth_updated split: if_splits)

lemma locked_release:
  assumes "locked_ok s" "cs_writer s = Some i" "\<not> holding g"
  shows "locked_ok ((set_getter i g s)\<lparr>cs_writer := None\<rparr>)"
  using assms by (auto simp: locked_ok_def nth_updated split: if_splits)

lemma locked_client [simp]: "locked_ok (s\<lparr>cs_client := c, cs_writer := w\<rparr>) = locked_ok (s\<lparr>cs_writer := w\<rparr>)"
  by (simp add: locked_ok_def)

lemma locked_acquire:
  assumes "locked_ok s" "cs_writer s = None"
  shows "locked_ok ((set_getter i g s)\<lparr>cs_writer := Some i\<rparr>)"
  using assms by (auto simp: locked_ok_def nth_updated split: if_splits)

lemma locked_holder: "locked_ok s \<Longrightarrow> getter_at s i = Some g \<Longrightarrow> holding g \<Longrightarrow> cs_writer s = Some i"
  by (auto simp: locked_ok_def dest: getter_at_Some)

lemma not_holding_fresh: "\<not> holding g \<Longrightarrow> seen_fresh urls row g"
  by (cases g) simp_all

lemma unlocked_fresh: "locked_ok s \<Longrightarrow> cs_writer s = None \<Longrightarrow> list_all (seen_fresh urls row) (cs_getters s)"
  by (simp add: list_all_length locked_ok_def not_holding_fresh)

lemma cache_step_locked:
  assumes "locked_ok s" "cache_step s e = Some t"
  shows "locked_ok t"
proof (cases e)
  case NewGetter
  with assms show ?thesis by (auto simp: locked_ok_def nth_append less_Suc_eq split: if_splits)
next
  case (StoreClient i)
  with assms(2) obtain u tk where g: "getter_at s i = Some (HasBoth u tk)"
      "t = (set_getter i (Returned (Some (u, tk))) s)\<lparr>cs_client := Some (u, tk), cs_writer := None\<rparr>"
    by (auto split: option.splits getter.splits)
  with locked_holder [OF assms(1) g(1)] assms(1) show ?thesis by (simp add: locked_release)
next
  case (GiveUp i)
  with assms show ?thesis by (auto split: option.splits getter.splits intro!: locked_release intro: locked_holder)
next
  case (LockAndRecheck i)
  with assms show ?thesis by (auto split: option.splits if_splits intro!: locked_acquire locked_update)
next
  case (ReadNode i)
  with assms show ?thesis by (auto split: if_splits intro!: locked_update dest: locked_holder)
next
  case (ReadToken i)
  with assms show ?thesis by (auto split: option.splits getter.splits intro!: locked_update dest: locked_holder)
next
  case (FastPath i)
  with assms show ?thesis by (auto split: option.splits if_splits intro!: locked_update)
qed (use assms in \<open>auto simp: locked_ok_def split: option.splits updater.splits if_splits\<close>)

lemma cache_step_updates:
  assumes "updates_ok urls s" "answered urls e" "cache_step s e = Some t"
  shows "updates_ok urls t"
proof -
  have upd: "updates_ok urls (set_updater k u s)" if "\<And>url. u \<noteq> Updating url None" for k u
    using assms(1) that set_update_subset_insert [of "cs_updaters s" k u] by (auto simp: updates_ok_def)
  have cong: "updates_ok urls s' = updates_ok urls s''" if "cs_updaters s' = cs_updaters s''" for s' s''
    using that by (simp add: updates_ok_def)
  show ?thesis
  proof (cases e)
    case (NewUpdate url tok)
    with assms show ?thesis by (auto simp: updates_ok_def)
  next
    case (CommitUpdate k)
    with assms(3) obtain url tok where "t = (set_updater k (if tok = None then Updated else Committed) s)\<lparr>cs_row := updated_row url tok (cs_row s)\<rparr>"
      by (auto split: option.splits updater.splits)
    then show ?thesis using upd [of "if tok = None then Updated else Committed" k] cong [of t "set_updater k (if tok = None then Updated else Committed) s"]
      by simp
  next
    case (InvalidateCached k)
    with assms(3) have "t = (set_updater k Updated s)\<lparr>cs_client := None\<rparr>" by (auto split: if_splits)
    then show ?thesis using upd [of Updated k] cong [of t "set_updater k Updated s"] by simp
  qed (use assms in \<open>auto simp: updates_ok_def split: option.splits getter.splits if_splits\<close>)
qed

lemma cache_step_fresh:
  assumes "locked_ok s" "updates_ok urls s" "answered urls e" "cache_step s e = Some t" "fresh_ok urls s"
  shows "fresh_ok urls t"
proof (cases "pending s")
  case True
  show ?thesis
  proof (cases e)
    case (CommitUpdate k)
    with assms(4) obtain url tok where u: "updater_at s k = Some (Updating url tok)"
        "t = (set_updater k (if tok = None then Updated else Committed) s)\<lparr>cs_row := updated_row url tok (cs_row s)\<rparr>"
      by (auto split: option.splits updater.splits)
    with still_pending [OF True] show ?thesis by (auto simp: fresh_ok_def dest!: updater_at_Some)
  next
    case (InvalidateCached k)
    with assms(4) have "cs_writer s = None" "t = (set_updater k Updated s)\<lparr>cs_client := None\<rparr>" by (auto split: if_splits)
    with unlocked_fresh [OF assms(1)] show ?thesis by (auto simp: fresh_ok_def)
  qed (use assms(3,4) True in \<open>auto simp: fresh_ok_def pending_def split: option.splits getter.splits if_splits\<close>)
next
  case False
  with assms(5) have f: "list_all (seen_fresh urls (cs_row s)) (cs_getters s)"
      "case cs_client s of None \<Rightarrow> True | Some (u, t) \<Rightarrow> t = snd (cs_row s) \<and> (\<not> urls \<or> u = fst (cs_row s))"
    by (simp_all add: fresh_ok_def)
  have at: "seen_fresh urls (cs_row s) g" if "getter_at s i = Some g" for i g
    using f(1) getter_at_Some [OF that] by (auto simp: list_all_length)
  show ?thesis
  proof (cases e)
    case (CommitUpdate k)
    with assms(4) obtain url tok where u: "updater_at s k = Some (Updating url tok)"
        "t = (set_updater k (if tok = None then Updated else Committed) s)\<lparr>cs_row := updated_row url tok (cs_row s)\<rparr>"
      by (auto split: option.splits updater.splits)
    show ?thesis
    proof (cases tok)
      case None
      have "Updating url tok \<in> set (cs_updaters s)" using updater_at_Some [OF u(1)] nth_mem by metis
      with None assms(2) have nu: "\<not> urls" by (auto simp: updates_ok_def)
      have "seen_fresh urls (updated_row url None (cs_row s)) = seen_fresh urls (cs_row s)"
      proof
        fix g show "seen_fresh urls (updated_row url None (cs_row s)) g = seen_fresh urls (cs_row s) g"
          using nu by (cases g) (simp_all add: updated_row_def)
      qed
      then show ?thesis using f nu by (auto simp: fresh_ok_def u(2) None updated_row_def split: option.splits)
    next
      case (Some tk)
      with u commit_pending [of k s] show ?thesis by (auto simp: fresh_ok_def dest!: updater_at_Some)
    qed
  next
    case (StoreClient i)
    with assms(4) obtain u tk where g: "getter_at s i = Some (HasBoth u tk)"
        "t = (set_getter i (Returned (Some (u, tk))) s)\<lparr>cs_client := Some (u, tk), cs_writer := None\<rparr>"
      by (auto split: option.splits getter.splits)
    with at [OF g(1)] f(1) show ?thesis by (simp add: fresh_ok_def list_all_update)
  next
    case (ReadToken i)
    with assms(4) obtain u where g: "getter_at s i = Some (HasUrl u)" "t = set_getter i (HasBoth u (snd (cs_row s))) s"
      by (auto split: option.splits getter.splits)
    with at [OF g(1)] f show ?thesis by (auto simp: fresh_ok_def list_all_update split: option.splits)
  next
    case (ReadNode i)
    with assms(4) have "t = set_getter i (HasUrl (fst (cs_row s))) s" by (auto split: if_splits)
    with f show ?thesis by (auto simp: fresh_ok_def list_all_update split: option.splits)
  next
    case (InvalidateCached k)
    with assms(4) f show ?thesis by (auto simp: fresh_ok_def split: if_splits)
  qed (use assms(3,4) f in \<open>auto simp: fresh_ok_def intro!: list_all_update split: option.splits getter.splits if_splits\<close>)
qed

lemma cold_ok: "locked_ok (cold_cache row)" "updates_ok urls (cold_cache row)" "fresh_ok urls (cold_cache row)"
  by (simp_all add: locked_ok_def updates_ok_def fresh_ok_def cold_cache_def)

lemma cache_run_ok:
  assumes "locked_ok s" "updates_ok urls s" "fresh_ok urls s" "list_all (answered urls) es" "cache_run s es = Some t"
  shows "locked_ok t \<and> fresh_ok urls t"
proof -
  have "locked_ok t \<and> updates_ok urls t \<and> fresh_ok urls t"
  proof (rule cache.run_preserves [OF _ assms(4,5)])
    show "locked_ok s \<and> updates_ok urls s \<and> fresh_ok urls s" using assms(1-3) by blast
  qed (blast intro: cache_step_locked cache_step_updates cache_step_fresh)
  then show ?thesis by blast
qed

section \<open>The cache is never stale for long\<close>

text \<open>
  C15: The cached client is never stale for long. However the calls of \<open>getClient\<close>, updates of the node and invalidations interleave: at most one call
  at a time is past the second look at the map; and once every update that committed has made its invalidation, a cached client has the
  node's current API token, and its current URL if every update carried a token, provided no update lost its reply.
\<close>

theorem client_cache_fresh:
  assumes "cache_run (cold_cache row) es = Some s" "list_all (answered urls) es" "Committed \<notin> set (cs_updaters s)"
  shows "length (filter holding (cs_getters s)) \<le> 1
    \<and> (case cs_client s of None \<Rightarrow> True | Some (u, t) \<Rightarrow> t = snd (cs_row s) \<and> (\<not> urls \<or> u = fst (cs_row s)))"
proof -
  from cache_run_ok [OF cold_ok assms(2,1)] have ok: "locked_ok s" "fresh_ok urls s" by simp_all
  have "card {i. i < length (cs_getters s) \<and> holding (cs_getters s ! i)} \<le> card (set_option (cs_writer s))"
    using ok(1) by (intro card_mono) (auto simp: locked_ok_def)
  also have "\<dots> \<le> 1" by (cases "cs_writer s") simp_all
  finally have "length (filter holding (cs_getters s)) \<le> 1" by (simp add: length_filter_conv_card)
  with ok(2) assms(3) show ?thesis by (simp add: fresh_ok_def pending_def)
qed

text \<open>A call reads the old token, the update commits, the call stores its client, and only then the invalidation gets the lock.\<close>

definition overtaken :: "cache_event list" where
  "overtaken = [NewGetter, NewUpdate None (Some ''new''), FastPath 0, LockAndRecheck 0, ReadNode 0, ReadToken 0, CommitUpdate 0, StoreClient 0,
     InvalidateCached 0, NewGetter, FastPath 1, LockAndRecheck 1, ReadNode 1, ReadToken 1, StoreClient 1]"

lemmas cache_runs = overtaken_def cold_cache_def getter_at_def updater_at_def set_getter_def set_updater_def updated_row_def

theorem client_cache_fresh_witness:
  "\<exists>s. cache_run (cold_cache (''url'', ''old'')) overtaken = Some s \<and> cs_row s = (''url'', ''new'')
     \<and> (case cs_client s of None \<Rightarrow> True | Some (u, t) \<Rightarrow> t = ''new'' \<and> u = ''url'')"
proof -
  obtain s where s: "cache_run (cold_cache (''url'', ''old'')) overtaken = Some s" "Committed \<notin> set (cs_updaters s)" "cs_row s = (''url'', ''new'')"
    by (simp add: cache_runs)
  have "list_all (answered True) overtaken" by (simp add: overtaken_def)
  from client_cache_fresh [OF s(1) this s(2)] s show ?thesis by (cases "cs_client s") auto
qed

text \<open>An update whose reply is lost changes the token but does not invalidate: the old client stays, with no update under way.\<close>

lemma lost_update_leaves_stale_client:
  "\<exists>s. cache_run (cold_cache (''url'', ''old'')) [NewGetter, FastPath 0, LockAndRecheck 0, ReadNode 0, ReadToken 0, StoreClient 0,
        NewUpdate None (Some ''new''), LoseReply 0] = Some s
     \<and> cs_row s = (''url'', ''new'') \<and> cs_client s = Some (''url'', ''old'') \<and> Committed \<notin> set (cs_updaters s)"
  by (simp add: cache_runs)

end
