(* ===== verification/Spec2Isabelle.thy ===== *)
theory Spec2Isabelle
  imports CP_Provision_Props CP_Wg_Props CP_Station_Props CP_Admin_Props CP_Isolation CP_Proxmox CP_Ssh_Session CP_Start CP_Client_Cache
begin

text \<open>
  A verification development of the control plane: a Go server that sells radio stations as containers. An administrator
  registers Proxmox nodes and projects (templates with an amount of RAM); a tenant is a container of a project on a node,
  with an address, a subdomain behind Caddy, an owner and a tier paid through Stripe; stations are the public catalogue.

  The model. The database is the record \<open>db\<close> of its tables (\<open>CP_Schema\<close>); a table is the list of its rows, with the constraints of
  \<open>src/internal/database/migrations\<close> that the code relies on written into the statements. A statement is a function from tables to a result and tables.
  Everything the process keeps or sees is the record \<open>world\<close>: the tables, the calls made to other systems, the provisioning jobs
  in flight, the cached Proxmox clients, the login limiter and the poller's cache. A Go function is a computation in the state
  monad over \<open>world\<close> that returns \<open>go_error + 'a\<close> where the Go function returns an error. The record \<open>externals\<close> is what is outside
  the sources: for every statement whether it is answered, rejected, or carried out with its reply lost; the answer of every
  outside call, as a function of all calls before it; the row that a statement with \<open>LIMIT 1\<close> and no order returns (\<open>row_choice\<close>); the cryptographic primitives; the parsers of the standard library
  that are not modelled (IPv6, URLs, mail addresses). Properties hold for every \<open>externals\<close> unless they say \<open>reliable\<close>
  (every statement is answered) or name a law that documents an outside system (\<open>jwt_law\<close>, \<open>bcrypt_law\<close>, \<open>wg_law\<close>, \<open>caddy_api\<close>).

  The theories, in the order of their imports.
  \<^item> \<open>CP_Prelude\<close>, \<open>CP_Text\<close>, \<open>CP_Netip\<close>: Go errors, the logic of triples for programs in the monad (locale \<open>effect_logic\<close>), tables,
    strings, regular expressions, \<open>strconv\<close> and \<open>net/netip\<close>.
  \<^item> \<open>CP_Ipalloc\<close>: \<open>ipalloc\<close>, the search for a free address.
  \<^item> \<open>CP_Schema\<close>, \<open>CP_Sample\<close>: the tables, the world, statements and outside calls (locale \<open>db_logic\<close>); a small deployment on which every
    property is instantiated.
  \<^item> \<open>CP_Node\<close>, \<open>CP_Project\<close>, \<open>CP_Tenant_Store\<close>, \<open>CP_Station_Store\<close>, \<open>CP_Audit\<close>, \<open>CP_Auth_Store\<close>: the stores, one definition per SQL statement.
  \<^item> \<open>CP_Steps\<close>: the life cycle of a tenant (\<open>status_step\<close>) and the step relation \<open>cp_step\<close> of single statements, the invariant
    \<open>db_inv\<close> of the tables and its preservation; \<open>sys_step\<close> adds the clock. Later theories show of every operation that it
    takes such steps only (the collection \<open>io_rules\<close>), so the invariants hold between any two statements of any interleaving.
  \<^item> \<open>CP_Sshexec\<close>, \<open>CP_Ssh_Session\<close>, \<open>CP_Crypto\<close>: quoting for the shell, the session of one remote command, AES-GCM framing.
  \<^item> \<open>CP_Provisioner\<close>, \<open>CP_Provision_Steps\<close>, \<open>CP_Provision_Props\<close>: \<open>provisioner.go\<close> phase by phase, and its outcomes.
    \<open>CP_Client_Cache\<close>: the cache of Proxmox clients with the lock, under every interleaving of its users and of node updates.
  \<^item> \<open>CP_Lifecycle\<close>, \<open>CP_Response\<close>, \<open>CP_Tenant_Handlers\<close>, \<open>CP_Infra_Handlers\<close>, \<open>CP_Billing\<close>: the services and the HTTP handlers of tenants, nodes,
    projects and Stripe billing.
  \<^item> \<open>CP_Json\<close>, \<open>CP_Stripe_Events\<close>: JSON trees and how \<open>encoding/json\<close> decodes a field; the events of Stripe from their JSON to their handler.
  \<^item> \<open>CP_Limiter\<close>, \<open>CP_Auth\<close>, \<open>CP_Auth_Props\<close>, \<open>CP_Sessions\<close>: user accounts, the login limiter (locale \<open>attempt_limiter\<close>), tokens and sessions.
  \<^item> \<open>CP_Wireguard\<close>, \<open>CP_Wg_Handlers\<close>, \<open>CP_Wg_Props\<close>: the peers of the mesh.
  \<^item> \<open>CP_Stations\<close>, \<open>CP_Station_Props\<close>: the public catalogue and the poller.
  \<^item> \<open>CP_Config\<close>: \<open>config.go\<close>, the environment variables and their defaults.
  \<^item> \<open>CP_Admin_Auth\<close>, \<open>CP_Admin_Auth_Props\<close>: the administrators' sign-in: session cookies, passkeys and the challenges in memory.
  \<^item> \<open>CP_Admin\<close>, \<open>CP_Admin_Pages\<close>, \<open>CP_Admin_Routes\<close>, \<open>CP_Admin_Props\<close>: the pages and actions of the admin UI, as the data handed to a
    template, a redirect or a flash message; that its actions have the effects of the API's (\<open>like\<close>). \<open>CP_Admin_View\<close>: how its templates
    are parsed and what they compute.
  \<^item> \<open>CP_Caddy\<close>, \<open>CP_Proxmox\<close>: the clients of the two admin APIs, over the unknown state of the far side.
  \<^item> \<open>CP_System\<close>, \<open>CP_Server\<close>, \<open>CP_Isolation\<close>: the composition. \<open>CP_System\<close> makes an event of every core request and job; \<open>CP_Server\<close> puts
    the middleware of \<open>server.go\<close> before all routes, API and admin UI, and adds the janitor, the poller and the start-up tasks; its properties hold in
    every state of every run; \<open>server_New\<close> builds the site from a configuration. \<open>CP_Isolation\<close> shows whose tenants a request can touch.
  \<^item> \<open>CP_Machine\<close>: runs of event-driven step functions and their inductions (locale \<open>step_machine\<close>, interpreted for the pool, the process and
    the client cache). \<open>CP_Process\<close>, \<open>CP_Process_Props\<close>: the control of the process (\<open>cmd/server/main.go\<close>): the pool of provisioning goroutines, the loops of poller and
    janitor, the graceful shutdown, as a step function over events; every list of events is a schedule. Only control is counted there:
    the effects of jobs and passes are those of \<open>CP_Server\<close>. \<open>CP_Start\<close>: the start from the environment, with the errors of \<open>New\<close>.

  Bounds. Recursion is structural, or carries a measure: the health poll has at most 12 rounds (60 seconds in steps of at least 5),
  the wait for a Proxmox task at most 150 (5 minutes in steps of 2 seconds), the address search at most the hosts of the prefix. No definition uses fuel.
  \<open>INTEGER\<close> columns overflow at 32 bits as PostgreSQL does (\<open>int4\<close>), Go's \<open>int\<close> wraps at 64 bits where a sum can reach it (\<open>int64_add\<close>), and
  addresses are 32-bit words.

  Conventions. Ids are UUID texts in canonical form; \<open>uuid_parses\<close> says which texts are. Case folding is that of ASCII. Rows with equal sort keys keep the
  order of the table. Times are in microseconds unless a definition says otherwise, and a handler reads the server's clock once. A handler runs without interleaving where its
  outcome is stated; interleavings of single statements are covered by the step relation, and the races that it permits are stated as such.

  Not modelled. The texts of the HTML templates and the static files, date formatting in pages, the rate limiter and the CORS handler
  (libraries that the routes only install), the durations of timeouts in the shutdown (a timeout may come at any time), logging, request
  decoding (handlers take the decoded body, \<open>None\<close> where decoding fails). Parameters: \<open>html/template\<close>, the connection pool, the
  migration library, the SSH library, the WebAuthn library and the JSON of its sessions (\<open>login_lib\<close>), the CSRF library (\<open>si_csrf\<close>), the JWT and
  Stripe libraries, AES-GCM, Go's duration syntax.
\<close>

end
